(* ===== verification/Prelude.thy ===== *)
theory Prelude
  imports Main "HOL-Library.Word" "HOL-Library.Monad_Syntax"
begin

text \<open>
  What every component of the development shares: the names of C's fixed-width integer
  types, the C heap as the code sees it (allocations that may fail, and the number of
  blocks that are live), little-endian byte strings, and the generic lemmas about words,
  bits and lists that the component proofs rest on.

  Conventions.
  \<^item> \<open>uint8_t\<close>, \<open>uint16_t\<close>, \<open>uint32_t\<close>, \<open>uint64_t\<close> are the words of that width, so
    that \<open>+\<close>, \<open>-\<close> and \<open>*\<close> wrap as they do in C.
  \<^item> \<open>size_t\<close> values count bytes or slots of blocks that are allocated; they are \<open>nat\<close>.
  \<^item> A loop or recursion that the source does not bound is in the option monad: \<open>None\<close>
    is \<open>does not return\<close>, and each such function has a lemma that it returns.
\<close>

unbundle bit_operations_syntax

named_theorems le_bytes \<open>little-endian encodings and their lengths\<close>
named_theorems heap_simps \<open>the heap operations, evaluated\<close>

section \<open>C integers\<close>

type_synonym u8 = "8 word"
type_synonym u16 = "16 word"
type_synonym u32 = "32 word"
type_synonym u64 = "64 word"

abbreviation UINT32_MAX :: u32 where
  "UINT32_MAX \<equiv> 0xffffffff"

section \<open>The heap: allocations that may fail\<close>

text \<open>
  \<open>outcomes\<close> lists what the next calls of \<open>malloc\<close> and \<open>realloc\<close> will do (\<open>True\<close>: they
  return a block); when the list is used up every further call succeeds. \<open>live\<close> counts the
  blocks that have been allocated and not yet freed.
\<close>

record heap =
  outcomes :: "bool list"
  live :: nat

definition malloc :: "heap \<Rightarrow> bool \<times> heap" where
  "malloc h = (case outcomes h of
       [] \<Rightarrow> (True, h\<lparr>live := live h + 1\<rparr>)
     | ok # os \<Rightarrow> (ok, h\<lparr>outcomes := os, live := live h + (if ok then 1 else 0)\<rparr>))"

text \<open>\<open>free(p)\<close>, where \<open>p\<close> is \<open>NULL\<close> exactly when the flag is false.\<close>

definition free :: "bool \<Rightarrow> heap \<Rightarrow> heap" where
  "free nonnull h = (if nonnull then h\<lparr>live := live h - 1\<rparr> else h)"

text \<open>\<open>realloc\<close> of a live block: on success the old block is gone and the new one is live, on
  failure the old block stays as it was, so the number of live blocks never changes.\<close>

definition realloc :: "heap \<Rightarrow> bool \<times> heap" where
  "realloc h = (case outcomes h of
       [] \<Rightarrow> (True, h)
     | ok # os \<Rightarrow> (ok, h\<lparr>outcomes := os\<rparr>))"

text \<open>A heap on which no allocation fails any more.\<close>

definition plenty :: "heap \<Rightarrow> bool" where
  "plenty h \<longleftrightarrow> outcomes h = []"

section \<open>Doubling a capacity\<close>

text \<open>\<open>while (cap < need) cap *= 2;\<close> as the code runs it on \<open>size_t\<close> values; from 0 it never ends.\<close>

partial_function (option) double_until :: "nat \<Rightarrow> nat \<Rightarrow> nat option" where
  "double_until cap need = (if cap < need then double_until (cap * 2) need else Some cap)"

declare double_until.simps [code]

section \<open>Little-endian bytes\<close>

definition u16_le :: "u16 \<Rightarrow> u8 list" where
  "u16_le v = [ucast v, ucast (drop_bit 8 v)]"

definition u32_le :: "u32 \<Rightarrow> u8 list" where
  "u32_le v = [ucast v, ucast (drop_bit 8 v), ucast (drop_bit 16 v), ucast (drop_bit 24 v)]"

definition u64_le :: "u64 \<Rightarrow> u8 list" where
  "u64_le v = map (\<lambda>i. ucast (drop_bit (8 * i) v)) [0..<8]"

definition le_u16 :: "u8 \<Rightarrow> u8 \<Rightarrow> u16" where
  "le_u16 b0 b1 = ucast b0 OR push_bit 8 (ucast b1)"

definition le_u32 :: "u8 \<Rightarrow> u8 \<Rightarrow> u8 \<Rightarrow> u8 \<Rightarrow> u32" where
  "le_u32 b0 b1 b2 b3 =
     ucast b0 OR push_bit 8 (ucast b1) OR push_bit 16 (ucast b2) OR push_bit 24 (ucast b3)"

lemma malloc_plenty [heap_simps]:
  "plenty h \<Longrightarrow> malloc h = (True, h\<lparr>live := live h + 1\<rparr>)"
  by (simp add: malloc_def plenty_def)

lemma realloc_plenty [heap_simps]: "plenty h \<Longrightarrow> realloc h = (True, h)"
  by (simp add: realloc_def plenty_def)

lemma plenty_live [simp]: "plenty (h\<lparr>live := n\<rparr>) = plenty h"
  by (simp add: plenty_def)

lemma plenty_free [simp]: "plenty (free b h) = plenty h"
  by (simp add: free_def)

lemma live_free [simp]: "live (free b h) = live h - (if b then 1 else 0)"
  by (simp add: free_def)

lemma live_malloc:
  "malloc h = (ok, h') \<Longrightarrow> live h' = live h + (if ok then 1 else 0)"
  by (auto simp: malloc_def split: list.splits)

lemma live_realloc: "realloc h = (ok, h') \<Longrightarrow> live h' = live h"
  by (auto simp: realloc_def split: list.splits)

lemma double_until_returns:
  assumes "0 < cap"
  shows "\<exists>k. double_until cap need = Some (cap * 2 ^ k) \<and> need \<le> cap * 2 ^ k"
  using assms
proof (induction "need - cap" arbitrary: cap rule: less_induct)
  case less
  show ?case
  proof (cases "cap < need")
    case False
    then show ?thesis by (subst double_until.simps) (auto intro!: exI [of _ 0])
  next
    case True
    with less.prems have "need - cap * 2 < need - cap" "0 < cap * 2" by auto
    from less.hyps [OF this] obtain k where
      "double_until (cap * 2) need = Some (cap * 2 * 2 ^ k)" "need \<le> cap * 2 * 2 ^ k" by blast
    with True show ?thesis
      by (subst double_until.simps) (auto intro!: exI [of _ "Suc k"] simp: mult.assoc)
  qed
qed

section \<open>Masks\<close>

lemma low_32_mask: "(0xffffffff :: u64) = mask 32"
  by (simp add: mask_eq_exp_minus_1)

section \<open>Little-endian bytes read back\<close>

lemma length_u16_le [simp]: "length (u16_le v) = 2"
  by (simp add: u16_le_def)

lemma length_u32_le [simp]: "length (u32_le v) = 4"
  by (simp add: u32_le_def)

lemma length_u64_le [simp]: "length (u64_le v) = 8"
  by (simp add: u64_le_def)

lemma le_u16_of_bytes [simp]: "le_u16 (ucast v) (ucast (drop_bit 8 v)) = v"
proof (rule bit_word_eqI)
  fix n assume "n < LENGTH(16)"
  then consider "n < 8" | "8 \<le> n" "n < 16" by fastforce
  then show "bit (le_u16 (ucast v) (ucast (drop_bit 8 v))) n = bit v n"
    by cases (simp_all add: le_u16_def bit_simps less_diff_conv2)
qed

lemma le_u32_of_bytes [simp]:
  "le_u32 (ucast v) (ucast (drop_bit 8 v)) (ucast (drop_bit 16 v)) (ucast (drop_bit 24 v)) = v"
proof (rule bit_word_eqI)
  fix n assume "n < LENGTH(32)"
  then consider "n < 8" | "8 \<le> n" "n < 16" | "16 \<le> n" "n < 24" | "24 \<le> n" "n < 32" by fastforce
  then show "bit (le_u32 (ucast v) (ucast (drop_bit 8 v)) (ucast (drop_bit 16 v))
      (ucast (drop_bit 24 v))) n = bit v n"
    by cases (simp_all add: le_u32_def bit_simps less_diff_conv2)
qed

lemma u16_le_inject [simp]: "u16_le v = u16_le w \<longleftrightarrow> v = w"
proof
  assume "u16_le v = u16_le w"
  then have "le_u16 (ucast v) (ucast (drop_bit 8 v)) = le_u16 (ucast w) (ucast (drop_bit 8 w))"
    unfolding u16_le_def by (simp only: list.inject)
  then show "v = w" by (simp only: le_u16_of_bytes)
qed simp

lemma u32_le_inject [simp]: "u32_le v = u32_le w \<longleftrightarrow> v = w"
proof
  assume "u32_le v = u32_le w"
  then have "le_u32 (ucast v) (ucast (drop_bit 8 v)) (ucast (drop_bit 16 v)) (ucast (drop_bit 24 v))
      = le_u32 (ucast w) (ucast (drop_bit 8 w)) (ucast (drop_bit 16 w)) (ucast (drop_bit 24 w))"
    unfolding u32_le_def by (simp only: list.inject)
  then show "v = w" by (simp only: le_u32_of_bytes)
qed simp

lemma u64_join: "ucast (ucast v :: u32) OR push_bit 32 (ucast (ucast (drop_bit 32 v) :: u32)) = (v :: u64)"
proof (rule bit_word_eqI)
  fix n assume "n < LENGTH(64)"
  then consider "n < 32" | "32 \<le> n" "n < 64" by fastforce
  then show "bit (ucast (ucast v :: u32) OR push_bit 32 (ucast (ucast (drop_bit 32 v) :: u32)) :: u64) n = bit v n"
    by cases (simp_all add: bit_simps less_diff_conv2)
qed

end
