(* ===== verification/Siphash24.thy ===== *)
theory Siphash24
  imports Prelude
begin

text \<open>
  SipHash-2-4 as \<open>c-ref/siphash24.h\<close> computes it: the rotation, the round macro, the
  compression loop over eight-byte blocks, the fall-through switch over the last bytes and
  the finalisation. The four local variables \<open>v0 .. v3\<close> are a tuple, the pointer \<open>in\<close> is the
  list of the bytes that are left.

  The lemmas show that the round is a permutation of the state, and that the whole function
  is the textbook one: pad the message to whole blocks, the last byte holding its length,
  absorb the blocks one by one, finalise.
\<close>

unbundle bit_operations_syntax

section \<open>The code\<close>

type_synonym sip_state = "u64 \<times> u64 \<times> u64 \<times> u64"

definition siphash24_rotl :: "u64 \<Rightarrow> nat \<Rightarrow> u64" where
  "siphash24_rotl x b = push_bit b x OR drop_bit (64 - b) x"

fun SIPHASH24_ROUND :: "sip_state \<Rightarrow> sip_state" where
  "SIPHASH24_ROUND (v0, v1, v2, v3) =
     (let v0 = v0 + v1; v1 = siphash24_rotl v1 13; v1 = v1 XOR v0; v0 = siphash24_rotl v0 32;
          v2 = v2 + v3; v3 = siphash24_rotl v3 16; v3 = v3 XOR v2;
          v0 = v0 + v3; v3 = siphash24_rotl v3 21; v3 = v3 XOR v0;
          v2 = v2 + v1; v1 = siphash24_rotl v1 17; v1 = v1 XOR v2; v2 = siphash24_rotl v2 32
      in (v0, v1, v2, v3))"

text \<open>The block word \<open>m\<close>, read from \<open>in[0] .. in[7]\<close>.\<close>

definition siphash24_m :: "u8 list \<Rightarrow> u64" where
  "siphash24_m inp =
     ucast (inp ! 0) OR push_bit 8 (ucast (inp ! 1)) OR
     push_bit 16 (ucast (inp ! 2)) OR push_bit 24 (ucast (inp ! 3)) OR
     push_bit 32 (ucast (inp ! 4)) OR push_bit 40 (ucast (inp ! 5)) OR
     push_bit 48 (ucast (inp ! 6)) OR push_bit 56 (ucast (inp ! 7))"

text \<open>One turn of the \<open>while (in != end)\<close> loop on the state.\<close>

fun siphash24_absorb :: "u64 \<Rightarrow> sip_state \<Rightarrow> sip_state" where
  "siphash24_absorb m (v0, v1, v2, v3) =
     (let v3 = v3 XOR m;
          (v0, v1, v2, v3) = SIPHASH24_ROUND (SIPHASH24_ROUND (v0, v1, v2, v3));
          v0 = v0 XOR m
      in (v0, v1, v2, v3))"

text \<open>The loop, run for the number of whole blocks between \<open>in\<close> and \<open>end\<close>; it hands back the
  bytes \<open>in\<close> points to afterwards.\<close>

fun siphash24_blocks :: "nat \<Rightarrow> u8 list \<Rightarrow> sip_state \<Rightarrow> u8 list \<times> sip_state" where
  "siphash24_blocks 0 inp v = (inp, v)"
| "siphash24_blocks (Suc n) inp v =
     siphash24_blocks n (drop 8 inp) (siphash24_absorb (siphash24_m inp) v)"

text \<open>The switch: \<open>case left\<close> ors in byte \<open>left - 1\<close> and falls through to the cases below.\<close>

fun siphash24_left :: "nat \<Rightarrow> u8 list \<Rightarrow> u64 \<Rightarrow> u64" where
  "siphash24_left 0 inp b = b"
| "siphash24_left (Suc n) inp b =
     siphash24_left n inp (b OR push_bit (8 * n) (ucast (inp ! n)))"

fun siphash24_final :: "sip_state \<Rightarrow> u64" where
  "siphash24_final (v0, v1, v2, v3) =
     (let v2 = v2 XOR 0xff;
          (v0, v1, v2, v3) = SIPHASH24_ROUND (SIPHASH24_ROUND (SIPHASH24_ROUND
                               (SIPHASH24_ROUND (v0, v1, v2, v3))))
      in v0 XOR v1 XOR v2 XOR v3)"

definition siphash24 :: "u8 list \<Rightarrow> u64 \<Rightarrow> u64 \<Rightarrow> u64" where
  "siphash24 inp k0 k1 =
     (let inlen = length inp;
          v0 = 0x736f6d6570736575 XOR k0;
          v1 = 0x646f72616e646f6d XOR k1;
          v2 = 0x6c7967656e657261 XOR k0;
          v3 = 0x7465646279746573 XOR k1;
          left = inlen mod 8;
          b = push_bit 56 (of_nat inlen);
          (inp, v) = siphash24_blocks (inlen div 8) inp (v0, v1, v2, v3);
          b = siphash24_left left inp b
      in siphash24_final (siphash24_absorb b v))"

section \<open>The specification: pad, absorb, finalise\<close>

definition sip_init :: "u64 \<Rightarrow> u64 \<Rightarrow> sip_state" where
  "sip_init k0 k1 = (0x736f6d6570736575 XOR k0, 0x646f72616e646f6d XOR k1,
                     0x6c7967656e657261 XOR k0, 0x7465646279746573 XOR k1)"

definition sip_pad :: "u8 list \<Rightarrow> u8 list" where
  "sip_pad inp = inp @ replicate (7 - length inp mod 8) 0 @ [of_nat (length inp)]"

fun sip_words :: "u8 list \<Rightarrow> u64 list" where
  "sip_words bs = (if length bs < 8 then [] else siphash24_m bs # sip_words (drop 8 bs))"

declare sip_words.simps [simp del]

definition sip_spec :: "u8 list \<Rightarrow> u64 \<Rightarrow> u64 \<Rightarrow> u64" where
  "sip_spec inp k0 k1 =
     siphash24_final (fold siphash24_absorb (sip_words (sip_pad inp)) (sip_init k0 k1))"

text \<open>The inverse of the round, for the proof that the round loses nothing.\<close>

definition siphash24_rotr :: "u64 \<Rightarrow> nat \<Rightarrow> u64" where
  "siphash24_rotr x b = drop_bit b x OR push_bit (64 - b) x"

fun sip_unround :: "sip_state \<Rightarrow> sip_state" where
  "sip_unround (v0, v1, v2, v3) =
     (let v2 = siphash24_rotr v2 32; v1 = v1 XOR v2; v1 = siphash24_rotr v1 17; v2 = v2 - v1;
          v3 = v3 XOR v0; v3 = siphash24_rotr v3 21; v0 = v0 - v3;
          v3 = v3 XOR v2; v3 = siphash24_rotr v3 16; v2 = v2 - v3;
          v0 = siphash24_rotr v0 32; v1 = v1 XOR v0; v1 = siphash24_rotr v1 13; v0 = v0 - v1
      in (v0, v1, v2, v3))"

section \<open>The round is a permutation\<close>

lemma rotr_rotl [simp]:
  assumes "0 < b" "b < 64"
  shows "siphash24_rotr (siphash24_rotl x b) b = x"
proof (rule bit_word_eqI)
  fix n assume "n < LENGTH(64)"
  with assms show "bit (siphash24_rotr (siphash24_rotl x b) b) n = bit x n"
    by (cases "b + n < 64") (auto simp: siphash24_rotl_def siphash24_rotr_def bit_simps)
qed

lemma rotl_rotr [simp]:
  assumes "0 < b" "b < 64"
  shows "siphash24_rotl (siphash24_rotr x b) b = x"
proof (rule bit_word_eqI)
  fix n assume "n < LENGTH(64)"
  with assms show "bit (siphash24_rotl (siphash24_rotr x b) b) n = bit x n"
    by (cases "n < b") (auto simp: siphash24_rotl_def siphash24_rotr_def bit_simps)
qed

lemma xor_cancel [simp]: "(x XOR y) XOR y = (x::'a::len word)" "(y XOR x) XOR y = x"
  by (simp_all add: xor.assoc xor.left_commute)

lemma unround_round [simp]: "sip_unround (SIPHASH24_ROUND v) = v"
  by (cases v) (simp add: Let_def)

lemma round_unround [simp]: "SIPHASH24_ROUND (sip_unround v) = v"
  by (cases v) (simp add: Let_def)

text \<open>\<open>SIPHASH24_ROUND\<close> is a permutation of the 256-bit state: every state is the result of
  the macro on exactly one state, so no round of the compression or of the finalisation
  merges two states.\<close>

theorem SIPHASH24_ROUND_bij: "bij SIPHASH24_ROUND"
  by (rule o_bij [of sip_unround]) (simp_all add: fun_eq_iff)

section \<open>The code meets the specification\<close>

lemma sip_words_block:
  "length bs = 8 \<Longrightarrow> sip_words (bs @ cs) = siphash24_m bs # sip_words cs"
  by (subst sip_words.simps) (simp add: siphash24_m_def nth_append)

lemma sip_words_one: "length bs = 8 \<Longrightarrow> sip_words bs = [siphash24_m bs]"
  using sip_words_block [of bs "[]"] by (simp add: sip_words.simps [of "[]"])

lemma sip_words_append:
  "length bs = 8 * n \<Longrightarrow> sip_words (bs @ cs) = sip_words bs @ sip_words cs"
proof (induction n arbitrary: bs)
  case 0
  then show ?case by (simp add: sip_words.simps [of "[]"])
next
  case (Suc n)
  then have "length (take 8 bs) = 8" "length (drop 8 bs) = 8 * n" by simp_all
  with Suc.IH sip_words_block [of "take 8 bs"] show ?case
    by (metis append.assoc append_Cons append_take_drop_id)
qed

text \<open>Running the block loop is folding the absorption over the words of the whole blocks.\<close>

lemma siphash24_blocks_fold:
  "length bs = 8 * n \<Longrightarrow>
   siphash24_blocks n (bs @ rest) v = (rest, fold siphash24_absorb (sip_words bs) v)"
proof (induction n arbitrary: bs v)
  case 0
  then show ?case by (simp add: sip_words.simps [of "[]"])
next
  case (Suc n)
  define b where "b = take 8 bs"
  define bs' where "bs' = drop 8 bs"
  have bs: "bs = b @ bs'" "length b = 8" "length bs' = 8 * n"
    using Suc.prems by (simp_all add: b_def bs'_def)
  have "siphash24_m (b @ bs' @ rest) = siphash24_m b"
    using bs(2) by (simp add: siphash24_m_def nth_append)
  then show ?case
    using Suc.IH [OF bs(3)] bs(2) by (simp add: bs(1) sip_words_block)
qed

text \<open>The fall-through switch gathers the remaining bytes into one word, byte \<open>i\<close> at bit
  \<open>8 * i\<close>, and keeps what \<open>b\<close> held.\<close>

lemma siphash24_left_bit:
  "bit (siphash24_left n inp b) k \<longleftrightarrow>
     bit b k \<or> (\<exists>i<n. 8 * i \<le> k \<and> k < 64 \<and> bit (inp ! i) (k - 8 * i))"
proof (induction n arbitrary: b)
  case 0
  then show ?case by simp
next
  case (Suc n)
  have "bit (push_bit (8 * n) (ucast (inp ! n)) :: u64) k \<longleftrightarrow>
      8 * n \<le> k \<and> k < 64 \<and> bit (inp ! n) (k - 8 * n)"
    by (auto simp: bit_simps dest: bit_imp_le_length)
  then show ?case
    by (auto simp: Suc.IH bit_simps less_Suc_eq)
qed

lemma siphash24_m_left: "siphash24_m inp = siphash24_left 8 inp 0"
  by (simp add: siphash24_m_def eval_nat_numeral or.commute or.left_commute)

lemma siphash24_tail_word:
  assumes r: "length t < 8"
  shows "siphash24_left (length t) t (push_bit 56 (of_nat len)) =
         siphash24_m (t @ replicate (7 - length t) 0 @ [of_nat len])" (is "?l = siphash24_m ?p")
proof (rule bit_word_eqI)
  fix k assume "k < LENGTH(64)"
  then have k: "k < 64" by simp
  have nth: "?p ! i = (if i < length t then t ! i else if i < 7 then 0 else of_nat len)"
    if "i < 8" for i
    using that r by (auto simp: nth_append nth_Cons')
  have len: "bit (push_bit 56 (of_nat len) :: u64) k \<longleftrightarrow> 56 \<le> k \<and> bit (of_nat len :: u8) (k - 56)"
    using k by (auto simp: bit_simps)
  have "bit (siphash24_m ?p) k \<longleftrightarrow> (\<exists>i<8. 8 * i \<le> k \<and> bit (?p ! i) (k - 8 * i))"
    using k by (auto simp: siphash24_m_left siphash24_left_bit)
  also have "\<dots> \<longleftrightarrow> (\<exists>i<8. 8 * i \<le> k \<and> (i < length t \<and> bit (t ! i) (k - 8 * i)
                            \<or> i = 7 \<and> bit (of_nat len :: u8) (k - 8 * i)))"
    using r by (intro ex_cong1) (auto simp: nth split: if_splits)
  also have "\<dots> \<longleftrightarrow> (\<exists>i<8. i < length t \<and> 8 * i \<le> k \<and> bit (t ! i) (k - 8 * i))
                   \<or> (\<exists>i<8. i = 7 \<and> 8 * i \<le> k \<and> bit (of_nat len :: u8) (k - 8 * i))"
    by blast
  also have "\<dots> \<longleftrightarrow> (\<exists>i<length t. 8 * i \<le> k \<and> bit (t ! i) (k - 8 * i))
                   \<or> 56 \<le> k \<and> bit (of_nat len :: u8) (k - 56)"
    using r by simp (meson order.strict_trans)
  also have "\<dots> \<longleftrightarrow> bit ?l k"
    using k by (auto simp: siphash24_left_bit len)
  finally show "bit ?l k = bit (siphash24_m ?p) k" by simp
qed

text \<open>C9. \<open>siphash24\<close> is SipHash-2-4: the pointer loop over the whole blocks followed by the
  fall-through switch absorbs exactly the words of the message padded with zeros to a
  multiple of eight bytes, the last byte holding the message length modulo 256.\<close>

theorem siphash24_meets_spec: "siphash24 inp k0 k1 = sip_spec inp k0 k1"
proof -
  define whole where "whole = take (8 * (length inp div 8)) inp"
  define t where "t = drop (8 * (length inp div 8)) inp"
  have inp: "inp = whole @ t" by (simp add: whole_def t_def)
  have lw: "length whole = 8 * (length inp div 8)" by (simp add: whole_def)
  have lt: "length t = length inp mod 8"
    by (simp add: t_def minus_mult_div_eq_mod)
  define last where "last = t @ replicate (7 - length t) 0 @ [of_nat (length inp)]"
  have ll: "length last = 8"
    using lt by (simp add: last_def)
  have words: "sip_words (sip_pad inp) = sip_words whole @ [siphash24_m last]"
  proof -
    have "sip_pad inp = whole @ last"
      by (simp add: sip_pad_def last_def lt) (simp add: inp [symmetric])
    then show ?thesis
      using sip_words_append [OF lw] sip_words_one [OF ll] by simp
  qed
  show ?thesis
    unfolding siphash24_def sip_spec_def words
    using siphash24_blocks_fold [OF lw, of t] siphash24_tail_word [of t "length inp"] lt
    by (simp add: Let_def inp [symmetric] sip_init_def last_def)
qed

end
