(* ===== verification/Probe_Table.thy ===== *)
theory Probe_Table
  imports Prelude
begin

text \<open>
  Open addressing with linear probing, as the two hash tables of \<open>c-ref/canonical_hash.c\<close>
  (\<open>struct renamer\<close> and \<open>struct slot_table\<close>) and the two of the kernel patch use it: an array
  \<open>keys\<close> in which \<open>UINT32_MAX\<close> marks an empty slot, an array \<open>vals\<close> beside it, and a capacity
  that is a power of two. \<open>vals\<close> comes from \<open>malloc\<close> and is never cleared, so an entry is
  \<open>None\<close> until it is written.

  The probe loops are in the option monad, since on a full table they do not end. The locale
  \<open>linear_probing\<close> proves once, for any hash function that stays below the capacity, that a
  table with an empty slot is a finite map: a probe for a key ends, finds the key's value or a
  free slot, and writing at that free slot is the map update.
\<close>

unbundle bit_operations_syntax

abbreviation EMPTY :: u32 where
  "EMPTY \<equiv> UINT32_MAX"

section \<open>The probe loops\<close>

text \<open>\<open>while (keys[j] != EMPTY) { if (keys[j] == k) ...; j = (j + 1) & (cap - 1); }\<close>\<close>

partial_function (option) probe_key :: "u32 list \<Rightarrow> nat \<Rightarrow> u32 \<Rightarrow> nat \<Rightarrow> nat option" where
  "probe_key keys cap k j =
     (if keys ! j \<noteq> EMPTY
      then if keys ! j = k then Some j
           else probe_key keys cap k ((j + 1) AND (cap - 1))
      else Some j)"

declare probe_key.simps [code]

text \<open>\<open>while (keys[j] != EMPTY) j = (j + 1) & (cap - 1);\<close>\<close>

partial_function (option) probe_free :: "u32 list \<Rightarrow> nat \<Rightarrow> nat \<Rightarrow> nat option" where
  "probe_free keys cap j =
     (if keys ! j \<noteq> EMPTY then probe_free keys cap ((j + 1) AND (cap - 1)) else Some j)"

declare probe_free.simps [code]

section \<open>Well-formed tables and the map they stand for\<close>

definition load :: "u32 list \<Rightarrow> nat" where
  "load keys = length (filter (\<lambda>k. k \<noteq> EMPTY) keys)"

text \<open>Key \<open>k\<close> sits \<open>d\<close> steps after its hash slot, and no slot before it is free or holds \<open>k\<close>.\<close>

definition reaches :: "u32 list \<Rightarrow> nat \<Rightarrow> u32 \<Rightarrow> nat \<Rightarrow> bool" where
  "reaches keys j k d \<longleftrightarrow>
     (\<forall>e<d. keys ! ((j + e) mod length keys) \<noteq> EMPTY \<and> keys ! ((j + e) mod length keys) \<noteq> k)"

definition table_ok :: "(u32 \<Rightarrow> nat \<Rightarrow> nat) \<Rightarrow> u32 list \<Rightarrow> 'v option list \<Rightarrow> bool" where
  "table_ok slot keys vals \<longleftrightarrow>
     (\<exists>n. length keys = 2 ^ n) \<and> length vals = length keys \<and> load keys < length keys \<and>
     (\<forall>i < length keys. keys ! i \<noteq> EMPTY \<longrightarrow>
        vals ! i \<noteq> None \<and>
        (\<exists>d. i = (slot (keys ! i) (length keys) + d) mod length keys \<and>
             reaches keys (slot (keys ! i) (length keys)) (keys ! i) d))"

definition table_map :: "u32 list \<Rightarrow> 'v option list \<Rightarrow> u32 \<Rightarrow> 'v option" where
  "table_map keys vals k =
     (if k = EMPTY then None else Option.bind (map_of (zip keys vals) k) (\<lambda>v. v))"

section \<open>Probing in general\<close>

lemma and_cap_minus_1: "(x::nat) AND (2 ^ n - 1) = x mod 2 ^ n"
  by (metis mask_eq_exp_minus_1 take_bit_eq_mask take_bit_eq_mod)

lemma next_slot:
  "length keys = 2 ^ n \<Longrightarrow> (j mod length keys + 1) AND (length keys - 1) = Suc j mod length keys"
  by (simp only: and_cap_minus_1 mod_add_left_eq Suc_eq_plus1)

lemma load_Nil [simp]: "load [] = 0"
  and load_Cons [simp]: "load (k # ks) = (if k = EMPTY then 0 else 1) + load ks"
  and load_append [simp]: "load (ks @ ks') = load ks + load ks'"
  and load_replicate [simp]: "load (replicate n EMPTY) = 0"
  by (simp_all add: load_def)

lemma load_update:
  assumes "j < length keys" "keys ! j = EMPTY" "k \<noteq> EMPTY"
  shows "load (keys[j := k]) = Suc (load keys)"
proof -
  have "load keys = load (take j keys @ keys ! j # drop (Suc j) keys)"
    using id_take_nth_drop [OF assms(1)] by (rule arg_cong)
  moreover have "load (keys[j := k]) = load (take j keys @ k # drop (Suc j) keys)"
    using upd_conv_take_nth_drop [OF assms(1)] by (rule arg_cong)
  ultimately show ?thesis using assms(2,3) by simp
qed

lemma load_less_iff: "load keys < length keys \<longleftrightarrow> EMPTY \<in> set keys"
  unfolding load_def
  by (metis (mono_tags, lifting) filter_id_conv length_filter_less length_filter_le
      nat_less_le order_less_irrefl)

lemma reaches_Suc: "reaches keys j k (Suc d) \<Longrightarrow> reaches keys (Suc j) k d"
  unfolding reaches_def by (metis add_Suc_right add_Suc Suc_mono)

lemma probe_key_reaches:
  assumes cap: "length keys = 2 ^ n"
    and path: "reaches keys j k d"
    and stop: "keys ! ((j + d) mod length keys) = EMPTY \<or> keys ! ((j + d) mod length keys) = k"
  shows "probe_key keys (length keys) k (j mod length keys) = Some ((j + d) mod length keys)"
  using path stop
proof (induction d arbitrary: j)
  case 0
  then show ?case by (subst probe_key.simps) auto
next
  case (Suc d)
  have "reaches keys (Suc j) k d"
    using Suc.prems(1) by (rule reaches_Suc)
  with Suc.IH [of "Suc j"] Suc.prems(2)
  have IH: "probe_key keys (length keys) k (Suc j mod length keys) = Some ((j + Suc d) mod length keys)"
    by simp
  have "keys ! (j mod length keys) \<noteq> EMPTY" "keys ! (j mod length keys) \<noteq> k"
    using Suc.prems(1) by (auto simp: reaches_def dest!: spec [of _ 0])
  then show ?case
    using IH next_slot [OF cap] by (subst probe_key.simps) simp
qed

lemma probe_free_reaches:
  assumes cap: "length keys = 2 ^ n"
    and path: "reaches keys j EMPTY d" and stop: "keys ! ((j + d) mod length keys) = EMPTY"
  shows "probe_free keys (length keys) (j mod length keys) = Some ((j + d) mod length keys)"
  using path stop
proof (induction d arbitrary: j)
  case 0
  then show ?case by (subst probe_free.simps) auto
next
  case (Suc d)
  from Suc.IH [of "Suc j"] Suc.prems reaches_Suc
  have IH: "probe_free keys (length keys) (Suc j mod length keys) = Some ((j + Suc d) mod length keys)"
    by simp
  have "keys ! (j mod length keys) \<noteq> EMPTY"
    using Suc.prems(1) by (auto simp: reaches_def dest!: spec [of _ 0])
  then show ?case
    using IH next_slot [OF cap] by (subst probe_free.simps) simp
qed

text \<open>A table with an empty slot: from any start, some slot is free or holds the key.\<close>

lemma reaches_some:
  assumes "load keys < length keys"
  obtains d where "reaches keys j k d"
    "keys ! ((j + d) mod length keys) = EMPTY \<or> keys ! ((j + d) mod length keys) = k"
proof -
  let ?m = "length keys"
  define stop where
    "stop d \<longleftrightarrow> keys ! ((j + d) mod ?m) = EMPTY \<or> keys ! ((j + d) mod ?m) = k" for d
  from assms obtain i where i: "i < ?m" "keys ! i = EMPTY"
    by (auto simp: load_less_iff in_set_conv_nth)
  have "(j + (i + ?m - j mod ?m)) mod ?m = (j mod ?m + (i + ?m - j mod ?m)) mod ?m"
    by (simp add: mod_add_left_eq)
  also have "\<dots> = i"
  proof -
    have "j mod ?m < ?m" using i(1) by (intro mod_less_divisor) auto
    then have "j mod ?m + (i + ?m - j mod ?m) = i + ?m" by simp
    with i(1) show ?thesis by simp
  qed
  finally have "stop (i + ?m - j mod ?m)"
    using i(2) by (simp add: stop_def)
  then have "stop (LEAST d. stop d)" by (rule LeastI)
  moreover have "reaches keys j k (LEAST d. stop d)"
    unfolding reaches_def using not_less_Least stop_def by blast
  ultimately show thesis using that stop_def by blast
qed

section \<open>Linear probing implements a finite map\<close>

locale linear_probing =
  fixes slot :: "u32 \<Rightarrow> nat \<Rightarrow> nat"
  assumes slot_less: "slot k (2 ^ n) < 2 ^ n"
begin

lemma key_unique:
  assumes ok: "table_ok slot keys vals"
    and i: "i < length keys" "keys ! i = k" and j: "j < length keys" "keys ! j = k"
    and k: "k \<noteq> EMPTY"
  shows "i = j"
proof -
  let ?h = "slot k (length keys)"
  from ok i k obtain d where d: "i = (?h + d) mod length keys" "reaches keys ?h k d"
    unfolding table_ok_def by blast
  from ok j k obtain e where e: "j = (?h + e) mod length keys" "reaches keys ?h k e"
    unfolding table_ok_def by blast
  have "\<not> d < e" "\<not> e < d"
    using d e i(2) j(2) unfolding reaches_def by blast+
  then show ?thesis using d(1) e(1) by simp
qed

lemma table_map_nth:
  assumes ok: "table_ok slot keys vals" and i: "i < length keys" "keys ! i = k" "k \<noteq> EMPTY"
  shows "table_map keys vals k = vals ! i"
proof -
  have len: "length vals = length keys" using ok by (simp add: table_ok_def)
  have "k \<in> dom (map_of (zip keys vals))"
    using i len nth_mem [OF i(1)] by (simp add: dom_map_of_zip)
  then obtain v where v: "map_of (zip keys vals) k = Some v" by auto
  then obtain j where j: "j < length keys" "keys ! j = k" "vals ! j = v"
    using len by (auto dest!: map_of_SomeD simp: in_set_zip)
  have "i = j" using key_unique [OF ok i(1,2) j(1,2) i(3)] .
  with v j i(3) show ?thesis by (simp add: table_map_def)
qed

lemma table_map_None:
  assumes ok: "table_ok slot keys vals" and k: "k \<notin> set keys"
  shows "table_map keys vals k = None"
proof -
  have "k \<notin> dom (map_of (zip keys vals))"
    using k by (auto simp: dom_map_of_conv_image_fst dest: set_zip_leftD)
  then have "map_of (zip keys vals) k = None" by (simp add: domIff)
  then show ?thesis by (simp add: table_map_def)
qed

text \<open>A probe for a key ends at the key, or at a free slot if the table does not hold it.\<close>

lemma probe_key_finds:
  assumes ok: "table_ok slot keys vals" and k: "k \<noteq> EMPTY"
  obtains j d where
    "probe_key keys (length keys) k (slot k (length keys)) = Some j" "j < length keys"
    "j = (slot k (length keys) + d) mod length keys" "reaches keys (slot k (length keys)) k d"
    "keys ! j = k \<and> table_map keys vals k = vals ! j \<and> vals ! j \<noteq> None
     \<or> keys ! j = EMPTY \<and> table_map keys vals k = None \<and> k \<notin> set keys"
proof -
  let ?m = "length keys" let ?h = "slot k (length keys)"
  obtain n where n: "?m = 2 ^ n" using ok by (auto simp: table_ok_def)
  have "load keys < length keys" using ok by (simp add: table_ok_def)
  then obtain d where d: "reaches keys ?h k d"
    and stop: "keys ! ((?h + d) mod ?m) = EMPTY \<or> keys ! ((?h + d) mod ?m) = k"
    by (rule reaches_some)
  have h: "?h < ?m" using slot_less n by simp
  define j where "j = (?h + d) mod ?m"
  have j: "j < ?m" unfolding j_def using h by (intro mod_less_divisor) linarith
  have run: "probe_key keys ?m k ?h = Some j"
    using probe_key_reaches [OF n d stop] h by (simp add: j_def)
  show thesis
  proof (cases "keys ! j = k")
    case True
    have "vals ! j \<noteq> None" using ok j True k by (auto simp: table_ok_def)
    with that [OF run j j_def d] True table_map_nth [OF ok j True k] show thesis by blast
  next
    case False
    then have E: "keys ! j = EMPTY" using stop by (simp add: j_def)
    have "k \<notin> set keys"
    proof
      assume "k \<in> set keys"
      then obtain i where i: "i < ?m" "keys ! i = k" by (auto simp: in_set_conv_nth)
      with ok k obtain e where e: "i = (?h + e) mod ?m" "reaches keys ?h k e"
        unfolding table_ok_def by blast
      have "\<not> d < e" using e(2) E unfolding reaches_def j_def by blast
      moreover have "\<not> e < d" using d e(1) i(2) unfolding reaches_def by blast
      ultimately have "i = j" using e(1) by (simp add: j_def)
      with i(2) False show False by simp
    qed
    with that [OF run j j_def d] E table_map_None [OF ok this] show thesis by blast
  qed
qed

lemma probe_key_EMPTY:
  assumes ok: "table_ok slot keys vals"
  obtains j where "probe_key keys (length keys) EMPTY (slot EMPTY (length keys)) = Some j"
    "keys ! j = EMPTY"
proof -
  obtain n where n: "length keys = 2 ^ n" using ok by (auto simp: table_ok_def)
  have "load keys < length keys" using ok by (simp add: table_ok_def)
  then obtain d where d: "reaches keys (slot EMPTY (length keys)) EMPTY d"
    and stop: "keys ! ((slot EMPTY (length keys) + d) mod length keys) = EMPTY \<or>
      keys ! ((slot EMPTY (length keys) + d) mod length keys) = EMPTY"
    by (rule reaches_some)
  have "slot EMPTY (length keys) < length keys" using slot_less n by simp
  with probe_key_reaches [OF n d stop] that stop show thesis by simp
qed

text \<open>Writing a new key at the free slot the probe ended at is the map update.\<close>

lemma reaches_update:
  assumes "reaches keys h k' e" "keys ! j = EMPTY"
  shows "reaches (keys[j := k]) h k' e"
  unfolding reaches_def
proof (intro allI impI)
  fix d assume "d < e"
  with assms(1) have *: "keys ! ((h + d) mod length keys) \<noteq> EMPTY"
    "keys ! ((h + d) mod length keys) \<noteq> k'"
    by (auto simp: reaches_def)
  with assms(2) have "j \<noteq> (h + d) mod length keys" by metis
  with * show "keys[j := k] ! ((h + d) mod length (keys[j := k])) \<noteq> EMPTY \<and>
      keys[j := k] ! ((h + d) mod length (keys[j := k])) \<noteq> k'"
    by simp
qed

lemma table_insert:
  assumes ok: "table_ok slot keys vals" and k: "k \<noteq> EMPTY" "k \<notin> set keys"
    and room: "Suc (load keys) < length keys"
    and j: "j < length keys" "keys ! j = EMPTY"
    and path: "j = (slot k (length keys) + d) mod length keys" "reaches keys (slot k (length keys)) k d"
  shows "table_ok slot (keys[j := k]) (vals[j := Some v])"
    and "table_map (keys[j := k]) (vals[j := Some v]) = (table_map keys vals)(k \<mapsto> v)"
proof -
  let ?keys = "keys[j := k]" let ?vals = "vals[j := Some v]"
  have len: "length vals = length keys" using ok by (simp add: table_ok_def)
  have entry: "?vals ! i \<noteq> None \<and> (\<exists>d. i = (slot (?keys ! i) (length keys) + d) mod length keys \<and>
      reaches ?keys (slot (?keys ! i) (length keys)) (?keys ! i) d)"
    if i: "i < length keys" "?keys ! i \<noteq> EMPTY" for i
  proof (cases "i = j")
    case True
    then show ?thesis using path reaches_update [OF path(2) j(2)] j len by auto
  next
    case False
    with i ok have "vals ! i \<noteq> None" "\<exists>d. i = (slot (keys ! i) (length keys) + d) mod length keys \<and>
      reaches keys (slot (keys ! i) (length keys)) (keys ! i) d"
      by (auto simp: table_ok_def)
    with False show ?thesis using reaches_update [OF _ j(2)] by auto
  qed
  show ok': "table_ok slot ?keys ?vals"
    using ok entry room load_update [OF j k(1)] by (simp add: table_ok_def)
  show "table_map ?keys ?vals = (table_map keys vals)(k \<mapsto> v)"
  proof
    fix x
    consider "x = k" | "x = EMPTY" | i where "i < length keys" "keys ! i = x" "x \<noteq> k" "x \<noteq> EMPTY"
      | "x \<notin> set keys" "x \<noteq> k" by (metis in_set_conv_nth)
    then show "table_map ?keys ?vals x = ((table_map keys vals)(k \<mapsto> v)) x"
    proof cases
      case 1
      then show ?thesis using table_map_nth [OF ok', of j k] j k len by simp
    next
      case 2
      then show ?thesis using k by (simp add: table_map_def)
    next
      case (3 i)
      then have "i \<noteq> j" using j by auto
      with 3 table_map_nth [OF ok, of i x] table_map_nth [OF ok', of i x] show ?thesis by simp
    next
      case 4
      have "x \<notin> set ?keys" using 4 set_update_subset_insert by fastforce
      with 4 table_map_None [OF ok] table_map_None [OF ok'] show ?thesis by simp
    qed
  qed
qed

text \<open>The loops that only insert (rehashing, building) end at the same kind of slot.\<close>

lemma probe_free_insert:
  assumes ok: "table_ok slot keys vals" and k: "k \<noteq> EMPTY" "k \<notin> set keys"
    and room: "Suc (load keys) < length keys"
  obtains j where
    "probe_free keys (length keys) (slot k (length keys)) = Some j" "j < length keys"
    "table_ok slot (keys[j := k]) (vals[j := Some v])"
    "table_map (keys[j := k]) (vals[j := Some v]) = (table_map keys vals)(k \<mapsto> v)"
    "load (keys[j := k]) = Suc (load keys)" "set (keys[j := k]) \<subseteq> insert k (set keys)"
proof -
  let ?m = "length keys" let ?h = "slot k (length keys)"
  obtain n where n: "?m = 2 ^ n" using ok by (auto simp: table_ok_def)
  have h: "?h < ?m" using slot_less n by simp
  have "load keys < ?m" using room by simp
  then obtain d where d: "reaches keys ?h EMPTY d" and stop: "keys ! ((?h + d) mod ?m) = EMPTY"
    using reaches_some [of keys ?h EMPTY] by blast
  define j where "j = (?h + d) mod ?m"
  have j: "j < ?m" unfolding j_def using h by (intro mod_less_divisor) linarith
  have E: "keys ! j = EMPTY" using stop by (simp add: j_def)
  have path: "reaches keys ?h k d"
    unfolding reaches_def
  proof (intro allI impI conjI)
    fix e assume "e < d"
    with d show "keys ! ((?h + e) mod ?m) \<noteq> EMPTY" by (simp add: reaches_def)
    have "(?h + e) mod ?m < ?m" using h by (intro mod_less_divisor) linarith
    then show "keys ! ((?h + e) mod ?m) \<noteq> k" using k(2) nth_mem by metis
  qed
  have run: "probe_free keys ?m ?h = Some j"
    using probe_free_reaches [OF n d stop] h by (simp add: j_def)
  show thesis
    by (rule that [OF run j table_insert [OF ok k room j E j_def path]
          load_update [OF j E k(1)] set_update_subset_insert])
qed

end

lemma table_ok_empty:
  "table_ok slot (replicate (2 ^ n) EMPTY) (replicate (2 ^ n) None)"
  by (auto simp: table_ok_def)

lemma table_map_empty: "table_map (replicate n EMPTY) vals = Map.empty"
proof
  fix k
  have "map_of (zip (replicate n EMPTY) vals) k = None" if "k \<noteq> EMPTY"
    using that by (auto simp: map_of_eq_None_iff dest: set_zip_leftD)
  then show "table_map (replicate n EMPTY) vals k = None"
    by (simp add: table_map_def)
qed

end
