(* ===== verification/Renamer.thy ===== *)
theory Renamer
  imports Probe_Table
begin

text \<open>
  The first-occurrence renamer of \<open>c-ref/canonical_hash.c\<close> (\<open>struct renamer\<close>,
  \<open>renamer_init\<close> .. \<open>renamer_intern\<close>): a growing hash table that gives the expr-ids it sees the
  numbers \<open>0, 1, 2, \<dots>\<close> in the order of their first occurrence.

  The interface \<open>renaming\<close> states what the encoder relies on, with the list of the ids seen so
  far as the abstract state: an id that was seen keeps its position, a new id gets the next one,
  and an allocation that fails is reported and forgets nothing. The table is an
  interpretation of it.
\<close>

unbundle bit_operations_syntax

section \<open>The code\<close>

record renamer =
  rn_keys :: "u32 list"
  rn_vals :: "u32 option list"
  rn_cap :: nat
  rn_used :: nat
  rn_next :: u32

text \<open>\<open>renamer_init\<close>: \<open>None\<close> is the return value \<open>-1\<close>. Both \<open>malloc\<close> calls are made before the
  check, and nothing is freed when one of them fails.\<close>

definition renamer_init :: "heap \<Rightarrow> renamer option \<times> heap" where
  "renamer_init h =
     (let (keys_ok, h) = malloc h;
          (vals_ok, h) = malloc h
      in if \<not> keys_ok \<or> \<not> vals_ok then (None, h)
         else (Some \<lparr>rn_keys = replicate 16 EMPTY, rn_vals = replicate 16 None, rn_cap = 16,
                     rn_used = 0, rn_next = 0\<rparr>, h))"

definition renamer_free :: "heap \<Rightarrow> heap" where
  "renamer_free h = free True (free True h)"

definition renamer_slot :: "u32 \<Rightarrow> nat \<Rightarrow> nat" where
  "renamer_slot key cap = unat (key * 2654435761) AND (cap - 1)"

text \<open>The loop of \<open>renamer_grow\<close> over the old slots.\<close>

fun renamer_rehash ::
  "(u32 \<times> u32 option) list \<Rightarrow> nat \<Rightarrow> u32 list \<Rightarrow> u32 option list \<Rightarrow> (u32 list \<times> u32 option list) option"
where
  "renamer_rehash [] new_cap nk nv = Some (nk, nv)"
| "renamer_rehash ((k, v) # rest) new_cap nk nv =
     (if k = EMPTY then renamer_rehash rest new_cap nk nv
      else do {
        j \<leftarrow> probe_free nk new_cap (renamer_slot k new_cap);
        renamer_rehash rest new_cap (nk[j := k]) (nv[j := v])
      })"

text \<open>\<open>renamer_grow\<close>: the flag is true for the return value 0, false for \<open>-1\<close>.\<close>

definition renamer_grow :: "renamer \<Rightarrow> heap \<Rightarrow> (bool \<times> renamer \<times> heap) option" where
  "renamer_grow r h =
     (let new_cap = rn_cap r * 2;
          (nk_ok, h) = malloc h;
          (nv_ok, h) = malloc h
      in if \<not> nk_ok \<or> \<not> nv_ok then Some (False, r, free nv_ok (free nk_ok h))
         else do {
           (nk, nv) \<leftarrow> renamer_rehash (zip (rn_keys r) (rn_vals r)) new_cap
                         (replicate new_cap EMPTY) (replicate new_cap None);
           let h = free True (free True h);
           Some (True, r\<lparr>rn_keys := nk, rn_vals := nv, rn_cap := new_cap\<rparr>, h)
         })"

definition renamer_intern :: "renamer \<Rightarrow> u32 \<Rightarrow> heap \<Rightarrow> (u32 \<times> renamer \<times> heap) option" where
  "renamer_intern r expr_id h = do {
     (ok, r, h) \<leftarrow> (if rn_used r * 2 \<ge> rn_cap r then renamer_grow r h else Some (True, r, h));
     if \<not> ok then Some (EMPTY, r, h)
     else do {
       j \<leftarrow> probe_key (rn_keys r) (rn_cap r) expr_id (renamer_slot expr_id (rn_cap r));
       if rn_keys r ! j \<noteq> EMPTY then Some (the (rn_vals r ! j), r, h)
       else Some (rn_next r,
                  r\<lparr>rn_keys := (rn_keys r)[j := expr_id], rn_vals := (rn_vals r)[j := Some (rn_next r)],
                    rn_used := rn_used r + 1, rn_next := rn_next r + 1\<rparr>, h)
     }
   }"

section \<open>The interface: numbering by first occurrence\<close>

text \<open>The position of an id in the list of the ids seen so far, its length if it is new.\<close>

fun position :: "u32 \<Rightarrow> u32 list \<Rightarrow> nat" where
  "position x [] = 0"
| "position x (y # ys) = (if x = y then 0 else Suc (position x ys))"

definition note_id :: "u32 \<Rightarrow> u32 list \<Rightarrow> u32 list" where
  "note_id x ids = (if x \<in> set ids then ids else ids @ [x])"

text \<open>The ids a table has numbered: distinct, never the marker of an empty slot.\<close>

definition seen_ok :: "u32 list \<Rightarrow> bool" where
  "seen_ok ids \<longleftrightarrow> distinct ids \<and> EMPTY \<notin> set ids"

definition renamer_seen :: "renamer \<Rightarrow> u32 list \<Rightarrow> bool" where
  "renamer_seen r ids \<longleftrightarrow>
     seen_ok ids \<and>
     table_ok renamer_slot (rn_keys r) (rn_vals r) \<and>
     rn_cap r = length (rn_keys r) \<and> 16 \<le> rn_cap r \<and>
     rn_used r = length ids \<and> load (rn_keys r) = length ids \<and> 2 * length ids \<le> rn_cap r \<and>
     rn_next r = of_nat (length ids) \<and>
     table_map (rn_keys r) (rn_vals r) = (\<lambda>k. if k \<in> set ids then Some (of_nat (position k ids)) else None)"

lemma position_less: "position x ids < length ids \<longleftrightarrow> x \<in> set ids"
  by (induction ids) auto

lemma position_le: "position x ids \<le> length ids"
  by (induction ids) auto

lemma position_append: "position x (ids @ ids') =
    (if x \<in> set ids then position x ids else length ids + position x ids')"
  by (induction ids) auto

lemma nth_position: "x \<in> set ids \<Longrightarrow> ids ! position x ids = x"
  by (induction ids) auto

lemma position_inject:
  "x \<in> set ids \<Longrightarrow> y \<in> set ids \<Longrightarrow> position x ids = position y ids \<Longrightarrow> x = y"
  by (metis nth_position)

lemma note_id_seen_ok: "seen_ok ids \<Longrightarrow> x \<noteq> EMPTY \<Longrightarrow> seen_ok (note_id x ids)"
  by (auto simp: seen_ok_def note_id_def)

text \<open>There are fewer than \<open>2^32 - 1\<close> ids, so a position is never the marker and positions that
  agree as \<open>uint32_t\<close> agree.\<close>

lemma seen_ok_length: "seen_ok ids \<Longrightarrow> length ids < 2 ^ 32"
proof -
  assume "seen_ok ids"
  then have "length ids = card (set ids)" "set ids \<subset> (UNIV :: u32 set)"
    by (auto simp: seen_ok_def distinct_card)
  then have "length ids < card (UNIV :: u32 set)"
    by (simp add: psubset_card_mono)
  then show ?thesis by (simp add: card_word)
qed

lemma position_bound:
  assumes "seen_ok ids" "x \<noteq> EMPTY"
  shows "position x ids < 2 ^ 32 - 1"
proof -
  have "position x ids < length (note_id x ids)"
    using position_less [of x ids] position_le [of x ids] by (auto simp: note_id_def)
  with seen_ok_length [OF note_id_seen_ok [OF assms]] show ?thesis by simp
qed

lemma position_not_EMPTY:
  assumes "seen_ok ids" "x \<noteq> EMPTY"
  shows "of_nat (position x ids) \<noteq> EMPTY"
proof
  assume "of_nat (position x ids) = EMPTY"
  then have "unat (of_nat (position x ids) :: u32) = unat EMPTY" by simp
  with position_bound [OF assms] show False
    by (simp add: unsigned_of_nat take_bit_nat_eq_self)
qed

locale renaming =
  fixes intern :: "'r \<Rightarrow> u32 \<Rightarrow> heap \<Rightarrow> (u32 \<times> 'r \<times> heap) option"
    and seen :: "'r \<Rightarrow> u32 list \<Rightarrow> bool"
  assumes seen_seen_ok: "seen r ids \<Longrightarrow> seen_ok ids"
    and intern_seen: "seen r ids \<Longrightarrow> x \<noteq> EMPTY \<Longrightarrow>
      \<exists>i r' h'. intern r x h = Some (i, r', h') \<and> live h' = live h \<and>
        (plenty h \<longrightarrow> plenty h' \<and> i \<noteq> EMPTY) \<and>
        (i = EMPTY \<and> seen r' ids \<or> i = of_nat (position x ids) \<and> seen r' (note_id x ids))"
begin

text \<open>With memory to spare an id is always numbered by its first occurrence.\<close>

lemma intern_plenty:
  assumes "seen r ids" "x \<noteq> EMPTY" "plenty h"
  obtains r' h' where "intern r x h = Some (of_nat (position x ids), r', h')"
    "seen r' (note_id x ids)" "plenty h'" "live h' = live h"
  using intern_seen [OF assms(1,2), of h] assms(3) by blast

end

section \<open>The table implements the interface\<close>

interpretation renamer_probing: linear_probing renamer_slot
  by unfold_locales (simp only: renamer_slot_def and_cap_minus_1, simp)

text \<open>Rehashing moves every entry of the old table into the new one.\<close>

lemma renamer_rehash_ok:
  assumes "table_ok renamer_slot nk nv" "length nk = new_cap"
    and "distinct (filter (\<lambda>k. k \<noteq> EMPTY) (map fst es))"
    and "\<forall>k v. (k, v) \<in> set es \<longrightarrow> k \<noteq> EMPTY \<longrightarrow> k \<notin> set nk \<and> v \<noteq> None"
    and "load nk + load (map fst es) < length nk"
  shows "\<exists>nk' nv'. renamer_rehash es new_cap nk nv = Some (nk', nv') \<and>
    table_ok renamer_slot nk' nv' \<and> length nk' = new_cap \<and>
    load nk' = load nk + load (map fst es) \<and>
    (\<forall>k. table_map nk' nv' k =
       (if k \<noteq> EMPTY \<and> k \<in> fst ` set es then Option.bind (map_of es k) (\<lambda>v. v) else table_map nk nv k))"
  using assms
proof (induction es arbitrary: nk nv)
  case Nil
  then show ?case by simp
next
  case (Cons e es)
  obtain k v where e: "e = (k, v)" by (cases e)
  show ?case
  proof (cases "k = EMPTY")
    case True
    with Cons.IH [OF Cons.prems(1,2)] Cons.prems(3-5) show ?thesis
      by (fastforce simp: e)
  next
    case False
    from Cons.prems(4) e False obtain w where w: "v = Some w" and k: "k \<notin> set nk" by auto
    have room: "Suc (load nk) < length nk" using Cons.prems(5) False by (simp add: e)
    obtain j where j: "probe_free nk new_cap (renamer_slot k new_cap) = Some j" "j < length nk"
      and ok: "table_ok renamer_slot (nk[j := k]) (nv[j := Some w])"
      and tm: "table_map (nk[j := k]) (nv[j := Some w]) = (table_map nk nv)(k \<mapsto> w)"
      and ld: "load (nk[j := k]) = Suc (load nk)" and st: "set (nk[j := k]) \<subseteq> insert k (set nk)"
      using renamer_probing.probe_free_insert [OF Cons.prems(1) False k room, of w] Cons.prems(2)
      by metis
    have new: "\<forall>k' v'. (k', v') \<in> set es \<longrightarrow> k' \<noteq> EMPTY \<longrightarrow> k' \<notin> set (nk[j := k]) \<and> v' \<noteq> None"
      using Cons.prems(3,4) st False e by (fastforce simp: image_iff)
    have "k \<notin> fst ` set es" using Cons.prems(3) False e by auto
    then show ?thesis
      using Cons.IH [OF ok _ _ new] Cons.prems(2,3,5) j ld tm False e w
      by (auto simp: image_iff)
  qed
qed

lemma distinct_filterI:
  "(\<And>i j. i < j \<Longrightarrow> j < length xs \<Longrightarrow> P (xs ! i) \<Longrightarrow> P (xs ! j) \<Longrightarrow> xs ! i \<noteq> xs ! j) \<Longrightarrow> distinct (filter P xs)"
proof (induction xs)
  case (Cons x xs)
  have "distinct (filter P xs)"
    using Cons.prems [of "Suc _" "Suc _"] by (intro Cons.IH) force
  moreover have "P x \<Longrightarrow> x \<notin> set xs"
    using Cons.prems [of 0 "Suc _"] by (fastforce simp: in_set_conv_nth)
  ultimately show ?case by auto
qed simp

lemma malloc_malloc_cases:
  obtains a b h1 h2 where "malloc h = (a, h1)" "malloc h1 = (b, h2)"
    "live h2 = live h + (if a then 1 else 0) + (if b then 1 else 0)"
    "plenty h \<longrightarrow> a \<and> b \<and> plenty h2"
proof -
  obtain a h1 where a: "malloc h = (a, h1)" by (cases "malloc h")
  obtain b h2 where b: "malloc h1 = (b, h2)" by (cases "malloc h1")
  have pl: "plenty h \<longrightarrow> a \<and> b \<and> plenty h2"
    using a b by (auto simp: malloc_plenty)
  show thesis
    using that [OF a b _ pl] live_malloc [OF a] live_malloc [OF b] by simp
qed

lemma renamer_grow_seen:
  assumes "renamer_seen r ids"
  shows "\<exists>ok r' h'. renamer_grow r h = Some (ok, r', h') \<and> live h' = live h \<and>
    (plenty h \<longrightarrow> ok \<and> plenty h') \<and>
    (if ok then renamer_seen r' ids \<and> rn_cap r' = 2 * rn_cap r else r' = r)"
proof -
  obtain a b h1 h2 where m: "malloc h = (a, h1)" "malloc h1 = (b, h2)"
    and live: "live h2 = live h + (if a then 1 else 0) + (if b then 1 else 0)"
    and pl: "plenty h \<longrightarrow> a \<and> b \<and> plenty h2"
    by (rule malloc_malloc_cases [of h])
  show ?thesis
  proof (cases "a \<and> b")
    case False
    then show ?thesis using m live pl by (auto simp: renamer_grow_def)
  next
    case True
    let ?keys = "rn_keys r" and ?vals = "rn_vals r" and ?cap = "rn_cap r * 2"
    from assms have ok: "table_ok renamer_slot ?keys ?vals" and cap: "rn_cap r = length ?keys"
      and ld: "load ?keys = length ids" "2 * length ids \<le> rn_cap r" "16 \<le> rn_cap r"
      by (auto simp: renamer_seen_def)
    obtain n where n: "?cap = 2 ^ n" using ok cap by (auto simp: table_ok_def intro: that [of "Suc _"])
    have len: "length ?vals = length ?keys" using ok by (simp add: table_ok_def)
    have dist: "distinct (filter (\<lambda>k. k \<noteq> EMPTY) ?keys)"
    proof (rule distinct_filterI)
      fix i j assume "i < j" "j < length ?keys" "?keys ! i \<noteq> EMPTY"
      then show "?keys ! i \<noteq> ?keys ! j"
        using renamer_probing.key_unique [OF ok, of i "?keys ! i" j] by auto
    qed
    have vals: "\<forall>k v. (k, v) \<in> set (zip ?keys ?vals) \<longrightarrow> k \<noteq> EMPTY \<longrightarrow>
        k \<notin> set (replicate ?cap EMPTY) \<and> v \<noteq> None"
      using ok by (auto simp: in_set_zip table_ok_def)
    obtain nk nv where new: "renamer_rehash (zip ?keys ?vals) ?cap (replicate ?cap EMPTY) (replicate ?cap None) = Some (nk, nv)"
      "table_ok renamer_slot nk nv" "length nk = ?cap" "load nk = load ?keys"
      and tm: "\<And>k. table_map nk nv k =
       (if k \<noteq> EMPTY \<and> k \<in> set ?keys then Option.bind (map_of (zip ?keys ?vals) k) (\<lambda>v. v) else None)"
    proof -
      have fst: "map fst (zip ?keys ?vals) = ?keys" "fst ` set (zip ?keys ?vals) = set ?keys"
        using len by (simp, metis list.set_map map_fst_zip)
      have "load (replicate ?cap EMPTY) + load ?keys < length (replicate ?cap EMPTY)"
        using ld by simp
      then have "\<exists>nk nv. renamer_rehash (zip ?keys ?vals) ?cap (replicate ?cap EMPTY) (replicate ?cap None) = Some (nk, nv) \<and>
        table_ok renamer_slot nk nv \<and> length nk = ?cap \<and> load nk = load ?keys \<and>
        (\<forall>k. table_map nk nv k = (if k \<noteq> EMPTY \<and> k \<in> set ?keys
           then Option.bind (map_of (zip ?keys ?vals) k) (\<lambda>v. v) else None))"
        using renamer_rehash_ok [OF table_ok_empty [of renamer_slot n, folded n] _ _ vals] dist
        by (simp add: fst table_map_empty [THEN fun_cong] cong: if_cong)
      then show thesis using that by blast
    qed
    have "table_map nk nv = table_map ?keys ?vals"
    proof
      fix k show "table_map nk nv k = table_map ?keys ?vals k"
        using tm [of k] renamer_probing.table_map_None [OF ok, of k]
        by (cases "k \<in> set ?keys") (auto simp: table_map_def)
    qed
    with assms new have "renamer_seen (r\<lparr>rn_keys := nk, rn_vals := nv, rn_cap := ?cap\<rparr>) ids"
      by (auto simp: renamer_seen_def)
    then show ?thesis
      using True m live pl new(1) by (auto simp: renamer_grow_def)
  qed
qed

text \<open>What \<open>renamer_intern\<close> does once there is room: find the id, or take the free slot.\<close>

lemma renamer_intern_room:
  assumes seen: "renamer_seen r ids" and room: "2 * length ids < rn_cap r" and x: "x \<noteq> EMPTY"
  shows "\<exists>r'. (do {
       j \<leftarrow> probe_key (rn_keys r) (rn_cap r) x (renamer_slot x (rn_cap r));
       if rn_keys r ! j \<noteq> EMPTY then Some (the (rn_vals r ! j), r, h)
       else Some (rn_next r,
                  r\<lparr>rn_keys := (rn_keys r)[j := x], rn_vals := (rn_vals r)[j := Some (rn_next r)],
                    rn_used := rn_used r + 1, rn_next := rn_next r + 1\<rparr>, h)
     }) = Some (of_nat (position x ids), r', h) \<and> renamer_seen r' (note_id x ids)"
proof -
  let ?keys = "rn_keys r" and ?vals = "rn_vals r"
  from seen have ok: "table_ok renamer_slot ?keys ?vals" and cap: "rn_cap r = length ?keys"
    and ld: "load ?keys = length ids" "16 \<le> rn_cap r" and nxt: "rn_next r = of_nat (length ids)"
    and tm: "table_map ?keys ?vals = (\<lambda>k. if k \<in> set ids then Some (of_nat (position k ids)) else None)"
    by (auto simp: renamer_seen_def)
  obtain j d where j: "probe_key ?keys (length ?keys) x (renamer_slot x (length ?keys)) = Some j"
    "j < length ?keys"
    and path: "j = (renamer_slot x (length ?keys) + d) mod length ?keys"
      "reaches ?keys (renamer_slot x (length ?keys)) x d"
    and found: "?keys ! j = x \<and> table_map ?keys ?vals x = ?vals ! j \<and> ?vals ! j \<noteq> None
     \<or> ?keys ! j = EMPTY \<and> table_map ?keys ?vals x = None \<and> x \<notin> set ?keys"
    by (rule renamer_probing.probe_key_finds [OF ok x])
  show ?thesis
  proof (cases "x \<in> set ids")
    case True
    then have "?keys ! j = x" "?vals ! j = Some (of_nat (position x ids))"
      using found tm by auto
    with True show ?thesis
      using j(1) x seen by (auto simp: cap note_id_def)
  next
    case False
    then have E: "?keys ! j = EMPTY" and new: "x \<notin> set ?keys"
      using found tm by auto
    have "Suc (load ?keys) < length ?keys" using room ld cap by simp
    note ins = renamer_probing.table_insert [OF ok x new this j(2) E path, of "rn_next r"]
    have pos: "position x ids = length ids" using False position_le [of x ids] position_less [of x ids]
      by (simp add: le_less)
    have "even (rn_cap r)"
      using ok cap ld(2) unfolding table_ok_def by (metis even_power even_numeral
          gr0I nat_power_eq_Suc_0_iff not_numeral_le_zero numeral_le_one_iff One_nat_def power_0 semiring_norm(69))
    then have "2 * Suc (length ids) \<le> rn_cap r" using room by presburger
    with ins load_update [OF j(2) E x] seen False x cap ld nxt tm pos
    have "renamer_seen (r\<lparr>rn_keys := ?keys[j := x], rn_vals := ?vals[j := Some (rn_next r)],
        rn_used := rn_used r + 1, rn_next := rn_next r + 1\<rparr>) (note_id x ids)"
      by (auto simp: renamer_seen_def seen_ok_def note_id_def position_append fun_eq_iff)
    with E show ?thesis using j(1) pos nxt by (simp add: cap)
  qed
qed

interpretation rn: renaming renamer_intern renamer_seen
proof
  show "seen_ok ids" if "renamer_seen r ids" for r ids
    using that by (simp add: renamer_seen_def)
  fix r ids x h
  assume seen: "renamer_seen r ids" and x: "x \<noteq> EMPTY"
  have fin: "of_nat (position x ids) \<noteq> EMPTY"
    using position_not_EMPTY seen x by (simp add: renamer_seen_def)
  show "\<exists>i r' h'. renamer_intern r x h = Some (i, r', h') \<and> live h' = live h \<and>
        (plenty h \<longrightarrow> plenty h' \<and> i \<noteq> EMPTY) \<and>
        (i = EMPTY \<and> renamer_seen r' ids \<or>
         i = of_nat (position x ids) \<and> renamer_seen r' (note_id x ids))"
  proof (cases "rn_used r * 2 \<ge> rn_cap r")
    case False
    then have "2 * length ids < rn_cap r" using seen by (auto simp: renamer_seen_def)
    from renamer_intern_room [OF seen this x, of h] False show ?thesis
      using fin by (auto simp: renamer_intern_def)
  next
    case True
    obtain ok r' h' where g: "renamer_grow r h = Some (ok, r', h')" "live h' = live h"
      "plenty h \<longrightarrow> ok \<and> plenty h'"
      "if ok then renamer_seen r' ids \<and> rn_cap r' = 2 * rn_cap r else r' = r"
      using renamer_grow_seen [OF seen, of h] by blast
    show ?thesis
    proof (cases ok)
      case False
      with True g seen show ?thesis by (auto simp: renamer_intern_def)
    next
      case ok: True
      with g seen have "renamer_seen r' ids" "2 * length ids < rn_cap r'"
        by (auto simp: renamer_seen_def)
      from renamer_intern_room [OF this x, of h'] True g ok show ?thesis
        using fin by (auto simp: renamer_intern_def)
    qed
  qed
qed

lemma renamer_init_malloc:
  assumes "malloc h = (k, h1)" "malloc h1 = (v, h2)"
  shows "\<exists>r. renamer_init h = (if k \<and> v then Some r else None, h2) \<and> renamer_seen r []"
proof -
  define r where "r = \<lparr>rn_keys = replicate 16 EMPTY, rn_vals = replicate 16 None, rn_cap = 16,
                     rn_used = 0, rn_next = 0\<rparr>"
  have "table_ok renamer_slot (replicate (2 ^ 4) EMPTY) (replicate (2 ^ 4) None :: u32 option list)"
    by (rule table_ok_empty)
  then have "renamer_seen r []"
    by (simp add: renamer_seen_def r_def seen_ok_def table_map_empty)
  moreover have "renamer_init h = (if k \<and> v then Some r else None, h2)"
    using assms by (simp add: renamer_init_def r_def)
  ultimately show ?thesis by blast
qed

lemma renamer_init_seen: "renamer_init h = (Some r, h') \<Longrightarrow> renamer_seen r []"
proof -
  assume init: "renamer_init h = (Some r, h')"
  obtain k h1 v h2 where "malloc h = (k, h1)" "malloc h1 = (v, h2)" by fastforce
  from renamer_init_malloc [OF this] init show ?thesis by (auto split: if_splits)
qed

section \<open>Properties\<close>

text \<open>Interning a sequence of ids, one after the other.\<close>

fun renamer_interns :: "renamer \<Rightarrow> u32 list \<Rightarrow> heap \<Rightarrow> (u32 list \<times> renamer \<times> heap) option" where
  "renamer_interns r [] h = Some ([], r, h)"
| "renamer_interns r (x # xs) h = do {
     (i, r, h) \<leftarrow> renamer_intern r x h;
     (is, r, h) \<leftarrow> renamer_interns r xs h;
     Some (i # is, r, h)
   }"

text \<open>The number of distinct ids before the first occurrence of \<open>x\<close>.\<close>

definition first_occurrence :: "u32 list \<Rightarrow> u32 \<Rightarrow> nat" where
  "first_occurrence xs x = card (set (takeWhile (\<lambda>y. y \<noteq> x) xs))"

lemma position_foldl_keep:
  "y \<in> set ids \<Longrightarrow> position y (foldl (\<lambda>ids x. note_id x ids) ids ys) = position y ids"
  by (induction ys arbitrary: ids) (auto simp: note_id_def position_append)

lemma renamer_interns_seen:
  assumes "renamer_seen r ids" "EMPTY \<notin> set xs" "plenty h"
  shows "\<exists>r' h'. renamer_interns r xs h =
      Some (map (\<lambda>x. of_nat (position x (foldl (\<lambda>ids x. note_id x ids) ids xs))) xs, r', h') \<and>
    renamer_seen r' (foldl (\<lambda>ids x. note_id x ids) ids xs) \<and> live h' = live h"
  using assms
proof (induction xs arbitrary: r ids h)
  case (Cons x xs)
  then have "x \<noteq> EMPTY" by simp
  then obtain r1 h1 where 1: "renamer_intern r x h = Some (of_nat (position x ids), r1, h1)"
    "renamer_seen r1 (note_id x ids)" "plenty h1" "live h1 = live h"
    using rn.intern_plenty [OF Cons.prems(1) _ Cons.prems(3)] by blast
  have "position x (foldl (\<lambda>ids x. note_id x ids) (note_id x ids) xs) = position x (note_id x ids)"
    by (rule position_foldl_keep) (simp add: note_id_def)
  also have "\<dots> = position x ids"
    using position_less [of x ids] position_le [of x ids] by (auto simp: note_id_def position_append)
  finally have "position x (foldl (\<lambda>ids x. note_id x ids) (note_id x ids) xs) = position x ids" .
  with 1 Cons.IH [OF 1(2) _ 1(3)] Cons.prems(2) show ?case by auto
qed simp

lemma position_foldl_note:
  assumes "distinct ids" "x \<notin> set ids" "x \<in> set xs"
  shows "position x (foldl (\<lambda>ids x. note_id x ids) ids xs) =
    card (set ids \<union> set (takeWhile (\<lambda>y. y \<noteq> x) xs))"
  using assms
proof (induction xs arbitrary: ids)
  case (Cons y ys)
  show ?case
  proof (cases "y = x")
    case True
    have "position x (foldl (\<lambda>ids x. note_id x ids) (ids @ [x]) ys) = position x (ids @ [x])"
      by (rule position_foldl_keep) simp
    then show ?thesis
      using True Cons.prems by (simp add: note_id_def position_append distinct_card)
  next
    case False
    then show ?thesis
      using Cons.IH [of "note_id y ids"] Cons.prems by (auto simp: note_id_def insert_absorb)
  qed
qed simp

text \<open>C7. A fresh renamer numbers the ids it is given by first occurrence, whatever the ids are and
  however often the table has to grow: each call returns the number of distinct ids that came
  before the first occurrence of its argument.\<close>

theorem renamer_numbers_first_occurrences:
  assumes "renamer_init h = (Some r, h')" "plenty h'" "EMPTY \<notin> set xs"
  shows "\<exists>r' h''. renamer_interns r xs h' = Some (map (\<lambda>x. of_nat (first_occurrence xs x)) xs, r', h'') \<and>
    live h'' = live h'"
proof -
  have "renamer_seen r []" using renamer_init_seen [OF assms(1)] .
  from renamer_interns_seen [OF this assms(3,2)] obtain r' h'' where
    "renamer_interns r xs h' =
      Some (map (\<lambda>x. of_nat (position x (foldl (\<lambda>ids x. note_id x ids) [] xs))) xs, r', h'')" "live h'' = live h'"
    by blast
  moreover have "position x (foldl (\<lambda>ids x. note_id x ids) [] xs) = first_occurrence xs x" if "x \<in> set xs" for x
    using position_foldl_note [of "[]" x xs] that by (simp add: first_occurrence_def)
  ultimately show ?thesis by (simp cong: map_cong)
qed

theorem renamer_numbers_first_occurrences_witness:
  "\<exists>r h' r' h''. renamer_init \<lparr>outcomes = [], live = 0\<rparr> = (Some r, h') \<and>
    renamer_interns r [7, 3, 7, 9, 3] h' = Some ([0, 1, 0, 2, 1], r', h'')"
proof -
  obtain r h' where r: "renamer_init \<lparr>outcomes = [], live = 0\<rparr> = (Some r, h')" "plenty h'"
    by (simp add: renamer_init_def malloc_def plenty_def)
  have "map (\<lambda>x. of_nat (first_occurrence [7, 3, 7, 9, 3] x)) [7, 3, 7, 9, 3] = ([0, 1, 0, 2, 1] :: u32 list)"
    by code_simp
  with renamer_numbers_first_occurrences [OF r, of "[7, 3, 7, 9, 3]"] r(1) show ?thesis by auto
qed

end
