(* ===== verification/Bcf_Expr.thy ===== *)
theory Bcf_Expr
  imports Prelude
begin

text \<open>
  BCF expressions as the C reference sees them (\<open>struct zovia_bcf_expr\<close> of
  \<open>c-ref/canonical_hash.h\<close>, the predicates at the top of \<open>c-ref/canonical_hash.c\<close>), and the
  abstract view the correctness statements use: the slot layout of an expression table, the
  expression tree a table holds below a slot, and equality of trees up to a renaming of the
  variables.
\<close>

unbundle bit_operations_syntax

section \<open>The code's data\<close>

record zovia_bcf_expr =
  code :: u8
  vlen :: u8
  params :: u16
  args :: "u32 list"

type_synonym expr_table = "zovia_bcf_expr list"

definition BCF_TYPE_MASK :: u8 where "BCF_TYPE_MASK = 0x07"
definition BCF_OP_MASK :: u8 where "BCF_OP_MASK = 0xf8"
definition BCF_BV :: u8 where "BCF_BV = 0x00"
definition BCF_VAL :: u8 where "BCF_VAL = 0x08"
definition BCF_VAR :: u8 where "BCF_VAR = 0x18"

definition TAG_VAR :: u8 where "TAG_VAR = 0x01"
definition TAG_LEAF_CONST :: u8 where "TAG_LEAF_CONST = 0x02"
definition TAG_INTERNAL :: u8 where "TAG_INTERNAL = 0x03"

definition expr_arg_is_id :: "u8 \<Rightarrow> bool" where
  "expr_arg_is_id c \<longleftrightarrow> c \<noteq> BCF_BV OR BCF_VAL"

definition is_leaf :: "zovia_bcf_expr \<Rightarrow> bool" where
  "is_leaf e \<longleftrightarrow> vlen e = 0 \<or> \<not> expr_arg_is_id (code e)"

definition is_var :: "u8 \<Rightarrow> bool" where
  "is_var c \<longleftrightarrow> c AND BCF_OP_MASK = BCF_VAR"

text \<open>\<open>args\<close> points to \<open>vlen\<close> words, the contract of the header.\<close>

definition expr_ok :: "zovia_bcf_expr \<Rightarrow> bool" where
  "expr_ok e \<longleftrightarrow> length (args e) = unat (vlen e)"

section \<open>Slots\<close>

text \<open>An expression with \<open>vlen = n\<close> fills \<open>1 + n\<close> words. Expressions are named by the offset of
  their first word; \<open>slot_ref\<close> finds the array index of the expression at an offset by walking the
  table.\<close>

fun slot_ref :: "expr_table \<Rightarrow> nat \<Rightarrow> nat \<Rightarrow> nat option" where
  "slot_ref [] off slot = None"
| "slot_ref (e # es) off slot =
     (if slot = off then Some 0 else map_option Suc (slot_ref es (off + 1 + unat (vlen e)) slot))"

definition total_slots :: "expr_table \<Rightarrow> nat" where
  "total_slots es = sum_list (map (\<lambda>e. 1 + unat (vlen e)) es)"

text \<open>Every expression is well-formed and all slot offsets are \<open>uint32_t\<close> values other than the
  marker \<open>UINT32_MAX\<close>.\<close>

definition table_fits :: "expr_table \<Rightarrow> bool" where
  "table_fits es \<longleftrightarrow> list_all expr_ok es \<and> total_slots es < 2 ^ 32"

section \<open>Trees\<close>

text \<open>The expression below a slot, with shared nodes walked once per use. A variable keeps the slot
  it was referenced by as its name.\<close>

datatype tree =
    Var u32 u8 u16
  | Const u8 u8 u16 "u32 list"
  | Node u8 u8 u16 "tree list"

fun tree_of :: "nat \<Rightarrow> expr_table \<Rightarrow> u32 \<Rightarrow> tree option"
  and trees_of :: "nat \<Rightarrow> expr_table \<Rightarrow> u32 list \<Rightarrow> tree list option" where
  "tree_of 0 es slot = None"
| "tree_of (Suc d) es slot =
     (case slot_ref es 0 (unat slot) of
        None \<Rightarrow> None
      | Some i \<Rightarrow>
          (let e = es ! i in
           if is_leaf e
           then Some (if is_var (code e) then Var slot (code e) (params e)
                      else Const (code e) (vlen e) (params e) (args e))
           else map_option (Node (code e) (vlen e) (params e)) (trees_of d es (args e))))"
| "trees_of d es [] = Some []"
| "trees_of d es (s # ss) =
     (case tree_of d es s of
        None \<Rightarrow> None
      | Some t \<Rightarrow> map_option (\<lambda>ts. t # ts) (trees_of d es ss))"

text \<open>The variables of a tree, from left to right, and a renaming of them.\<close>

fun tree_vars :: "tree \<Rightarrow> u32 list" where
  "tree_vars (Var v c p) = [v]"
| "tree_vars (Const c n p xs) = []"
| "tree_vars (Node c n p ts) = concat (map tree_vars ts)"

fun rename :: "(u32 \<Rightarrow> u32) \<Rightarrow> tree \<Rightarrow> tree" where
  "rename f (Var v c p) = Var (f v) c p"
| "rename f (Const c n p xs) = Const c n p xs"
| "rename f (Node c n p ts) = Node c n p (map (rename f) ts)"

text \<open>Equality up to a one-to-one renaming of variables: what \<open>__expr_equiv\<close> with
  \<open>from_checker = false\<close> decides.\<close>

definition alpha_equiv :: "tree \<Rightarrow> tree \<Rightarrow> bool" where
  "alpha_equiv t u \<longleftrightarrow> (\<exists>f. inj_on f (set (tree_vars t)) \<and> u = rename f t)"

text \<open>Every path down from a slot ends, at a leaf or at a slot that holds no expression, within \<open>d\<close>
  steps. A table whose arguments only refer to earlier expressions has the property for every slot,
  with the number of its expressions as the bound.\<close>

fun walk_ends :: "nat \<Rightarrow> expr_table \<Rightarrow> u32 \<Rightarrow> bool" where
  "walk_ends 0 es slot = False"
| "walk_ends (Suc d) es slot =
     (case slot_ref es 0 (unat slot) of
        None \<Rightarrow> True
      | Some i \<Rightarrow> is_leaf (es ! i) \<or> list_all (walk_ends d es) (args (es ! i)))"

definition table_acyclic :: "expr_table \<Rightarrow> bool" where
  "table_acyclic es \<longleftrightarrow>
     list_all (\<lambda>i. is_leaf (es ! i) \<or>
       list_all (\<lambda>s. case slot_ref es 0 (unat s) of None \<Rightarrow> True | Some j \<Rightarrow> j < i) (args (es ! i)))
     [0..<length es]"

section \<open>Lemmas\<close>

lemma var_leaf_nullary: "is_leaf e \<Longrightarrow> is_var (code e) \<Longrightarrow> vlen e = 0"
  by (auto simp: is_leaf_def expr_arg_is_id_def is_var_def BCF_BV_def BCF_VAL_def BCF_OP_MASK_def
      BCF_VAR_def)

lemma slot_ref_less: "slot_ref es off s = Some i \<Longrightarrow> i < length es"
  by (induction es arbitrary: off i) (auto split: if_splits)

lemma slot_ref_bound:
  "slot_ref es off s = Some i \<Longrightarrow> off \<le> s \<and> s < off + total_slots es"
proof (induction es arbitrary: off i)
  case (Cons e es)
  then show ?case
    by (fastforce simp: total_slots_def split: if_splits)
qed simp

lemma walk_ends_index:
  assumes "table_acyclic es"
  shows "slot_ref es 0 (unat s) = Some i \<Longrightarrow> Suc i < d \<Longrightarrow> walk_ends d es s"
proof (induction d arbitrary: s i)
  case (Suc d)
  have i: "i < length es" using slot_ref_less [OF Suc.prems(1)] .
  have "walk_ends d es a" if "\<not> is_leaf (es ! i)" and a: "a \<in> set (args (es ! i))" for a
  proof -
    have le: "case slot_ref es 0 (unat a) of None \<Rightarrow> True | Some j \<Rightarrow> j < i"
      using assms i that by (auto simp: table_acyclic_def list_all_iff)
    show ?thesis
    proof (cases "slot_ref es 0 (unat a)")
      case None
      then show ?thesis using Suc.prems(2) by (cases d) auto
    next
      case (Some j)
      then show ?thesis using le Suc by simp
    qed
  qed
  then show ?case using Suc.prems(1) by (auto simp: list_all_iff)
qed simp

lemma walk_ends_acyclic:
  assumes "table_acyclic es"
  shows "walk_ends (Suc (length es)) es s"
proof (cases "slot_ref es 0 (unat s)")
  case (Some i)
  then show ?thesis using slot_ref_less [OF Some] by (intro walk_ends_index [OF assms]) simp_all
qed simp

lemma walk_ends_mono: "walk_ends d es s \<Longrightarrow> d \<le> d' \<Longrightarrow> walk_ends d' es s"
proof (induction d arbitrary: s d')
  case (Suc d)
  then obtain e where d': "d' = Suc e" "d \<le> e" by (cases d') auto
  with Suc.prems Suc.IH show ?case by (auto simp: list_all_iff split: option.splits)
qed simp

end
