(* ===== verification/Slot_Table.thy ===== *)
theory Slot_Table
  imports Bcf_Expr Probe_Table
begin

text \<open>
  The slot table of \<open>c-ref/canonical_hash.c\<close> (\<open>struct slot_table\<close>, \<open>slot_table_build\<close>,
  \<open>slot_table_get\<close>): a hash table, built once, from the slot offset of an expression to its index
  in the expression array.

  Shown here: on a table whose slots fit \<open>uint32_t\<close>, building ends, and looking a slot up gives
  exactly the index the expression at that offset has, and no index for any other offset.
\<close>

unbundle bit_operations_syntax

section \<open>The code\<close>

record slot_table =
  st_keys :: "u32 list"
  st_vals :: "u32 option list"
  st_cap :: nat

definition slot_hash :: "u32 \<Rightarrow> nat \<Rightarrow> nat" where
  "slot_hash slot cap = unat (slot * 2654435761) AND (cap - 1)"

text \<open>The loop of \<open>slot_table_build\<close> over \<open>exprs[i]\<close>; \<open>slot\<close> is a \<open>uint32_t\<close> and wraps.\<close>

fun slot_table_fill ::
  "expr_table \<Rightarrow> nat \<Rightarrow> u32 \<Rightarrow> nat \<Rightarrow> u32 list \<Rightarrow> u32 option list \<Rightarrow> (u32 list \<times> u32 option list) option"
where
  "slot_table_fill [] i slot cap keys vals = Some (keys, vals)"
| "slot_table_fill (e # es) i slot cap keys vals = do {
     j \<leftarrow> probe_free keys cap (slot_hash slot cap);
     slot_table_fill es (i + 1) (slot + (1 + ucast (vlen e))) cap
       (keys[j := slot]) (vals[j := Some (of_nat i)])
   }"

text \<open>\<open>slot_table_build\<close>: the inner \<open>None\<close> is the return value \<open>-1\<close>; nothing is freed then.\<close>

definition slot_table_build :: "expr_table \<Rightarrow> heap \<Rightarrow> (slot_table option \<times> heap) option" where
  "slot_table_build exprs h = do {
     cap \<leftarrow> double_until 16 (length exprs * 2 + 1);
     let (keys_ok, h) = malloc h;
     let (vals_ok, h) = malloc h;
     if \<not> keys_ok \<or> \<not> vals_ok then Some (None, h)
     else do {
       (keys, vals) \<leftarrow> slot_table_fill exprs 0 0 cap (replicate cap EMPTY) (replicate cap None);
       Some (Some \<lparr>st_keys = keys, st_vals = vals, st_cap = cap\<rparr>, h)
     }
   }"

definition slot_table_free :: "heap \<Rightarrow> heap" where
  "slot_table_free h = free True (free True h)"

text \<open>\<open>slot_table_get\<close>: the inner \<open>None\<close> is the return value \<open>(size_t)-1\<close>.\<close>

definition slot_table_get :: "slot_table \<Rightarrow> u32 \<Rightarrow> nat option option" where
  "slot_table_get t slot = do {
     j \<leftarrow> probe_key (st_keys t) (st_cap t) slot (slot_hash slot (st_cap t));
     if st_keys t ! j \<noteq> EMPTY then Some (Some (unat (the (st_vals t ! j)))) else Some None
   }"

section \<open>Building gives the slot layout\<close>

interpretation slot_probing: linear_probing slot_hash
  by unfold_locales (simp only: slot_hash_def and_cap_minus_1, simp)

lemma slot_table_fill_ok:
  assumes "table_ok slot_hash keys vals" "length keys = cap"
    and "load keys + length es < cap"
    and "off + total_slots es < 2 ^ 32"
    and "\<forall>k \<in> set keys. k \<noteq> EMPTY \<longrightarrow> unat k < off"
  shows "\<exists>keys' vals'. slot_table_fill es i (of_nat off) cap keys vals = Some (keys', vals') \<and>
    table_ok slot_hash keys' vals' \<and> length keys' = cap \<and>
    (\<forall>s. table_map keys' vals' s =
       (case slot_ref es off (unat s) of
          Some k \<Rightarrow> Some (of_nat (i + k)) | None \<Rightarrow> table_map keys vals s))"
  using assms
proof (induction es arbitrary: i off keys vals)
  case Nil
  then show ?case by simp
next
  case (Cons e es)
  let ?k = "of_nat off :: u32" and ?off = "off + (1 + unat (vlen e))"
  have off: "off + (1 + unat (vlen e)) + total_slots es < 2 ^ 32"
    using Cons.prems(4) by (simp add: total_slots_def)
  then have uk: "unat ?k = off" by (simp add: unsigned_of_nat take_bit_nat_eq_self)
  have kE: "?k \<noteq> EMPTY"
  proof
    assume "?k = EMPTY"
    then have "unat ?k = unat EMPTY" by (rule arg_cong)
    with uk off show False by simp
  qed
  have kn: "?k \<notin> set keys"
  proof
    assume "?k \<in> set keys"
    then have "unat ?k < off" using Cons.prems(5) kE by simp
    then show False using uk by simp
  qed
  have room: "Suc (load keys) < length keys" using Cons.prems(2,3) by simp
  obtain j where j: "probe_free keys (length keys) (slot_hash ?k (length keys)) = Some j" "j < length keys"
    and ok: "table_ok slot_hash (keys[j := ?k]) (vals[j := Some (of_nat i)])"
    and tm: "table_map (keys[j := ?k]) (vals[j := Some (of_nat i)]) = (table_map keys vals)(?k \<mapsto> of_nat i)"
    and ld: "load (keys[j := ?k]) = Suc (load keys)"
    and st: "set (keys[j := ?k]) \<subseteq> insert ?k (set keys)"
    by (rule slot_probing.probe_free_insert [OF Cons.prems(1) kE kn room])
  have bound: "\<forall>k \<in> set (keys[j := ?k]). k \<noteq> EMPTY \<longrightarrow> unat k < ?off"
  proof (intro ballI impI)
    fix k assume "k \<in> set (keys[j := ?k])" "k \<noteq> EMPTY"
    then have "k = ?k \<or> unat k < off" using st Cons.prems(5) by auto
    then show "unat k < ?off" using uk by auto
  qed
  have len: "length (keys[j := ?k]) = cap" using Cons.prems(2) by simp
  have room': "load (keys[j := ?k]) + length es < cap" using Cons.prems(3) ld by simp
  obtain keys' vals' where IH:
    "slot_table_fill es (i + 1) (of_nat ?off) cap (keys[j := ?k]) (vals[j := Some (of_nat i)]) = Some (keys', vals')"
    "table_ok slot_hash keys' vals'" "length keys' = cap"
    and tm': "\<And>s. table_map keys' vals' s =
       (case slot_ref es ?off (unat s) of
          Some k \<Rightarrow> Some (of_nat (i + 1 + k)) | None \<Rightarrow> ((table_map keys vals)(?k \<mapsto> of_nat i)) s)"
    using Cons.IH [OF ok len room' off bound, of "i + 1"] unfolding tm by blast
  have slot: "?k + (1 + ucast (vlen e)) = of_nat ?off"
    by (simp only: of_nat_add of_nat_1 of_nat_unat)
  have "table_map keys' vals' s = (case slot_ref (e # es) off (unat s) of
          Some k \<Rightarrow> Some (of_nat (i + k)) | None \<Rightarrow> table_map keys vals s)" for s
  proof (cases "unat s = off")
    case True
    then have "s = ?k" using uk by (metis unsigned_word_eqI)
    moreover have "slot_ref es ?off (unat s) = None"
      using slot_ref_bound [of es ?off "unat s"] True by (cases "slot_ref es ?off (unat s)") auto
    ultimately show ?thesis using tm' [of s] True by simp
  next
    case False
    then have "s \<noteq> ?k" using uk by auto
    then show ?thesis using tm' [of s] False by (simp add: add.assoc split: option.split)
  qed
  moreover have "slot_table_fill (e # es) i ?k cap keys vals = Some (keys', vals')"
    using j(1) IH(1) Cons.prems(2) by (simp only: slot_table_fill.simps slot Option.bind.simps)
  ultimately show ?case using IH(2,3) by blast
qed

text \<open>\<open>cap\<close> is a power of two above twice the number of expressions, so the table never fills.\<close>

definition table_holds :: "slot_table \<Rightarrow> expr_table \<Rightarrow> bool" where
  "table_holds t es \<longleftrightarrow>
     table_ok slot_hash (st_keys t) (st_vals t) \<and> length (st_keys t) = st_cap t \<and>
     (\<forall>s. table_map (st_keys t) (st_vals t) s = map_option of_nat (slot_ref es 0 (unat s)))"

lemma slot_table_fill_holds:
  assumes "total_slots es < 2 ^ 32" and cap: "cap = 2 ^ n" "length es < cap"
  obtains keys vals where
    "slot_table_fill es 0 0 cap (replicate cap EMPTY) (replicate cap None) = Some (keys, vals)"
    "table_holds \<lparr>st_keys = keys, st_vals = vals, st_cap = cap\<rparr> es"
proof -
  have "table_ok slot_hash (replicate cap EMPTY) (replicate cap None)"
    using cap by (simp add: table_ok_empty)
  moreover have "load (replicate cap EMPTY) + length es < cap" using cap by simp
  ultimately show ?thesis
    using slot_table_fill_ok [of "replicate cap EMPTY" "replicate cap None" cap es 0 0] assms that
    by (fastforce simp: table_holds_def table_map_empty split: option.splits)
qed

lemma length_le_total_slots: "length es \<le> total_slots es"
  by (induction es) (simp_all add: total_slots_def)

lemma slot_table_build_malloc:
  assumes "malloc h = (k, h1)" "malloc h1 = (v, h2)" "total_slots es < 2 ^ 32"
  shows "\<exists>t. slot_table_build es h = Some (if k \<and> v then Some t else None, h2) \<and> table_holds t es"
proof -
  obtain n where n: "double_until 16 (length es * 2 + 1) = Some (16 * 2 ^ n)" "length es * 2 + 1 \<le> 16 * 2 ^ n"
    using double_until_returns [of 16 "length es * 2 + 1"] by auto
  have "(16 * 2 ^ n :: nat) = 2 ^ (n + 4)" "length es < 16 * 2 ^ n"
    using n(2) by (simp_all add: power_add)
  then obtain keys vals where
    "slot_table_fill es 0 0 (16 * 2 ^ n) (replicate (16 * 2 ^ n) EMPTY) (replicate (16 * 2 ^ n) None) =
      Some (keys, vals)"
    "table_holds \<lparr>st_keys = keys, st_vals = vals, st_cap = 16 * 2 ^ n\<rparr> es"
    by (rule slot_table_fill_holds [OF assms(3)])
  then show ?thesis using n(1) assms(1,2) by (auto simp: slot_table_build_def)
qed

lemma slot_table_get_holds:
  assumes t: "table_holds t es" and fits: "total_slots es < 2 ^ 32"
  shows "slot_table_get t s = Some (slot_ref es 0 (unat s))"
proof -
  have ok: "table_ok slot_hash (st_keys t) (st_vals t)" and cap: "st_cap t = length (st_keys t)"
    and tm: "table_map (st_keys t) (st_vals t) s = map_option of_nat (slot_ref es 0 (unat s))"
    using t by (simp_all add: table_holds_def)
  show ?thesis
  proof (cases "s = EMPTY")
    case True
    obtain j where "probe_key (st_keys t) (st_cap t) s (slot_hash s (st_cap t)) = Some j"
      "st_keys t ! j = EMPTY"
      unfolding cap True by (rule slot_probing.probe_key_EMPTY [OF ok])
    moreover have "slot_ref es 0 (unat s) = None"
      using slot_ref_bound [of es 0 "unat s"] fits True by (cases "slot_ref es 0 (unat s)") auto
    ultimately show ?thesis by (simp add: slot_table_get_def)
  next
    case False
    obtain j d where
      "probe_key (st_keys t) (length (st_keys t)) s (slot_hash s (length (st_keys t))) = Some j"
      "j < length (st_keys t)"
      "j = (slot_hash s (length (st_keys t)) + d) mod length (st_keys t)"
      "reaches (st_keys t) (slot_hash s (length (st_keys t))) s d"
      and j: "st_keys t ! j = s \<and> table_map (st_keys t) (st_vals t) s = st_vals t ! j \<and> st_vals t ! j \<noteq> None
       \<or> st_keys t ! j = EMPTY \<and> table_map (st_keys t) (st_vals t) s = None \<and> s \<notin> set (st_keys t)"
      by (rule slot_probing.probe_key_finds [OF ok False])
    have "unat (of_nat i :: u32) = i" if "slot_ref es 0 (unat s) = Some i" for i
    proof -
      have "i < length es" using slot_ref_less [OF that] .
      then have "i < 2 ^ 32" using fits length_le_total_slots [of es] by linarith
      then show ?thesis by (simp add: unsigned_of_nat take_bit_nat_eq_self)
    qed
    then show ?thesis using j tm False cap \<open>probe_key _ _ _ _ = _\<close>
      by (cases "slot_ref es 0 (unat s)") (auto simp: slot_table_get_def)
  qed
qed

section \<open>Properties\<close>

text \<open>C8. A table built from any expression array whose slots fit \<open>uint32_t\<close> answers every lookup, of
  any of the \<open>2^32\<close> offsets: with the index of the expression that starts there, and with
  \<open>(size_t)-1\<close> if none does.\<close>

theorem slot_table_get_build:
  assumes "table_fits es" "plenty h"
  shows "\<exists>t h'. slot_table_build es h = Some (Some t, h') \<and>
    (\<forall>s. slot_table_get t s = Some (slot_ref es 0 (unat s)))"
proof -
  obtain h1 h2 where m: "malloc h = (True, h1)" "malloc h1 = (True, h2)"
    using assms(2) by (auto simp: malloc_plenty)
  from slot_table_build_malloc [OF m, of es] slot_table_get_holds assms(1) show ?thesis
    by (auto simp: table_fits_def)
qed

theorem slot_table_get_build_witness:
  "\<exists>t h'. slot_table_build [\<lparr>code = 0x18, vlen = 0, params = 64, args = []\<rparr>,
      \<lparr>code = 0x08, vlen = 1, params = 64, args = [1]\<rparr>, \<lparr>code = 0x00, vlen = 2, params = 64, args = [0, 1]\<rparr>]
      \<lparr>outcomes = [], live = 0\<rparr> = Some (Some t, h') \<and>
    slot_table_get t 3 = Some (Some 2) \<and> slot_table_get t 2 = Some None"
  using slot_table_get_build [of "[\<lparr>code = 0x18, vlen = 0, params = 64, args = []\<rparr>,
      \<lparr>code = 0x08, vlen = 1, params = 64, args = [1]\<rparr>, \<lparr>code = 0x00, vlen = 2, params = 64, args = [0, 1]\<rparr>]"
      "\<lparr>outcomes = [], live = 0\<rparr>"]
  by (auto simp: table_fits_def total_slots_def expr_ok_def plenty_def)

end
