(* ===== verification/Outbuf.thy ===== *)
theory Outbuf
  imports Prelude
begin

text \<open>
  The output buffer of \<open>c-ref/canonical_hash.c\<close> (\<open>struct outbuf\<close> and the \<open>outbuf_*\<close> functions): a
  byte buffer that doubles on demand and remembers that an allocation failed.

  The interface the encoder relies on is the locale \<open>byte_sink\<close>: every push appends the
  little-endian bytes of its argument, or leaves the sink failed for good, and a push cannot fail
  while memory lasts. The buffer is shown to implement it, which includes that no write lands
  outside the allocated block.
\<close>

unbundle bit_operations_syntax

section \<open>The code\<close>

text \<open>\<open>data\<close> is the block \<open>malloc\<close> returned, \<open>cap\<close> bytes long; a byte that was never written is
  \<open>None\<close>.\<close>

record outbuf =
  data :: "u8 option list"
  len :: nat
  cap :: nat
  oom :: bool

definition outbuf_init :: "heap \<Rightarrow> outbuf option \<times> heap" where
  "outbuf_init h =
     (let (ok, h) = malloc h
      in (if ok then Some \<lparr>data = replicate 64 None, len = 0, cap = 64, oom = False\<rparr> else None, h))"

definition outbuf_free :: "heap \<Rightarrow> heap" where
  "outbuf_free h = free True h"

definition outbuf_reserve :: "outbuf \<Rightarrow> nat \<Rightarrow> heap \<Rightarrow> (outbuf \<times> heap) option" where
  "outbuf_reserve b extra h =
     (if oom b then Some (b, h)
      else if len b + extra \<le> cap b then Some (b, h)
      else do {
        nc \<leftarrow> double_until (cap b) (len b + extra);
        let (ok, h) = realloc h;
        if \<not> ok then Some (b\<lparr>oom := True\<rparr>, h)
        else Some (b\<lparr>data := data b @ replicate (nc - cap b) None, cap := nc\<rparr>, h)
      })"

text \<open>\<open>b->data[b->len++] = v\<close>\<close>

definition outbuf_put :: "outbuf \<Rightarrow> u8 \<Rightarrow> outbuf" where
  "outbuf_put b v = b\<lparr>data := (data b)[len b := Some v], len := len b + 1\<rparr>"

definition outbuf_push_u8 :: "outbuf \<Rightarrow> u8 \<Rightarrow> heap \<Rightarrow> (outbuf \<times> heap) option" where
  "outbuf_push_u8 b v h = do {
     (b, h) \<leftarrow> outbuf_reserve b 1 h;
     if oom b then Some (b, h) else Some (outbuf_put b v, h)
   }"

definition outbuf_push_u16_le :: "outbuf \<Rightarrow> u16 \<Rightarrow> heap \<Rightarrow> (outbuf \<times> heap) option" where
  "outbuf_push_u16_le b v h = do {
     (b, h) \<leftarrow> outbuf_reserve b 2 h;
     if oom b then Some (b, h)
     else do {
       let b = outbuf_put b (ucast (v AND 0xff));
       let b = outbuf_put b (ucast (drop_bit 8 v AND 0xff));
       Some (b, h)
     }
   }"

definition outbuf_push_u32_le :: "outbuf \<Rightarrow> u32 \<Rightarrow> heap \<Rightarrow> (outbuf \<times> heap) option" where
  "outbuf_push_u32_le b v h = do {
     (b, h) \<leftarrow> outbuf_reserve b 4 h;
     if oom b then Some (b, h)
     else do {
       let b = outbuf_put b (ucast (v AND 0xff));
       let b = outbuf_put b (ucast (drop_bit 8 v AND 0xff));
       let b = outbuf_put b (ucast (drop_bit 16 v AND 0xff));
       let b = outbuf_put b (ucast (drop_bit 24 v AND 0xff));
       Some (b, h)
     }
   }"

section \<open>The interface: a byte sink\<close>

text \<open>\<open>f\<close> appends \<open>xs\<close> or fails for good; a content \<open>None\<close> is a failed sink.\<close>

definition appends ::
  "('b \<Rightarrow> bool) \<Rightarrow> ('b \<Rightarrow> u8 list option) \<Rightarrow> ('b \<Rightarrow> heap \<Rightarrow> ('b \<times> heap) option) \<Rightarrow> u8 list \<Rightarrow> bool" where
  "appends ok content f xs \<longleftrightarrow>
     (\<forall>b h. ok b \<longrightarrow>
        (\<exists>b' h'. f b h = Some (b', h') \<and> ok b' \<and> live h' = live h \<and>
           (plenty h \<longrightarrow> plenty h') \<and>
           (content b' = None \<and> \<not> (plenty h \<and> content b \<noteq> None) \<or>
            content b' = map_option (\<lambda>ys. ys @ xs) (content b))))"

locale byte_sink =
  fixes ok :: "'b \<Rightarrow> bool" and content :: "'b \<Rightarrow> u8 list option"
    and push_u8 :: "'b \<Rightarrow> u8 \<Rightarrow> heap \<Rightarrow> ('b \<times> heap) option"
    and push_u16_le :: "'b \<Rightarrow> u16 \<Rightarrow> heap \<Rightarrow> ('b \<times> heap) option"
    and push_u32_le :: "'b \<Rightarrow> u32 \<Rightarrow> heap \<Rightarrow> ('b \<times> heap) option"
  assumes push_u8: "appends ok content (\<lambda>b. push_u8 b v8) [v8]"
    and push_u16_le: "appends ok content (\<lambda>b. push_u16_le b v16) (u16_le v16)"
    and push_u32_le: "appends ok content (\<lambda>b. push_u32_le b v32) (u32_le v32)"
begin

lemma push_seq:
  assumes "appends ok content f xs" "appends ok content g ys"
  shows "appends ok content (\<lambda>b h. do { (b, h) \<leftarrow> f b h; g b h }) (xs @ ys)"
  unfolding appends_def
proof (intro allI impI)
  fix b h assume b: "ok b"
  obtain b1 h1 where 1: "f b h = Some (b1, h1)" "ok b1" "live h1 = live h" "plenty h \<longrightarrow> plenty h1"
    "content b1 = None \<and> \<not> (plenty h \<and> content b \<noteq> None) \<or> content b1 = map_option (\<lambda>zs. zs @ xs) (content b)"
    using assms(1) b unfolding appends_def by blast
  obtain b2 h2 where 2: "g b1 h1 = Some (b2, h2)" "ok b2" "live h2 = live h1" "plenty h1 \<longrightarrow> plenty h2"
    "content b2 = None \<and> \<not> (plenty h1 \<and> content b1 \<noteq> None) \<or> content b2 = map_option (\<lambda>zs. zs @ ys) (content b1)"
    using assms(2) 1(2) unfolding appends_def by blast
  show "\<exists>b' h'. (do { (b, h) \<leftarrow> f b h; g b h }) = Some (b', h') \<and> ok b' \<and> live h' = live h \<and>
      (plenty h \<longrightarrow> plenty h') \<and>
      (content b' = None \<and> \<not> (plenty h \<and> content b \<noteq> None) \<or>
       content b' = map_option (\<lambda>zs. zs @ xs @ ys) (content b))"
    using 1 2 by (auto simp: option.map_comp comp_def)
qed

text \<open>The start of every record: tag, code, vlen, params.\<close>

lemma push_header:
  "appends ok content (\<lambda>b h. do {
       (b, h) \<leftarrow> push_u8 b t h; (b, h) \<leftarrow> push_u8 b c h; (b, h) \<leftarrow> push_u8 b n h; push_u16_le b p h
     }) (t # c # n # u16_le p)"
  using push_seq [OF push_u8 push_seq [OF push_u8 push_seq [OF push_u8 push_u16_le]], of t c n p] by simp

end

section \<open>The buffer implements the interface\<close>

definition outbuf_ok :: "outbuf \<Rightarrow> bool" where
  "outbuf_ok b \<longleftrightarrow> 0 < cap b \<and> length (data b) = cap b \<and> len b \<le> cap b \<and> None \<notin> set (take (len b) (data b))"

definition outbuf_content :: "outbuf \<Rightarrow> u8 list option" where
  "outbuf_content b = (if oom b then None else Some (map the (take (len b) (data b))))"

lemma outbuf_put_ok:
  assumes "outbuf_ok b" "len b < cap b"
  shows "outbuf_ok (outbuf_put b v)" "cap (outbuf_put b v) = cap b"
    "len (outbuf_put b v) = Suc (len b)" "oom (outbuf_put b v) = oom b"
    "outbuf_content (outbuf_put b v) = map_option (\<lambda>xs. xs @ [v]) (outbuf_content b)"
  using assms
  by (auto simp: outbuf_ok_def outbuf_put_def outbuf_content_def take_Suc_conv_app_nth)

lemma outbuf_reserve_ok:
  assumes "outbuf_ok b"
  obtains b' h' where "outbuf_reserve b extra h = Some (b', h')" "outbuf_ok b'" "live h' = live h"
    "plenty h \<longrightarrow> plenty h'" "outbuf_content b' = None \<and> \<not> (plenty h \<and> outbuf_content b \<noteq> None) \<or> 
     outbuf_content b' = outbuf_content b \<and> len b' + extra \<le> cap b'" "oom b' = (outbuf_content b' = None)"
proof (cases "oom b \<or> len b + extra \<le> cap b")
  case True
  then have "outbuf_reserve b extra h = Some (b, h)" by (auto simp: outbuf_reserve_def)
  then show thesis
    by (rule that) (use True assms in \<open>auto simp: outbuf_content_def\<close>)
next
  case False
  obtain k where k: "double_until (cap b) (len b + extra) = Some (cap b * 2 ^ k)"
    "len b + extra \<le> cap b * 2 ^ k"
    using double_until_returns [of "cap b" "len b + extra"] assms by (auto simp: outbuf_ok_def)
  obtain ok h' where r: "realloc h = (ok, h')" by (cases "realloc h")
  have pl: "plenty h \<longrightarrow> ok \<and> plenty h'" using r by (auto simp: realloc_plenty)
  show thesis
  proof (cases ok)
    case True
    let ?b = "b\<lparr>data := data b @ replicate (cap b * 2 ^ k - cap b) None, cap := cap b * 2 ^ k\<rparr>"
    have "outbuf_reserve b extra h = Some (?b, h')"
      using True False k r by (simp add: outbuf_reserve_def)
    moreover have "len b \<le> cap b * 2 ^ k" using k(2) by linarith
    then have "outbuf_ok ?b" using assms by (simp add: outbuf_ok_def)
    moreover have "outbuf_content ?b = outbuf_content b"
      using assms by (simp add: outbuf_ok_def outbuf_content_def)
    ultimately show thesis
      by (intro that [of ?b h']) (use pl live_realloc [OF r] k(2) in \<open>auto simp: outbuf_content_def\<close>)
  next
    case ok: False
    let ?b = "b\<lparr>oom := True\<rparr>"
    have "outbuf_reserve b extra h = Some (?b, h')"
      using ok False k r by (simp add: outbuf_reserve_def)
    moreover have "outbuf_ok ?b" using assms by (simp add: outbuf_ok_def)
    moreover have "outbuf_content ?b = None" by (simp add: outbuf_content_def)
    ultimately show thesis
      by (intro that [of ?b h']) (use pl live_realloc [OF r] ok in auto)
  qed
qed

text \<open>Reserving the room for \<open>xs\<close> and then storing its bytes appends \<open>xs\<close>.\<close>

lemma outbuf_puts_ok:
  assumes "outbuf_ok b" "len b + length xs \<le> cap b"
  shows "outbuf_ok (foldl outbuf_put b xs) \<and>
    outbuf_content (foldl outbuf_put b xs) = map_option (\<lambda>ys. ys @ xs) (outbuf_content b)"
  using assms
proof (induction xs arbitrary: b)
  case Nil
  then show ?case by (simp add: option.map_ident)
next
  case (Cons x xs)
  then show ?case
    using outbuf_put_ok [of b x] by (simp add: option.map_comp comp_def)
qed

lemma outbuf_push_appends:
  assumes "\<And>b h. f b h = do {
     (b, h) \<leftarrow> outbuf_reserve b (length xs) h;
     if oom b then Some (b, h) else Some (foldl outbuf_put b xs, h)
   }"
  shows "appends outbuf_ok outbuf_content f xs"
  unfolding appends_def
proof (intro allI impI)
  fix b h assume "outbuf_ok b"
  then obtain b' h' where b': "outbuf_reserve b (length xs) h = Some (b', h')" "outbuf_ok b'" "live h' = live h"
    "plenty h \<longrightarrow> plenty h'" "outbuf_content b' = None \<and> \<not> (plenty h \<and> outbuf_content b \<noteq> None) \<or> 
     outbuf_content b' = outbuf_content b \<and> len b' + length xs \<le> cap b'" "oom b' = (outbuf_content b' = None)"
    by (rule outbuf_reserve_ok)
  with outbuf_puts_ok [of b' xs] show "\<exists>b' h'. f b h = Some (b', h') \<and> outbuf_ok b' \<and> live h' = live h \<and>
      (plenty h \<longrightarrow> plenty h') \<and>
      (outbuf_content b' = None \<and> \<not> (plenty h \<and> outbuf_content b \<noteq> None) \<or>
       outbuf_content b' = map_option (\<lambda>ys. ys @ xs) (outbuf_content b))"
    by (cases "oom b'") (auto simp: assms)
qed

lemma ucast_and_0xff: "ucast (w AND 0xff :: 'a::len word) = (ucast w :: u8)"
proof -
  have "w AND 0xff = take_bit 8 w"
    by (simp add: take_bit_eq_mask mask_numeral)
  then show ?thesis
    by (simp only: unsigned_take_bit_eq) (simp add: bit_eq_iff bit_simps)
qed

interpretation ob: byte_sink outbuf_ok outbuf_content outbuf_push_u8 outbuf_push_u16_le outbuf_push_u32_le
proof
  show "appends outbuf_ok outbuf_content (\<lambda>b. outbuf_push_u8 b v) [v]" for v
    by (rule outbuf_push_appends) (simp add: outbuf_push_u8_def cong: if_cong)
  show "appends outbuf_ok outbuf_content (\<lambda>b. outbuf_push_u16_le b v) (u16_le v)" for v
    by (rule outbuf_push_appends)
      (simp add: outbuf_push_u16_le_def u16_le_def ucast_and_0xff numeral_2_eq_2 cong: if_cong)
  show "appends outbuf_ok outbuf_content (\<lambda>b. outbuf_push_u32_le b v) (u32_le v)" for v
    by (rule outbuf_push_appends)
      (simp add: outbuf_push_u32_le_def u32_le_def ucast_and_0xff eval_nat_numeral cong: if_cong)
qed

lemma outbuf_init_ok:
  assumes "malloc h = (ok, h')"
  shows "\<exists>b. outbuf_init h = (if ok then Some b else None, h') \<and> outbuf_ok b \<and> outbuf_content b = Some []"
proof -
  define b where "b = \<lparr>data = replicate 64 None, len = 0, cap = 64, oom = False\<rparr>"
  have "outbuf_ok b" "outbuf_content b = Some []"
    by (simp_all add: outbuf_ok_def outbuf_content_def b_def)
  moreover have "outbuf_init h = (if ok then Some b else None, h')"
    using assms by (simp add: outbuf_init_def b_def)
  ultimately show ?thesis by blast
qed

section \<open>Properties\<close>

text \<open>Pushing a 32-bit word leaves a well-formed buffer (no write beyond the block), keeps the bytes
  already there and adds the four little-endian bytes of the word; only a failed \<open>realloc\<close> prevents
  it, and then the buffer is marked.\<close>

theorem outbuf_push_u32_le_content:
  assumes "outbuf_ok b" "\<not> oom b"
  shows "\<exists>b' h'. outbuf_push_u32_le b v h = Some (b', h') \<and> outbuf_ok b' \<and> live h' = live h \<and>
    (plenty h \<longrightarrow> \<not> oom b') \<and>
    (\<not> oom b' \<longrightarrow> map the (take (len b') (data b')) = map the (take (len b) (data b)) @ u32_le v)"
proof -
  obtain b' h' where "outbuf_push_u32_le b v h = Some (b', h')" "outbuf_ok b'" "live h' = live h"
    "outbuf_content b' = None \<and> \<not> (plenty h \<and> outbuf_content b \<noteq> None) \<or>
     outbuf_content b' = map_option (\<lambda>ys. ys @ u32_le v) (outbuf_content b)"
    using ob.push_u32_le [of v] assms(1) unfolding appends_def by blast
  then show ?thesis using assms(2) by (auto simp: outbuf_content_def split: if_splits)
qed

theorem outbuf_push_u32_le_content_witness:
  "\<exists>b' h'. outbuf_push_u32_le \<lparr>data = replicate 4 (Some 1), len = 4, cap = 4, oom = False\<rparr> 0x12345678
      \<lparr>outcomes = [], live = 1\<rparr> = Some (b', h') \<and> outbuf_ok b' \<and>
    map the (take (len b') (data b')) = [1, 1, 1, 1] @ u32_le 0x12345678"
proof -
  have ok: "outbuf_ok \<lparr>data = replicate 4 (Some 1), len = 4, cap = 4, oom = False\<rparr>"
    by (simp add: outbuf_ok_def)
  show ?thesis
    using outbuf_push_u32_le_content [OF ok, where v = "0x12345678" and h = "\<lparr>outcomes = [], live = 1\<rparr>"]
    by (auto simp: plenty_def eval_nat_numeral)
qed

end
