(* ===== verification/Record_Stream.thy ===== *)
theory Record_Stream
  imports Bcf_Expr Renamer
begin

text \<open>
  The byte stream the canonical hash is taken of, as a function of the expression tree alone: a
  post-order sequence of tagged records in which a variable is written as the index of its first
  occurrence. This is the specification the encoder of \<open>c-ref/canonical_hash.c\<close> (and the kernel's)
  is shown to refine.

  Shown here: trees that agree up to a one-to-one renaming of variables have the same stream, and
  trees with the same stream agree up to such a renaming, because the stream can be cut into records
  and the records rebuild the tree on a stack.
\<close>

section \<open>Records of a tree\<close>

datatype record_item =
    Record_Var u8 u16 u32
  | Record_Const u8 u8 u16 "u32 list"
  | Record_Internal u8 u8 u16

fun record_bytes :: "record_item \<Rightarrow> u8 list" where
  "record_bytes (Record_Var c p idx) = TAG_VAR # c # 0 # u16_le p @ u32_le idx"
| "record_bytes (Record_Const c n p xs) = TAG_LEAF_CONST # c # n # u16_le p @ concat (map u32_le xs)"
| "record_bytes (Record_Internal c n p) = TAG_INTERNAL # c # n # u16_le p"

definition stream_bytes :: "record_item list \<Rightarrow> u8 list" where
  "stream_bytes rs = concat (map record_bytes rs)"

text \<open>The records of a tree, given the variables seen before it, and the variables seen after it.\<close>

fun records :: "tree \<Rightarrow> u32 list \<Rightarrow> record_item list \<times> u32 list"
  and records_list :: "tree list \<Rightarrow> u32 list \<Rightarrow> record_item list \<times> u32 list" where
  "records (Var v c p) ids = ([Record_Var c p (of_nat (position v ids))], note_id v ids)"
| "records (Const c n p xs) ids = ([Record_Const c n p xs], ids)"
| "records (Node c n p ts) ids =
     (let (rs, ids') = records_list ts ids in (rs @ [Record_Internal c n p], ids'))"
| "records_list [] ids = ([], ids)"
| "records_list (t # ts) ids =
     (let (rs, ids1) = records t ids; (rs', ids2) = records_list ts ids1 in (rs @ rs', ids2))"

definition canonical_bytes :: "tree \<Rightarrow> u8 list" where
  "canonical_bytes t = stream_bytes (fst (records t []))"

text \<open>\<open>vlen\<close> is the number of arguments, and no variable has the reserved id.\<close>

fun tree_ok :: "tree \<Rightarrow> bool" where
  "tree_ok (Var v c p) \<longleftrightarrow> v \<noteq> UINT32_MAX"
| "tree_ok (Const c n p xs) \<longleftrightarrow> length xs = unat n"
| "tree_ok (Node c n p ts) \<longleftrightarrow> length ts = unat n \<and> list_all tree_ok ts"

section \<open>Reading a stream back\<close>

text \<open>\<open>le_u32s n bs\<close> reads \<open>n\<close> words.\<close>

fun le_u32s :: "nat \<Rightarrow> u8 list \<Rightarrow> (u32 list \<times> u8 list) option" where
  "le_u32s 0 bs = Some ([], bs)"
| "le_u32s (Suc n) (b0 # b1 # b2 # b3 # bs) =
     map_option (\<lambda>(xs, rest). (le_u32 b0 b1 b2 b3 # xs, rest)) (le_u32s n bs)"
| "le_u32s (Suc n) bs = None"

fun next_record :: "u8 list \<Rightarrow> (record_item \<times> u8 list) option" where
  "next_record (t # c # n # p0 # p1 # bs) =
     (if t = TAG_VAR then
        (case le_u32s 1 bs of Some ([idx], rest) \<Rightarrow> Some (Record_Var c (le_u16 p0 p1) idx, rest) | _ \<Rightarrow> None)
      else if t = TAG_LEAF_CONST then
        map_option (\<lambda>(xs, rest). (Record_Const c n (le_u16 p0 p1) xs, rest)) (le_u32s (unat n) bs)
      else if t = TAG_INTERNAL then Some (Record_Internal c n (le_u16 p0 p1), bs)
      else None)"
| "next_record bs = None"

fun build_step :: "record_item \<Rightarrow> tree list \<Rightarrow> tree list" where
  "build_step (Record_Var c p idx) st = Var idx c p # st"
| "build_step (Record_Const c n p xs) st = Const c n p xs # st"
| "build_step (Record_Internal c n p) st =
     Node c n p (rev (take (unat n) st)) # drop (unat n) st"

definition build :: "record_item list \<Rightarrow> tree list \<Rightarrow> tree list" where
  "build rs st = foldl (\<lambda>st r. build_step r st) st rs"

section \<open>Records are uniquely decodable\<close>

fun record_ok :: "record_item \<Rightarrow> bool" where
  "record_ok (Record_Const c n p xs) \<longleftrightarrow> length xs = unat n"
| "record_ok _ \<longleftrightarrow> True"

lemma le_u32s_bytes: "le_u32s (length xs) (concat (map u32_le xs) @ rest) = Some (xs, rest)"
  by (induction xs) (simp_all add: u32_le_def)

lemma next_record_bytes: "record_ok r \<Longrightarrow> next_record (record_bytes r @ rest) = Some (r, rest)"
proof (cases r)
  case (Record_Var c p idx)
  have "le_u32s 1 (u32_le idx @ rest) = Some ([idx], rest)"
    using le_u32s_bytes [of "[idx]" rest] by simp
  with Record_Var show ?thesis by (simp add: u16_le_def)
next
  case (Record_Const c n p xs)
  moreover assume "record_ok r"
  ultimately show ?thesis
    using le_u32s_bytes [of xs rest] by (simp add: u16_le_def TAG_VAR_def TAG_LEAF_CONST_def)
next
  case (Record_Internal c n p)
  then show ?thesis by (simp add: u16_le_def TAG_VAR_def TAG_LEAF_CONST_def TAG_INTERNAL_def)
qed

lemma stream_bytes_inject:
  assumes "list_all record_ok rs" "list_all record_ok rs'" "stream_bytes rs = stream_bytes rs'"
  shows "rs = rs'"
  using assms
proof (induction rs arbitrary: rs')
  case Nil
  then show ?case by (cases rs') (auto simp: stream_bytes_def elim: record_bytes.elims)
next
  case (Cons r rs)
  then obtain r' rs2 where rs': "rs' = r' # rs2"
    by (cases rs') (auto simp: stream_bytes_def elim: record_bytes.elims)
  have "next_record (record_bytes r @ stream_bytes rs) = next_record (record_bytes r' @ stream_bytes rs2)"
    using Cons.prems(3) rs' by (simp add: stream_bytes_def)
  then have "r = r'" "stream_bytes rs = stream_bytes rs2"
    using Cons.prems(1,2) rs' next_record_bytes by simp_all
  with Cons rs' show ?case by simp
qed

lemma records_Node [simp]:
  "records (Node c n p ts) ids =
     (fst (records_list ts ids) @ [Record_Internal c n p], snd (records_list ts ids))"
  by (simp add: case_prod_beta)

lemma records_list_Cons [simp]:
  "records_list (t # ts) ids =
     (fst (records t ids) @ fst (records_list ts (snd (records t ids))),
      snd (records_list ts (snd (records t ids))))"
  by (simp add: case_prod_beta Let_def)

declare records.simps(3) [simp del] records_list.simps(2) [simp del]

lemma records_induct [case_names Var Const Node Nil Cons]:
  assumes "\<And>v c p ids. P (Var v c p) ids" "\<And>c n p xs ids. P (Const c n p xs) ids"
    "\<And>c n p ts ids. Q ts ids \<Longrightarrow> P (Node c n p ts) ids"
    "\<And>ids. Q [] ids" "\<And>t ts ids. P t ids \<Longrightarrow> Q ts (snd (records t ids)) \<Longrightarrow> Q (t # ts) ids"
  shows "P t ids" "Q ts ids"
proof (induction t ids and ts ids rule: records_records_list.induct)
  case (5 t ts ids)
  then show ?case using assms(5) by (metis prod.collapse)
qed (use assms in auto)

lemma records_ok:
  "tree_ok t \<Longrightarrow> list_all record_ok (fst (records t ids))"
  "list_all tree_ok ts \<Longrightarrow> list_all record_ok (fst (records_list ts ids))"
  by (induction t ids and ts ids rule: records_induct) auto

section \<open>The records rebuild the tree\<close>

text \<open>The ids seen only grow at the end, so an id keeps its position.\<close>

lemma records_extends:
  "\<exists>xs. snd (records t ids) = ids @ xs"
  "\<exists>xs. snd (records_list ts ids) = ids @ xs"
  by (induction t ids and ts ids rule: records_induct) (auto simp: note_id_def)

lemma records_seen:
  "seen_ok ids \<Longrightarrow> tree_ok t \<Longrightarrow> seen_ok (snd (records t ids))"
  "seen_ok ids \<Longrightarrow> list_all tree_ok ts \<Longrightarrow> seen_ok (snd (records_list ts ids))"
  by (induction t ids and ts ids rule: records_induct) (auto simp: note_id_seen_ok)

lemma records_vars:
  "set (snd (records t ids)) = set ids \<union> set (tree_vars t)"
  "set (snd (records_list ts ids)) = set ids \<union> (\<Union>t \<in> set ts. set (tree_vars t))"
  by (induction t ids and ts ids rule: records_induct) (auto simp: note_id_def)

text \<open>The number a list of ids gives to each of its members.\<close>

abbreviation number :: "u32 list \<Rightarrow> u32 \<Rightarrow> u32" where
  "number ids v \<equiv> of_nat (position v ids)"

lemma rename_cong: "(\<And>v. v \<in> set (tree_vars t) \<Longrightarrow> f v = g v) \<Longrightarrow> rename f t = rename g t"
  by (induction t) auto

lemma rename_number_extends:
  "set (tree_vars t) \<subseteq> set ids \<Longrightarrow> rename (number (ids @ xs)) t = rename (number ids) t"
  by (rule rename_cong) (auto simp: position_append)

lemma position_new: "v \<notin> set ids \<Longrightarrow> position v ids = length ids"
  by (induction ids) auto

lemma build_append: "build (rs @ rs') st = build rs' (build rs st)"
  by (simp add: build_def)

lemma build_records:
  "tree_ok t \<Longrightarrow> build (fst (records t ids)) st = rename (number (snd (records t ids))) t # st"
  "list_all tree_ok ts \<Longrightarrow> build (fst (records_list ts ids)) st =
     rev (map (rename (number (snd (records_list ts ids)))) ts) @ st"
proof (induction t ids and ts ids arbitrary: st and st rule: records_induct)
  case (Var v c p ids)
  then show ?case
    using position_new [of v ids] by (auto simp: build_def note_id_def position_append)
next
  case (Node c n p ts ids)
  then show ?case by (simp add: build_append, simp add: build_def)
next
  case (Cons t ts ids)
  let ?ids = "snd (records t ids)"
  obtain xs where xs: "snd (records_list ts ?ids) = ?ids @ xs" using records_extends(2) by blast
  have "rename (number (?ids @ xs)) t = rename (number ?ids) t"
    by (rule rename_number_extends) (simp add: records_vars)
  with Cons xs show ?case by (simp add: build_append)
qed (simp_all add: build_def)

lemma number_inj_on:
  assumes "seen_ok ids"
  shows "inj_on (number ids) (set ids)"
proof (rule inj_onI)
  fix x y assume xy: "x \<in> set ids" "y \<in> set ids" "(number ids x :: u32) = number ids y"
  have "x \<noteq> UINT32_MAX" "y \<noteq> UINT32_MAX" using xy assms by (auto simp: seen_ok_def)
  then have "position x ids < 2 ^ 32" "position y ids < 2 ^ 32"
    using position_bound [OF assms] by fastforce+
  moreover have "unat (number ids x :: u32) = unat (number ids y :: u32)" using xy by simp
  ultimately have "position x ids = position y ids"
    by (simp add: unsigned_of_nat take_bit_nat_eq_self)
  then show "x = y" using position_inject xy by metis
qed

text \<open>The canonical form of a tree: every variable replaced by its number.\<close>

definition canonical_tree :: "tree \<Rightarrow> tree" where
  "canonical_tree t = rename (number (snd (records t []))) t"

lemma canonical_bytes_build:
  assumes "tree_ok t" "tree_ok u" "canonical_bytes t = canonical_bytes u"
  shows "canonical_tree t = canonical_tree u"
proof -
  have "fst (records t []) = fst (records u [])"
    using assms records_ok by (intro stream_bytes_inject) (simp_all add: canonical_bytes_def)
  then have "build (fst (records t [])) [] = build (fst (records u [])) []" by simp
  then show ?thesis using assms(1,2) by (simp add: build_records canonical_tree_def)
qed

section \<open>Renaming of variables\<close>

lemma rename_rename: "rename f (rename g t) = rename (\<lambda>v. f (g v)) t"
  by (induction t) auto

lemma rename_id: "(\<And>v. v \<in> set (tree_vars t) \<Longrightarrow> f v = v) \<Longrightarrow> rename f t = t"
  by (induction t) (auto intro: map_idI)

lemma tree_vars_rename [simp]: "tree_vars (rename f t) = map f (tree_vars t)"
  by (induction t) (auto simp: map_concat comp_def intro!: arg_cong [of _ _ concat])

lemma alpha_equiv_canonical:
  assumes "tree_ok t"
  shows "alpha_equiv t (canonical_tree t)"
proof -
  have "inj_on (number (snd (records t []))) (set (tree_vars t))"
    using number_inj_on [of "snd (records t [])"] records_seen(1) [of "[]" t] assms records_vars(1) [of t "[]"]
    by (simp add: seen_ok_def)
  then show ?thesis unfolding alpha_equiv_def canonical_tree_def by blast
qed

lemma alpha_equiv_sym:
  assumes "alpha_equiv t u"
  shows "alpha_equiv u t"
proof -
  obtain f where f: "inj_on f (set (tree_vars t))" "u = rename f t"
    using assms by (auto simp: alpha_equiv_def)
  let ?g = "inv_into (set (tree_vars t)) f"
  have "rename ?g u = rename (\<lambda>v. ?g (f v)) t" using f(2) by (simp add: rename_rename)
  also have "\<dots> = t" using f(1) by (intro rename_id) (simp add: inv_into_f_f)
  finally have "t = rename ?g u" by simp
  moreover have "inj_on ?g (set (tree_vars u))"
    using f by (auto intro: inj_on_inv_into)
  ultimately show ?thesis unfolding alpha_equiv_def by blast
qed

lemma alpha_equiv_trans:
  assumes "alpha_equiv t u" "alpha_equiv u w"
  shows "alpha_equiv t w"
proof -
  obtain f g where "inj_on f (set (tree_vars t))" "u = rename f t"
    "inj_on g (set (tree_vars u))" "w = rename g u"
    using assms by (auto simp: alpha_equiv_def)
  then have "inj_on (g \<circ> f) (set (tree_vars t))" "w = rename (g \<circ> f) t"
    using comp_inj_on [of f "set (tree_vars t)" g] by (simp_all add: rename_rename comp_def)
  then show ?thesis unfolding alpha_equiv_def by blast
qed

lemma canonical_bytes_alpha:
  assumes "tree_ok t" "tree_ok u" "canonical_bytes t = canonical_bytes u"
  shows "alpha_equiv t u"
proof -
  have "alpha_equiv t (canonical_tree u)"
    using alpha_equiv_canonical [OF assms(1)] canonical_bytes_build [OF assms] by simp
  then show ?thesis
    using alpha_equiv_sym [OF alpha_equiv_canonical [OF assms(2)]] alpha_equiv_trans by blast
qed

text \<open>The other way: a one-to-one renaming keeps every position, hence every record.\<close>

lemma position_map:
  "inj_on f (insert v (set ids)) \<Longrightarrow> position (f v) (map f ids) = position v ids"
  by (induction ids) (auto simp: inj_on_def)

lemma note_id_map:
  "inj_on f (insert v (set ids)) \<Longrightarrow> note_id (f v) (map f ids) = map f (note_id v ids)"
  by (auto simp: note_id_def inj_on_def)

lemma records_rename:
  "inj_on f (set ids \<union> set (tree_vars t)) \<Longrightarrow>
     records (rename f t) (map f ids) = (fst (records t ids), map f (snd (records t ids)))"
  "inj_on f (set ids \<union> (\<Union>t \<in> set ts. set (tree_vars t))) \<Longrightarrow>
     records_list (map (rename f) ts) (map f ids) = (fst (records_list ts ids), map f (snd (records_list ts ids)))"
proof (induction t ids and ts ids rule: records_induct)
  case (Var v c p ids)
  then show ?case by (simp add: position_map note_id_map)
next
  case (Cons t ts ids)
  have "inj_on f (set ids \<union> set (tree_vars t))" by (rule inj_on_subset [OF Cons.prems]) auto
  moreover have "inj_on f (set (snd (records t ids)) \<union> (\<Union>t \<in> set ts. set (tree_vars t)))"
    by (rule inj_on_subset [OF Cons.prems]) (auto simp: records_vars)
  ultimately show ?case using Cons.IH by simp
qed simp_all

lemma alpha_canonical_bytes: "alpha_equiv t u \<Longrightarrow> canonical_bytes t = canonical_bytes u"
  using records_rename(1) [of _ "[]" t] by (auto simp: alpha_equiv_def canonical_bytes_def)

end
