(* ===== verification/Canonical_Hash.thy ===== *)
theory Canonical_Hash
  imports Siphash24 Renamer Slot_Table Outbuf Record_Stream
begin

text \<open>
  The encoder and the entry point of \<open>c-ref/canonical_hash.c\<close> (\<open>encode\<close>,
  \<open>zovia_canonical_hash\<close>).

  \<open>encode\<close> is recursive in the source; the model counts the call depth, and \<open>None\<close> is a walk that
  is deeper than the count. Every table in which arguments refer to earlier expressions needs at most
  one call more than it has expressions.

  Shown here: the encoder writes exactly the stream of \<open>Record_Stream\<close>, the hash is the SipHash of
  that stream or 0 when a reference dangles or memory runs out, equivalent expressions have equal
  hashes, and every block is freed again (except in the two constructors, where one of two
  allocations can leak).
\<close>

section \<open>The code\<close>

text \<open>The four pushes each record starts with.\<close>

definition encode_header :: "u8 \<Rightarrow> zovia_bcf_expr \<Rightarrow> outbuf \<Rightarrow> heap \<Rightarrow> (outbuf \<times> heap) option" where
  "encode_header tag e b h = do {
     (b, h) \<leftarrow> outbuf_push_u8 b tag h;
     (b, h) \<leftarrow> outbuf_push_u8 b (code e) h;
     (b, h) \<leftarrow> outbuf_push_u8 b (vlen e) h;
     outbuf_push_u16_le b (params e) h
   }"

text \<open>\<open>for (uint8_t i = 0; i < e->vlen; i++) outbuf_push_u32_le(b, e->args[i]);\<close>\<close>

fun encode_words :: "u32 list \<Rightarrow> outbuf \<Rightarrow> heap \<Rightarrow> (outbuf \<times> heap) option" where
  "encode_words [] b h = Some (b, h)"
| "encode_words (x # xs) b h = do {
     (b, h) \<leftarrow> outbuf_push_u32_le b x h;
     encode_words xs b h
   }"

definition expr_args :: "zovia_bcf_expr \<Rightarrow> u32 list" where
  "expr_args e = map (\<lambda>i. args e ! i) [0..<unat (vlen e)]"

fun encode :: "nat \<Rightarrow> u32 \<Rightarrow> expr_table \<Rightarrow> slot_table \<Rightarrow> renamer \<Rightarrow> outbuf \<Rightarrow> heap \<Rightarrow>
    (renamer \<times> outbuf \<times> heap) option"
  and encode_args :: "nat \<Rightarrow> u32 list \<Rightarrow> expr_table \<Rightarrow> slot_table \<Rightarrow> renamer \<Rightarrow> outbuf \<Rightarrow> heap \<Rightarrow>
    (renamer \<times> outbuf \<times> heap) option" where
  "encode 0 slot exprs st r b h = None"
| "encode (Suc d) slot exprs st r b h = do {
     array_idx \<leftarrow> slot_table_get st slot;
     case array_idx of
       None \<Rightarrow> Some (r, b\<lparr>oom := True\<rparr>, h)
     | Some i \<Rightarrow>
         (let e = exprs ! i in
          if is_leaf e then
            if is_var (code e) then do {
              (idx, r, h) \<leftarrow> renamer_intern r slot h;
              if idx = EMPTY then Some (r, b\<lparr>oom := True\<rparr>, h)
              else do {
                (b, h) \<leftarrow> encode_header TAG_VAR e b h;
                (b, h) \<leftarrow> outbuf_push_u32_le b idx h;
                Some (r, b, h)
              }
            }
            else do {
              (b, h) \<leftarrow> encode_header TAG_LEAF_CONST e b h;
              (b, h) \<leftarrow> encode_words (expr_args e) b h;
              Some (r, b, h)
            }
          else do {
            (r, b, h) \<leftarrow> encode_args d (expr_args e) exprs st r b h;
            if oom b then Some (r, b, h)
            else do {
              (b, h) \<leftarrow> encode_header TAG_INTERNAL e b h;
              Some (r, b, h)
            }
          })
   }"
| "encode_args d [] exprs st r b h = Some (r, b, h)"
| "encode_args d (a # as) exprs st r b h = do {
     (r, b, h) \<leftarrow> encode d a exprs st r b h;
     if oom b then Some (r, b, h) else encode_args d as exprs st r b h
   }"

definition zovia_canonical_hash :: "nat \<Rightarrow> u32 \<Rightarrow> expr_table \<Rightarrow> heap \<Rightarrow> (u64 \<times> heap) option" where
  "zovia_canonical_hash d root exprs h =
     (case renamer_init h of
        (None, h) \<Rightarrow> Some (0, h)
      | (Some r, h) \<Rightarrow>
          (case outbuf_init h of
             (None, h) \<Rightarrow> Some (0, renamer_free h)
           | (Some b, h) \<Rightarrow> do {
               (built, h) \<leftarrow> slot_table_build exprs h;
               case built of
                 None \<Rightarrow> Some (0, renamer_free (outbuf_free h))
               | Some st \<Rightarrow> do {
                   (r, b, h) \<leftarrow> encode d root exprs st r b h;
                   let hash = (if \<not> oom b then siphash24 (map the (take (len b) (data b))) 0 0 else 0);
                   Some (hash, renamer_free (outbuf_free (slot_table_free h)))
                 }
             }))"

section \<open>What the code is compared with\<close>

text \<open>The hash of the tree below a root, 0 if there is none.\<close>

definition hash_of_table :: "nat \<Rightarrow> expr_table \<Rightarrow> u32 \<Rightarrow> u64" where
  "hash_of_table d es root =
     (case tree_of d es root of None \<Rightarrow> 0 | Some t \<Rightarrow> siphash24 (canonical_bytes t) 0 0)"

text \<open>The bytes the hash is taken of: the buffer after the three constructors and the walk, \<open>None\<close>
  if one of them failed.\<close>

definition hashed_stream :: "nat \<Rightarrow> u32 \<Rightarrow> expr_table \<Rightarrow> heap \<Rightarrow> u8 list option" where
  "hashed_stream d root exprs h =
     (case renamer_init h of
        (None, h) \<Rightarrow> None
      | (Some r, h) \<Rightarrow>
          (case outbuf_init h of
             (None, h) \<Rightarrow> None
           | (Some b, h) \<Rightarrow> do {
               (built, h) \<leftarrow> slot_table_build exprs h;
               st \<leftarrow> built;
               (r, b, h) \<leftarrow> encode d root exprs st r b h;
               outbuf_content b
             }))"

text \<open>Example tables: \<open>x + 1\<close> over one variable, laid out in two different ways.\<close>

definition example_add :: expr_table where
  "example_add =
     [\<lparr>code = 0x18, vlen = 0, params = 64, args = []\<rparr>,
      \<lparr>code = 0x08, vlen = 1, params = 64, args = [1]\<rparr>,
      \<lparr>code = 0x00, vlen = 2, params = 64, args = [0, 1]\<rparr>]"

definition example_add' :: expr_table where
  "example_add' =
     [\<lparr>code = 0x08, vlen = 1, params = 64, args = [7]\<rparr>,
      \<lparr>code = 0x08, vlen = 1, params = 64, args = [1]\<rparr>,
      \<lparr>code = 0x18, vlen = 0, params = 64, args = []\<rparr>,
      \<lparr>code = 0x00, vlen = 2, params = 64, args = [4, 2]\<rparr>]"

text \<open>An expression that is its own argument.\<close>

definition self_reference :: expr_table where
  "self_reference = [\<lparr>code = 0x00, vlen = 2, params = 64, args = [0, 0]\<rparr>]"

section \<open>The encoder refines the record stream\<close>

lemma expr_args: "expr_ok e \<Longrightarrow> expr_args e = args e"
  using map_nth [of "args e"] by (simp add: expr_args_def expr_ok_def)

lemma encode_header_appends:
  "appends outbuf_ok outbuf_content (encode_header tag e) (tag # code e # vlen e # u16_le (params e))"
  using ob.push_header [of tag "code e" "vlen e" "params e"]
  by (simp add: encode_header_def [abs_def])

lemma encode_words_appends:
  "appends outbuf_ok outbuf_content (encode_words xs) (concat (map u32_le xs))"
proof (induction xs)
  case Nil
  then show ?case by (simp add: appends_def option.map_ident)
next
  case (Cons x xs)
  then show ?case using ob.push_seq [OF ob.push_u32_le Cons.IH, of x] by simp
qed

text \<open>What a piece of the encoder does to its state, against the records it stands for (\<open>None\<close>: a
  reference below it dangles).\<close>

definition encoded ::
  "heap \<Rightarrow> (record_item list \<times> u32 list) option \<Rightarrow> u8 list \<Rightarrow> (renamer \<times> outbuf \<times> heap) option \<Rightarrow> bool" where
  "encoded h spec ys res \<longleftrightarrow>
     (case res of
        None \<Rightarrow> False
      | Some (r, b, h') \<Rightarrow> outbuf_ok b \<and> live h' = live h \<and> (plenty h \<longrightarrow> plenty h') \<and>
          (case outbuf_content b of
             None \<Rightarrow> \<not> (plenty h \<and> spec \<noteq> None)
           | Some zs \<Rightarrow> \<exists>rs ids. spec = Some (rs, ids) \<and> renamer_seen r ids \<and> zs = ys @ stream_bytes rs))"

lemma encoded_oom [simp]:
  "outbuf_ok b \<Longrightarrow> encoded h spec ys (Some (r, b\<lparr>oom := True\<rparr>, h)) \<longleftrightarrow> \<not> (plenty h \<and> spec \<noteq> None)"
  by (auto simp: encoded_def outbuf_ok_def outbuf_content_def)

lemma encoded_append:
  assumes "appends outbuf_ok outbuf_content f (record_bytes x)"
    and "outbuf_ok b" "outbuf_content b = Some (ys @ stream_bytes rs)" "renamer_seen r ids"
    and "live h' = live h" "plenty h \<longrightarrow> plenty h'"
  shows "encoded h (Some (rs @ [x], ids)) ys (do { (b, h) \<leftarrow> f b h'; Some (r, b, h) })"
proof -
  obtain b1 h1 where "f b h' = Some (b1, h1)" "outbuf_ok b1" "live h1 = live h'" "plenty h' \<longrightarrow> plenty h1"
    "outbuf_content b1 = None \<and> \<not> (plenty h' \<and> outbuf_content b \<noteq> None) \<or>
     outbuf_content b1 = map_option (\<lambda>ys. ys @ record_bytes x) (outbuf_content b)"
    using assms(1,2) unfolding appends_def by blast
  then show ?thesis using assms(3-)
    by (auto simp: encoded_def stream_bytes_def split: option.splits)
qed

text \<open>The records below one slot, and below a list of slots.\<close>

definition slot_records :: "nat \<Rightarrow> expr_table \<Rightarrow> u32 \<Rightarrow> u32 list \<Rightarrow> (record_item list \<times> u32 list) option" where
  "slot_records d es s ids = map_option (\<lambda>t. records t ids) (tree_of d es s)"

definition slots_records :: "nat \<Rightarrow> expr_table \<Rightarrow> u32 list \<Rightarrow> u32 list \<Rightarrow> (record_item list \<times> u32 list) option" where
  "slots_records d es ss ids = map_option (\<lambda>ts. records_list ts ids) (trees_of d es ss)"

lemma slots_records_Cons:
  "slots_records d es (s # ss) ids = do {
     (rs, ids1) \<leftarrow> slot_records d es s ids;
     (rs', ids2) \<leftarrow> slots_records d es ss ids1;
     Some (rs @ rs', ids2)
   }"
  by (cases "tree_of d es s"; cases "trees_of d es ss")
    (simp_all add: slots_records_def slot_records_def split_def)

lemma slot_records_Node:
  assumes "slot_ref es 0 (unat s) = Some i" "\<not> is_leaf (es ! i)"
  shows "slot_records (Suc d) es s ids = do {
     (rs, ids) \<leftarrow> slots_records d es (args (es ! i)) ids;
     Some (rs @ [Record_Internal (code (es ! i)) (vlen (es ! i)) (params (es ! i))], ids)
   }"
  using assms
  by (cases "trees_of d es (args (es ! i))")
    (simp_all add: slots_records_def slot_records_def split_def Let_def)

lemma encode_leaf:
  assumes i: "slot_table_get st s = Some (Some i)" "slot_ref es 0 (unat s) = Some i"
    and e: "es ! i = e" "is_leaf e" "expr_ok e" and s: "s \<noteq> EMPTY"
    and st: "renamer_seen r ids" "outbuf_ok b" "outbuf_content b = Some ys"
  shows "encoded h (slot_records (Suc d) es s ids) ys (encode (Suc d) s es st r b h)"
proof (cases "is_var (code e)")
  case False
  have "appends outbuf_ok outbuf_content (\<lambda>b h. do {
      (b, h) \<leftarrow> encode_header TAG_LEAF_CONST e b h; encode_words (expr_args e) b h })
    (record_bytes (Record_Const (code e) (vlen e) (params e) (args e)))"
    using ob.push_seq [OF encode_header_appends encode_words_appends, of TAG_LEAF_CONST e "args e"] e(3)
    by (simp add: expr_args)
  from encoded_append [OF this st(2), of ys "[]" r ids h h] show ?thesis
    using False i e st by (simp add: slot_records_def stream_bytes_def split_def)
next
  case True
  obtain idx r' h' where int: "renamer_intern r s h = Some (idx, r', h')" "live h' = live h"
    "plenty h \<longrightarrow> plenty h' \<and> idx \<noteq> EMPTY"
    "idx = EMPTY \<and> renamer_seen r' ids \<or> idx = of_nat (position s ids) \<and> renamer_seen r' (note_id s ids)"
    using rn.intern_seen [OF st(1) s] by blast
  show ?thesis
  proof (cases "idx = EMPTY")
    case E: True
    then show ?thesis
      using True i e st int by (simp add: encoded_def outbuf_ok_def outbuf_content_def)
  next
    case False
    have "appends outbuf_ok outbuf_content (\<lambda>b h. do {
        (b, h) \<leftarrow> encode_header TAG_VAR e b h; outbuf_push_u32_le b idx h })
      (record_bytes (Record_Var (code e) (params e) idx))"
      using ob.push_seq [OF encode_header_appends ob.push_u32_le, of TAG_VAR e idx] var_leaf_nullary [OF e(2) True]
      by simp
    from encoded_append [OF this st(2), of ys "[]" r' "note_id s ids" h' h] show ?thesis
      using True False i e st int by (simp add: slot_records_def stream_bytes_def split_def)
  qed
qed

lemma encoded_bind:
  assumes "encoded h spec ys res"
    and "\<And>r b h' rs ids. res = Some (r, b, h') \<Longrightarrow> spec = Some (rs, ids) \<Longrightarrow> renamer_seen r ids \<Longrightarrow>
      outbuf_ok b \<Longrightarrow> \<not> oom b \<Longrightarrow> outbuf_content b = Some (ys @ stream_bytes rs) \<Longrightarrow>
      live h' = live h \<Longrightarrow> plenty h \<longrightarrow> plenty h' \<Longrightarrow> encoded h (k (rs, ids)) ys (f r b h')"
  shows "encoded h (Option.bind spec k) ys
    (do { (r, b, h) \<leftarrow> res; if oom b then Some (r, b, h) else f r b h })"
proof -
  obtain r b h' where res: "res = Some (r, b, h')" "outbuf_ok b" "live h' = live h" "plenty h \<longrightarrow> plenty h'"
    "case outbuf_content b of
           None \<Rightarrow> \<not> (plenty h \<and> spec \<noteq> None)
         | Some zs \<Rightarrow> \<exists>rs ids. spec = Some (rs, ids) \<and> renamer_seen r ids \<and> zs = ys @ stream_bytes rs"
    using assms(1) by (auto simp: encoded_def split: option.splits)
  show ?thesis
  proof (cases "oom b")
    case True
    then have "outbuf_content b = None" by (simp add: outbuf_content_def)
    then show ?thesis using True res by (cases spec) (auto simp: encoded_def)
  next
    case False
    then obtain zs where "outbuf_content b = Some zs" by (simp add: outbuf_content_def)
    then show ?thesis using False res assms(2) by auto
  qed
qed

text \<open>Encoding after some records have been written.\<close>

lemma encoded_prefix:
  assumes "encoded h' spec (ys @ stream_bytes rs) res" "live h' = live h" "plenty h \<longrightarrow> plenty h'"
  shows "encoded h (do { (rs', ids) \<leftarrow> spec; Some (rs @ rs', ids) }) ys res"
proof -
  obtain r b h2 where "res = Some (r, b, h2)" using assms(1) by (auto simp: encoded_def split: option.splits)
  then show ?thesis using assms
    by (cases spec; cases "outbuf_content b") (auto simp: encoded_def stream_bytes_def)
qed

lemma encode_refines:
  assumes st: "table_holds st es" and fits: "table_fits es"
  shows "walk_ends d es s \<Longrightarrow> renamer_seen r ids \<Longrightarrow> outbuf_ok b \<Longrightarrow> outbuf_content b = Some ys \<Longrightarrow>
    encoded h (slot_records d es s ids) ys (encode d s es st r b h)"
proof (induction d arbitrary: s r ids b ys h)
  case (Suc d)
  have get: "slot_table_get st s = Some (slot_ref es 0 (unat s))"
    using slot_table_get_holds [OF st] fits by (simp add: table_fits_def)
  have args: "encoded h (slots_records d es ss ids) ys (encode_args d ss es st r b h)"
    if "list_all (walk_ends d es) ss" "renamer_seen r ids" "outbuf_ok b" "outbuf_content b = Some ys"
    for ss r ids b ys h
    using that
  proof (induction ss arbitrary: r ids b ys h)
    case Nil
    then show ?case by (simp add: encoded_def slots_records_def stream_bytes_def)
  next
    case (Cons a ss)
    have a: "encoded h (slot_records d es a ids) ys (encode d a es st r b h)"
      using Suc.IH Cons.prems by simp
    show ?case
      unfolding slots_records_Cons encode_args.simps
    proof (rule encoded_bind [OF a], unfold split_conv)
      fix r' b' h' rs ids'
      assume st': "renamer_seen r' ids'" "outbuf_ok b'" "outbuf_content b' = Some (ys @ stream_bytes rs)"
        "live h' = live h" "plenty h \<longrightarrow> plenty h'"
      have "encoded h' (slots_records d es ss ids') (ys @ stream_bytes rs) (encode_args d ss es st r' b' h')"
        using Cons st' by simp
      then show "encoded h (do { (rs', ids2) \<leftarrow> slots_records d es ss ids'; Some (rs @ rs', ids2) }) ys
          (encode_args d ss es st r' b' h')"
        using st'(4,5) by (rule encoded_prefix)
    qed
  qed
  show ?case
  proof (cases "slot_ref es 0 (unat s)")
    case None
    then show ?thesis using get Suc.prems by (simp add: slot_records_def)
  next
    case (Some i)
    have e: "expr_ok (es ! i)"
      using fits slot_ref_less [OF Some] by (simp add: table_fits_def list_all_length)
    have s: "s \<noteq> EMPTY"
      using slot_ref_bound [OF Some] fits by (auto simp: table_fits_def)
    show ?thesis
    proof (cases "is_leaf (es ! i)")
      case True
      then show ?thesis using encode_leaf [OF _ Some refl _ e s] get Some Suc.prems by simp
    next
      case False
      have sub: "encoded h (slots_records d es (expr_args (es ! i)) ids) ys
          (encode_args d (expr_args (es ! i)) es st r b h)"
        using args Suc.prems False Some e by (simp add: expr_args)
      have spec: "slot_records (Suc d) es s ids =
          (do { (rs, ids) \<leftarrow> slots_records d es (expr_args (es ! i)) ids;
            Some (rs @ [Record_Internal (code (es ! i)) (vlen (es ! i)) (params (es ! i))], ids) })"
        using slot_records_Node [OF Some False] e by (simp add: expr_args)
      show ?thesis
        unfolding spec encode.simps get Some Option.bind.simps option.case Let_def if_not_P [OF False]
        by (rule encoded_bind [OF sub], unfold split_conv, rule encoded_append)
          (simp_all add: encode_header_appends)
    qed
  qed
qed simp

section \<open>The hash of a table\<close>

lemma trees_of_set: "trees_of d es ss = Some ts \<Longrightarrow> t \<in> set ts \<Longrightarrow> \<exists>s \<in> set ss. tree_of d es s = Some t"
  by (induction ss arbitrary: ts) (auto split: option.splits)

lemma trees_of_length: "trees_of d es ss = Some ts \<Longrightarrow> length ts = length ss"
  by (induction ss arbitrary: ts) (auto split: option.splits)

lemma tree_of_ok:
  assumes "table_fits es"
  shows "tree_of d es s = Some t \<Longrightarrow> tree_ok t"
proof (induction d arbitrary: s t)
  case (Suc d)
  then obtain i where i: "slot_ref es 0 (unat s) = Some i" by (auto split: option.splits)
  have e: "length (args (es ! i)) = unat (vlen (es ! i))"
    using assms slot_ref_less [OF i] by (simp add: table_fits_def list_all_length expr_ok_def)
  have s: "s \<noteq> UINT32_MAX"
    using slot_ref_bound [OF i] assms by (auto simp: table_fits_def)
  show ?case
  proof (cases "is_leaf (es ! i)")
    case True
    then show ?thesis using Suc.prems i e s by (auto simp: Let_def split: if_splits)
  next
    case False
    with Suc.prems i obtain ts where ts: "trees_of d es (args (es ! i)) = Some ts"
      "t = Node (code (es ! i)) (vlen (es ! i)) (params (es ! i)) ts" by (auto simp: Let_def)
    have "list_all tree_ok ts"
      unfolding list_all_iff using Suc.IH trees_of_set [OF ts(1)] by blast
    then show ?thesis using ts e trees_of_length [OF ts(1)] by simp
  qed
qed simp

lemma trees_of_mem: "trees_of d es ss = Some ts \<Longrightarrow> s \<in> set ss \<Longrightarrow> \<exists>t. tree_of d es s = Some t"
  by (induction ss arbitrary: ts) (auto split: option.splits)

lemma tree_of_walk_ends: "tree_of d es s = Some t \<Longrightarrow> walk_ends d es s"
proof (induction d arbitrary: s t)
  case (Suc d)
  then obtain i where i: "slot_ref es 0 (unat s) = Some i" by (auto split: option.splits)
  show ?case
  proof (cases "is_leaf (es ! i)")
    case False
    with Suc.prems i obtain ts where "trees_of d es (args (es ! i)) = Some ts" by (auto simp: Let_def)
    then show ?thesis using Suc.IH trees_of_mem i by (fastforce simp: list_all_iff)
  qed (simp add: i)
qed simp

lemma zovia_canonical_hash_cases:
  assumes fits: "table_fits es" and walk: "walk_ends d es root"
  obtains x h' where "zovia_canonical_hash d root es h = Some (x, h')"
    "x = hash_of_table d es root \<or> x = 0 \<and> \<not> plenty h"
    "live h \<le> live h'" "live h' \<le> live h + (if plenty h then 0 else 1)"
proof -
  obtain a1 a2 h1 h2 where m1: "malloc h = (a1, h1)" "malloc h1 = (a2, h2)"
    and l1: "live h2 = live h + (if a1 then 1 else 0) + (if a2 then 1 else 0)"
    and p1: "plenty h \<longrightarrow> a1 \<and> a2 \<and> plenty h2"
    by (rule malloc_malloc_cases)
  obtain r where r: "renamer_init h = (if a1 \<and> a2 then Some r else None, h2)" "renamer_seen r []"
    using renamer_init_malloc [OF m1] by blast
  obtain a3 h3 where m2: "malloc h2 = (a3, h3)" by (cases "malloc h2")
  have l2: "live h3 = live h2 + (if a3 then 1 else 0)" using live_malloc [OF m2] .
  have p2: "plenty h2 \<longrightarrow> a3 \<and> plenty h3" using m2 by (auto simp: malloc_plenty)
  obtain b where b: "outbuf_init h2 = (if a3 then Some b else None, h3)" "outbuf_ok b" "outbuf_content b = Some []"
    using outbuf_init_ok [OF m2] by blast
  obtain a4 a5 h4 h5 where m3: "malloc h3 = (a4, h4)" "malloc h4 = (a5, h5)"
    and l3: "live h5 = live h3 + (if a4 then 1 else 0) + (if a5 then 1 else 0)"
    and p3: "plenty h3 \<longrightarrow> a4 \<and> a5 \<and> plenty h5"
    by (rule malloc_malloc_cases)
  obtain st where st: "slot_table_build es h3 = Some (if a4 \<and> a5 then Some st else None, h5)" "table_holds st es"
    using slot_table_build_malloc [OF m3] fits by (auto simp: table_fits_def)
  obtain r' b' h6 where enc: "encode d root es st r b h5 = Some (r', b', h6)" "live h6 = live h5"
    "case outbuf_content b' of
       None \<Rightarrow> \<not> (plenty h5 \<and> slot_records d es root [] \<noteq> None)
     | Some zs \<Rightarrow> \<exists>rs ids. slot_records d es root [] = Some (rs, ids) \<and> zs = stream_bytes rs"
    using encode_refines [OF st(2) fits walk r(2) b(2,3), of h5]
    by (auto simp: encoded_def split: option.splits)
  let ?x = "if \<not> oom b' then siphash24 (map the (take (len b') (data b'))) 0 0 else 0"
  have x: "?x = hash_of_table d es root \<or> ?x = 0 \<and> \<not> plenty h5"
    using enc(3) by (auto simp: outbuf_content_def slot_records_def hash_of_table_def canonical_bytes_def
        split: if_splits option.splits)
  show thesis
  proof (cases "a1 \<and> a2 \<and> a3 \<and> a4 \<and> a5")
    case True
    have run: "zovia_canonical_hash d root es h = Some (?x, renamer_free (outbuf_free (slot_table_free h6)))"
      using True r(1) b(1) st(1) enc(1) by (simp add: zovia_canonical_hash_def)
    from x p1 p2 p3 have x': "?x = hash_of_table d es root \<or> ?x = 0 \<and> \<not> plenty h" by blast
    show thesis
      by (rule that [OF run x'])
        (use True enc(2) l1 l2 l3 in \<open>simp_all add: renamer_free_def outbuf_free_def slot_table_free_def\<close>)
  next
    case False
    then have "\<not> plenty h" using p1 p2 p3 by blast
    moreover have "\<exists>h'. zovia_canonical_hash d root es h = Some (0, h') \<and> live h \<le> live h' \<and> live h' \<le> live h + 1"
      using False r(1) b(1) st(1) l1 l2 l3
      by (auto simp: zovia_canonical_hash_def renamer_free_def outbuf_free_def)
    ultimately show thesis using that by auto
  qed
qed

lemma hashed_stream_tree:
  assumes fits: "table_fits es" and t: "tree_of d es root = Some t" and h: "plenty h"
  shows "hashed_stream d root es h = Some (canonical_bytes t)"
proof -
  obtain a1 a2 h1 h2 where m1: "malloc h = (a1, h1)" "malloc h1 = (a2, h2)"
    and p1: "plenty h \<longrightarrow> a1 \<and> a2 \<and> plenty h2"
    by (rule malloc_malloc_cases)
  obtain r where r: "renamer_init h = (if a1 \<and> a2 then Some r else None, h2)" "renamer_seen r []"
    using renamer_init_malloc [OF m1] by blast
  obtain a3 h3 where m2: "malloc h2 = (a3, h3)" by (cases "malloc h2")
  have p2: "plenty h2 \<longrightarrow> a3 \<and> plenty h3" using m2 by (auto simp: malloc_plenty)
  obtain b where b: "outbuf_init h2 = (if a3 then Some b else None, h3)" "outbuf_ok b" "outbuf_content b = Some []"
    using outbuf_init_ok [OF m2] by blast
  obtain a4 a5 h4 h5 where m3: "malloc h3 = (a4, h4)" "malloc h4 = (a5, h5)"
    and p3: "plenty h3 \<longrightarrow> a4 \<and> a5 \<and> plenty h5"
    by (rule malloc_malloc_cases)
  obtain st where st: "slot_table_build es h3 = Some (if a4 \<and> a5 then Some st else None, h5)" "table_holds st es"
    using slot_table_build_malloc [OF m3] fits by (auto simp: table_fits_def)
  obtain r' b' h6 where enc: "encode d root es st r b h5 = Some (r', b', h6)"
    "outbuf_content b' = Some (stream_bytes (fst (records t [])))"
    using encode_refines [OF st(2) fits tree_of_walk_ends [OF t] r(2) b(2,3), of h5] t h p1 p2 p3
    by (auto simp: encoded_def slot_records_def split: option.splits)
  then show ?thesis
    using r(1) b(1) st(1) p1 p2 p3 h by (simp add: hashed_stream_def canonical_bytes_def)
qed

lemma example_add_tree:
  "tree_of 4 example_add 3 = Some (Node 0x00 2 64 [Var 0 0x18 64, Const 0x08 1 64 [1]])"
  by code_simp

lemma example_add'_tree:
  "tree_of 4 example_add' 5 = Some (Node 0x00 2 64 [Var 4 0x18 64, Const 0x08 1 64 [1]])"
  by code_simp

lemma example_fits: "table_fits example_add" "table_fits example_add'"
  by (simp_all add: table_fits_def total_slots_def expr_ok_def example_add_def example_add'_def)

lemma example_alpha:
  "alpha_equiv (Node 0x00 2 64 [Var 0 0x18 64, Const 0x08 1 64 [1]])
     (Node 0x00 2 64 [Var 4 0x18 64, Const 0x08 1 64 [1]])"
  unfolding alpha_equiv_def by (rule exI [of _ "\<lambda>_. 4"]) simp

section \<open>Properties\<close>

text \<open>C1. The canonical hash does not depend on how an expression is laid out: whenever two tables
  hold, below two roots, expressions that agree up to a one-to-one renaming of their variables,
  \<open>zovia_canonical_hash\<close> returns, and returns the same value, for both (while memory lasts).\<close>

theorem canonical_hash_alpha_invariant:
  assumes "table_fits es" "table_fits es'"
    and "tree_of d es root = Some t" "tree_of d' es' root' = Some t'" "alpha_equiv t t'"
    and "plenty h" "plenty h'"
  shows "\<exists>x. map_option fst (zovia_canonical_hash d root es h) = Some x \<and>
    map_option fst (zovia_canonical_hash d' root' es' h') = Some x"
proof -
  obtain x h1 where x: "zovia_canonical_hash d root es h = Some (x, h1)"
    "x = hash_of_table d es root \<or> x = 0 \<and> \<not> plenty h"
    by (rule zovia_canonical_hash_cases [OF assms(1) tree_of_walk_ends [OF assms(3)], of h])
  obtain x' h1' where x': "zovia_canonical_hash d' root' es' h' = Some (x', h1')"
    "x' = hash_of_table d' es' root' \<or> x' = 0 \<and> \<not> plenty h'"
    by (rule zovia_canonical_hash_cases [OF assms(2) tree_of_walk_ends [OF assms(4)], of h'])
  have "x = x'"
    using x(2) x'(2) assms(3-) alpha_canonical_bytes [OF assms(5)] by (simp add: hash_of_table_def)
  then show ?thesis using x(1) x'(1) by simp
qed

theorem canonical_hash_alpha_invariant_witness:
  "\<exists>x. map_option fst (zovia_canonical_hash 4 3 example_add \<lparr>outcomes = [], live = 0\<rparr>) = Some x \<and>
    map_option fst (zovia_canonical_hash 4 5 example_add' \<lparr>outcomes = [], live = 3\<rparr>) = Some x"
  by (rule canonical_hash_alpha_invariant [OF example_fits example_add_tree example_add'_tree example_alpha])
    (simp_all add: plenty_def)

text \<open>C2. Nothing is lost before the bytes are hashed: the streams of two expressions are equal exactly
  when the expressions agree up to a one-to-one renaming of their variables, so two inequivalent
  goals can share a hash only through a collision of SipHash itself.\<close>

theorem hashed_stream_alpha_iff:
  assumes "table_fits es" "table_fits es'"
    and "tree_of d es root = Some t" "tree_of d' es' root' = Some t'"
    and "plenty h" "plenty h'"
  shows "hashed_stream d root es h = hashed_stream d' root' es' h' \<longleftrightarrow> alpha_equiv t t'"
  using hashed_stream_tree [OF assms(1,3,5)] hashed_stream_tree [OF assms(2,4,6)]
    canonical_bytes_alpha [of t t'] alpha_canonical_bytes [of t t'] tree_of_ok assms(1-4)
  by (auto dest: tree_of_ok)

theorem hashed_stream_alpha_iff_witness:
  "hashed_stream 4 3 example_add \<lparr>outcomes = [], live = 0\<rparr> \<noteq>
   hashed_stream 4 1 example_add \<lparr>outcomes = [], live = 0\<rparr>"
proof -
  have sub: "tree_of 4 example_add 1 = Some (Const 0x08 1 64 [1])"
    by code_simp
  show ?thesis
    using hashed_stream_alpha_iff [OF example_fits(1) example_fits(1) example_add_tree sub]
    by (auto simp: plenty_def alpha_equiv_def)
qed

text \<open>C3. What \<open>zovia_canonical_hash\<close> computes, on every table whose walk ends: SipHash-2-4 with key
  0 of the records of the expression tree below the root, 0 if a reference below the root names no
  expression; and it frees all it allocated.\<close>

theorem zovia_canonical_hash_correct:
  assumes "table_fits es" "walk_ends d es root" "plenty h"
  shows "\<exists>h'. zovia_canonical_hash d root es h =
      Some (case tree_of d es root of None \<Rightarrow> 0 | Some t \<Rightarrow> siphash24 (canonical_bytes t) 0 0, h') \<and>
    live h' = live h"
proof -
  obtain x h' where "zovia_canonical_hash d root es h = Some (x, h')"
    "x = hash_of_table d es root \<or> x = 0 \<and> \<not> plenty h"
    "live h \<le> live h'" "live h' \<le> live h + (if plenty h then 0 else 1)"
    by (rule zovia_canonical_hash_cases [OF assms(1,2)])
  with assms(3) show ?thesis by (auto simp: hash_of_table_def)
qed

theorem zovia_canonical_hash_correct_witness:
  "\<exists>h'. zovia_canonical_hash 4 9 example_add \<lparr>outcomes = [], live = 0\<rparr> = Some (0, h') \<and> live h' = 0"
proof -
  have "walk_ends 4 example_add 9" "tree_of 4 example_add 9 = None" by code_simp+
  then show ?thesis
    using zovia_canonical_hash_correct [OF example_fits(1), of 4 9 "\<lparr>outcomes = [], live = 0\<rparr>"]
    by (simp add: plenty_def)
qed

text \<open>C5. Whatever allocations fail, \<open>zovia_canonical_hash\<close> returns, its value is the hash or 0, and at
  most one block stays allocated (the half of a pair whose other half could not be had).\<close>

theorem zovia_canonical_hash_any_heap:
  assumes "table_fits es" "walk_ends d es root"
  shows "\<exists>x h'. zovia_canonical_hash d root es h = Some (x, h') \<and> (x = hash_of_table d es root \<or> x = 0) \<and>
    live h \<le> live h' \<and> live h' \<le> live h + 1"
proof -
  obtain x h' where "zovia_canonical_hash d root es h = Some (x, h')"
    "x = hash_of_table d es root \<or> x = 0 \<and> \<not> plenty h"
    "live h \<le> live h'" "live h' \<le> live h + (if plenty h then 0 else 1)"
    by (rule zovia_canonical_hash_cases [OF assms])
  then show ?thesis by (auto split: if_splits)
qed

theorem zovia_canonical_hash_any_heap_witness:
  "\<exists>x h'. zovia_canonical_hash 4 3 example_add \<lparr>outcomes = [True, True, True, True, False], live = 5\<rparr> = Some (x, h') \<and>
    (x = hash_of_table 4 example_add 3 \<or> x = 0) \<and> 5 \<le> live h' \<and> live h' \<le> 6"
proof -
  have "walk_ends 4 example_add 3" by code_simp
  from zovia_canonical_hash_any_heap [OF example_fits(1) this, of "\<lparr>outcomes = [True, True, True, True, False], live = 5\<rparr>"]
  show ?thesis by simp
qed

text \<open>C6. \<open>encode\<close> terminates on every table whose arguments refer to earlier expressions (or to
  nothing), from any root, with at most one call more on the stack than the table has
  expressions.\<close>

theorem zovia_canonical_hash_terminates:
  assumes "table_fits es" "table_acyclic es" "length es < d"
  shows "\<exists>x h'. zovia_canonical_hash d root es h = Some (x, h')"
proof -
  have "walk_ends d es root"
    using walk_ends_mono [OF walk_ends_acyclic [OF assms(2)]] assms(3) by simp
  then show ?thesis using zovia_canonical_hash_cases [OF assms(1)] by metis
qed

theorem zovia_canonical_hash_terminates_witness:
  "\<exists>x h'. zovia_canonical_hash 5 5 example_add' \<lparr>outcomes = [], live = 0\<rparr> = Some (x, h')"
proof -
  have "table_acyclic example_add'" "length example_add' < 5" by code_simp+
  then show ?thesis by (rule zovia_canonical_hash_terminates [OF example_fits(2)])
qed

lemma encode_self_reference:
  assumes "table_holds st self_reference"
  shows "encode d 0 self_reference st r b h = None"
proof (induction d)
  case (Suc d)
  have "slot_table_get st 0 = Some (Some 0)"
    using slot_table_get_holds [OF assms, of 0] by (simp add: self_reference_def total_slots_def)
  moreover have "\<not> is_leaf (self_reference ! 0)" "expr_args (self_reference ! 0) = [0, 0]"
    by code_simp+
  ultimately show ?case using Suc by simp
qed simp

text \<open>C11. The recursion has no guard of its own: on an expression that is its own argument no call depth
  is enough.\<close>

theorem zovia_canonical_hash_cyclic_diverges:
  assumes "plenty h"
  shows "zovia_canonical_hash d 0 self_reference h = None"
proof -
  have build: "\<exists>t. slot_table_build self_reference h = Some (Some t, h\<lparr>live := live h + 2\<rparr>) \<and> table_holds t self_reference"
    if "plenty h" for h
  proof -
    have "malloc h = (True, h\<lparr>live := live h + 1\<rparr>)"
      "malloc (h\<lparr>live := live h + 1\<rparr>) = (True, h\<lparr>live := live h + 2\<rparr>)"
      using that by (simp_all add: malloc_plenty)
    from slot_table_build_malloc [OF this, of self_reference] show ?thesis
      by (simp add: self_reference_def total_slots_def)
  qed
  obtain t where "slot_table_build self_reference (h\<lparr>live := live h + 3\<rparr>) =
      Some (Some t, h\<lparr>live := live h + 5\<rparr>)" "table_holds t self_reference"
    using build [of "h\<lparr>live := live h + 3\<rparr>"] assms by auto
  then show ?thesis using assms encode_self_reference
    by (simp add: zovia_canonical_hash_def renamer_init_def outbuf_init_def malloc_plenty numeral_3_eq_3)
qed

theorem zovia_canonical_hash_cyclic_diverges_witness:
  "zovia_canonical_hash 1000 0 self_reference \<lparr>outcomes = [], live = 0\<rparr> = None"
  by (rule zovia_canonical_hash_cyclic_diverges) (simp add: plenty_def)

end
