(* ===== verification/Canonical_Hash_Tool.thy ===== *)
theory Canonical_Hash_Tool
  imports Canonical_Hash
begin

text \<open>
  The command line tool \<open>c-ref/canonical_hash_tool.c\<close>: it reads a serialised expression table and a
  root from standard input and prints the canonical hash of the root in hexadecimal.

  Standard input is a list of bytes; a run ends with an exit status and the text written to standard
  output and standard error. Shown here: the tool prints the hash of the table it was given, in 16
  hexadecimal digits that read back as the hash; every truncated input is refused with status 1 and
  nothing on standard output; a successful run frees all it allocated.
\<close>

section \<open>The code\<close>

text \<open>The C library's \<open>%u\<close> and \<open>%016llx\<close>.\<close>

fun show_nat :: "nat \<Rightarrow> string" where
  "show_nat n = (if n < 10 then [char_of (48 + n)] else show_nat (n div 10) @ [char_of (48 + n mod 10)])"

definition hex_digit :: "nat \<Rightarrow> char" where
  "hex_digit n = (if n < 10 then char_of (48 + n) else char_of (87 + n))"

definition show_hex16 :: "u64 \<Rightarrow> string" where
  "show_hex16 x = map (\<lambda>i. hex_digit (unat x div 16 ^ i mod 16)) (rev [0..<16])"

text \<open>A read returns the bytes wanted and the rest of the input; \<open>None\<close> is the return value \<open>-1\<close>.\<close>

definition read_exact :: "u8 list \<Rightarrow> nat \<Rightarrow> (u8 list \<times> u8 list) option" where
  "read_exact f n = (if n \<le> length f then Some (take n f, drop n f) else None)"

definition read_u8 :: "u8 list \<Rightarrow> (u8 \<times> u8 list) option" where
  "read_u8 f = do { (b, f) \<leftarrow> read_exact f 1; Some (b ! 0, f) }"

definition read_u16_le :: "u8 list \<Rightarrow> (u16 \<times> u8 list) option" where
  "read_u16_le f = do { (b, f) \<leftarrow> read_exact f 2; Some (le_u16 (b ! 0) (b ! 1), f) }"

definition read_u32_le :: "u8 list \<Rightarrow> (u32 \<times> u8 list) option" where
  "read_u32_le f = do { (b, f) \<leftarrow> read_exact f 4; Some (le_u32 (b ! 0) (b ! 1) (b ! 2) (b ! 3), f) }"

text \<open>A \<open>return\<close> from \<open>main\<close> before the end: the status and what was written to standard error.\<close>

type_synonym exit_early = "int \<times> string"

definition oom_exit :: exit_early where
  "oom_exit = (2, ''oom'')"

definition short_read :: "string \<Rightarrow> exit_early" where
  "short_read what = (1, what @ '': short read'')"

text \<open>The loop over the arguments of expression \<open>i\<close>, from \<open>k\<close>, \<open>n\<close> of them still to read.\<close>

fun tool_read_args :: "nat \<Rightarrow> nat \<Rightarrow> nat \<Rightarrow> u8 list \<Rightarrow> exit_early + (u32 list \<times> u8 list)" where
  "tool_read_args i k 0 f = Inr ([], f)"
| "tool_read_args i k (Suc n) f =
     (case read_u32_le f of
        None \<Rightarrow> Inl (short_read (''read expr '' @ show_nat i @ '' arg '' @ show_nat k))
      | Some (a, f) \<Rightarrow>
          (case tool_read_args i (k + 1) n f of
             Inl e \<Rightarrow> Inl e
           | Inr (as, f) \<Rightarrow> Inr (a # as, f)))"

text \<open>The loop body for expression \<open>i\<close>. A \<open>vlen\<close> of 0 leaves \<open>args\<close> a null pointer.\<close>

definition tool_read_expr :: "nat \<Rightarrow> u8 list \<Rightarrow> heap \<Rightarrow> exit_early + (zovia_bcf_expr \<times> u8 list \<times> heap)" where
  "tool_read_expr i f h =
     (case do { (c, f) \<leftarrow> read_u8 f; (n, f) \<leftarrow> read_u8 f; (p, f) \<leftarrow> read_u16_le f; Some (c, n, p, f) } of
        None \<Rightarrow> Inl (short_read (''read expr '' @ show_nat i @ '' header''))
      | Some (c, n, p, f) \<Rightarrow>
          if n = 0 then Inr (\<lparr>code = c, vlen = n, params = p, args = []\<rparr>, f, h)
          else
            (let (ok, h) = malloc h in
             if \<not> ok then Inl oom_exit
             else
               (case tool_read_args i 0 (unat n) f of
                  Inl e \<Rightarrow> Inl e
                | Inr (as, f) \<Rightarrow> Inr (\<lparr>code = c, vlen = n, params = p, args = as\<rparr>, f, h))))"

fun tool_read_exprs :: "nat \<Rightarrow> nat \<Rightarrow> u8 list \<Rightarrow> heap \<Rightarrow> exit_early + (expr_table \<times> u8 list \<times> heap)" where
  "tool_read_exprs i 0 f h = Inr ([], f, h)"
| "tool_read_exprs i (Suc n) f h =
     (case tool_read_expr i f h of
        Inl e \<Rightarrow> Inl e
      | Inr (e, f, h) \<Rightarrow>
          (case tool_read_exprs (i + 1) n f h of
             Inl e \<Rightarrow> Inl e
           | Inr (es, f, h) \<Rightarrow> Inr (e # es, f, h)))"

text \<open>The frees at the end: the argument buffer of each expression that has one, then the two arrays
  (null pointers when the table is empty).\<close>

definition tool_free :: "expr_table \<Rightarrow> heap \<Rightarrow> heap" where
  "tool_free es h =
     (let h = foldl (\<lambda>h e. free (vlen e \<noteq> 0) h) h es
      in free (es \<noteq> []) (free (es \<noteq> []) h))"

record tool_run =
  status :: int
  stdout :: string
  stderr :: string

definition tool_exit :: "exit_early \<Rightarrow> tool_run" where
  "tool_exit e = \<lparr>status = fst e, stdout = [], stderr = snd e @ [CHR 0x0A]\<rparr>"

text \<open>\<open>main\<close>; the heap is returned for a run that reaches the end, since an early exit leaves its
  blocks to the operating system.\<close>

definition tool_main :: "nat \<Rightarrow> u8 list \<Rightarrow> heap \<Rightarrow> (tool_run \<times> heap option) option" where
  "tool_main d stdin h =
     (case read_u32_le stdin of
        None \<Rightarrow> Some (tool_exit (short_read ''read expr_count''), None)
      | Some (expr_count, f) \<Rightarrow>
          (let (exprs_ok, h) = (if 0 < expr_count then malloc h else (True, h));
               (bufs_ok, h) = (if 0 < expr_count then malloc h else (True, h))
           in if \<not> exprs_ok \<or> \<not> bufs_ok then Some (tool_exit oom_exit, None)
              else
                (case tool_read_exprs 0 (unat expr_count) f h of
                   Inl e \<Rightarrow> Some (tool_exit e, None)
                 | Inr (exprs, f, h) \<Rightarrow>
                     (case read_u32_le f of
                        None \<Rightarrow> Some (tool_exit (short_read ''read root''), None)
                      | Some (root, f) \<Rightarrow> do {
                          (x, h) \<leftarrow> zovia_canonical_hash d root exprs h;
                          Some (\<lparr>status = 0, stdout = show_hex16 x @ [CHR 0x0A], stderr = []\<rparr>,
                                Some (tool_free exprs h))
                        }))))"

text \<open>The input format, from the head comment of the tool.\<close>

definition expr_input :: "zovia_bcf_expr \<Rightarrow> u8 list" where
  "expr_input e = code e # vlen e # u16_le (params e) @ concat (map u32_le (args e))"

definition tool_input :: "expr_table \<Rightarrow> u32 \<Rightarrow> u8 list" where
  "tool_input es root = u32_le (of_nat (length es)) @ concat (map expr_input es) @ u32_le root"

text \<open>Reading hexadecimal digits back.\<close>

definition hex_value :: "char \<Rightarrow> nat" where
  "hex_value c = (if of_char c < (58::nat) then of_char c - 48 else of_char c - 87)"

definition hex16_value :: "string \<Rightarrow> u64" where
  "hex16_value s = of_nat (foldl (\<lambda>v c. 16 * v + hex_value c) 0 s)"

section \<open>Reading\<close>

declare show_nat.simps [simp del]

lemma read_u8_Cons [simp]: "read_u8 (b # f) = Some (b, f)"
  by (simp add: read_u8_def read_exact_def)

lemma read_u16_bytes [simp]: "read_u16_le (u16_le v @ f) = Some (v, f)"
  by (simp add: read_u16_le_def read_exact_def u16_le_def)

lemma read_u32_bytes [simp]: "read_u32_le (u32_le v @ f) = Some (v, f)"
  by (simp add: read_u32_le_def read_exact_def u32_le_def)

lemma read_u32_bytes' [simp]: "read_u32_le (u32_le v) = Some (v, [])"
  using read_u32_bytes [of v "[]"] by simp

lemma tool_read_args_bytes:
  "n = length xs \<Longrightarrow> tool_read_args i k n (concat (map u32_le xs) @ f) = Inr (xs, f)"
  by (induction xs arbitrary: k n) simp_all

lemma tool_read_expr_bytes:
  assumes "expr_ok e" "plenty h"
  shows "tool_read_expr i (expr_input e @ f) h =
    Inr (e, f, h\<lparr>live := live h + (if vlen e \<noteq> 0 then 1 else 0)\<rparr>)"
proof -
  have "args e = []" if "vlen e = 0" using assms(1) that by (simp add: expr_ok_def)
  then show ?thesis
    using assms tool_read_args_bytes [of "unat (vlen e)" "args e" i 0 f]
    by (simp add: tool_read_expr_def expr_input_def malloc_plenty expr_ok_def)
qed

definition arg_blocks :: "expr_table \<Rightarrow> nat" where
  "arg_blocks es = length (filter (\<lambda>e. vlen e \<noteq> 0) es)"

lemma tool_read_exprs_bytes:
  assumes "list_all expr_ok es" "plenty h" "n = length es"
  shows "tool_read_exprs i n (concat (map expr_input es) @ f) h = Inr (es, f, h\<lparr>live := live h + arg_blocks es\<rparr>)"
  using assms
proof (induction es arbitrary: i n h)
  case Nil
  then show ?case by (simp add: arg_blocks_def)
next
  case (Cons e es)
  then show ?case
    using tool_read_expr_bytes [of e h i "concat (map expr_input es) @ f"]
    by (simp add: arg_blocks_def)
qed

lemma live_tool_free:
  "live (tool_free es h) = live h - arg_blocks es - (if es \<noteq> [] then 2 else 0)"
proof -
  have "live (foldl (\<lambda>h e. free (vlen e \<noteq> 0) h) h es) = live h - arg_blocks es"
    by (induction es arbitrary: h) (auto simp: arg_blocks_def)
  then show ?thesis by (simp add: tool_free_def Let_def)
qed

section \<open>Reading only looks at what it consumes\<close>

lemma read_exact_append: "read_exact f n = Some (b, r) \<Longrightarrow> read_exact (f @ q) n = Some (b, r @ q)"
  by (auto simp: read_exact_def split: if_splits)

lemma read_u8_append: "read_u8 f = Some (x, r) \<Longrightarrow> read_u8 (f @ q) = Some (x, r @ q)"
  unfolding read_u8_def by (auto simp: bind_eq_Some_conv dest: read_exact_append)

lemma read_u16_append: "read_u16_le f = Some (x, r) \<Longrightarrow> read_u16_le (f @ q) = Some (x, r @ q)"
  unfolding read_u16_le_def by (auto simp: bind_eq_Some_conv dest: read_exact_append)

lemma read_u32_append: "read_u32_le f = Some (x, r) \<Longrightarrow> read_u32_le (f @ q) = Some (x, r @ q)"
  unfolding read_u32_le_def by (auto simp: bind_eq_Some_conv dest: read_exact_append)

lemma tool_read_args_append:
  "tool_read_args i k n f = Inr (as, r) \<Longrightarrow> tool_read_args i k n (f @ q) = Inr (as, r @ q)"
  by (induction n arbitrary: k f as)
    (auto simp: read_u32_append split: option.splits sum.splits)

lemma tool_read_expr_append:
  assumes "tool_read_expr i f h = Inr (e, r, h')"
  shows "tool_read_expr i (f @ q) h = Inr (e, r @ q, h')"
proof -
  obtain c f1 n f2 p f3 where hd: "read_u8 f = Some (c, f1)" "read_u8 f1 = Some (n, f2)"
    "read_u16_le f2 = Some (p, f3)"
    using assms by (auto simp: tool_read_expr_def bind_eq_Some_conv split: option.splits)
  then have hd': "read_u8 (f @ q) = Some (c, f1 @ q)" "read_u8 (f1 @ q) = Some (n, f2 @ q)"
    "read_u16_le (f2 @ q) = Some (p, f3 @ q)"
    using read_u8_append read_u16_append by blast+
  show ?thesis
    using assms hd hd'
    by (auto simp: tool_read_expr_def tool_read_args_append split: if_splits prod.splits sum.splits)
qed

lemma tool_read_exprs_append:
  "tool_read_exprs i n f h = Inr (es, r, h') \<Longrightarrow> tool_read_exprs i n (f @ q) h = Inr (es, r @ q, h')"
proof (induction n arbitrary: i f h es)
  case (Suc n)
  then obtain e f1 h1 es1 where "tool_read_expr i f h = Inr (e, f1, h1)"
    "tool_read_exprs (i + 1) n f1 h1 = Inr (es1, r, h')" "es = e # es1"
    by (auto split: sum.splits)
  with Suc.IH tool_read_expr_append [of i f h e f1 h1 q] show ?case by simp
qed simp

text \<open>While memory lasts the only early exits are short reads.\<close>

lemma tool_read_args_status: "tool_read_args i k n f = Inl e \<Longrightarrow> fst e = 1"
  by (induction n arbitrary: k f) (auto simp: short_read_def split: option.splits sum.splits)

lemma tool_read_expr_status:
  assumes "plenty h"
  shows "tool_read_expr i f h = Inl e \<Longrightarrow> fst e = 1" "tool_read_expr i f h = Inr (x, f', h') \<Longrightarrow> plenty h'"
  using assms
  by (auto simp: tool_read_expr_def malloc_plenty short_read_def
      split: option.splits if_splits sum.splits dest: tool_read_args_status)

lemma tool_read_exprs_status:
  "plenty h \<Longrightarrow> tool_read_exprs i n f h = Inl e \<Longrightarrow> fst e = 1"
proof (induction n arbitrary: i f h)
  case (Suc n)
  show ?case
  proof (cases "tool_read_expr i f h")
    case (Inl a)
    then show ?thesis using Suc.prems tool_read_expr_status(1) by auto
  next
    case (Inr b)
    obtain x f' h' where b: "b = (x, f', h')" by (cases b)
    then have "plenty h'" using Inr Suc.prems(1) tool_read_expr_status(2) by blast
    then show ?thesis using Suc Inr b by (auto split: sum.splits)
  qed
qed simp

section \<open>Hexadecimal\<close>

lemma hex_value_digit: "n < 16 \<Longrightarrow> hex_value (hex_digit n) = n"
  by (simp add: hex_value_def hex_digit_def)

lemma hex_digits_value:
  "foldl (\<lambda>v c. 16 * v + hex_value c) acc (map (\<lambda>i. hex_digit (n div 16 ^ i mod 16)) (rev [0..<k])) =
     acc * 16 ^ k + n mod 16 ^ k"
proof (induction k arbitrary: acc)
  case (Suc k)
  have "n mod 16 ^ Suc k = 16 ^ k * (n div 16 ^ k mod 16) + n mod 16 ^ k"
    using mod_mult2_eq [of n "16 ^ k" 16] by (simp add: mult.commute)
  then show ?case using Suc [of "16 * acc + n div 16 ^ k mod 16"]
    by (simp add: hex_value_digit algebra_simps)
qed simp

lemma hex16_value_show: "hex16_value (show_hex16 x) = x"
proof -
  have "unat x < 16 ^ 16" using unsigned_less [of x] by simp
  then have "foldl (\<lambda>v c. 16 * v + hex_value c) 0 (show_hex16 x) = unat x"
    unfolding show_hex16_def hex_digits_value by (simp only: mult_zero_left add_0 mod_less)
  then show ?thesis by (simp add: hex16_value_def)
qed

lemma length_show_hex16: "length (show_hex16 x) = 16"
  by (simp add: show_hex16_def)

section \<open>Properties\<close>

lemma unat_of_nat_length: "table_fits es \<Longrightarrow> unat (of_nat (length es) :: u32) = length es"
  using length_le_total_slots [of es] by (simp add: table_fits_def unsigned_of_nat take_bit_nat_eq_self)

lemma tool_main_input:
  assumes "table_fits es" "plenty h"
  obtains h' where "tool_main d (tool_input es root) h = do {
      (x, h'') \<leftarrow> zovia_canonical_hash d root es h';
      Some (\<lparr>status = 0, stdout = show_hex16 x @ [CHR 0x0A], stderr = []\<rparr>, Some (tool_free es h''))
    }" "plenty h'" "live h' = live h + arg_blocks es + (if es \<noteq> [] then 2 else 0)"
proof
  let ?h = "h\<lparr>live := live h + (if es \<noteq> [] then 2 else 0)\<rparr>"
  have pos: "0 < (of_nat (length es) :: u32) \<longleftrightarrow> es \<noteq> []"
    using unat_of_nat_length [OF assms(1)] by (metis length_greater_0_conv unat_0 word_gt_0 word_less_nat_alt)
  have "tool_read_exprs 0 (length es) (concat (map expr_input es) @ u32_le root) ?h =
      Inr (es, u32_le root, ?h\<lparr>live := live ?h + arg_blocks es\<rparr>)"
    using assms by (intro tool_read_exprs_bytes) (simp_all add: table_fits_def)
  then show "tool_main d (tool_input es root) h = do {
      (x, h'') \<leftarrow> zovia_canonical_hash d root es (?h\<lparr>live := live ?h + arg_blocks es\<rparr>);
      Some (\<lparr>status = 0, stdout = show_hex16 x @ [CHR 0x0A], stderr = []\<rparr>, Some (tool_free es h''))
    }"
    using assms pos unat_of_nat_length [OF assms(1)]
    by (cases "es = []") (simp_all add: tool_main_def tool_input_def malloc_plenty)
qed (use assms in simp_all)

text \<open>C4. Given a serialised table and root the tool exits with status 0 and prints the canonical hash
  of the root: 16 hexadecimal digits, which read back as the hash, and a newline. It frees all it
  allocated.\<close>

theorem tool_prints_hash:
  assumes "table_fits es" "walk_ends d es root" "plenty h"
  shows "\<exists>digits h'. tool_main d (tool_input es root) h =
      Some (\<lparr>status = 0, stdout = digits @ [CHR 0x0A], stderr = []\<rparr>, Some h') \<and>
    length digits = 16 \<and> hex16_value digits = hash_of_table d es root \<and> live h' = live h"
proof -
  obtain h1 where 1: "tool_main d (tool_input es root) h = do {
      (x, h'') \<leftarrow> zovia_canonical_hash d root es h1;
      Some (\<lparr>status = 0, stdout = show_hex16 x @ [CHR 0x0A], stderr = []\<rparr>, Some (tool_free es h''))
    }" "plenty h1" "live h1 = live h + arg_blocks es + (if es \<noteq> [] then 2 else 0)"
    by (rule tool_main_input [OF assms(1,3)])
  obtain x h2 where 2: "zovia_canonical_hash d root es h1 = Some (x, h2)"
    "x = hash_of_table d es root \<or> x = 0 \<and> \<not> plenty h1"
    "live h1 \<le> live h2" "live h2 \<le> live h1 + (if plenty h1 then 0 else 1)"
    by (rule zovia_canonical_hash_cases [OF assms(1,2)])
  then have "live (tool_free es h2) = live h" "x = hash_of_table d es root"
    using 1(2,3) by (auto simp: live_tool_free)
  then show ?thesis using 1(1) 2(1) by (auto simp: length_show_hex16 hex16_value_show)
qed

theorem tool_prints_hash_witness:
  "\<exists>digits h'. tool_main 4 (tool_input example_add 3) \<lparr>outcomes = [], live = 0\<rparr> =
      Some (\<lparr>status = 0, stdout = digits @ [CHR 0x0A], stderr = []\<rparr>, Some h') \<and>
    length digits = 16 \<and> hex16_value digits = hash_of_table 4 example_add 3 \<and> live h' = 0"
proof -
  have "walk_ends 4 example_add 3" by code_simp
  from tool_prints_hash [OF example_fits(1) this, of "\<lparr>outcomes = [], live = 0\<rparr>"] show ?thesis
    by (simp add: plenty_def)
qed

text \<open>C10. Every proper prefix of a serialised table and root is refused: the tool exits with status 1
  and writes nothing to standard output.\<close>

theorem tool_rejects_truncated:
  assumes "table_fits es" "tool_input es root = p @ q" "q \<noteq> []" "plenty h"
  shows "\<exists>err. tool_main d p h = Some (\<lparr>status = 1, stdout = [], stderr = err\<rparr>, None)"
proof (cases "read_u32_le p")
  case None
  then show ?thesis by (simp add: tool_main_def tool_exit_def short_read_def)
next
  case (Some a)
  obtain n f where a: "a = (n, f)" by (cases a)
  with Some have "read_u32_le (p @ q) = Some (n, f @ q)" by (simp add: read_u32_append)
  then have n: "n = of_nat (length es)" and f: "f @ q = concat (map expr_input es) @ u32_le root"
    using assms(2) by (simp_all add: tool_input_def flip: assms(2))
  define h1 where "h1 = h\<lparr>live := live h + (if 0 < n then 2 else 0)\<rparr>"
  have h1: "plenty h1" using assms(4) by (simp add: h1_def)
  have main: "tool_main d p h = (case tool_read_exprs 0 (unat n) f h1 of
       Inl e \<Rightarrow> Some (tool_exit e, None)
     | Inr (exprs, f, h) \<Rightarrow>
         (case read_u32_le f of
            None \<Rightarrow> Some (tool_exit (short_read ''read root''), None)
          | Some (root, f) \<Rightarrow> do {
              (x, h) \<leftarrow> zovia_canonical_hash d root exprs h;
              Some (\<lparr>status = 0, stdout = show_hex16 x @ [CHR 0x0A], stderr = []\<rparr>, Some (tool_free exprs h))
            }))"
    using Some a assms(4) by (cases "0 < n") (simp_all add: tool_main_def malloc_plenty h1_def)
  show ?thesis
  proof (cases "tool_read_exprs 0 (unat n) f h1")
    case (Inl e)
    then show ?thesis using main tool_read_exprs_status [OF h1 Inl] by (simp add: tool_exit_def)
  next
    case (Inr r)
    obtain es' f' h' where r: "r = (es', f', h')" by (cases r)
    have "tool_read_exprs 0 (unat n) (f @ q) h1 = Inr (es', f' @ q, h')"
      using Inr r tool_read_exprs_append by blast
    moreover have "tool_read_exprs 0 (unat n) (f @ q) h1 = Inr (es, u32_le root, h1\<lparr>live := live h1 + arg_blocks es\<rparr>)"
      unfolding f using assms(1) h1 unat_of_nat_length [OF assms(1)] n
      by (intro tool_read_exprs_bytes) (simp_all add: table_fits_def)
    ultimately have "f' @ q = u32_le root" by simp
    then have "length f' < 4" using assms(3) by (metis append_Nil2 length_append length_greater_0_conv length_u32_le less_add_same_cancel1)
    then have "read_u32_le f' = None" by (simp add: read_u32_le_def read_exact_def)
    then show ?thesis using main Inr r by (simp add: tool_exit_def short_read_def)
  qed
qed

theorem tool_rejects_truncated_witness:
  "\<exists>err. tool_main 4 (butlast (tool_input example_add 3)) \<lparr>outcomes = [], live = 0\<rparr> =
     Some (\<lparr>status = 1, stdout = [], stderr = err\<rparr>, None)"
proof -
  have "tool_input example_add 3 = butlast (tool_input example_add 3) @ [last (tool_input example_add 3)]"
    by (intro append_butlast_last_id [symmetric]) (simp add: tool_input_def u32_le_def)
  then show ?thesis by (rule tool_rejects_truncated [OF example_fits(1)]) (simp_all add: plenty_def)
qed

end
