(* ===== verification/Kernel_Hash.thy ===== *)
theory Kernel_Hash
  imports Canonical_Hash
begin

text \<open>
  The kernel implementation of the canonical hash, \<open>kernel/bpf/canonical_hash.c\<close> as added by
  \<open>linux-deltas/patches/0001\<close>: the walk keeps an explicit stack of at most 64 frames, errors are
  negative return codes, and every return path frees what was allocated.

  The code was written for an array of expressions of equal size. \<open>struct bcf_expr\<close> is one word with a flexible array behind it, so that
  \<open>exprs[i]\<close> is the \<open>i\<close>-th word of the buffer, and the slot map sends the slot of the \<open>i\<close>-th expression to the word \<open>i\<close>; see
  \<open>kmem\<close> below. The variable renamer of the patch is
  line for line the one of the userspace reference and its model is reused; the capacities of the
  tables are unbounded here where the patch has \<open>u32\<close> (an allocation of \<open>2^31\<close> words fails first),
  except in the loop that computes the capacity of the slot map before anything is allocated, where
  the wrap-around is written out.

  Shown here: the walk returns on every content of the memory, frees what it allocated, and succeeds exactly on
  expressions (as the code reads them) at most 64 deep, with the stream of \<open>Record_Stream\<close> in its buffer; the hash is the one of
  the userspace reference for expressions in front of which none has arguments; and for the expression behind the first with arguments it is
  the hash of that argument, taken for a header.
\<close>

unbundle bit_operations_syntax

section \<open>The code\<close>

definition E2BIG :: int where "E2BIG = 7"
definition ENOMEM :: int where "ENOMEM = 12"
definition EINVAL :: int where "EINVAL = 22"

definition BCF_HASH_MAX_DEPTH :: nat where "BCF_HASH_MAX_DEPTH = 64"

text \<open>\<open>while (cap < (u32)nr_exprs * 2 + 1) cap *= 2;\<close> on \<open>u32\<close> values.\<close>

partial_function (option) double_until_u32 :: "u32 \<Rightarrow> u32 \<Rightarrow> u32 option" where
  "double_until_u32 c need = (if c < need then double_until_u32 (c * 2) need else Some c)"

declare double_until_u32.simps [code]

text \<open>
  \<open>struct bcf_expr\<close> is a word, with \<open>code\<close> in its lowest byte, \<open>vlen\<close> in the next and \<open>params\<close> above them, and a flexible array
  of arguments behind it. Its size is that of the word, so \<open>exprs[i]\<close> is the header at the \<open>i\<close>-th word of the buffer, whatever an expression
  has in that place, and its \<open>args\<close> are the words behind. \<open>kmem\<close> is the memory from \<open>exprs\<close> on, by words; where the buffer ends does
  not stop a read.
\<close>

type_synonym kmem = "nat \<Rightarrow> u32"

definition expr_at :: "kmem \<Rightarrow> nat \<Rightarrow> zovia_bcf_expr" where
  "expr_at mem i =
     (let n = ucast (drop_bit 8 (mem i)) in
      \<lparr>code = ucast (mem i), vlen = n, params = ucast (drop_bit 16 (mem i)), args = map (\<lambda>j. mem (i + 1 + j)) [0..<unat n]\<rparr>)"

text \<open>\<open>exprs[0]\<close>, \<open>exprs[1]\<close>, ...\<close>

definition kexprs :: "kmem \<Rightarrow> u32 \<Rightarrow> expr_table" where
  "kexprs mem nr = map (expr_at mem) [0..<unat nr]"

text \<open>\<open>bcf_slot_map_build\<close>: \<open>Inl\<close> is an error code. Both blocks are freed again on failure.\<close>

definition bcf_slot_map_build :: "kmem \<Rightarrow> u32 \<Rightarrow> heap \<Rightarrow> ((int + slot_table) \<times> heap) option" where
  "bcf_slot_map_build exprs nr_exprs h = do {
     cap \<leftarrow> double_until_u32 16 (nr_exprs * 2 + 1);
     let (keys_ok, h) = malloc h;
     let (vals_ok, h) = malloc h;
     if \<not> keys_ok \<or> \<not> vals_ok then Some (Inl (- ENOMEM), free vals_ok (free keys_ok h))
     else do {
       (keys, vals) \<leftarrow> slot_table_fill (kexprs exprs nr_exprs) 0 0 (unat cap)
                         (replicate (unat cap) EMPTY) (replicate (unat cap) None);
       Some (Inr \<lparr>st_keys = keys, st_vals = vals, st_cap = unat cap\<rparr>, h)
     }
   }"

text \<open>\<open>bcf_slot_map_get\<close> returns \<open>U32_MAX\<close> on a miss.\<close>

definition bcf_slot_map_get :: "slot_table \<Rightarrow> u32 \<Rightarrow> u32 option" where
  "bcf_slot_map_get m slot = do {
     j \<leftarrow> probe_key (st_keys m) (st_cap m) slot (slot_hash slot (st_cap m));
     if st_keys m ! j \<noteq> EMPTY then Some (the (st_vals m ! j)) else Some UINT32_MAX
   }"

definition bcf_slot_map_free :: "heap \<Rightarrow> heap" where
  "bcf_slot_map_free h = free True (free True h)"

definition bcf_var_renamer_init :: "heap \<Rightarrow> (int + renamer) \<times> heap" where
  "bcf_var_renamer_init h =
     (let (keys_ok, h) = malloc h;
          (vals_ok, h) = malloc h
      in if \<not> keys_ok \<or> \<not> vals_ok then (Inl (- ENOMEM), free vals_ok (free keys_ok h))
         else (Inr \<lparr>rn_keys = replicate 16 EMPTY, rn_vals = replicate 16 None, rn_cap = 16,
                     rn_used = 0, rn_next = 0\<rparr>, h))"

definition bcf_var_renamer_free :: "heap \<Rightarrow> heap" where
  "bcf_var_renamer_free h = free True (free True h)"

definition bcf_var_renamer_intern :: "renamer \<Rightarrow> u32 \<Rightarrow> heap \<Rightarrow> (u32 \<times> renamer \<times> heap) option" where
  "bcf_var_renamer_intern r expr_id h = renamer_intern r expr_id h"

record bcf_hash_outbuf =
  kb_data :: "u8 option list"
  kb_len :: nat
  kb_cap :: nat

definition bcf_hash_outbuf_init :: "heap \<Rightarrow> (int + bcf_hash_outbuf) \<times> heap" where
  "bcf_hash_outbuf_init h =
     (let (ok, h) = malloc h
      in (if ok then Inr \<lparr>kb_data = replicate 64 None, kb_len = 0, kb_cap = 64\<rparr> else Inl (- ENOMEM), h))"

definition bcf_hash_outbuf_free :: "heap \<Rightarrow> heap" where
  "bcf_hash_outbuf_free h = free True h"

definition bcf_hash_outbuf_reserve :: "bcf_hash_outbuf \<Rightarrow> nat \<Rightarrow> heap \<Rightarrow> (int \<times> bcf_hash_outbuf \<times> heap) option" where
  "bcf_hash_outbuf_reserve b extra h =
     (if kb_len b + extra \<le> kb_cap b then Some (0, b, h)
      else do {
        nc \<leftarrow> double_until (kb_cap b) (kb_len b + extra);
        let (ok, h) = realloc h;
        if \<not> ok then Some (- ENOMEM, b, h)
        else Some (0, b\<lparr>kb_data := kb_data b @ replicate (nc - kb_cap b) None, kb_cap := nc\<rparr>, h)
      })"

definition kb_put :: "bcf_hash_outbuf \<Rightarrow> u8 \<Rightarrow> bcf_hash_outbuf" where
  "kb_put b v = b\<lparr>kb_data := (kb_data b)[kb_len b := Some v], kb_len := kb_len b + 1\<rparr>"

definition bcf_hash_outbuf_push_u8 :: "bcf_hash_outbuf \<Rightarrow> u8 \<Rightarrow> heap \<Rightarrow> (int \<times> bcf_hash_outbuf \<times> heap) option" where
  "bcf_hash_outbuf_push_u8 b v h = do {
     (err, b, h) \<leftarrow> bcf_hash_outbuf_reserve b 1 h;
     if err \<noteq> 0 then Some (err, b, h) else Some (0, kb_put b v, h)
   }"

definition bcf_hash_outbuf_push_u16_le :: "bcf_hash_outbuf \<Rightarrow> u16 \<Rightarrow> heap \<Rightarrow> (int \<times> bcf_hash_outbuf \<times> heap) option" where
  "bcf_hash_outbuf_push_u16_le b v h = do {
     (err, b, h) \<leftarrow> bcf_hash_outbuf_reserve b 2 h;
     if err \<noteq> 0 then Some (err, b, h)
     else Some (0, kb_put (kb_put b (ucast (v AND 0xff))) (ucast (drop_bit 8 v AND 0xff)), h)
   }"

definition bcf_hash_outbuf_push_u32_le :: "bcf_hash_outbuf \<Rightarrow> u32 \<Rightarrow> heap \<Rightarrow> (int \<times> bcf_hash_outbuf \<times> heap) option" where
  "bcf_hash_outbuf_push_u32_le b v h = do {
     (err, b, h) \<leftarrow> bcf_hash_outbuf_reserve b 4 h;
     if err \<noteq> 0 then Some (err, b, h)
     else do {
       let b = kb_put b (ucast (v AND 0xff));
       let b = kb_put b (ucast (drop_bit 8 v AND 0xff));
       let b = kb_put b (ucast (drop_bit 16 v AND 0xff));
       let b = kb_put b (ucast (drop_bit 24 v AND 0xff));
       Some (0, b, h)
     }
   }"

text \<open>\<open>if (!err) err = push(buf, ...)\<close>, with \<open>err\<close> and the buffer as one state.\<close>

type_synonym kbuf_state = "int \<times> bcf_hash_outbuf"

definition unless_err ::
  "(bcf_hash_outbuf \<Rightarrow> heap \<Rightarrow> (int \<times> bcf_hash_outbuf \<times> heap) option) \<Rightarrow> kbuf_state \<Rightarrow> heap \<Rightarrow> (kbuf_state \<times> heap) option" where
  "unless_err push s h =
     (if fst s \<noteq> 0 then Some (s, h)
      else do { (err, b, h) \<leftarrow> push (snd s) h; Some ((err, b), h) })"

abbreviation kpush_u8 :: "kbuf_state \<Rightarrow> u8 \<Rightarrow> heap \<Rightarrow> (kbuf_state \<times> heap) option" where
  "kpush_u8 s v \<equiv> unless_err (\<lambda>b. bcf_hash_outbuf_push_u8 b v) s"

abbreviation kpush_u16_le :: "kbuf_state \<Rightarrow> u16 \<Rightarrow> heap \<Rightarrow> (kbuf_state \<times> heap) option" where
  "kpush_u16_le s v \<equiv> unless_err (\<lambda>b. bcf_hash_outbuf_push_u16_le b v) s"

abbreviation kpush_u32_le :: "kbuf_state \<Rightarrow> u32 \<Rightarrow> heap \<Rightarrow> (kbuf_state \<times> heap) option" where
  "kpush_u32_le s v \<equiv> unless_err (\<lambda>b. bcf_hash_outbuf_push_u32_le b v) s"

definition kemit_header :: "u8 \<Rightarrow> zovia_bcf_expr \<Rightarrow> kbuf_state \<Rightarrow> heap \<Rightarrow> (kbuf_state \<times> heap) option" where
  "kemit_header tag e s h = do {
     (s, h) \<leftarrow> kpush_u8 s tag h;
     (s, h) \<leftarrow> kpush_u8 s (code e) h;
     (s, h) \<leftarrow> kpush_u8 s (vlen e) h;
     kpush_u16_le s (params e) h
   }"

text \<open>\<open>for (i = 0; i < e->vlen && !err; i++) err = bcf_hash_outbuf_push_u32_le(buf, e->args[i]);\<close>\<close>

fun kemit_words :: "u32 list \<Rightarrow> kbuf_state \<Rightarrow> heap \<Rightarrow> (kbuf_state \<times> heap) option" where
  "kemit_words [] s h = Some (s, h)"
| "kemit_words (x # xs) s h = do { (s, h) \<leftarrow> kpush_u32_le s x h; kemit_words xs s h }"

definition kemit_var :: "zovia_bcf_expr \<Rightarrow> u32 \<Rightarrow> kbuf_state \<Rightarrow> heap \<Rightarrow> (kbuf_state \<times> heap) option" where
  "kemit_var e idx s h = do {
     (s, h) \<leftarrow> kemit_header TAG_VAR e s h;
     (s, h) \<leftarrow> kpush_u32_le s idx h;
     kemit_words (expr_args e) s h
   }"

definition kemit_const :: "zovia_bcf_expr \<Rightarrow> kbuf_state \<Rightarrow> heap \<Rightarrow> (kbuf_state \<times> heap) option" where
  "kemit_const e s h = do { (s, h) \<leftarrow> kemit_header TAG_LEAF_CONST e s h; kemit_words (expr_args e) s h }"

record bcf_hash_frame =
  array_idx :: u32
  expr_id :: u32
  next_arg :: u8

text \<open>The \<open>while (sp > 0)\<close> loop; the top of the stack is the head of the list.\<close>

partial_function (option) bcf_hash_walk ::
  "kmem \<Rightarrow> u32 \<Rightarrow> slot_table \<Rightarrow> bcf_hash_frame list \<Rightarrow> renamer \<Rightarrow> bcf_hash_outbuf \<Rightarrow> heap \<Rightarrow>
    (int \<times> renamer \<times> bcf_hash_outbuf \<times> heap) option" where
  "bcf_hash_walk exprs nr_exprs slots stack vr buf h =
     (case stack of
        [] \<Rightarrow> Some (0, vr, buf, h)
      | f # rest \<Rightarrow>
          (let e = expr_at exprs (unat (array_idx f)) in
           if is_leaf e then
             if is_var (code e) then do {
               (idx, vr, h) \<leftarrow> bcf_var_renamer_intern vr (expr_id f) h;
               if idx = UINT32_MAX then Some (- ENOMEM, vr, buf, h)
               else do {
                 ((err, buf), h) \<leftarrow> kemit_var e idx (0, buf) h;
                 if err \<noteq> 0 then Some (err, vr, buf, h)
                 else bcf_hash_walk exprs nr_exprs slots rest vr buf h
               }
             }
             else do {
               ((err, buf), h) \<leftarrow> kemit_const e (0, buf) h;
               if err \<noteq> 0 then Some (err, vr, buf, h)
               else bcf_hash_walk exprs nr_exprs slots rest vr buf h
             }
           else if next_arg f < vlen e then do {
             let child_slot = args e ! unat (next_arg f);
             child_idx \<leftarrow> bcf_slot_map_get slots child_slot;
             if child_idx = UINT32_MAX \<or> child_idx \<ge> nr_exprs then Some (- EINVAL, vr, buf, h)
             else if length stack \<ge> BCF_HASH_MAX_DEPTH then Some (- E2BIG, vr, buf, h)
             else bcf_hash_walk exprs nr_exprs slots
               (\<lparr>array_idx = child_idx, expr_id = child_slot, next_arg = 0\<rparr> #
                f\<lparr>next_arg := next_arg f + 1\<rparr> # rest) vr buf h
           }
           else do {
             ((err, buf), h) \<leftarrow> kemit_header TAG_INTERNAL e (0, buf) h;
             if err \<noteq> 0 then Some (err, vr, buf, h)
             else bcf_hash_walk exprs nr_exprs slots rest vr buf h
           }))"

declare bcf_hash_walk.simps [code]

definition bcf_hash_encode ::
  "u32 \<Rightarrow> kmem \<Rightarrow> u32 \<Rightarrow> slot_table \<Rightarrow> renamer \<Rightarrow> bcf_hash_outbuf \<Rightarrow> heap \<Rightarrow>
    (int \<times> renamer \<times> bcf_hash_outbuf \<times> heap) option" where
  "bcf_hash_encode root exprs nr_exprs slots vr buf h = do {
     array_idx \<leftarrow> bcf_slot_map_get slots root;
     if array_idx = UINT32_MAX \<or> array_idx \<ge> nr_exprs then Some (- EINVAL, vr, buf, h)
     else bcf_hash_walk exprs nr_exprs slots
       [\<lparr>array_idx = array_idx, expr_id = root, next_arg = 0\<rparr>] vr buf h
   }"

text \<open>The entry point; \<open>exprs\<close> and \<open>out_hash\<close> are not null pointers. \<open>Inr\<close> is the value written to
  \<open>*out_hash\<close> when 0 is returned.\<close>

definition bcf_canonical_hash :: "u32 \<Rightarrow> kmem \<Rightarrow> u32 \<Rightarrow> heap \<Rightarrow> ((int + u64) \<times> heap) option" where
  "bcf_canonical_hash root exprs nr_exprs h =
     (if nr_exprs = 0 then Some (Inl (- EINVAL), h)
      else do {
        (slots, h) \<leftarrow> bcf_slot_map_build exprs nr_exprs h;
        case slots of
          Inl err \<Rightarrow> Some (Inl err, h)
        | Inr slots \<Rightarrow>
            (case bcf_var_renamer_init h of
               (Inl err, h) \<Rightarrow> Some (Inl err, bcf_slot_map_free h)
             | (Inr vr, h) \<Rightarrow>
                 (case bcf_hash_outbuf_init h of
                    (Inl err, h) \<Rightarrow> Some (Inl err, bcf_slot_map_free (bcf_var_renamer_free h))
                  | (Inr buf, h) \<Rightarrow> do {
                      (err, vr, buf, h) \<leftarrow> bcf_hash_encode root exprs nr_exprs slots vr buf h;
                      let result = (if err \<noteq> 0 then Inl err
                                    else Inr (siphash24 (map the (take (kb_len buf) (kb_data buf))) 0 0));
                      Some (result, bcf_slot_map_free (bcf_var_renamer_free (bcf_hash_outbuf_free h)))
                    }))
      })"

section \<open>The slot map\<close>

lemma double_until_u32_returns:
  assumes "unat c = 2 ^ a" "a \<le> 31" "unat need \<le> 2 ^ 31"
  shows "\<exists>w b. double_until_u32 c need = Some w \<and> unat w = 2 ^ b \<and> need \<le> w"
  using assms
proof (induction "31 - a" arbitrary: a c rule: less_induct)
  case less
  show ?case
  proof (cases "c < need")
    case False
    then show ?thesis using less.prems(1) by (subst double_until_u32.simps) auto
  next
    case True
    then have "unat c < 2 ^ 31" using less.prems(3) by (simp add: word_less_nat_alt)
    then have "(2::nat) ^ a < 2 ^ 31" using less.prems(1) by (simp only:)
    then have a: "a < 31" by (rule power_less_imp_less_exp [rotated]) simp
    have "2 * unat c < 2 ^ 32" using \<open>unat c < 2 ^ 31\<close> by simp
    then have "unat (c * 2) = 2 ^ Suc a"
      using less.prems(1) by (simp add: unat_word_ariths(2) mult.commute)
    then show ?thesis using less.hyps [of "Suc a" "c * 2"] a less.prems(3) True
      by (subst double_until_u32.simps) auto
  qed
qed

text \<open>The headers the walk can reach. With fewer than \<open>2^24\<close> of them the capacity loop ends and the slots are \<open>u32\<close> values.\<close>

definition kernel_table :: "kmem \<Rightarrow> expr_table \<Rightarrow> u32 \<Rightarrow> bool" where
  "kernel_table mem es nr \<longleftrightarrow>
     kexprs mem nr = es \<and> table_fits es \<and> es \<noteq> [] \<and> length es < 2 ^ 30 \<and> nr = of_nat (length es)"

lemma kernel_tableI:
  assumes "nr \<noteq> 0" "unat nr < 2 ^ 24"
  shows "kernel_table mem (kexprs mem nr) nr"
proof -
  have ok: "expr_ok (expr_at mem i)" for i by (simp add: expr_ok_def expr_at_def Let_def)
  have "total_slots (map (expr_at mem) xs) \<le> 256 * length xs" for xs
  proof (induction xs)
    case (Cons x xs)
    have "unat (vlen (expr_at mem x)) < 2 ^ LENGTH(8)" by (rule unsigned_less)
    with Cons show ?case by (simp add: total_slots_def)
  qed (simp add: total_slots_def)
  from this [of "[0..<unat nr]"] have "total_slots (kexprs mem nr) < 2 ^ 32"
    using assms(2) by (simp add: kexprs_def)
  moreover have "0 < unat nr" using assms(1) by (simp add: unat_gt_0)
  ultimately show ?thesis
    using assms by (auto simp: kernel_table_def table_fits_def list_all_iff ok kexprs_def)
qed

lemma kernel_table_at: "kernel_table mem es nr \<Longrightarrow> i < length es \<Longrightarrow> expr_at mem i = es ! i"
  by (auto simp: kernel_table_def kexprs_def)

lemma kernel_table_nr:
  assumes "kernel_table mem es nr"
  shows "unat nr = length es" "unat (nr * 2 + 1) = length es * 2 + 1" "nr \<noteq> 0"
proof -
  show nr: "unat nr = length es"
    using assms by (simp add: kernel_table_def unsigned_of_nat take_bit_nat_eq_self)
  have "nr * 2 + 1 = of_nat (length es * 2 + 1)" using assms by (simp add: kernel_table_def)
  then show "unat (nr * 2 + 1) = length es * 2 + 1"
    using assms by (simp only: unsigned_of_nat) (simp add: kernel_table_def take_bit_nat_eq_self)
  show "nr \<noteq> 0" using nr assms by (auto simp: kernel_table_def)
qed

lemma bcf_slot_map_build_malloc:
  assumes "kernel_table mem es nr"
  obtains r h' t where "bcf_slot_map_build mem nr h = Some (r, h')"
    "r = Inr t \<and> table_holds t es \<and> live h' = live h + 2 \<or> r = Inl (- ENOMEM) \<and> live h' = live h \<and> \<not> plenty h"
    "plenty h \<longrightarrow> plenty h'"
proof -
  have kx: "kexprs mem nr = es" using assms unfolding kernel_table_def by blast
  have "unat (nr * 2 + 1) \<le> 2 ^ 31"
    using assms kernel_table_nr(2) [OF assms] by (simp add: kernel_table_def)
  then obtain w b where w: "double_until_u32 16 (nr * 2 + 1) = Some w" "unat w = 2 ^ b" "nr * 2 + 1 \<le> w"
    using double_until_u32_returns [of 16 4 "nr * 2 + 1"] by auto
  have "length es < unat w"
    using w(3) kernel_table_nr(2) [OF assms] by (simp add: word_le_nat_alt)
  then obtain keys vals where fill:
    "slot_table_fill es 0 0 (unat w) (replicate (unat w) EMPTY) (replicate (unat w) None) = Some (keys, vals)"
    "table_holds \<lparr>st_keys = keys, st_vals = vals, st_cap = unat w\<rparr> es"
    using slot_table_fill_holds [of es "unat w" b] assms w(2)
    by (auto simp: kernel_table_def table_fits_def)
  obtain x y h1 h2 where m: "malloc h = (x, h1)" "malloc h1 = (y, h2)"
    "live h2 = live h + (if x then 1 else 0) + (if y then 1 else 0)" "plenty h \<longrightarrow> x \<and> y \<and> plenty h2"
    by (rule malloc_malloc_cases)
  show thesis
  proof (cases "x \<and> y")
    case True
    then have "bcf_slot_map_build mem nr h = Some (Inr \<lparr>st_keys = keys, st_vals = vals, st_cap = unat w\<rparr>, h2)"
      using w(1) m fill kx by (simp add: bcf_slot_map_build_def)
    then show thesis by (rule that) (use True m fill(2) in auto)
  next
    case False
    then have "bcf_slot_map_build mem nr h = Some (Inl (- ENOMEM), free y (free x h2))"
      using w(1) m by (auto simp: bcf_slot_map_build_def)
    then show thesis by (rule that) (use False m in auto)
  qed
qed

lemma bcf_slot_map_get_holds:
  assumes "table_holds m es" "total_slots es < 2 ^ 32"
  shows "bcf_slot_map_get m s = Some (case slot_ref es 0 (unat s) of None \<Rightarrow> UINT32_MAX | Some i \<Rightarrow> of_nat i)"
proof -
  obtain j where j: "probe_key (st_keys m) (st_cap m) s (slot_hash s (st_cap m)) = Some j"
    using slot_table_get_holds [OF assms, of s] by (auto simp: slot_table_get_def bind_eq_Some_conv)
  have "(if st_keys m ! j \<noteq> EMPTY then Some (Some (unat (the (st_vals m ! j)))) else Some None) =
      Some (slot_ref es 0 (unat s))"
    using slot_table_get_holds [OF assms, of s] j by (simp add: slot_table_get_def)
  then have "(if st_keys m ! j \<noteq> EMPTY then Some (the (st_vals m ! j)) else Some UINT32_MAX) =
      Some (case slot_ref es 0 (unat s) of None \<Rightarrow> UINT32_MAX | Some i \<Rightarrow> of_nat i)"
    by (cases "slot_ref es 0 (unat s)") (auto split: if_splits)
  then show ?thesis using j by (simp add: bcf_slot_map_get_def)
qed

section \<open>The buffer\<close>

definition kbuf_ok :: "bcf_hash_outbuf \<Rightarrow> bool" where
  "kbuf_ok b \<longleftrightarrow> 0 < kb_cap b \<and> length (kb_data b) = kb_cap b \<and> kb_len b \<le> kb_cap b \<and>
     None \<notin> set (take (kb_len b) (kb_data b))"

definition kbuf_bytes :: "bcf_hash_outbuf \<Rightarrow> u8 list" where
  "kbuf_bytes b = map the (take (kb_len b) (kb_data b))"

abbreviation kstate_ok :: "kbuf_state \<Rightarrow> bool" where
  "kstate_ok s \<equiv> kbuf_ok (snd s) \<and> fst s \<le> 0"

abbreviation kstate_content :: "kbuf_state \<Rightarrow> u8 list option" where
  "kstate_content s \<equiv> if fst s \<noteq> 0 then None else Some (kbuf_bytes (snd s))"

lemma kb_puts_ok:
  assumes "kbuf_ok b" "kb_len b + length xs \<le> kb_cap b"
  shows "kbuf_ok (foldl kb_put b xs) \<and> kbuf_bytes (foldl kb_put b xs) = kbuf_bytes b @ xs"
  using assms
proof (induction xs arbitrary: b)
  case (Cons x xs)
  then have "kbuf_ok (kb_put b x)" "kb_len (kb_put b x) + length xs \<le> kb_cap (kb_put b x)"
    "kbuf_bytes (kb_put b x) = kbuf_bytes b @ [x]"
    by (auto simp: kbuf_ok_def kb_put_def kbuf_bytes_def take_Suc_conv_app_nth)
  then show ?case using Cons.IH by simp
qed simp

lemma bcf_hash_outbuf_reserve_ok:
  assumes "kbuf_ok b"
  obtains err b' h' where "bcf_hash_outbuf_reserve b extra h = Some (err, b', h')" "kbuf_ok b'"
    "kbuf_bytes b' = kbuf_bytes b" "live h' = live h" "plenty h \<longrightarrow> plenty h' \<and> err = 0"
    "err = 0 \<and> kb_len b' + extra \<le> kb_cap b' \<or> err = - ENOMEM"
proof (cases "kb_len b + extra \<le> kb_cap b")
  case True
  then have "bcf_hash_outbuf_reserve b extra h = Some (0, b, h)" by (simp add: bcf_hash_outbuf_reserve_def)
  then show thesis by (rule that) (use True assms in auto)
next
  case False
  obtain k where k: "double_until (kb_cap b) (kb_len b + extra) = Some (kb_cap b * 2 ^ k)"
    "kb_len b + extra \<le> kb_cap b * 2 ^ k"
    using double_until_returns [of "kb_cap b" "kb_len b + extra"] assms by (auto simp: kbuf_ok_def)
  obtain ok h' where r: "realloc h = (ok, h')" by (cases "realloc h")
  have pl: "plenty h \<longrightarrow> ok \<and> plenty h'" using r by (auto simp: realloc_plenty)
  let ?b = "b\<lparr>kb_data := kb_data b @ replicate (kb_cap b * 2 ^ k - kb_cap b) None, kb_cap := kb_cap b * 2 ^ k\<rparr>"
  show thesis
  proof (cases ok)
    case True
    then have "bcf_hash_outbuf_reserve b extra h = Some (0, ?b, h')"
      using False k r by (simp add: bcf_hash_outbuf_reserve_def)
    moreover have "kb_len b \<le> kb_cap b * 2 ^ k" using k(2) by linarith
    then have "kbuf_ok ?b" "kbuf_bytes ?b = kbuf_bytes b"
      using assms by (simp_all add: kbuf_ok_def kbuf_bytes_def)
    ultimately show thesis
      by (intro that [of 0 ?b h']) (use pl live_realloc [OF r] k(2) in auto)
  next
    case no: False
    then have "bcf_hash_outbuf_reserve b extra h = Some (- ENOMEM, b, h')"
      using False k r by (simp add: bcf_hash_outbuf_reserve_def)
    then show thesis by (rule that) (use no assms pl live_realloc [OF r] in auto)
  qed
qed

lemma kpush_appends:
  assumes "\<And>b h. f b h = do {
     (err, b, h) \<leftarrow> bcf_hash_outbuf_reserve b (length xs) h;
     if err \<noteq> 0 then Some (err, b, h) else Some (0, foldl kb_put b xs, h)
   }"
  shows "appends kstate_ok kstate_content (unless_err f) xs"
  unfolding appends_def
proof (intro allI impI)
  fix s :: kbuf_state and h
  assume ok: "kstate_ok s"
  show "\<exists>s' h'. unless_err f s h = Some (s', h') \<and> kstate_ok s' \<and> live h' = live h \<and>
      (plenty h \<longrightarrow> plenty h') \<and>
      (kstate_content s' = None \<and> \<not> (plenty h \<and> kstate_content s \<noteq> None) \<or>
       kstate_content s' = map_option (\<lambda>ys. ys @ xs) (kstate_content s))"
  proof (cases "fst s = 0")
    case False
    then show ?thesis using ok by (simp add: unless_err_def)
  next
    case True
    obtain err b' h' where b': "bcf_hash_outbuf_reserve (snd s) (length xs) h = Some (err, b', h')" "kbuf_ok b'"
      "kbuf_bytes b' = kbuf_bytes (snd s)" "live h' = live h" "plenty h \<longrightarrow> plenty h' \<and> err = 0"
      "err = 0 \<and> kb_len b' + length xs \<le> kb_cap b' \<or> err = - ENOMEM"
      using ok by (auto elim: bcf_hash_outbuf_reserve_ok [of "snd s" "length xs" h])
    show ?thesis
    proof (cases "err = 0")
      case err: True
      then have "kbuf_ok (foldl kb_put b' xs) \<and> kbuf_bytes (foldl kb_put b' xs) = kbuf_bytes b' @ xs"
        using b' by (intro kb_puts_ok) (auto simp: ENOMEM_def)
      then show ?thesis using True b' err by (simp add: unless_err_def assms)
    next
      case False
      then show ?thesis using True b' by (simp add: unless_err_def assms ENOMEM_def)
    qed
  qed
qed

interpretation kb: byte_sink kstate_ok kstate_content kpush_u8 kpush_u16_le kpush_u32_le
proof
  show "appends kstate_ok kstate_content (\<lambda>s. kpush_u8 s v) [v]" for v
    by (rule kpush_appends) (simp add: bcf_hash_outbuf_push_u8_def cong: if_cong)
  show "appends kstate_ok kstate_content (\<lambda>s. kpush_u16_le s v) (u16_le v)" for v
    by (rule kpush_appends)
      (simp add: bcf_hash_outbuf_push_u16_le_def u16_le_def ucast_and_0xff numeral_2_eq_2 cong: if_cong)
  show "appends kstate_ok kstate_content (\<lambda>s. kpush_u32_le s v) (u32_le v)" for v
    by (rule kpush_appends)
      (simp add: bcf_hash_outbuf_push_u32_le_def u32_le_def ucast_and_0xff eval_nat_numeral cong: if_cong)
qed

lemma kemit_header_appends:
  "appends kstate_ok kstate_content (kemit_header tag e) (tag # code e # vlen e # u16_le (params e))"
  using kb.push_header [of tag "code e" "vlen e" "params e"]
  by (simp add: kemit_header_def [abs_def])

lemma kemit_words_appends:
  "appends kstate_ok kstate_content (kemit_words xs) (concat (map u32_le xs))"
proof (induction xs)
  case Nil
  then show ?case by (simp add: appends_def)
next
  case (Cons x xs)
  then show ?case using kb.push_seq [OF kb.push_u32_le Cons.IH, of x] by simp
qed

lemma kemit_const_appends:
  assumes "expr_ok e"
  shows "appends kstate_ok kstate_content (kemit_const e)
    (record_bytes (Record_Const (code e) (vlen e) (params e) (args e)))"
  using kb.push_seq [OF kemit_header_appends kemit_words_appends, of TAG_LEAF_CONST e "args e"] assms
  by (simp add: kemit_const_def [abs_def] expr_args)

lemma kemit_var_appends:
  assumes "expr_ok e" "is_leaf e" "is_var (code e)"
  shows "appends kstate_ok kstate_content (kemit_var e idx)
    (record_bytes (Record_Var (code e) (params e) idx))"
proof -
  have nullary: "vlen e = 0" by (rule var_leaf_nullary [OF assms(2,3)])
  have "appends kstate_ok kstate_content (kemit_var e idx)
      ((TAG_VAR # code e # vlen e # u16_le (params e)) @ u32_le idx @ concat (map u32_le (args e)))"
    using kb.push_seq [OF kemit_header_appends kb.push_seq [OF kb.push_u32_le kemit_words_appends], of TAG_VAR e idx "args e"]
    unfolding kemit_var_def [abs_def] expr_args [OF assms(1)] .
  moreover have "args e = []" using assms(1) nullary by (simp add: expr_ok_def)
  ultimately show ?thesis using nullary by simp
qed

lemma kemit_internal_appends:
  "appends kstate_ok kstate_content (kemit_header TAG_INTERNAL e)
    (record_bytes (Record_Internal (code e) (vlen e) (params e)))"
  using kemit_header_appends [of TAG_INTERNAL e] by simp

section \<open>The walk\<close>

text \<open>The walk of the subtree on top of the stack either goes on with the rest of the stack, the
  records of the subtree written, or returns an error, which without memory failure means that the
  subtree is too deep or has a dangling reference.\<close>

definition walked ::
  "kmem \<Rightarrow> u32 \<Rightarrow> slot_table \<Rightarrow> bcf_hash_frame list \<Rightarrow> heap \<Rightarrow> (record_item list \<times> u32 list) option \<Rightarrow>
    u8 list \<Rightarrow> (int \<times> renamer \<times> bcf_hash_outbuf \<times> heap) option \<Rightarrow> bool" where
  "walked mem nr m rest h spec ys res \<longleftrightarrow>
     (\<exists>vr b h'. kbuf_ok b \<and> live h' = live h \<and> (plenty h \<longrightarrow> plenty h') \<and>
        ((\<exists>rs ids. spec = Some (rs, ids) \<and> renamer_seen vr ids \<and> kbuf_bytes b = ys @ stream_bytes rs \<and>
            res = bcf_hash_walk mem nr m rest vr b h') \<or>
         (\<exists>err < 0. res = Some (err, vr, b, h') \<and> \<not> (plenty h \<and> spec \<noteq> None))))"

lemma walked_error:
  "kbuf_ok b \<Longrightarrow> live h' = live h \<Longrightarrow> plenty h \<longrightarrow> plenty h' \<Longrightarrow> err < 0 \<Longrightarrow> \<not> (plenty h \<and> spec \<noteq> None) \<Longrightarrow>
   walked mem nr m rest h spec ys (Some (err, vr, b, h'))"
  unfolding walked_def by blast

text \<open>Emitting one record and going on with the rest.\<close>

lemma walked_emit:
  assumes f: "appends kstate_ok kstate_content f (record_bytes x)"
    and b: "kbuf_ok b" "kbuf_bytes b = ys @ stream_bytes rs" and vr: "renamer_seen vr ids"
    and h: "live h' = live h" "plenty h \<longrightarrow> plenty h'"
  shows "walked mem nr m rest h (Some (rs @ [x], ids)) ys (do {
     ((err, b), h) \<leftarrow> f (0, b) h';
     if err \<noteq> 0 then Some (err, vr, b, h) else bcf_hash_walk mem nr m rest vr b h
   })"
proof -
  have "kstate_ok (0, b)" using b(1) by simp
  then obtain s h1 where s: "f (0, b) h' = Some (s, h1)" "kstate_ok s" "live h1 = live h'" "plenty h' \<longrightarrow> plenty h1"
    "kstate_content s = None \<and> \<not> (plenty h' \<and> kstate_content (0, b) \<noteq> None) \<or>
     kstate_content s = map_option (\<lambda>ys. ys @ record_bytes x) (kstate_content (0, b))"
    using f unfolding appends_def by blast
  obtain err b1 where s1: "s = (err, b1)" by (cases s)
  show ?thesis
  proof (cases "err = 0")
    case True
    then have "kbuf_bytes b1 = ys @ stream_bytes (rs @ [x])"
      using s(5) s1 b(2) by (auto simp: stream_bytes_def)
    then show ?thesis unfolding walked_def using s s1 True h vr by auto
  next
    case False
    then show ?thesis using s s1 h by (auto intro!: walked_error)
  qed
qed

lemma slot_map_index:
  assumes "kernel_table mem es nr" "slot_ref es 0 (unat s) = Some i"
  shows "unat (of_nat i :: u32) = i" "of_nat i \<noteq> UINT32_MAX" "\<not> of_nat i \<ge> nr"
proof -
  have i: "i < length es" using slot_ref_less [OF assms(2)] .
  have l: "length es < 2 ^ 30" using assms(1) by (simp add: kernel_table_def)
  show u: "unat (of_nat i :: u32) = i"
    using i l by (simp add: unsigned_of_nat take_bit_nat_eq_self)
  show "of_nat i \<noteq> UINT32_MAX"
  proof
    assume "of_nat i = UINT32_MAX"
    then have "unat (of_nat i :: u32) = unat UINT32_MAX" by simp
    with u i l show False by simp
  qed
  show "\<not> of_nat i \<ge> nr" using i u kernel_table_nr(1) [OF assms(1)] by (simp add: word_le_nat_alt)
qed

lemma walk_leaf:
  assumes kt: "kernel_table mem es nr" and i: "slot_ref es 0 (unat s) = Some i" "is_leaf (es ! i)"
    and st: "renamer_seen vr ids" "kbuf_ok b" "kbuf_bytes b = ys"
  shows "walked mem nr m rest h (slot_records (Suc d) es s ids) ys
    (bcf_hash_walk mem nr m (\<lparr>array_idx = of_nat i, expr_id = s, next_arg = 0\<rparr> # rest) vr b h)"
proof -
  let ?e = "es ! i"
  have e: "expr_ok ?e" and s: "s \<noteq> EMPTY"
    using kt slot_ref_less [OF i(1)] slot_ref_bound [OF i(1)]
    by (auto simp: kernel_table_def table_fits_def list_all_length)
  have idx: "expr_at mem (unat (of_nat i :: u32)) = ?e"
    using slot_map_index(1) [OF kt i(1)] kernel_table_at [OF kt slot_ref_less [OF i(1)]] by simp
  show ?thesis
  proof (cases "is_var (code ?e)")
    case False
    from walked_emit [OF kemit_const_appends [OF e] st(2), of ys "[]" vr ids h h] show ?thesis
      using False i st by (subst bcf_hash_walk.simps) (simp add: idx Let_def slot_records_def stream_bytes_def)
  next
    case True
    obtain x r' h' where int: "renamer_intern vr s h = Some (x, r', h')" "live h' = live h"
      "plenty h \<longrightarrow> plenty h' \<and> x \<noteq> EMPTY"
      "x = EMPTY \<and> renamer_seen r' ids \<or> x = of_nat (position s ids) \<and> renamer_seen r' (note_id s ids)"
      using rn.intern_seen [OF st(1) s] by blast
    show ?thesis
    proof (cases "x = EMPTY")
      case E: True
      then show ?thesis using True i st int
        by (subst bcf_hash_walk.simps)
          (auto simp: idx Let_def slot_records_def bcf_var_renamer_intern_def ENOMEM_def intro!: walked_error)
    next
      case False
      from walked_emit [OF kemit_var_appends [OF e i(2) True, of x] st(2), of ys "[]" r' "note_id s ids" h' h]
      show ?thesis using True False i st int
        by (subst bcf_hash_walk.simps)
          (simp add: idx Let_def slot_records_def bcf_var_renamer_intern_def stream_bytes_def)
    qed
  qed
qed

lemma walked_bind:
  assumes "walked mem nr m rest1 h spec ys res"
    and "\<And>rs ids vr b h'. spec = Some (rs, ids) \<Longrightarrow> renamer_seen vr ids \<Longrightarrow> kbuf_ok b \<Longrightarrow>
      kbuf_bytes b = ys @ stream_bytes rs \<Longrightarrow> live h' = live h \<Longrightarrow> plenty h \<longrightarrow> plenty h' \<Longrightarrow>
      walked mem nr m rest h (k (rs, ids)) ys (bcf_hash_walk mem nr m rest1 vr b h')"
  shows "walked mem nr m rest h (Option.bind spec k) ys res"
proof -
  obtain vr b h' where st: "kbuf_ok b" "live h' = live h" "plenty h \<longrightarrow> plenty h'"
    and res: "(\<exists>rs ids. spec = Some (rs, ids) \<and> renamer_seen vr ids \<and> kbuf_bytes b = ys @ stream_bytes rs \<and>
            res = bcf_hash_walk mem nr m rest1 vr b h') \<or>
         (\<exists>err < 0. res = Some (err, vr, b, h') \<and> \<not> (plenty h \<and> spec \<noteq> None))"
    using assms(1) unfolding walked_def by blast
  from res show ?thesis
  proof (elim disjE exE conjE)
    fix rs ids
    assume "spec = Some (rs, ids)" "renamer_seen vr ids" "kbuf_bytes b = ys @ stream_bytes rs"
      "res = bcf_hash_walk mem nr m rest1 vr b h'"
    then show ?thesis using assms(2) [of rs ids vr b h'] st by simp
  next
    fix err
    assume "err < 0" "res = Some (err, vr, b, h')" "\<not> (plenty h \<and> spec \<noteq> None)"
    then show ?thesis using st by (cases spec) (auto intro!: walked_error)
  qed
qed

lemma walked_prefix:
  assumes "walked mem nr m rest h' spec (ys @ stream_bytes rs) res" "live h' = live h" "plenty h \<longrightarrow> plenty h'"
  shows "walked mem nr m rest h (do { (rs', ids) \<leftarrow> spec; Some (rs @ rs', ids) }) ys res"
proof -
  obtain vr b h2 where st: "kbuf_ok b" "live h2 = live h'" "plenty h' \<longrightarrow> plenty h2"
    and res: "(\<exists>rs' ids. spec = Some (rs', ids) \<and> renamer_seen vr ids \<and>
            kbuf_bytes b = (ys @ stream_bytes rs) @ stream_bytes rs' \<and> res = bcf_hash_walk mem nr m rest vr b h2) \<or>
         (\<exists>err < 0. res = Some (err, vr, b, h2) \<and> \<not> (plenty h' \<and> spec \<noteq> None))"
    using assms(1) unfolding walked_def by blast
  from res show ?thesis
  proof (elim disjE exE conjE)
    fix rs' ids
    assume "spec = Some (rs', ids)" "renamer_seen vr ids" "kbuf_bytes b = (ys @ stream_bytes rs) @ stream_bytes rs'"
      "res = bcf_hash_walk mem nr m rest vr b h2"
    then show ?thesis using st assms(2,3) unfolding walked_def
      by (intro exI [of _ vr] exI [of _ b] exI [of _ h2]) (simp add: stream_bytes_def)
  next
    fix err
    assume "err < 0" "res = Some (err, vr, b, h2)" "\<not> (plenty h' \<and> spec \<noteq> None)"
    then show ?thesis using st assms(2,3) by (cases spec) (auto intro!: walked_error)
  qed
qed

abbreviation node_record :: "zovia_bcf_expr \<Rightarrow> record_item" where
  "node_record e \<equiv> Record_Internal (code e) (vlen e) (params e)"

text \<open>The records of the arguments not yet visited, and of the node itself.\<close>

definition rest_records ::
  "nat \<Rightarrow> expr_table \<Rightarrow> zovia_bcf_expr \<Rightarrow> u32 list \<Rightarrow> u32 list \<Rightarrow> (record_item list \<times> u32 list) option" where
  "rest_records d es e ss ids = do {
     (rs, ids) \<leftarrow> slots_records d es ss ids;
     Some (rs @ [node_record e], ids)
   }"

lemma rest_records_Nil: "rest_records d es e [] ids = Some ([] @ [node_record e], ids)"
  by (simp add: rest_records_def slots_records_def)

lemma rest_records_Cons:
  "rest_records d es e (s # ss) ids = do {
     (rs, ids1) \<leftarrow> slot_records d es s ids;
     (rs', ids2) \<leftarrow> rest_records d es e ss ids1;
     Some (rs @ rs', ids2)
   }"
  by (simp add: rest_records_def slots_records_Cons split_def)

text \<open>One visit of an internal node: descend into argument \<open>k\<close>, or emit the record.\<close>

lemma walk_node:
  assumes kt: "kernel_table mem es nr" and m: "table_holds m es" and i: "i < length es" "\<not> is_leaf (es ! i)"
    and depth: "length rest + Suc d = BCF_HASH_MAX_DEPTH"
    and child: "\<And>rest s j vr ids b ys h. length rest + d = BCF_HASH_MAX_DEPTH \<Longrightarrow> 0 < d \<Longrightarrow>
      slot_ref es 0 (unat s) = Some j \<Longrightarrow> renamer_seen vr ids \<Longrightarrow> kbuf_ok b \<Longrightarrow> kbuf_bytes b = ys \<Longrightarrow>
      walked mem nr m rest h (slot_records d es s ids) ys
        (bcf_hash_walk mem nr m (\<lparr>array_idx = of_nat j, expr_id = s, next_arg = 0\<rparr> # rest) vr b h)"
    and st: "renamer_seen vr ids" "kbuf_ok b" "kbuf_bytes b = ys" and k: "k \<le> unat (vlen (es ! i))"
  shows "walked mem nr m rest h (rest_records d es (es ! i) (drop k (args (es ! i))) ids) ys
    (bcf_hash_walk mem nr m (\<lparr>array_idx = of_nat i, expr_id = s, next_arg = of_nat k\<rparr> # rest) vr b h)"
  using st k
proof (induction "unat (vlen (es ! i)) - k" arbitrary: k vr ids b ys h)
  case 0
  have len: "length (args (es ! i)) = unat (vlen (es ! i))"
    using kt i by (simp add: kernel_table_def table_fits_def list_all_length expr_ok_def)
  have k: "k = unat (vlen (es ! i))" using 0 by simp
  have ui: "unat (of_nat i :: u32) = i" "expr_at mem i = es ! i"
    using kt i kernel_table_at [OF kt i(1)] by (simp_all add: kernel_table_def unsigned_of_nat take_bit_nat_eq_self)
  from walked_emit [OF kemit_internal_appends 0(3), of ys "[]" vr ids h h] 0 show ?case
    using i ui len k by (subst bcf_hash_walk.simps) (simp add: rest_records_Nil stream_bytes_def)
next
  case (Suc n)
  let ?e = "es ! i" and ?a = "args (es ! i) ! k"
  let ?f = "\<lambda>k. \<lparr>array_idx = of_nat i, expr_id = s, next_arg = of_nat k\<rparr> :: bcf_hash_frame"
  have k: "k < unat (vlen ?e)" using Suc.hyps(2) by simp
  have len: "length (args ?e) = unat (vlen ?e)"
    using kt i by (simp add: kernel_table_def table_fits_def list_all_length expr_ok_def)
  have drop: "drop k (args ?e) = ?a # drop (Suc k) (args ?e)"
    using k len by (simp add: Cons_nth_drop_Suc)
  have ui: "unat (of_nat i :: u32) = i" "expr_at mem i = es ! i"
    using kt i kernel_table_at [OF kt i(1)] by (simp_all add: kernel_table_def unsigned_of_nat take_bit_nat_eq_self)
  have "unat (vlen ?e) < 2 ^ LENGTH(8)" by (rule unsigned_less)
  then have uk: "unat (of_nat k :: u8) = k"
    using k by (simp add: unsigned_of_nat take_bit_nat_eq_self)
  have lt: "of_nat k < vlen ?e" using k uk by (simp add: word_less_nat_alt)
  have get: "bcf_slot_map_get m ?a = Some (case slot_ref es 0 (unat ?a) of None \<Rightarrow> UINT32_MAX | Some i \<Rightarrow> of_nat i)"
    using bcf_slot_map_get_holds [OF m] kt by (simp add: kernel_table_def table_fits_def)
  show ?case
  proof (cases "slot_ref es 0 (unat ?a)")
    case None
    then have "slot_records d es ?a ids = None" by (cases d) (simp_all add: slot_records_def)
    then have "rest_records d es ?e (drop k (args ?e)) ids = None" by (simp add: drop rest_records_Cons)
    then show ?thesis using i ui uk lt get None Suc.prems
      by (subst bcf_hash_walk.simps) (simp add: EINVAL_def walked_error)
  next
    case (Some j)
    note j = slot_map_index [OF kt Some]
    show ?thesis
    proof (cases "d = 0")
      case True
      then have "rest_records d es ?e (drop k (args ?e)) ids = None"
        by (simp add: drop rest_records_Cons slot_records_def)
      then show ?thesis using i ui uk lt get Some j True depth Suc.prems
        by (subst bcf_hash_walk.simps) (simp add: E2BIG_def walked_error)
    next
      case False
      have step: "bcf_hash_walk mem nr m (?f k # rest) vr b h =
          bcf_hash_walk mem nr m (\<lparr>array_idx = of_nat j, expr_id = ?a, next_arg = 0\<rparr> # ?f (Suc k) # rest) vr b h"
        using i ui uk lt get Some j False depth
        by (subst bcf_hash_walk.simps) (simp add: add.commute)
      have sub: "walked mem nr m (?f (Suc k) # rest) h (slot_records d es ?a ids) ys
          (bcf_hash_walk mem nr m (?f k # rest) vr b h)"
        unfolding step using False depth Some Suc.prems by (intro child) simp_all
      show ?thesis
        unfolding drop rest_records_Cons
      proof (rule walked_bind [OF sub], unfold split_conv)
        fix rs ids' vr' b' h'
        assume st': "renamer_seen vr' ids'" "kbuf_ok b'" "kbuf_bytes b' = ys @ stream_bytes rs"
          "live h' = live h" "plenty h \<longrightarrow> plenty h'"
        have "walked mem nr m rest h' (rest_records d es ?e (drop (Suc k) (args ?e)) ids') (ys @ stream_bytes rs)
            (bcf_hash_walk mem nr m (?f (Suc k) # rest) vr' b' h')"
          using Suc.hyps(2) st' k by (intro Suc.hyps(1)) simp_all
        then show "walked mem nr m rest h
            (do { (rs', ids2) \<leftarrow> rest_records d es ?e (drop (Suc k) (args ?e)) ids'; Some (rs @ rs', ids2) }) ys
            (bcf_hash_walk mem nr m (?f (Suc k) # rest) vr' b' h')"
          using st'(4,5) by (rule walked_prefix)
      qed
    qed
  qed
qed

lemma walk_subtree:
  assumes kt: "kernel_table mem es nr" and m: "table_holds m es"
  shows "length rest + d = BCF_HASH_MAX_DEPTH \<Longrightarrow> 0 < d \<Longrightarrow> slot_ref es 0 (unat s) = Some i \<Longrightarrow>
    renamer_seen vr ids \<Longrightarrow> kbuf_ok b \<Longrightarrow> kbuf_bytes b = ys \<Longrightarrow>
    walked mem nr m rest h (slot_records d es s ids) ys
      (bcf_hash_walk mem nr m (\<lparr>array_idx = of_nat i, expr_id = s, next_arg = 0\<rparr> # rest) vr b h)"
proof (induction d arbitrary: rest s i vr ids b ys h)
  case (Suc d)
  show ?case
  proof (cases "is_leaf (es ! i)")
    case True
    then show ?thesis using walk_leaf [OF kt Suc.prems(3)] Suc.prems by simp
  next
    case False
    have "walked mem nr m rest h (rest_records d es (es ! i) (drop 0 (args (es ! i))) ids) ys
      (bcf_hash_walk mem nr m (\<lparr>array_idx = of_nat i, expr_id = s, next_arg = of_nat 0\<rparr> # rest) vr b h)"
      using Suc.prems False slot_ref_less [OF Suc.prems(3)]
      by (intro walk_node [OF kt m]) (simp_all add: Suc.IH)
    then show ?thesis
      using slot_records_Node [OF Suc.prems(3) False, of d ids] by (simp add: rest_records_def)
  qed
qed simp

section \<open>The entry point\<close>

lemma bcf_hash_encode_cases:
  assumes kt: "kernel_table mem es nr" and m: "table_holds m es"
    and st: "renamer_seen vr []" "kbuf_ok b" "kbuf_bytes b = []"
  obtains err vr' b' h' where "bcf_hash_encode root mem nr m vr b h = Some (err, vr', b', h')" "live h' = live h"
    "err = 0 \<and> (\<exists>t. tree_of 64 es root = Some t \<and> kbuf_bytes b' = canonical_bytes t) \<or>
     err < 0 \<and> \<not> (plenty h \<and> tree_of 64 es root \<noteq> None)"
proof (cases "slot_ref es 0 (unat root)")
  case None
  have "tree_of 64 es root = None" using None by (simp add: eval_nat_numeral)
  moreover have "bcf_hash_encode root mem nr m vr b h = Some (- EINVAL, vr, b, h)"
    using bcf_slot_map_get_holds [OF m, of root] kt None
    by (simp add: bcf_hash_encode_def kernel_table_def table_fits_def)
  ultimately show thesis by (intro that [of "- EINVAL" vr b h]) (simp_all add: EINVAL_def)
next
  case (Some i)
  have enc: "bcf_hash_encode root mem nr m vr b h =
      bcf_hash_walk mem nr m [\<lparr>array_idx = of_nat i, expr_id = root, next_arg = 0\<rparr>] vr b h"
    using bcf_slot_map_get_holds [OF m, of root] kt Some slot_map_index [OF kt Some]
    by (simp add: bcf_hash_encode_def kernel_table_def table_fits_def)
  have "walked mem nr m [] h (slot_records 64 es root []) []
      (bcf_hash_walk mem nr m [\<lparr>array_idx = of_nat i, expr_id = root, next_arg = 0\<rparr>] vr b h)"
    by (rule walk_subtree [OF kt m _ _ Some st]) (simp_all add: BCF_HASH_MAX_DEPTH_def)
  then obtain vr' b' h' where w: "live h' = live h"
    "(\<exists>rs ids. slot_records 64 es root [] = Some (rs, ids) \<and> kbuf_bytes b' = stream_bytes rs \<and>
        bcf_hash_encode root mem nr m vr b h = Some (0, vr', b', h')) \<or>
     (\<exists>err < 0. bcf_hash_encode root mem nr m vr b h = Some (err, vr', b', h') \<and>
        \<not> (plenty h \<and> slot_records 64 es root [] \<noteq> None))"
    unfolding walked_def enc [symmetric] by (subst (asm) bcf_hash_walk.simps) auto
  then show thesis
    using that [of 0 vr' b' h'] that [of _ vr' b' h'] by (auto simp: slot_records_def canonical_bytes_def)
qed

lemma bcf_var_renamer_init_cases:
  obtains r h' vr where "bcf_var_renamer_init h = (r, h')"
    "r = Inr vr \<and> renamer_seen vr [] \<and> live h' = live h + 2 \<or> r = Inl (- ENOMEM) \<and> live h' = live h \<and> \<not> plenty h"
    "plenty h \<longrightarrow> plenty h'"
proof -
  obtain x y h1 h2 where m: "malloc h = (x, h1)" "malloc h1 = (y, h2)"
    "live h2 = live h + (if x then 1 else 0) + (if y then 1 else 0)" "plenty h \<longrightarrow> x \<and> y \<and> plenty h2"
    by (rule malloc_malloc_cases)
  obtain vr where vr: "renamer_init h = (if x \<and> y then Some vr else None, h2)" "renamer_seen vr []"
    using renamer_init_malloc [OF m(1,2)] by blast
  show thesis
  proof (cases "x \<and> y")
    case True
    then have "bcf_var_renamer_init h = (Inr vr, h2)"
      using m vr by (simp add: bcf_var_renamer_init_def renamer_init_def)
    then show thesis by (rule that) (use True m vr(2) in auto)
  next
    case False
    then have "bcf_var_renamer_init h = (Inl (- ENOMEM), free y (free x h2))"
      using m by (auto simp: bcf_var_renamer_init_def)
    then show thesis by (rule that) (use False m in auto)
  qed
qed

lemma bcf_hash_outbuf_init_cases:
  obtains r h' b where "bcf_hash_outbuf_init h = (r, h')"
    "r = Inr b \<and> kbuf_ok b \<and> kbuf_bytes b = [] \<and> live h' = live h + 1 \<or>
     r = Inl (- ENOMEM) \<and> live h' = live h \<and> \<not> plenty h"
    "plenty h \<longrightarrow> plenty h'"
proof -
  obtain ok h1 where m: "malloc h = (ok, h1)" by (cases "malloc h")
  have pl: "plenty h \<longrightarrow> ok \<and> plenty h1" using m by (auto simp: malloc_plenty)
  let ?b = "\<lparr>kb_data = replicate 64 None, kb_len = 0, kb_cap = 64\<rparr> :: bcf_hash_outbuf"
  have b: "kbuf_ok ?b" "kbuf_bytes ?b = []" by (simp_all add: kbuf_ok_def kbuf_bytes_def)
  show thesis
  proof (cases ok)
    case True
    then have "bcf_hash_outbuf_init h = (Inr ?b, h1)" using m by (simp add: bcf_hash_outbuf_init_def)
    then show thesis by (rule that) (use True m b pl live_malloc [OF m] in auto)
  next
    case False
    then have "bcf_hash_outbuf_init h = (Inl (- ENOMEM), h1)" using m by (simp add: bcf_hash_outbuf_init_def)
    then show thesis by (rule that) (use False m pl live_malloc [OF m] in auto)
  qed
qed

lemma bcf_canonical_hash_cases:
  assumes kt: "kernel_table mem es nr"
  obtains r h' where "bcf_canonical_hash root mem nr h = Some (r, h')" "live h' = live h"
    "(\<exists>t. tree_of 64 es root = Some t \<and> r = Inr (siphash24 (canonical_bytes t) 0 0)) \<or>
     (\<exists>err < 0. r = Inl err) \<and> \<not> (plenty h \<and> tree_of 64 es root \<noteq> None)"
proof -
  obtain r1 h1 m where 1: "bcf_slot_map_build mem nr h = Some (r1, h1)"
    "r1 = Inr m \<and> table_holds m es \<and> live h1 = live h + 2 \<or> r1 = Inl (- ENOMEM) \<and> live h1 = live h \<and> \<not> plenty h"
    "plenty h \<longrightarrow> plenty h1" by (rule bcf_slot_map_build_malloc [OF kt])
  obtain r2 h2 vr where 2: "bcf_var_renamer_init h1 = (r2, h2)"
    "r2 = Inr vr \<and> renamer_seen vr [] \<and> live h2 = live h1 + 2 \<or> r2 = Inl (- ENOMEM) \<and> live h2 = live h1 \<and> \<not> plenty h1"
    "plenty h1 \<longrightarrow> plenty h2" by (rule bcf_var_renamer_init_cases)
  obtain r3 h3 b where 3: "bcf_hash_outbuf_init h2 = (r3, h3)"
    "r3 = Inr b \<and> kbuf_ok b \<and> kbuf_bytes b = [] \<and> live h3 = live h2 + 1 \<or> r3 = Inl (- ENOMEM) \<and> live h3 = live h2 \<and> \<not> plenty h2"
    "plenty h2 \<longrightarrow> plenty h3" by (rule bcf_hash_outbuf_init_cases)
  note nr = kernel_table_nr(3) [OF kt]
  note frees = bcf_slot_map_free_def bcf_var_renamer_free_def bcf_hash_outbuf_free_def
  show thesis
  proof (cases "r1 = Inr m \<and> r2 = Inr vr \<and> r3 = Inr b")
    case True
    then have ok: "table_holds m es" "renamer_seen vr []" "kbuf_ok b" "kbuf_bytes b = []"
      and live: "live h3 = live h + 5" using 1(2) 2(2) 3(2) by auto
    obtain err vr' b' h4 where 4: "bcf_hash_encode root mem nr m vr b h3 = Some (err, vr', b', h4)" "live h4 = live h3"
      "err = 0 \<and> (\<exists>t. tree_of 64 es root = Some t \<and> kbuf_bytes b' = canonical_bytes t) \<or>
       err < 0 \<and> \<not> (plenty h3 \<and> tree_of 64 es root \<noteq> None)"
      by (rule bcf_hash_encode_cases [OF kt ok])
    let ?r = "if err \<noteq> 0 then Inl err else Inr (siphash24 (kbuf_bytes b') 0 0)"
    have run: "bcf_canonical_hash root mem nr h =
        Some (?r, bcf_slot_map_free (bcf_var_renamer_free (bcf_hash_outbuf_free h4)))"
      using True 1(1) 2(1) 3(1) 4(1) nr by (simp add: bcf_canonical_hash_def kbuf_bytes_def)
    show thesis
      by (rule that [OF run]) (use 4 live 1(3) 2(3) 3(3) in \<open>auto simp: frees\<close>)
  next
    case False
    then have "\<not> plenty h" using 1 2 3 by blast
    moreover have "\<exists>h'. bcf_canonical_hash root mem nr h = Some (Inl (- ENOMEM), h') \<and> live h' = live h"
      using False 1 2 3 nr by (auto simp: bcf_canonical_hash_def frees)
    ultimately show thesis using that by (auto simp: ENOMEM_def)
  qed
qed


text \<open>An error is never reported as 0.\<close>

lemma init_error:
  "bcf_slot_map_build mem nr h = Some (Inl err, h') \<Longrightarrow> err = - ENOMEM"
  "bcf_var_renamer_init h = (Inl err, h') \<Longrightarrow> err = - ENOMEM"
  "bcf_hash_outbuf_init h = (Inl err, h') \<Longrightarrow> err = - ENOMEM"
proof -
  obtain x y h1 h2 where m: "malloc h = (x, h1)" "malloc h1 = (y, h2)" by (meson surj_pair)
  show "bcf_slot_map_build mem nr h = Some (Inl err, h') \<Longrightarrow> err = - ENOMEM"
    "bcf_var_renamer_init h = (Inl err, h') \<Longrightarrow> err = - ENOMEM"
    "bcf_hash_outbuf_init h = (Inl err, h') \<Longrightarrow> err = - ENOMEM"
    using m by (auto simp: bcf_slot_map_build_def bcf_var_renamer_init_def bcf_hash_outbuf_init_def bind_eq_Some_conv split: if_split_asm)
qed

lemma bcf_canonical_hash_error:
  assumes "bcf_canonical_hash root mem nr h = Some (Inl err, h')"
  shows "err \<noteq> 0"
proof (cases "nr = 0")
  case True
  then show ?thesis using assms by (simp add: bcf_canonical_hash_def EINVAL_def)
next
  case False
  then obtain r1 h1 where 1: "bcf_slot_map_build mem nr h = Some (r1, h1)"
    using assms by (auto simp: bcf_canonical_hash_def bind_eq_Some_conv)
  obtain r2 h2 where 2: "bcf_var_renamer_init h1 = (r2, h2)" by (cases "bcf_var_renamer_init h1")
  obtain r3 h3 where 3: "bcf_hash_outbuf_init h2 = (r3, h3)" by (cases "bcf_hash_outbuf_init h2")
  show ?thesis
    using assms False 1 2 3
    by (cases r1; cases r2; cases r3)
      (auto simp: bcf_canonical_hash_def bind_eq_Some_conv ENOMEM_def dest: init_error split: if_split_asm)
qed

section \<open>Tables of expressions in the buffer\<close>

text \<open>The words a table of expressions is laid out as, header by header.\<close>

definition expr_header :: "zovia_bcf_expr \<Rightarrow> u32" where
  "expr_header e = ucast (code e) OR push_bit 8 (ucast (vlen e)) OR push_bit 16 (ucast (params e))"

definition expr_words :: "expr_table \<Rightarrow> u32 list" where
  "expr_words es = concat (map (\<lambda>e. expr_header e # args e) es)"

definition buffer_holds :: "kmem \<Rightarrow> expr_table \<Rightarrow> bool" where
  "buffer_holds mem es \<longleftrightarrow> map mem [0..<length (expr_words es)] = expr_words es"

abbreviation nullary :: "expr_table \<Rightarrow> bool" where
  "nullary es \<equiv> list_all (\<lambda>e. vlen e = 0) es"

lemma expr_header_fields:
  "ucast (expr_header e) = code e" "ucast (drop_bit 8 (expr_header e)) = vlen e" "ucast (drop_bit 16 (expr_header e)) = params e"
proof -
  have high: "\<not> bit (w :: u8) (8 + n)" "\<not> bit w (16 + n)" for w n by (auto dest: bit_imp_le_length)
  show "ucast (expr_header e) = code e" "ucast (drop_bit 8 (expr_header e)) = vlen e" "ucast (drop_bit 16 (expr_header e)) = params e"
    by (rule bit_word_eqI; auto simp: expr_header_def bit_simps high)+
qed

lemma expr_at_header:
  assumes "mem i = expr_header e" "map (\<lambda>j. mem (i + 1 + j)) [0..<unat (vlen e)] = args e"
  shows "expr_at mem i = e"
  using assms by (simp add: expr_at_def expr_header_fields)

lemma buffer_nth: "buffer_holds mem es \<Longrightarrow> k < length (expr_words es) \<Longrightarrow> mem k = expr_words es ! k"
  unfolding buffer_holds_def by (metis add.left_neutral length_map length_upt minus_nat.diff_0 nth_map nth_upt)

lemma nullary_words: "nullary ps \<Longrightarrow> list_all expr_ok ps \<Longrightarrow> expr_words ps = map expr_header ps"
  by (induction ps) (auto simp: expr_words_def expr_ok_def)

text \<open>As long as no expression before has arguments, the header of the next one is where the code looks for it.\<close>

lemma expr_at_prefix:
  assumes "buffer_holds mem (ps @ e # rest)" "nullary ps" "list_all expr_ok (ps @ [e])"
  shows "expr_at mem (length ps) = e" "j < length ps \<Longrightarrow> expr_at mem j = ps ! j"
proof -
  have words: "expr_words (ps @ e # rest) = map expr_header ps @ expr_header e # args e @ expr_words rest"
    using nullary_words [of ps] assms(2,3) by (simp add: expr_words_def)
  have "mem (length ps + 1 + j) = args e ! j" if "j < length (args e)" for j
    using buffer_nth [OF assms(1), of "length ps + 1 + j"] that by (simp add: words nth_append)
  then have "map (\<lambda>j. mem (length ps + 1 + j)) [0..<unat (vlen e)] = args e"
    using assms(3) by (intro nth_equalityI) (simp_all add: expr_ok_def)
  moreover have "mem (length ps) = expr_header e"
    using buffer_nth [OF assms(1), of "length ps"] by (simp add: words nth_append)
  ultimately show "expr_at mem (length ps) = e" by (rule expr_at_header [rotated])
  assume j: "j < length ps"
  have "ps ! j \<in> set ps" using j by simp
  then have "vlen (ps ! j) = 0" "args (ps ! j) = []"
    using assms(2,3) by (auto simp: list_all_iff expr_ok_def)
  then show "expr_at mem j = ps ! j"
    using buffer_nth [OF assms(1), of j] j by (intro expr_at_header) (simp_all add: words nth_append)
qed


lemma slot_ref_nullary_conv: "nullary (take i ts) \<Longrightarrow> slot_ref ts off k = Some i \<Longrightarrow> k = off + i"
proof (induction ts arbitrary: off i)
  case (Cons t ts)
  then show ?case
  proof (cases "k = off")
    case False
    then obtain j where "i = Suc j" "slot_ref ts (off + 1 + unat (vlen t)) k = Some j" using Cons.prems(2) by auto
    then show ?thesis using Cons.prems(1) Cons.IH [of j "off + 1 + unat (vlen t)"] by auto
  qed simp
qed simp

text \<open>The slot behind the first expression with arguments.\<close>

lemma slot_ref_behind: "nullary ps \<Longrightarrow> slot_ref (ps @ e # f # rest) off (off + length ps + 1 + unat (vlen e)) = Some (Suc (length ps))"
proof (induction ps arbitrary: off)
  case (Cons p ps)
  then show ?case using Cons.IH [of "Suc off"] by simp
qed simp

lemma kexprs_nth: "i < unat nr \<Longrightarrow> kexprs mem nr ! i = expr_at mem i" "length (kexprs mem nr) = unat nr"
  by (simp_all add: kexprs_def)

text \<open>A header that is a leaf.\<close>

lemma tree_of_leaf:
  assumes "slot_ref es 0 (unat s) = Some i" "is_leaf (es ! i)"
  shows "tree_of (Suc d) es s =
    Some (if is_var (code (es ! i)) then Var s (code (es ! i)) (params (es ! i))
          else Const (code (es ! i)) (vlen (es ! i)) (params (es ! i)) (args (es ! i)))"
  using assms by (simp add: Let_def)




section \<open>Properties\<close>


text \<open>Concrete buffers.\<close>

definition kmem_of :: "expr_table \<Rightarrow> kmem" where
  "kmem_of es i = (if i < length (expr_words es) then expr_words es ! i else 0)"

lemma buffer_holds_kmem_of: "buffer_holds (kmem_of es) es"
  unfolding buffer_holds_def by (intro nth_equalityI) (simp_all add: kmem_of_def)



text \<open>C13. Elsewhere it is not: the header of the expression behind the first one that has arguments is looked for where that
  one has its first argument. If that argument, read as a header, has no arguments of its own and is no variable (a slot number or a constant below 256, for
  instance, other than 24 to 31), the kernel returns the hash of a 5-byte record of it, whatever the expression \<open>f\<close> asked for and
  the rest of the table are.\<close>

theorem kernel_hash_takes_argument_for_header:
  assumes table: "table_fits (ps @ e # f # rest)" "buffer_holds mem (ps @ e # f # rest)" "nullary ps" "args e = a # as"
    and a: "ucast (drop_bit 8 a) = (0 :: u8)" "\<not> is_var (ucast a)"
    and root: "unat root = length ps + 1 + unat (vlen e)"
    and nr: "Suc (length ps) < unat nr" "unat nr < 2 ^ 24" and heap: "plenty h"
  shows "\<exists>h'. bcf_canonical_hash root mem nr h =
      Some (Inr (siphash24 (TAG_LEAF_CONST # ucast a # 0 # u16_le (ucast (drop_bit 16 a))) 0 0), h')"
proof -
  let ?ks = "kexprs mem nr" and ?k = "length ps"
  have ok: "list_all expr_ok (ps @ [e])" using table(1) by (simp add: table_fits_def)
  have "expr_at mem ?k = e" "\<And>j. j < ?k \<Longrightarrow> expr_at mem j = ps ! j"
    using expr_at_prefix [OF table(2,3) ok] by blast+
  then have "take (Suc ?k) ?ks = ps @ [e]"
    using nr(1) by (intro nth_equalityI) (auto simp: kexprs_nth nth_append less_Suc_eq)
  moreover have "drop (Suc ?k) ?ks = ?ks ! Suc ?k # drop (Suc (Suc ?k)) ?ks"
    using nr(1) by (metis Cons_nth_drop_Suc kexprs_nth(2))
  ultimately have ks: "?ks = ps @ e # ?ks ! Suc ?k # drop (Suc (Suc ?k)) ?ks"
    by (metis append_Cons append_Nil append_assoc append_take_drop_id)
  have slot: "slot_ref ?ks 0 (unat root) = Some (Suc ?k)"
    using slot_ref_behind [OF table(3), of e "?ks ! Suc ?k" "drop (Suc (Suc ?k)) ?ks" 0] ks root by simp
  have "expr_words (ps @ e # f # rest) = map expr_header ps @ expr_header e # a # as @ expr_words (f # rest)"
    using nullary_words [of ps] table(3,4) ok by (simp add: expr_words_def)
  then have "mem (Suc ?k) = a"
    using buffer_nth [OF table(2), of "Suc ?k"] by (simp add: nth_append)
  then have "?ks ! Suc ?k = \<lparr>code = ucast a, vlen = 0, params = ucast (drop_bit 16 a), args = []\<rparr>"
    using nr(1) a(1) by (simp add: kexprs_nth expr_at_def)
  then have "tree_of 64 ?ks root = Some (Const (ucast a) 0 (ucast (drop_bit 16 a)) [])"
    using tree_of_leaf [OF slot, of 63] a(2) by (simp add: is_leaf_def)
  moreover have "nr \<noteq> 0" using nr(1) by auto
  ultimately show ?thesis
    using bcf_canonical_hash_cases [OF kernel_tableI [OF _ nr(2), of mem], of root h] heap
    by (auto simp: canonical_bytes_def stream_bytes_def)
qed

theorem kernel_hash_takes_argument_for_header_witness:
  "\<exists>h1. bcf_canonical_hash 3 (kmem_of example_add) 6 \<lparr>outcomes = [], live = 0\<rparr> =
      Some (Inr (siphash24 [TAG_LEAF_CONST, 1, 0, 0, 0] 0 0), h1)"
proof -
  have "kmem_of example_add = kmem_of ([\<lparr>code = 0x18, vlen = 0, params = 64, args = []\<rparr>] @ example_add ! 1 # example_add ! 2 # [])"
    by (simp add: example_add_def)
  then show ?thesis
    using kernel_hash_takes_argument_for_header [of "[\<lparr>code = 0x18, vlen = 0, params = 64, args = []\<rparr>]" "example_add ! 1"
        "example_add ! 2" "[]" "kmem_of example_add" 1 "[]" 3 6 "\<lparr>outcomes = [], live = 0\<rparr>"] buffer_holds_kmem_of [of example_add]
    by (auto simp: example_add_def table_fits_def total_slots_def expr_ok_def plenty_def is_var_def BCF_OP_MASK_def BCF_VAR_def
        u16_le_def)
qed

text \<open>C14. The walk returns on every content of the memory, cyclic tables included, for every root and every count below \<open>2^24\<close>, whatever
  allocations fail, and frees everything: it returns the hash exactly for expressions, read the way the code reads them, that are at most 64 deep
  without dangling references (given memory), and a negative error code otherwise.\<close>

theorem bcf_canonical_hash_total:
  assumes "unat nr < 2 ^ 24"
  shows "\<exists>r h'. bcf_canonical_hash root mem nr h = Some (r, h') \<and> live h' = live h \<and>
    (case r of
       Inr x \<Rightarrow> \<exists>t. tree_of BCF_HASH_MAX_DEPTH (kexprs mem nr) root = Some t \<and> x = siphash24 (canonical_bytes t) 0 0
     | Inl err \<Rightarrow> err < 0 \<and> (plenty h \<longrightarrow> tree_of BCF_HASH_MAX_DEPTH (kexprs mem nr) root = None))"
proof (cases "nr = 0")
  case True
  then show ?thesis
    by (simp add: bcf_canonical_hash_def kexprs_def EINVAL_def BCF_HASH_MAX_DEPTH_def eval_nat_numeral)
next
  case False
  obtain r h' where "bcf_canonical_hash root mem nr h = Some (r, h')" "live h' = live h"
    "(\<exists>t. tree_of 64 (kexprs mem nr) root = Some t \<and> r = Inr (siphash24 (canonical_bytes t) 0 0)) \<or>
     (\<exists>err < 0. r = Inl err) \<and> \<not> (plenty h \<and> tree_of 64 (kexprs mem nr) root \<noteq> None)"
    by (rule bcf_canonical_hash_cases [OF kernel_tableI [OF False assms]])
  then show ?thesis by (auto simp: BCF_HASH_MAX_DEPTH_def)
qed

theorem bcf_canonical_hash_total_witness:
  "\<exists>err h'. bcf_canonical_hash 0 (kmem_of self_reference) 3 \<lparr>outcomes = [], live = 0\<rparr> = Some (Inl err, h') \<and>
    live h' = 0 \<and> err < 0"
proof -
  let ?ks = "kexprs (kmem_of self_reference) 3"
  have none: "tree_of d ?ks 0 = None" for d
  proof (induction d)
    case (Suc d)
    have "\<not> is_leaf (?ks ! 0)" "slot_ref ?ks 0 0 = Some 0" "args (?ks ! 0) = [0, 0]" by code_simp+
    then show ?case using Suc by (simp add: Let_def)
  qed simp
  obtain r h' where "bcf_canonical_hash 0 (kmem_of self_reference) 3 \<lparr>outcomes = [], live = 0\<rparr> = Some (r, h')" "live h' = 0"
    "case r of
       Inr x \<Rightarrow> \<exists>t. tree_of BCF_HASH_MAX_DEPTH ?ks 0 = Some t \<and> x = siphash24 (canonical_bytes t) 0 0
     | Inl err \<Rightarrow> err < 0 \<and> (plenty \<lparr>outcomes = [], live = 0\<rparr> \<longrightarrow> tree_of BCF_HASH_MAX_DEPTH ?ks 0 = None)"
    using bcf_canonical_hash_total [of 3 0 "kmem_of self_reference" "\<lparr>outcomes = [], live = 0\<rparr>"] by auto
  then show ?thesis using none by (cases r) auto
qed

end
