(* ===== verification/Bcf_Bundle.thy ===== *)
theory Bcf_Bundle
  imports Kernel_Hash
begin

text \<open>
  The BCF bundle: its wire format (\<open>c-ref/bcf_bundle.h\<close>, \<open>linux-deltas/patches/0002\<close>), the kernel's
  reader and its use at refinement sites (\<open>patches/0003\<close> and \<open>0004\<close>), and the userspace writer
  (\<open>src/refinement/bundle.rs\<close>).

  A blob is a list of bytes; a read outside it is \<open>None\<close>, so that a function that returns a value has
  made no such read. The reader is parametrised by whether \<open>struct bcf_bundle_entry\<close> is packed,
  because the two headers differ in it. User memory is an argument (\<open>None\<close>: the copy faults), and so is
  \<open>bcf_check_proof\<close>, which is not part of this repository.
\<close>

unbundle bit_operations_syntax

section \<open>The wire format\<close>

text \<open>Size of a C struct with fields of the given sizes, each naturally aligned unless packed.\<close>

definition align_up :: "nat \<Rightarrow> nat \<Rightarrow> nat" where
  "align_up a n = (n + a - 1) div a * a"

definition sizeof_struct :: "bool \<Rightarrow> nat list \<Rightarrow> nat" where
  "sizeof_struct packed szs =
     (if packed then sum_list szs
      else align_up (Max (set szs)) (foldl (\<lambda>off sz. align_up sz off + sz) 0 szs))"

definition BCF_BUNDLE_MAGIC :: u32 where "BCF_BUNDLE_MAGIC = 0x42464342"
definition BCF_BUNDLE_KIND_REFINE :: u32 where "BCF_BUNDLE_KIND_REFINE = 1"
definition BCF_BUNDLE_KIND_UNREACHABLE :: u32 where "BCF_BUNDLE_KIND_UNREACHABLE = 2"

record bcf_bundle_header =
  magic :: u32
  entry_cnt :: u32
  total_size :: u32
  reserved :: u32

record bcf_bundle_entry =
  cond_hash :: u64
  goal_off :: u32
  goal_size :: u32
  proof_off :: u32
  proof_size :: u32
  kind :: u32

definition sizeof_header :: nat where
  "sizeof_header = sizeof_struct False [4, 4, 4, 4]"

definition sizeof_entry :: "bool \<Rightarrow> nat" where
  "sizeof_entry packed = sizeof_struct packed [8, 4, 4, 4, 4, 4]"

text \<open>Reads of the blob.\<close>

definition rd_u32 :: "u8 list \<Rightarrow> nat \<Rightarrow> u32 option" where
  "rd_u32 b off =
     (if off + 4 \<le> length b
      then Some (le_u32 (b ! off) (b ! (off + 1)) (b ! (off + 2)) (b ! (off + 3))) else None)"

definition rd_u64 :: "u8 list \<Rightarrow> nat \<Rightarrow> u64 option" where
  "rd_u64 b off = do {
     lo \<leftarrow> rd_u32 b off;
     hi \<leftarrow> rd_u32 b (off + 4);
     Some (ucast lo OR push_bit 32 (ucast hi))
   }"

definition rd_header :: "u8 list \<Rightarrow> bcf_bundle_header option" where
  "rd_header b = do {
     m \<leftarrow> rd_u32 b 0;
     c \<leftarrow> rd_u32 b 4;
     t \<leftarrow> rd_u32 b 8;
     r \<leftarrow> rd_u32 b 12;
     Some \<lparr>magic = m, entry_cnt = c, total_size = t, reserved = r\<rparr>
   }"

definition rd_entry_at :: "u8 list \<Rightarrow> nat \<Rightarrow> bcf_bundle_entry option" where
  "rd_entry_at b off = do {
     x \<leftarrow> rd_u64 b off;
     go \<leftarrow> rd_u32 b (off + 8);
     gs \<leftarrow> rd_u32 b (off + 12);
     po \<leftarrow> rd_u32 b (off + 16);
     ps \<leftarrow> rd_u32 b (off + 20);
     k \<leftarrow> rd_u32 b (off + 24);
     Some \<lparr>cond_hash = x, goal_off = go, goal_size = gs, proof_off = po, proof_size = ps, kind = k\<rparr>
   }"

text \<open>\<open>entries[i]\<close>\<close>

definition rd_entry :: "bool \<Rightarrow> u8 list \<Rightarrow> nat \<Rightarrow> bcf_bundle_entry option" where
  "rd_entry packed b i = rd_entry_at b (sizeof_header + i * sizeof_entry packed)"

section \<open>The kernel's reader\<close>

definition ENOENT :: int where "ENOENT = 2"
definition EFAULT :: int where "EFAULT = 14"

definition BCF_BUNDLE_MAX_SIZE :: u32 where "BCF_BUNDLE_MAX_SIZE = 64 * 1024 * 1024"

text \<open>The loop of \<open>bcf_bundle_validate\<close>, from entry \<open>i\<close>, \<open>n\<close> entries to go; the sums are \<open>u64\<close> sums of
  \<open>u32\<close> values and cannot wrap.\<close>

fun validate_entries :: "bool \<Rightarrow> u8 list \<Rightarrow> u32 \<Rightarrow> u32 \<Rightarrow> nat \<Rightarrow> nat \<Rightarrow> int option" where
  "validate_entries packed b tot payload_start i 0 = Some 0"
| "validate_entries packed b tot payload_start i (Suc n) = do {
     e \<leftarrow> rd_entry packed b i;
     let goal_end = unat (goal_off e) + unat (goal_size e);
     let proof_end = unat (proof_off e) + unat (proof_size e);
     if kind e \<noteq> BCF_BUNDLE_KIND_REFINE \<and> kind e \<noteq> BCF_BUNDLE_KIND_UNREACHABLE then Some (- EINVAL)
     else if goal_off e < payload_start \<or> goal_end > unat tot then Some (- EINVAL)
     else if proof_off e < payload_start \<or> proof_end > unat tot then Some (- EINVAL)
     else if goal_off e AND 3 \<noteq> 0 \<or> proof_off e AND 3 \<noteq> 0 then Some (- EINVAL)
     else validate_entries packed b tot payload_start (i + 1) n
   }"

definition bcf_bundle_validate :: "bool \<Rightarrow> u8 list \<Rightarrow> u32 \<Rightarrow> int option" where
  "bcf_bundle_validate packed blob sz = do {
     hdr \<leftarrow> rd_header blob;
     if magic hdr \<noteq> BCF_BUNDLE_MAGIC then Some (- EINVAL)
     else if reserved hdr \<noteq> 0 then Some (- EINVAL)
     else if total_size hdr > sz then Some (- EINVAL)
     else do {
       let entries_end = sizeof_header + unat (entry_cnt hdr) * sizeof_entry packed;
       if entries_end > unat (total_size hdr) then Some (- EINVAL)
       else validate_entries packed blob (total_size hdr) (of_nat entries_end) 0 (unat (entry_cnt hdr))
     }
   }"

text \<open>The part of \<open>struct bcf_refine_state\<close> the bundle code uses.\<close>

record bcf_refine_state =
  bundle_blob :: "u8 list option"
  bundle_size :: u32
  rs_exprs :: kmem
  rs_expr_cnt :: u32

definition bcf_bundle_load ::
  "bool \<Rightarrow> bcf_refine_state \<Rightarrow> u8 list option \<Rightarrow> u32 \<Rightarrow> heap \<Rightarrow> (int \<times> bcf_refine_state \<times> heap) option" where
  "bcf_bundle_load packed env ubuf sz h =
     (if unat sz < sizeof_header then Some (- EINVAL, env, h)
      else if sz > BCF_BUNDLE_MAX_SIZE then Some (- E2BIG, env, h)
      else
        (let (ok, h) = malloc h in
         if \<not> ok then Some (- ENOMEM, env, h)
         else
           (case ubuf of
              None \<Rightarrow> Some (- EFAULT, env, free True h)
            | Some blob \<Rightarrow> do {
                err \<leftarrow> bcf_bundle_validate packed blob sz;
                if err \<noteq> 0 then Some (err, env, free True h)
                else Some (0, env\<lparr>bundle_blob := Some blob, bundle_size := sz\<rparr>, h)
              })))"

definition bcf_bundle_free :: "bcf_refine_state \<Rightarrow> heap \<Rightarrow> bcf_refine_state \<times> heap" where
  "bcf_bundle_free env h =
     (case bundle_blob env of
        None \<Rightarrow> (env, h)
      | Some _ \<Rightarrow> (env\<lparr>bundle_blob := None, bundle_size := 0\<rparr>, free True h))"

fun lookup_entries :: "bool \<Rightarrow> u8 list \<Rightarrow> u64 \<Rightarrow> nat \<Rightarrow> nat \<Rightarrow> bcf_bundle_entry option option" where
  "lookup_entries packed b x i 0 = Some None"
| "lookup_entries packed b x i (Suc n) = do {
     e \<leftarrow> rd_entry packed b i;
     if cond_hash e = x then Some (Some e) else lookup_entries packed b x (i + 1) n
   }"

text \<open>\<open>bcf_bundle_lookup\<close>: the inner \<open>None\<close> is the null pointer.\<close>

definition bcf_bundle_lookup :: "bool \<Rightarrow> bcf_refine_state \<Rightarrow> u64 \<Rightarrow> bcf_bundle_entry option option" where
  "bcf_bundle_lookup packed env x =
     (case bundle_blob env of
        None \<Rightarrow> Some None
      | Some blob \<Rightarrow> do {
          hdr \<leftarrow> rd_header blob;
          lookup_entries packed blob x 0 (unat (entry_cnt hdr))
        })"

text \<open>Pointers into the blob: the bytes from there on.\<close>

definition bcf_bundle_entry_goal :: "u8 list \<Rightarrow> bcf_bundle_entry \<Rightarrow> u8 list" where
  "bcf_bundle_entry_goal blob e = drop (unat (goal_off e)) blob"

definition bcf_bundle_entry_proof :: "u8 list \<Rightarrow> bcf_bundle_entry \<Rightarrow> u8 list" where
  "bcf_bundle_entry_proof blob e = drop (unat (proof_off e)) blob"

definition bundle_entry_goal_table :: "u8 list \<Rightarrow> bcf_bundle_entry \<Rightarrow> (int + (u8 list \<times> u32)) option" where
  "bundle_entry_goal_table blob e =
     (if unat (goal_size e) < 2 * 4 then Some (Inl (- EINVAL))
      else do {
        let p = bcf_bundle_entry_goal blob e;
        root \<leftarrow> rd_u32 p 0;
        Some (Inr (drop 8 p, root))
      })"

type_synonym proof_checker = "u8 list \<Rightarrow> u32 \<Rightarrow> u8 list \<Rightarrow> u32 \<Rightarrow> int"

fun prevalidate_entries :: "bool \<Rightarrow> proof_checker \<Rightarrow> u8 list \<Rightarrow> nat \<Rightarrow> nat \<Rightarrow> int option" where
  "prevalidate_entries packed check b i 0 = Some 0"
| "prevalidate_entries packed check b i (Suc n) = do {
     e \<leftarrow> rd_entry packed b i;
     goal \<leftarrow> bundle_entry_goal_table b e;
     case goal of
       Inl err \<Rightarrow> Some err
     | Inr (goal_exprs, root) \<Rightarrow>
         (let ret = check goal_exprs root (bcf_bundle_entry_proof b e) (proof_size e) in
          if ret \<noteq> 0 then Some ret else prevalidate_entries packed check b (i + 1) n)
   }"

definition bcf_bundle_prevalidate :: "bool \<Rightarrow> proof_checker \<Rightarrow> bcf_refine_state \<Rightarrow> int option" where
  "bcf_bundle_prevalidate packed check env =
     (case bundle_blob env of
        None \<Rightarrow> Some 0
      | Some blob \<Rightarrow> do {
          hdr \<leftarrow> rd_header blob;
          prevalidate_entries packed check blob 0 (unat (entry_cnt hdr))
        })"

definition bcf_bundle_try_discharge :: "bool \<Rightarrow> bcf_refine_state \<Rightarrow> u32 \<Rightarrow> heap \<Rightarrow> (int \<times> heap) option" where
  "bcf_bundle_try_discharge packed env refine_cond h =
     (if bundle_blob env = None then Some (- ENOENT, h)
      else do {
        (r, h) \<leftarrow> bcf_canonical_hash refine_cond (rs_exprs env) (rs_expr_cnt env) h;
        case r of
          Inl err \<Rightarrow> Some (err, h)
        | Inr x \<Rightarrow> do {
            entry \<leftarrow> bcf_bundle_lookup packed env x;
            case entry of
              None \<Rightarrow> Some (- ENOENT, h)
            | Some e \<Rightarrow> Some (0, h)
          }
      })"

text \<open>\<open>bpf_prog_load\<close>: pointer and size are given together or not at all.\<close>

definition bundle_attr_check :: "u64 \<Rightarrow> u32 \<Rightarrow> int" where
  "bundle_attr_check bundle sz = (if (bundle \<noteq> 0) \<noteq> (sz \<noteq> 0) then - EINVAL else 0)"

text \<open>The bundle part of \<open>bpf_check\<close>; on an error \<open>err_free_env\<close> frees the bundle again.\<close>

definition bpf_check_bundle ::
  "bool \<Rightarrow> proof_checker \<Rightarrow> bcf_refine_state \<Rightarrow> u64 \<Rightarrow> u8 list option \<Rightarrow> u32 \<Rightarrow> heap \<Rightarrow>
    (int \<times> bcf_refine_state \<times> heap) option" where
  "bpf_check_bundle packed check env bundle ubuf sz h =
     (if bundle \<noteq> 0 \<and> sz \<noteq> 0 then do {
        (ret, env, h) \<leftarrow> bcf_bundle_load packed env ubuf sz h;
        if ret \<noteq> 0 then (let (env, h) = bcf_bundle_free env h in Some (ret, env, h))
        else do {
          ret \<leftarrow> bcf_bundle_prevalidate packed check env;
          if ret \<noteq> 0 then (let (env, h) = bcf_bundle_free env h in Some (ret, env, h))
          else Some (0, env, h)
        }
      }
      else Some (0, env, h))"

text \<open>The hook in \<open>bcf_refine\<close>: true if \<open>mark_bcf_requested\<close> is called.\<close>

definition bcf_refine_requests ::
  "bool \<Rightarrow> bcf_refine_state \<Rightarrow> int \<Rightarrow> int \<Rightarrow> int \<Rightarrow> heap \<Rightarrow> (bool \<times> heap) option" where
  "bcf_refine_requests packed env err refine_cond path_cond h =
     (if err = 0 \<and> (refine_cond \<ge> 0 \<or> path_cond \<ge> 0) then
        (if bundle_blob env = None then Some (True, h)
         else do {
           (ret, h) \<leftarrow> bcf_bundle_try_discharge packed env (of_int refine_cond) h;
           Some (ret \<noteq> 0, h)
         })
      else Some (False, h))"

section \<open>The userspace writer\<close>

definition BUNDLE_HEADER_SIZE :: nat where "BUNDLE_HEADER_SIZE = 16"
definition BUNDLE_ENTRY_SIZE :: nat where "BUNDLE_ENTRY_SIZE = 28"

record refine_entry =
  re_hash :: u64
  re_goal_root :: u32
  re_goal_exprs :: expr_table
  re_proof_bytes :: "u8 list"
  re_kind :: u32

text \<open>\<open>serialize_goal\<close>; the number of arguments is written as \<open>args.len() as u8\<close>.\<close>

definition serialize_expr :: "zovia_bcf_expr \<Rightarrow> u8 list" where
  "serialize_expr e = code e # of_nat (length (args e)) # u16_le (params e) @ concat (map u32_le (args e))"

definition serialize_goal :: "u32 \<Rightarrow> expr_table \<Rightarrow> u8 list" where
  "serialize_goal root exprs =
     u32_le root @ u32_le (of_nat (length exprs)) @ concat (map serialize_expr exprs)"

text \<open>\<open>(n + 3) & !3\<close>\<close>

definition align4 :: "nat \<Rightarrow> nat" where
  "align4 n = (n + 3) div 4 * 4"

record serialized =
  s_hash :: u64
  s_kind :: u32
  s_goal :: "u8 list"
  s_proof :: "u8 list"

text \<open>\<open>b.get(off..off + len)\<close>\<close>

definition slice :: "u8 list \<Rightarrow> nat \<Rightarrow> nat \<Rightarrow> u8 list option" where
  "slice b off n = (if off + n \<le> length b then Some (take n (drop off b)) else None)"

text \<open>The loop of \<open>read_bundle_raw\<close>; a structural problem ends it with the entries read so far.\<close>

fun read_entries :: "u8 list \<Rightarrow> nat \<Rightarrow> nat \<Rightarrow> serialized list" where
  "read_entries b i 0 = []"
| "read_entries b i (Suc n) =
     (let e = BUNDLE_HEADER_SIZE + i * BUNDLE_ENTRY_SIZE in
      if e + BUNDLE_ENTRY_SIZE > length b then []
      else
        (case rd_entry_at b e of
           None \<Rightarrow> []
         | Some x \<Rightarrow>
             (case (slice b (unat (goal_off x)) (unat (goal_size x)), slice b (unat (proof_off x)) (unat (proof_size x))) of
                (Some goal, Some proof) \<Rightarrow>
                  \<lparr>s_hash = cond_hash x, s_kind = kind x, s_goal = goal, s_proof = proof\<rparr> # read_entries b (i + 1) n
              | _ \<Rightarrow> [])))"

text \<open>\<open>read_bundle_raw\<close>; \<open>None\<close> is a file that cannot be read.\<close>

definition read_bundle_raw :: "u8 list option \<Rightarrow> serialized list" where
  "read_bundle_raw file =
     (case file of
        None \<Rightarrow> []
      | Some b \<Rightarrow>
          if length b < BUNDLE_HEADER_SIZE \<or> rd_u32 b 0 \<noteq> Some BCF_BUNDLE_MAGIC then []
          else (case rd_u32 b 4 of None \<Rightarrow> [] | Some cnt \<Rightarrow> read_entries b 0 (unat cnt)))"

fun goal_var_count :: "u8 list \<Rightarrow> nat \<Rightarrow> nat \<Rightarrow> nat \<Rightarrow> nat option" where
  "goal_var_count goal off vars 0 = Some vars"
| "goal_var_count goal off vars (Suc n) =
     (if off < length goal \<and> off + 1 < length goal
      then goal_var_count goal (off + (4 + 4 * unat (goal ! (off + 1))))
             (if is_var (goal ! off) then vars + 1 else vars) n
      else None)"

definition parse_goal_var_count :: "u8 list \<Rightarrow> nat option" where
  "parse_goal_var_count goal =
     (if length goal < 8 then None
      else do { n \<leftarrow> rd_u32 goal 4; goal_var_count goal 8 0 (unat n) })"

definition MAX_GOAL_BYTES :: nat where "MAX_GOAL_BYTES = 24 * 1024"

definition keep_prior :: "serialized \<Rightarrow> bool" where
  "keep_prior s \<longleftrightarrow> length (s_goal s) \<le> 24 * 1024 \<and>
     (case parse_goal_var_count (s_goal s) of None \<Rightarrow> False | Some n \<Rightarrow> n \<le> 128)"

definition var_count :: "expr_table \<Rightarrow> nat" where
  "var_count es = length (filter (\<lambda>x. is_var (code x)) es)"

text \<open>The loop over the new entries: \<open>seen\<close> is the set of hashes, \<open>out\<close> the entries to be written. A
  dropped entry is taken out of \<open>seen\<close> again.\<close>

fun merge_entries :: "refine_entry list \<Rightarrow> u64 set \<Rightarrow> serialized list \<Rightarrow> serialized list" where
  "merge_entries [] seen out = out"
| "merge_entries (e # es) seen out =
     (if re_hash e \<in> seen then merge_entries es seen out
      else
        (let seen' = insert (re_hash e) seen;
             goal = serialize_goal (re_goal_root e) (re_goal_exprs e)
         in if length goal > MAX_GOAL_BYTES \<or> var_count (re_goal_exprs e) > 128
            then merge_entries es (seen' - {re_hash e}) out
            else merge_entries es seen'
                   (out @ [\<lparr>s_hash = re_hash e, s_kind = re_kind e, s_goal = goal, s_proof = re_proof_bytes e\<rparr>])))"

definition merged :: "u8 list option \<Rightarrow> refine_entry list \<Rightarrow> serialized list" where
  "merged file entries =
     (let prior = filter keep_prior (read_bundle_raw file)
      in merge_entries entries (set (map s_hash prior)) prior)"

text \<open>The entry records, with payloads placed from \<open>cur\<close> on.\<close>

fun place_entries :: "nat \<Rightarrow> serialized list \<Rightarrow> bcf_bundle_entry list" where
  "place_entries cur [] = []"
| "place_entries cur (s # ss) =
     (let goal_off = cur; proof_off = goal_off + align4 (length (s_goal s)) in
      \<lparr>cond_hash = s_hash s, goal_off = of_nat goal_off, goal_size = of_nat (length (s_goal s)),
       proof_off = of_nat proof_off, proof_size = of_nat (length (s_proof s)), kind = s_kind s\<rparr>
      # place_entries (proof_off + align4 (length (s_proof s))) ss)"

definition entry_bytes :: "bcf_bundle_entry \<Rightarrow> u8 list" where
  "entry_bytes e = u64_le (cond_hash e) @ u32_le (goal_off e) @ u32_le (goal_size e) @
     u32_le (proof_off e) @ u32_le (proof_size e) @ u32_le (kind e)"

definition padded :: "u8 list \<Rightarrow> u8 list" where
  "padded xs = xs @ replicate (align4 (length xs) - length xs) 0"

definition payload_bytes :: "serialized \<Rightarrow> u8 list" where
  "payload_bytes s = padded (s_goal s) @ padded (s_proof s)"

definition bundle_total :: "serialized list \<Rightarrow> nat" where
  "bundle_total ss = BUNDLE_HEADER_SIZE + BUNDLE_ENTRY_SIZE * length ss +
     sum_list (map (\<lambda>s. align4 (length (s_goal s)) + align4 (length (s_proof s))) ss)"

definition bundle_bytes :: "serialized list \<Rightarrow> u8 list" where
  "bundle_bytes ss =
     u32_le BCF_BUNDLE_MAGIC @ u32_le (of_nat (length ss)) @ u32_le (of_nat (bundle_total ss)) @ u32_le 0 @
     concat (map entry_bytes (place_entries (BUNDLE_HEADER_SIZE + BUNDLE_ENTRY_SIZE * length ss) ss)) @
     concat (map payload_bytes ss)"

text \<open>\<open>write_bundle\<close>: the new content of the file, given the old one.\<close>

definition write_bundle :: "u8 list option \<Rightarrow> refine_entry list \<Rightarrow> u8 list" where
  "write_bundle file entries = bundle_bytes (merged file entries)"

section \<open>Reading what was written\<close>

lemma sizeof_header [simp]: "sizeof_header = 16"
  by (simp add: sizeof_header_def sizeof_struct_def align_up_def)

lemma sizeof_entry [simp]: "sizeof_entry True = 28" "sizeof_entry False = 32"
  by (simp_all add: sizeof_entry_def sizeof_struct_def align_up_def)

lemma rd_u32_here [simp]: "rd_u32 (u32_le v @ ys) 0 = Some v"
  by (simp add: rd_u32_def u32_le_def)

lemma rd_u32_shift: "rd_u32 (xs @ b) (length xs + off) = rd_u32 b off"
  by (auto simp: rd_u32_def nth_append)

lemma rd_u32_skip [simp]: "4 \<le> k \<Longrightarrow> rd_u32 (u32_le v @ b) k = rd_u32 b (k - 4)"
  using rd_u32_shift [of "u32_le v" b "k - 4"] by simp

lemma rd_u32_mono: "rd_u32 b off = Some v \<Longrightarrow> rd_u32 (b @ ys) off = Some v"
  by (auto simp: rd_u32_def nth_append split: if_splits)

lemma u64_le_split: "u64_le v = u32_le (ucast v) @ u32_le (ucast (drop_bit 32 v))"
  by (simp add: u64_le_def u32_le_def upt_rec) (auto intro!: bit_word_eqI simp: bit_simps)

lemma length_entry_bytes [simp]: "length (entry_bytes e) = 28"
  by (simp add: entry_bytes_def)

lemma rd_entry_bytes:
  assumes "length xs = off"
  shows "rd_entry_at (xs @ entry_bytes e @ ys) off = Some e"
proof -
  have "rd_u32 (xs @ b) (off + k) = rd_u32 b k" "rd_u32 (xs @ b) off = rd_u32 b 0" for b k
    using rd_u32_shift [of xs b k] rd_u32_shift [of xs b 0] assms by simp_all
  then show ?thesis
    by (simp add: rd_entry_at_def rd_u64_def entry_bytes_def u64_le_split u64_join add.assoc)
qed

lemma concat_fixed_split:
  assumes "\<And>x. length (f x) = w" "i < length xs"
  shows "concat (map f xs) = concat (map f (take i xs)) @ f (xs ! i) @ concat (map f (drop (Suc i) xs))"
    "length (concat (map f (take i xs))) = i * w"
proof -
  have "map f xs = map f (take i xs @ xs ! i # drop (Suc i) xs)"
    using assms(2) by (simp only: id_take_nth_drop [symmetric])
  then show "concat (map f xs) = concat (map f (take i xs)) @ f (xs ! i) @ concat (map f (drop (Suc i) xs))"
    by simp
  have "length (concat (map f ys)) = length ys * w" for ys
    by (induction ys) (simp_all add: assms(1))
  then show "length (concat (map f (take i xs))) = i * w" using assms(2) by simp
qed

lemma length_place_entries [simp]: "length (place_entries cur ss) = length ss"
  by (induction ss arbitrary: cur) (simp_all add: Let_def)

abbreviation placed :: "serialized list \<Rightarrow> bcf_bundle_entry list" where
  "placed ss \<equiv> place_entries (16 + 28 * length ss) ss"

lemma rd_entry_written:
  assumes "i < length ss"
  shows "rd_entry_at (bundle_bytes ss) (16 + i * 28) = Some (placed ss ! i)"
proof -
  let ?es = "placed ss"
  have i: "i < length ?es" using assms by simp
  note cs = concat_fixed_split [of entry_bytes, OF length_entry_bytes i]
  let ?hdr = "u32_le BCF_BUNDLE_MAGIC @ u32_le (of_nat (length ss)) @ u32_le (of_nat (bundle_total ss)) @ u32_le 0"
  have "bundle_bytes ss = (?hdr @ concat (map entry_bytes (take i ?es))) @ entry_bytes (?es ! i) @
      concat (map entry_bytes (drop (Suc i) ?es)) @ concat (map payload_bytes ss)"
    unfolding bundle_bytes_def by (simp add: cs(1) BUNDLE_HEADER_SIZE_def BUNDLE_ENTRY_SIZE_def)
  moreover have "length (?hdr @ concat (map entry_bytes (take i ?es))) = 16 + i * 28"
    using cs(2) by simp
  ultimately show ?thesis using rd_entry_bytes by metis
qed

lemma rd_header_written:
  "rd_header (bundle_bytes ss) = Some \<lparr>magic = BCF_BUNDLE_MAGIC, entry_cnt = of_nat (length ss),
     total_size = of_nat (bundle_total ss), reserved = 0\<rparr>"
  by (simp add: rd_header_def bundle_bytes_def)

lemma length_padded [simp]: "length (padded xs) = align4 (length xs)"
  by (simp add: padded_def align4_def)

lemma length_bundle_bytes: "length (bundle_bytes ss) = bundle_total ss"
proof -
  have "length (concat (map entry_bytes es)) = length es * 28" for es
    by (induction es) simp_all
  moreover have "length (concat (map payload_bytes ss)) =
      sum_list (map (\<lambda>s. align4 (length (s_goal s)) + align4 (length (s_proof s))) ss)"
    by (induction ss) (simp_all add: payload_bytes_def)
  ultimately show ?thesis
    by (simp add: bundle_bytes_def bundle_total_def BUNDLE_HEADER_SIZE_def BUNDLE_ENTRY_SIZE_def)
qed

text \<open>Where the payloads of entry \<open>i\<close> are.\<close>

definition payload_start :: "serialized list \<Rightarrow> nat \<Rightarrow> nat" where
  "payload_start ss i = 16 + 28 * length ss +
     sum_list (map (\<lambda>s. align4 (length (s_goal s)) + align4 (length (s_proof s))) (take i ss))"

lemma place_entries_nth:
  "i < length ss \<Longrightarrow> place_entries cur ss ! i =
     (let s = ss ! i;
          go = cur + sum_list (map (\<lambda>s. align4 (length (s_goal s)) + align4 (length (s_proof s))) (take i ss))
      in \<lparr>cond_hash = s_hash s, goal_off = of_nat go, goal_size = of_nat (length (s_goal s)),
          proof_off = of_nat (go + align4 (length (s_goal s))), proof_size = of_nat (length (s_proof s)),
          kind = s_kind s\<rparr>)"
proof (induction ss arbitrary: cur i)
  case (Cons s ss)
  then show ?case by (cases i) (simp_all add: Let_def add_ac)
qed simp

lemma sum_take_le:
  fixes f :: "'a \<Rightarrow> nat"
  assumes "i < length xs"
  shows "sum_list (map f (take i xs)) + f (xs ! i) \<le> sum_list (map f xs)"
proof -
  have "sum_list (map f xs) = sum_list (map f (take i xs @ xs ! i # drop (Suc i) xs))"
    using assms by (simp only: id_take_nth_drop [symmetric])
  then show ?thesis by simp
qed

lemma payload_start_bounds:
  assumes "i < length ss"
  shows "16 + 28 * length ss \<le> payload_start ss i"
    "payload_start ss i + align4 (length (s_goal (ss ! i))) + align4 (length (s_proof (ss ! i))) \<le> bundle_total ss"
  using sum_take_le [OF assms, of "\<lambda>s. align4 (length (s_goal s)) + align4 (length (s_proof s))"]
  by (simp_all add: payload_start_def bundle_total_def BUNDLE_HEADER_SIZE_def BUNDLE_ENTRY_SIZE_def)

lemma align4_ge: "n \<le> align4 n"
  by (simp add: align4_def)

lemma align4_dvd [simp]: "4 dvd align4 n"
  by (simp add: align4_def)

lemma payload_start_dvd: "4 dvd payload_start ss i"
proof -
  have "4 dvd sum_list (map (\<lambda>s. align4 (length (s_goal s)) + align4 (length (s_proof s))) xs)" for xs
    by (induction xs) simp_all
  then show ?thesis unfolding payload_start_def by (intro dvd_add) simp_all
qed

text \<open>The fields of entry \<open>i\<close> as numbers, in a bundle of less than \<open>2^32\<close> bytes.\<close>

lemma placed_fields:
  assumes "i < length ss" "bundle_total ss < 2 ^ 32"
  shows "cond_hash (placed ss ! i) = s_hash (ss ! i)" "kind (placed ss ! i) = s_kind (ss ! i)"
    "unat (goal_off (placed ss ! i)) = payload_start ss i"
    "unat (goal_size (placed ss ! i)) = length (s_goal (ss ! i))"
    "unat (proof_off (placed ss ! i)) = payload_start ss i + align4 (length (s_goal (ss ! i)))"
    "unat (proof_size (placed ss ! i)) = length (s_proof (ss ! i))"
proof -
  have small: "n \<le> bundle_total ss \<Longrightarrow> unat (of_nat n :: u32) = n" for n
    using assms(2) by (simp add: unsigned_of_nat take_bit_nat_eq_self)
  note b = payload_start_bounds [OF assms(1)]
    and g = align4_ge [of "length (s_goal (ss ! i))"] align4_ge [of "length (s_proof (ss ! i))"]
  have p: "placed ss ! i = \<lparr>cond_hash = s_hash (ss ! i), goal_off = of_nat (payload_start ss i),
      goal_size = of_nat (length (s_goal (ss ! i))),
      proof_off = of_nat (payload_start ss i + align4 (length (s_goal (ss ! i)))),
      proof_size = of_nat (length (s_proof (ss ! i))), kind = s_kind (ss ! i)\<rparr>"
    using place_entries_nth [OF assms(1), of "16 + 28 * length ss"]
    by (simp only: Let_def payload_start_def)
  show "cond_hash (placed ss ! i) = s_hash (ss ! i)" "kind (placed ss ! i) = s_kind (ss ! i)"
    by (simp_all only: p bcf_bundle_entry.select_convs)
  show "unat (goal_off (placed ss ! i)) = payload_start ss i"
    "unat (goal_size (placed ss ! i)) = length (s_goal (ss ! i))"
    "unat (proof_off (placed ss ! i)) = payload_start ss i + align4 (length (s_goal (ss ! i)))"
    "unat (proof_size (placed ss ! i)) = length (s_proof (ss ! i))"
    unfolding p bcf_bundle_entry.select_convs using b g by (intro small; linarith)+
qed

lemma and_3_dvd: "4 dvd unat w \<Longrightarrow> (w :: u32) AND 3 = 0"
proof -
  assume "4 dvd unat w"
  have "w AND 3 = take_bit 2 w" by (simp add: take_bit_eq_mask mask_numeral)
  moreover have "unat (take_bit 2 w) = 0"
    using \<open>4 dvd unat w\<close> by (simp only: unsigned_take_bit_eq) (simp add: take_bit_eq_mod)
  ultimately show ?thesis by (metis unsigned_eq_0_iff)
qed

text \<open>A payload of entry \<open>i\<close>, cut out of the written bundle.\<close>

lemma slice_append: "length xs = off \<Longrightarrow> slice (xs @ ys @ zs) off (length ys) = Some ys"
  by (simp add: slice_def)

lemma payload_slices:
  assumes "i < length ss"
  shows "slice (bundle_bytes ss) (payload_start ss i) (length (s_goal (ss ! i))) = Some (s_goal (ss ! i))"
    "slice (bundle_bytes ss) (payload_start ss i + align4 (length (s_goal (ss ! i)))) (length (s_proof (ss ! i))) =
      Some (s_proof (ss ! i))"
proof -
  let ?hdr = "u32_le BCF_BUNDLE_MAGIC @ u32_le (of_nat (length ss)) @ u32_le (of_nat (bundle_total ss)) @ u32_le 0 @
    concat (map entry_bytes (placed ss))"
  let ?pre = "?hdr @ concat (map payload_bytes (take i ss))"
  let ?post = "concat (map payload_bytes (drop (Suc i) ss))"
  let ?pad = "\<lambda>xs. replicate (align4 (length xs) - length xs) 0"
  have "concat (map payload_bytes ss) = concat (map payload_bytes (take i ss @ ss ! i # drop (Suc i) ss))"
    using assms by (simp only: id_take_nth_drop [symmetric])
  then have split: "bundle_bytes ss = ?pre @ payload_bytes (ss ! i) @ ?post"
    by (simp add: bundle_bytes_def BUNDLE_HEADER_SIZE_def BUNDLE_ENTRY_SIZE_def)
  have "length (concat (map entry_bytes es)) = length es * 28" for es by (induction es) simp_all
  moreover have "length (concat (map payload_bytes xs)) =
      sum_list (map (\<lambda>s. align4 (length (s_goal s)) + align4 (length (s_proof s))) xs)" for xs
    by (induction xs) (simp_all add: payload_bytes_def)
  ultimately have len: "length ?pre = payload_start ss i" by (simp add: payload_start_def)
  show "slice (bundle_bytes ss) (payload_start ss i) (length (s_goal (ss ! i))) = Some (s_goal (ss ! i))"
    unfolding split using slice_append [OF len, of "s_goal (ss ! i)" "?pad (s_goal (ss ! i)) @ padded (s_proof (ss ! i)) @ ?post"]
    by (simp add: payload_bytes_def padded_def)
  have "length (?pre @ padded (s_goal (ss ! i))) = payload_start ss i + align4 (length (s_goal (ss ! i)))"
    using len by simp
  from slice_append [OF this, of "s_proof (ss ! i)" "?pad (s_proof (ss ! i)) @ ?post"]
  show "slice (bundle_bytes ss) (payload_start ss i + align4 (length (s_goal (ss ! i)))) (length (s_proof (ss ! i))) =
      Some (s_proof (ss ! i))"
    unfolding split by (simp add: payload_bytes_def padded_def)
qed

section \<open>What validation establishes\<close>

definition entry_valid :: "bool \<Rightarrow> bcf_bundle_header \<Rightarrow> bcf_bundle_entry \<Rightarrow> bool" where
  "entry_valid packed hdr e \<longleftrightarrow>
     (kind e = BCF_BUNDLE_KIND_REFINE \<or> kind e = BCF_BUNDLE_KIND_UNREACHABLE) \<and>
     16 + unat (entry_cnt hdr) * sizeof_entry packed \<le> unat (goal_off e) \<and>
     unat (goal_off e) + unat (goal_size e) \<le> unat (total_size hdr) \<and>
     16 + unat (entry_cnt hdr) * sizeof_entry packed \<le> unat (proof_off e) \<and>
     unat (proof_off e) + unat (proof_size e) \<le> unat (total_size hdr) \<and>
     goal_off e AND 3 = 0 \<and> proof_off e AND 3 = 0"

lemma rd_u32_Some: "off + 4 \<le> length b \<Longrightarrow> \<exists>v. rd_u32 b off = Some v"
  by (simp add: rd_u32_def)

lemma rd_entry_at_Some:
  assumes "off + 28 \<le> length b"
  shows "\<exists>e. rd_entry_at b off = Some e"
proof -
  have "\<exists>v. rd_u32 b (off + k) = Some v" if "k \<le> 24" for k
    using rd_u32_Some [of "off + k" b] assms that by simp
  from this [of 0] this [of 4] this [of 8] this [of 12] this [of 16] this [of 20] this [of 24]
  show ?thesis by (auto simp: rd_entry_at_def rd_u64_def)
qed

lemma rd_header_Some:
  assumes "16 \<le> length b"
  shows "\<exists>hdr. rd_header b = Some hdr"
  using rd_u32_Some [of 0 b] rd_u32_Some [of 4 b] rd_u32_Some [of 8 b] rd_u32_Some [of 12 b] assms
  by (auto simp: rd_header_def)

lemma rd_entry_Some:
  assumes "16 + n * sizeof_entry packed \<le> length b" "i < n"
  shows "\<exists>e. rd_entry packed b i = Some e"
proof -
  have "28 \<le> sizeof_entry packed" by (cases packed) simp_all
  moreover have "(i + 1) * sizeof_entry packed \<le> n * sizeof_entry packed"
    using assms(2) by (intro mult_le_mono1) simp
  ultimately have "16 + i * sizeof_entry packed + 28 \<le> length b" using assms(1) by simp
  then show ?thesis unfolding rd_entry_def using rd_entry_at_Some by simp
qed

lemma validate_entries_returns:
  assumes "16 + N * sizeof_entry packed \<le> length b" "i + n \<le> N"
  shows "\<exists>r. validate_entries packed b tot ps i n = Some r \<and> (r = 0 \<or> r = - EINVAL)"
  using assms(2)
proof (induction n arbitrary: i)
  case (Suc n)
  obtain e where e: "rd_entry packed b i = Some e"
    using rd_entry_Some [OF assms(1), of i] Suc.prems by auto
  show ?case using Suc.IH [of "i + 1"] Suc.prems e by simp
qed simp

lemma validate_entries_0:
  assumes "validate_entries packed b tot ps i n = Some 0" "j < n"
  shows "\<exists>e. rd_entry packed b (i + j) = Some e \<and>
    (kind e = BCF_BUNDLE_KIND_REFINE \<or> kind e = BCF_BUNDLE_KIND_UNREACHABLE) \<and>
    \<not> goal_off e < ps \<and> unat (goal_off e) + unat (goal_size e) \<le> unat tot \<and>
    \<not> proof_off e < ps \<and> unat (proof_off e) + unat (proof_size e) \<le> unat tot \<and>
    goal_off e AND 3 = 0 \<and> proof_off e AND 3 = 0"
  using assms
proof (induction n arbitrary: i j)
  case (Suc n)
  then obtain e where e: "rd_entry packed b i = Some e"
    and ok: "(kind e = BCF_BUNDLE_KIND_REFINE \<or> kind e = BCF_BUNDLE_KIND_UNREACHABLE) \<and>
    \<not> goal_off e < ps \<and> unat (goal_off e) + unat (goal_size e) \<le> unat tot \<and>
    \<not> proof_off e < ps \<and> unat (proof_off e) + unat (proof_size e) \<le> unat tot \<and>
    goal_off e AND 3 = 0 \<and> proof_off e AND 3 = 0"
    and rest: "validate_entries packed b tot ps (i + 1) n = Some 0"
    by (auto simp: Let_def bind_eq_Some_conv EINVAL_def split: if_splits)
  show ?case
  proof (cases j)
    case 0
    then show ?thesis using e ok by simp
  next
    case (Suc j')
    then show ?thesis using Suc.IH [OF rest, of j'] Suc.prems(2) by simp
  qed
qed simp

lemma bcf_bundle_validate_0:
  assumes "bcf_bundle_validate packed blob sz = Some 0" "length blob = unat sz"
  obtains hdr where "rd_header blob = Some hdr" "unat (total_size hdr) \<le> length blob"
    "16 + unat (entry_cnt hdr) * sizeof_entry packed \<le> unat (total_size hdr)"
    "\<forall>i < unat (entry_cnt hdr). \<exists>e. rd_entry packed blob i = Some e \<and> entry_valid packed hdr e"
proof -
  obtain hdr where hdr: "rd_header blob = Some hdr" and t: "\<not> total_size hdr > sz"
    and en: "16 + unat (entry_cnt hdr) * sizeof_entry packed \<le> unat (total_size hdr)"
    and v: "validate_entries packed blob (total_size hdr)
      (of_nat (16 + unat (entry_cnt hdr) * sizeof_entry packed)) 0 (unat (entry_cnt hdr)) = Some 0"
    using assms(1) by (auto simp: bcf_bundle_validate_def Let_def bind_eq_Some_conv EINVAL_def split: if_splits)
  have "unat (total_size hdr) < 2 ^ LENGTH(32)" by (rule unsigned_less)
  then have ps: "unat (of_nat (16 + unat (entry_cnt hdr) * sizeof_entry packed) :: u32) =
      16 + unat (entry_cnt hdr) * sizeof_entry packed"
    using en by (simp only: unsigned_of_nat) (simp add: take_bit_nat_eq_self)
  have "\<exists>e. rd_entry packed blob i = Some e \<and> entry_valid packed hdr e" if "i < unat (entry_cnt hdr)" for i
    using validate_entries_0 [OF v that] ps
    by (auto simp: entry_valid_def word_less_nat_alt not_less)
  then show thesis using that hdr en t assms(2) by (simp add: word_less_nat_alt not_less)
qed

lemma bcf_bundle_load_0:
  assumes "bcf_bundle_load packed env (Some blob) sz h = Some (0, env', h')"
  shows "bcf_bundle_validate packed blob sz = Some 0" "env' = env\<lparr>bundle_blob := Some blob, bundle_size := sz\<rparr>"
proof -
  have "do {
       err \<leftarrow> bcf_bundle_validate packed blob sz;
       if err \<noteq> 0 then Some (err, env, free True (snd (malloc h)))
       else Some (0, env\<lparr>bundle_blob := Some blob, bundle_size := sz\<rparr>, snd (malloc h))
     } = Some (0, env', h')"
    using assms by (simp add: bcf_bundle_load_def EINVAL_def E2BIG_def ENOMEM_def split_def Let_def split: if_splits)
  then show "bcf_bundle_validate packed blob sz = Some 0" "env' = env\<lparr>bundle_blob := Some blob, bundle_size := sz\<rparr>"
    by (cases "bcf_bundle_validate packed blob sz"; force split: if_splits)+
qed

lemma bcf_bundle_load_balance:
  assumes "bcf_bundle_load packed env ubuf sz h = Some (r, env', h')"
  shows "r \<noteq> 0 \<and> env' = env \<and> live h' = live h \<or> r = 0 \<and> bundle_blob env' \<noteq> None \<and> live h' = live h + 1"
proof (cases ubuf)
  case None
  then show ?thesis using assms
    by (auto simp: bcf_bundle_load_def EINVAL_def E2BIG_def ENOMEM_def EFAULT_def malloc_def free_def split_def Let_def
        split: if_splits list.splits)
next
  case (Some blob)
  show ?thesis
  proof (cases "bcf_bundle_validate packed blob sz")
    case None
    then show ?thesis using assms Some
      by (auto simp: bcf_bundle_load_def EINVAL_def E2BIG_def ENOMEM_def malloc_def split_def Let_def
          split: if_splits list.splits)
  next
    case err: (Some err)
    then show ?thesis using assms Some
      by (auto simp: bcf_bundle_load_def EINVAL_def E2BIG_def ENOMEM_def malloc_def free_def split_def Let_def
          split: if_splits list.splits)
  qed
qed

lemma lookup_entries_find:
  assumes "\<And>j. j < n \<Longrightarrow> rd_entry packed b (i + j) = Some (es ! j)" "length es = n"
  shows "lookup_entries packed b x i n = Some (find (\<lambda>e. cond_hash e = x) es)"
  using assms
proof (induction n arbitrary: i es)
  case (Suc n)
  obtain e es' where es: "es = e # es'" using Suc.prems(2) by (cases es) auto
  have "rd_entry packed b (i + 1 + j) = Some (es' ! j)" if "j < n" for j
    using Suc.prems(1) [of "Suc j"] es that by simp
  then have "lookup_entries packed b x (i + 1) n = Some (find (\<lambda>e. cond_hash e = x) es')"
    using Suc.prems(2) es by (intro Suc.IH) simp_all
  then show ?case using Suc.prems(1) [of 0] es by simp
qed simp

lemma lookup_entries_hit:
  assumes "lookup_entries packed b x 0 n = Some (Some e)"
    and "\<forall>i < n. \<exists>e. rd_entry packed b i = Some e \<and> P e"
  obtains i where "i < n" "rd_entry packed b i = Some e" "cond_hash e = x"
proof -
  define es where "es = map (\<lambda>i. the (rd_entry packed b i)) [0..<n]"
  have rd: "rd_entry packed b (0 + j) = Some (es ! j)" if "j < n" for j
    using assms(2) that by (auto simp: es_def)
  have "find (\<lambda>e. cond_hash e = x) es = Some e"
    using lookup_entries_find [OF rd, of n x] assms(1) by (simp add: es_def)
  then obtain i where "i < length es" "cond_hash (es ! i) = x" "e = es ! i"
    by (auto simp: find_Some_iff)
  then show thesis using rd [of i] by (intro that [of i]) (simp_all add: es_def)
qed

text \<open>The entries of a blob that has been validated.\<close>

definition blob_entries :: "bool \<Rightarrow> u8 list \<Rightarrow> nat \<Rightarrow> bcf_bundle_entry list" where
  "blob_entries packed blob n = map (\<lambda>i. the (rd_entry packed blob i)) [0..<n]"

lemma goal_table_error: "bundle_entry_goal_table b e = Some (Inl err) \<Longrightarrow> err = - EINVAL"
  by (auto simp: bundle_entry_goal_table_def Let_def bind_eq_Some_conv split: if_splits)

lemma prevalidate_entries_0:
  assumes "prevalidate_entries packed check b i n = Some 0" "j < n" "rd_entry packed b (i + j) = Some e"
  shows "\<exists>tab root. bundle_entry_goal_table b e = Some (Inr (tab, root)) \<and>
    check tab root (bcf_bundle_entry_proof b e) (proof_size e) = 0"
  using assms
proof (induction n arbitrary: i j)
  case (Suc n)
  then obtain e0 g where g: "rd_entry packed b i = Some e0" "bundle_entry_goal_table b e0 = Some g"
    by (auto simp: bind_eq_Some_conv)
  then obtain tab root where gr: "g = Inr (tab, root)"
    using Suc.prems(1) by (cases g) (auto simp: EINVAL_def dest: goal_table_error)
  then have e0: "rd_entry packed b i = Some e0"
    "bundle_entry_goal_table b e0 = Some (Inr (tab, root))"
    "check tab root (bcf_bundle_entry_proof b e0) (proof_size e0) = 0"
    "prevalidate_entries packed check b (i + 1) n = Some 0"
    using g Suc.prems(1) by (auto simp: Let_def split: if_splits)
  show ?case
  proof (cases j)
    case 0
    then show ?thesis using e0 Suc.prems(3) by simp
  next
    case (Suc j')
    then show ?thesis using Suc.IH [OF e0(4), of j'] Suc.prems by simp
  qed
qed simp

section \<open>The writer against the reader\<close>

definition writable :: "serialized list \<Rightarrow> bool" where
  "writable ss \<longleftrightarrow> bundle_total ss < 2 ^ 32 \<and>
     list_all (\<lambda>s. s_kind s = BCF_BUNDLE_KIND_REFINE \<or> s_kind s = BCF_BUNDLE_KIND_UNREACHABLE) ss"

lemma writable_length:
  assumes "bundle_total ss < 2 ^ 32"
  shows "unat (of_nat (length ss) :: u32) = length ss" "unat (of_nat (bundle_total ss) :: u32) = bundle_total ss"
proof -
  have "length ss \<le> bundle_total ss" by (simp add: bundle_total_def BUNDLE_ENTRY_SIZE_def)
  then show "unat (of_nat (length ss) :: u32) = length ss" "unat (of_nat (bundle_total ss) :: u32) = bundle_total ss"
    using assms by (simp_all add: unsigned_of_nat take_bit_nat_eq_self)
qed

lemma validate_entries_written:
  assumes "writable ss" "ps = of_nat (16 + 28 * length ss)" "tot = of_nat (bundle_total ss)" "i + n = length ss"
  shows "validate_entries True (bundle_bytes ss) tot ps i n = Some 0"
  using assms(4)
proof (induction n arbitrary: i)
  case (Suc n)
  then have i: "i < length ss" by simp
  have b: "bundle_total ss < 2 ^ 32" using assms(1) by (simp add: writable_def)
  note f = placed_fields [OF i b] and p = payload_start_bounds [OF i]
    and g = align4_ge [of "length (s_goal (ss ! i))"] align4_ge [of "length (s_proof (ss ! i))"]
  have rd: "rd_entry True (bundle_bytes ss) i = Some (placed ss ! i)"
    using rd_entry_written [OF i] by (simp add: rd_entry_def)
  have k: "kind (placed ss ! i) = BCF_BUNDLE_KIND_REFINE \<or> kind (placed ss ! i) = BCF_BUNDLE_KIND_UNREACHABLE"
    using assms(1) i f(2) by (simp add: writable_def list_all_length)
  have ps: "unat ps = 16 + 28 * length ss"
    using p b assms(2) by (simp only: unsigned_of_nat) (simp add: take_bit_nat_eq_self)
  have "\<not> goal_off (placed ss ! i) < ps" "\<not> proof_off (placed ss ! i) < ps"
    unfolding word_less_nat_alt f ps using p by linarith+
  moreover have "\<not> unat (goal_off (placed ss ! i)) + unat (goal_size (placed ss ! i)) > unat tot"
    "\<not> unat (proof_off (placed ss ! i)) + unat (proof_size (placed ss ! i)) > unat tot"
    unfolding f assms(3) writable_length(2) [OF b] using p g by linarith+
  moreover have "goal_off (placed ss ! i) AND 3 = 0" "proof_off (placed ss ! i) AND 3 = 0"
    by (rule and_3_dvd, simp only: f payload_start_dvd align4_dvd dvd_add)+
  ultimately show ?case using Suc rd k by (auto simp: Let_def)
qed simp

lemma bcf_bundle_validate_written:
  assumes "writable ss"
  shows "bcf_bundle_validate True (bundle_bytes ss) (of_nat (bundle_total ss)) = Some 0"
proof -
  have b: "bundle_total ss < 2 ^ 32" using assms by (simp add: writable_def)
  note w = writable_length [OF b]
  have "16 + length ss * 28 \<le> bundle_total ss"
    by (simp add: bundle_total_def BUNDLE_HEADER_SIZE_def BUNDLE_ENTRY_SIZE_def)
  then show ?thesis
    using validate_entries_written [OF assms refl refl, of 0 "length ss"] w
    by (simp add: bcf_bundle_validate_def rd_header_written mult.commute)
qed

lemma lookup_written:
  assumes "bundle_total ss < 2 ^ 32" "bundle_blob env = Some (bundle_bytes ss)"
  shows "bcf_bundle_lookup True env x = Some (find (\<lambda>e. cond_hash e = x) (placed ss))"
proof -
  have "lookup_entries True (bundle_bytes ss) x 0 (length ss) = Some (find (\<lambda>e. cond_hash e = x) (placed ss))"
    by (rule lookup_entries_find) (simp_all add: rd_entry_def rd_entry_written)
  then show ?thesis using assms writable_length(1) [OF assms(1)]
    by (simp add: bcf_bundle_lookup_def rd_header_written)
qed

lemma find_nth:
  assumes "i < length xs" "P (xs ! i)" "\<And>j. j < i \<Longrightarrow> \<not> P (xs ! j)"
  shows "find P xs = Some (xs ! i)"
  using assms
proof (induction xs arbitrary: i)
  case (Cons x xs)
  show ?case
  proof (cases i)
    case 0
    then show ?thesis using Cons.prems by simp
  next
    case (Suc k)
    then show ?thesis using Cons.IH [of k] Cons.prems(1,2) Cons.prems(3) [of 0] Cons.prems(3) [of "Suc _"] by auto
  qed
qed simp

lemma read_entries_written:
  assumes "bundle_total ss < 2 ^ 32" "i + n = length ss"
  shows "read_entries (bundle_bytes ss) i n = drop i ss"
  using assms(2)
proof (induction n arbitrary: i)
  case (Suc n)
  then have i: "i < length ss" by simp
  note f = placed_fields [OF i assms(1)] and sl = payload_slices [OF i]
  have "(i + 1) * 28 \<le> length ss * 28" using i by (intro mult_le_mono1) simp
  then have fit: "\<not> 16 + i * 28 + 28 > length (bundle_bytes ss)"
    by (simp add: length_bundle_bytes bundle_total_def BUNDLE_HEADER_SIZE_def BUNDLE_ENTRY_SIZE_def)
  have d: "drop i ss = ss ! i # drop (Suc i) ss" using i by (simp add: Cons_nth_drop_Suc)
  show ?case
    using Suc fit rd_entry_written [OF i] sl
    by (simp add: Let_def BUNDLE_HEADER_SIZE_def BUNDLE_ENTRY_SIZE_def f d)
qed simp

lemma read_bundle_raw_written:
  assumes "bundle_total ss < 2 ^ 32"
  shows "read_bundle_raw (Some (bundle_bytes ss)) = ss"
proof -
  have "16 \<le> length (bundle_bytes ss)"
    by (simp add: length_bundle_bytes bundle_total_def BUNDLE_HEADER_SIZE_def)
  moreover have "rd_u32 (bundle_bytes ss) 0 = Some BCF_BUNDLE_MAGIC"
    "rd_u32 (bundle_bytes ss) 4 = Some (of_nat (length ss))"
    by (simp_all add: bundle_bytes_def)
  ultimately show ?thesis
    using read_entries_written [OF assms, of 0 "length ss"] writable_length(1) [OF assms]
    by (simp add: read_bundle_raw_def BUNDLE_HEADER_SIZE_def)
qed

section \<open>Merging\<close>

lemma rd_goal_count: "rd_u32 (serialize_goal root es) 4 = Some (of_nat (length es))"
  by (simp add: serialize_goal_def)

lemma length_serialize_expr: "length (serialize_expr e) = 4 + 4 * length (args e)"
proof -
  have "length (concat (map u32_le xs)) = 4 * length xs" for xs by (induction xs) simp_all
  then show ?thesis by (simp add: serialize_expr_def)
qed

lemma goal_var_count_exprs:
  assumes "list_all (\<lambda>e. length (args e) < 256) es" "length xs = off"
  shows "goal_var_count (xs @ concat (map serialize_expr es)) off vars (length es) = Some (vars + var_count es)"
  using assms
proof (induction es arbitrary: xs off vars)
  case Nil
  then show ?case by (simp add: var_count_def)
next
  case (Cons e es)
  let ?g = "xs @ concat (map serialize_expr (e # es))"
  have n: "unat (of_nat (length (args e)) :: u8) = length (args e)"
    using Cons.prems(1) by (simp add: unsigned_of_nat take_bit_nat_eq_self)
  have at: "?g ! off = code e" "?g ! (off + 1) = of_nat (length (args e))" "off + 1 < length ?g"
    using Cons.prems(2) by (simp_all add: serialize_expr_def nth_append)
  have "goal_var_count ((xs @ serialize_expr e) @ concat (map serialize_expr es))
      (off + (4 + 4 * length (args e))) (if is_var (code e) then vars + 1 else vars) (length es) =
    Some ((if is_var (code e) then vars + 1 else vars) + var_count es)"
    using Cons.prems by (intro Cons.IH) (simp_all add: length_serialize_expr)
  then show ?case using at n by (simp add: var_count_def)
qed

text \<open>The filter on old entries counts the variables of a goal the writer serialised.\<close>

lemma parse_goal_var_count_serialize:
  assumes "list_all (\<lambda>e. length (args e) < 256) es" "length es < 2 ^ 32"
  shows "parse_goal_var_count (serialize_goal root es) = Some (var_count es)"
proof -
  have "unat (of_nat (length es) :: u32) = length es"
    using assms(2) by (simp add: unsigned_of_nat take_bit_nat_eq_self)
  moreover have "goal_var_count ((u32_le root @ u32_le (of_nat (length es))) @ concat (map serialize_expr es))
      8 0 (length es) = Some (0 + var_count es)"
    by (rule goal_var_count_exprs [OF assms(1)]) simp
  ultimately show ?thesis
    by (simp add: parse_goal_var_count_def rd_goal_count, simp add: serialize_goal_def)
qed

text \<open>Goals as the analysis produces them: at most 255 arguments, so that the count fits its byte.\<close>

definition goal_ok :: "refine_entry \<Rightarrow> bool" where
  "goal_ok e \<longleftrightarrow> list_all (\<lambda>x. length (args x) < 256) (re_goal_exprs e)"

definition fits_kernel :: "refine_entry \<Rightarrow> bool" where
  "fits_kernel e \<longleftrightarrow> \<not> (length (serialize_goal (re_goal_root e) (re_goal_exprs e)) > MAX_GOAL_BYTES \<or>
     var_count (re_goal_exprs e) > 128)"

definition serialized_entry :: "refine_entry \<Rightarrow> serialized" where
  "serialized_entry e = \<lparr>s_hash = re_hash e, s_kind = re_kind e,
     s_goal = serialize_goal (re_goal_root e) (re_goal_exprs e), s_proof = re_proof_bytes e\<rparr>"

lemma merge_entries_Cons:
  "merge_entries (e # es) seen out =
     (if re_hash e \<in> seen then merge_entries es seen out
      else if fits_kernel e then merge_entries es (insert (re_hash e) seen) (out @ [serialized_entry e])
      else merge_entries es seen out)"
  by (auto simp: Let_def fits_kernel_def serialized_entry_def)

lemma serialized_entry_hash [simp]: "s_hash (serialized_entry e) = re_hash e"
  by (simp add: serialized_entry_def)

lemma keep_prior_new: "goal_ok e \<Longrightarrow> fits_kernel e \<Longrightarrow> keep_prior (serialized_entry e)"
proof -
  assume ok: "goal_ok e" "fits_kernel e"
  have "length (serialize_goal (re_goal_root e) (re_goal_exprs e)) \<le> 24 * 1024"
    using ok(2) by (simp add: fits_kernel_def MAX_GOAL_BYTES_def)
  moreover have "length xs \<le> length (concat (map serialize_expr xs))" for xs
    by (induction xs) (simp_all add: length_serialize_expr)
  then have "length (re_goal_exprs e) \<le> length (serialize_goal (re_goal_root e) (re_goal_exprs e))"
    by (simp add: serialize_goal_def trans_le_add2)
  ultimately have "length (re_goal_exprs e) < 2 ^ 32" by simp
  then show ?thesis
    using ok parse_goal_var_count_serialize [of "re_goal_exprs e" "re_goal_root e"]
    by (simp add: keep_prior_def serialized_entry_def goal_ok_def fits_kernel_def MAX_GOAL_BYTES_def)
qed

lemma merge_entries_keep:
  "list_all goal_ok es \<Longrightarrow> list_all keep_prior out \<Longrightarrow> list_all keep_prior (merge_entries es seen out)"
  by (induction es arbitrary: seen out) (simp_all add: merge_entries_Cons keep_prior_new del: merge_entries.simps(2))

text \<open>Every entry the kernel can check is in the result, under its hash.\<close>

lemma merge_entries_seen:
  assumes "s_hash ` set out = seen"
  shows "s_hash ` set (merge_entries es seen out) = seen \<union> re_hash ` {e \<in> set es. fits_kernel e}"
  using assms
proof (induction es arbitrary: seen out)
  case (Cons e es)
  have "re_hash ` {x \<in> set (e # es). fits_kernel x} =
      (if fits_kernel e then insert (re_hash e) (re_hash ` {x \<in> set es. fits_kernel x})
       else re_hash ` {x \<in> set es. fits_kernel x})" by auto
  moreover have "s_hash ` set (out @ [serialized_entry e]) = insert (re_hash e) seen"
    using Cons.prems by auto
  ultimately show ?case
    using Cons.IH [OF Cons.prems] Cons.IH [of "out @ [serialized_entry e]" "insert (re_hash e) seen"]
    unfolding merge_entries_Cons by (cases "re_hash e \<in> seen"; cases "fits_kernel e") auto
qed simp

lemma merge_entries_again:
  "re_hash ` {e \<in> set es. fits_kernel e} \<subseteq> seen \<Longrightarrow> merge_entries es seen out = out"
  by (induction es) (auto simp: merge_entries_Cons simp del: merge_entries.simps(2))

lemma merge_entries_distinct:
  "distinct (map s_hash out) \<Longrightarrow> set (map s_hash out) = seen \<Longrightarrow> distinct (map s_hash (merge_entries es seen out))"
proof (induction es arbitrary: seen out)
  case (Cons e es)
  then show ?case by (auto simp: merge_entries_Cons simp del: merge_entries.simps(2))
qed simp

section \<open>Properties\<close>

definition sample_entry :: refine_entry where
  "sample_entry = \<lparr>re_hash = 7, re_goal_root = 3,
     re_goal_exprs =
       [\<lparr>code = 0x18, vlen = 0, params = 64, args = []\<rparr>,
        \<lparr>code = 0x08, vlen = 1, params = 0, args = [42]\<rparr>,
        \<lparr>code = 0x00, vlen = 2, params = 0, args = [0, 1]\<rparr>],
     re_proof_bytes = [0xcf, 0x0b, 0x00, 0x00, 0xaa, 0xbb], re_kind = 1\<rparr>"

lemma sample_ok: "goal_ok sample_entry" "fits_kernel sample_entry"
  by (simp_all add: goal_ok_def fits_kernel_def sample_entry_def serialize_goal_def serialize_expr_def
      MAX_GOAL_BYTES_def var_count_def)

lemma merged_fresh: "merged None es = merge_entries es {} []"
  by (simp add: merged_def read_bundle_raw_def)

lemma sample_merged: "merged None [sample_entry] = [serialized_entry sample_entry]"
  using sample_ok(2) by (simp add: merged_fresh merge_entries_Cons del: merge_entries.simps(2))

lemma sample_writable: "writable [serialized_entry sample_entry]"
  by (simp add: writable_def bundle_total_def serialized_entry_def sample_entry_def serialize_goal_def
      serialize_expr_def BUNDLE_HEADER_SIZE_def BUNDLE_ENTRY_SIZE_def align4_def BCF_BUNDLE_KIND_REFINE_def)

text \<open>C15. The reader against the writer, under the packed layout of \<open>c-ref/bcf_bundle.h\<close>: a bundle
  freshly written by \<open>write_bundle\<close> passes the kernel's validation, and looking up the hash of any
  entry the kernel can check yields an entry whose payload pointers give exactly the goal and the
  proof that were written under that hash.\<close>

theorem written_bundle_validates_and_looks_up:
  assumes "writable (merged None es)" "e \<in> set es" "fits_kernel e"
    and "bundle_blob env = Some (write_bundle None es)"
  shows "bcf_bundle_validate True (write_bundle None es) (of_nat (length (write_bundle None es))) = Some 0 \<and>
    (\<exists>s x. s \<in> set (merged None es) \<and> s_hash s = re_hash e \<and> bcf_bundle_lookup True env (re_hash e) = Some (Some x) \<and>
      take (unat (goal_size x)) (bcf_bundle_entry_goal (write_bundle None es) x) = s_goal s \<and>
      take (unat (proof_size x)) (bcf_bundle_entry_proof (write_bundle None es) x) = s_proof s)"
proof (intro conjI)
  let ?ss = "merged None es"
  have b: "bundle_total ?ss < 2 ^ 32" using assms(1) by (simp add: writable_def)
  show "bcf_bundle_validate True (write_bundle None es) (of_nat (length (write_bundle None es))) = Some 0"
    using bcf_bundle_validate_written [OF assms(1)] by (simp add: write_bundle_def length_bundle_bytes)
  have "re_hash e \<in> s_hash ` set ?ss"
    using merge_entries_seen [of "[]" "{}" es] assms(2,3) by (simp add: merged_fresh)
  then obtain i where i: "i < length ?ss" "s_hash (?ss ! i) = re_hash e" by (auto simp: in_set_conv_nth)
  have dist: "distinct (map s_hash ?ss)"
    using merge_entries_distinct [of "[]" "{}" es] by (simp add: merged_fresh)
  have "find (\<lambda>x. cond_hash x = re_hash e) (placed ?ss) = Some (placed ?ss ! i)"
  proof (rule find_nth)
    show "i < length (placed ?ss)" "cond_hash (placed ?ss ! i) = re_hash e"
      using i placed_fields(1) [OF i(1) b] by simp_all
    show "cond_hash (placed ?ss ! j) \<noteq> re_hash e" if "j < i" for j
      using that i dist placed_fields(1) [of j ?ss, OF _ b] nth_eq_iff_index_eq [OF dist, of i j] by auto
  qed
  then have look: "bcf_bundle_lookup True env (re_hash e) = Some (Some (placed ?ss ! i))"
    using lookup_written [OF b] assms(4) by (simp add: write_bundle_def)
  note f = placed_fields [OF i(1) b] and sl = payload_slices [OF i(1)]
  have "take (unat (goal_size (placed ?ss ! i))) (bcf_bundle_entry_goal (write_bundle None es) (placed ?ss ! i)) = s_goal (?ss ! i)"
    "take (unat (proof_size (placed ?ss ! i))) (bcf_bundle_entry_proof (write_bundle None es) (placed ?ss ! i)) = s_proof (?ss ! i)"
    using sl by (simp_all add: write_bundle_def bcf_bundle_entry_goal_def bcf_bundle_entry_proof_def f slice_def split: if_splits)
  then show "\<exists>s x. s \<in> set ?ss \<and> s_hash s = re_hash e \<and> bcf_bundle_lookup True env (re_hash e) = Some (Some x) \<and>
      take (unat (goal_size x)) (bcf_bundle_entry_goal (write_bundle None es) x) = s_goal s \<and>
      take (unat (proof_size x)) (bcf_bundle_entry_proof (write_bundle None es) x) = s_proof s"
    using look i by (metis nth_mem)
qed

theorem written_bundle_validates_and_looks_up_witness:
  "\<exists>s x. s \<in> set (merged None [sample_entry]) \<and> s_hash s = 7 \<and>
     bcf_bundle_lookup True \<lparr>bundle_blob = Some (write_bundle None [sample_entry]), bundle_size = 0,
       rs_exprs = (\<lambda>_. 0), rs_expr_cnt = 0\<rparr> 7 = Some (Some x) \<and>
     take (unat (proof_size x)) (bcf_bundle_entry_proof (write_bundle None [sample_entry]) x) = s_proof s"
proof -
  have w: "writable (merged None [sample_entry])" using sample_writable by (simp add: sample_merged)
  have "re_hash sample_entry = 7" by (simp add: sample_entry_def)
  then show ?thesis
    using written_bundle_validates_and_looks_up [OF w _ sample_ok(2),
        of "\<lparr>bundle_blob = Some (write_bundle None [sample_entry]), bundle_size = 0, rs_exprs = (\<lambda>_. 0), rs_expr_cnt = 0\<rparr>"]
    by auto
qed

text \<open>C19. The layout of \<open>patches/0002\<close> is not the one of \<open>c-ref/bcf_bundle.h\<close>: there the entry struct is
  not packed, so its size is 32 bytes and not the 28 bytes the writer emits. With it the kernel
  refuses every bundle the writer produces, unless the bundle has no entry.\<close>

theorem unpacked_layout_rejects_written:
  assumes "writable ss" "ss \<noteq> []"
  shows "bcf_bundle_validate False (bundle_bytes ss) (of_nat (bundle_total ss)) = Some (- EINVAL)"
proof -
  have b: "bundle_total ss < 2 ^ 32" using assms(1) by (simp add: writable_def)
  note w = writable_length [OF b]
  show ?thesis
  proof (cases "16 + length ss * 32 > bundle_total ss")
    case True
    then show ?thesis using w by (simp add: bcf_bundle_validate_def rd_header_written)
  next
    case False
    have 0: "0 < length ss" using assms(2) by simp
    obtain n where n: "length ss = Suc n" using 0 by (cases "length ss") auto
    have rd: "rd_entry False (bundle_bytes ss) 0 = Some (placed ss ! 0)"
      using rd_entry_written [OF 0] by (simp add: rd_entry_def)
    have "unat (of_nat (16 + length ss * 32) :: u32) = 16 + length ss * 32"
      using False b by (simp only: unsigned_of_nat) (simp add: take_bit_nat_eq_self)
    then have "goal_off (placed ss ! 0) < of_nat (16 + length ss * 32)"
      unfolding word_less_nat_alt using placed_fields(3) [OF 0 b] 0 by (simp add: payload_start_def)
    then have "validate_entries False (bundle_bytes ss) (of_nat (bundle_total ss))
        (of_nat (16 + length ss * 32)) 0 (length ss) = Some (- EINVAL)"
      unfolding n using rd by (simp add: n)
    then show ?thesis using False w by (simp add: bcf_bundle_validate_def rd_header_written)
  qed
qed

theorem unpacked_layout_rejects_written_witness:
  "bcf_bundle_validate False (bundle_bytes [serialized_entry sample_entry])
     (of_nat (bundle_total [serialized_entry sample_entry])) = Some (- EINVAL)"
  by (rule unpacked_layout_rejects_written [OF sample_writable]) simp

text \<open>C16. Validation is safe on arbitrary bytes: on any blob of the stated size that can hold a header it
  reads nothing outside the blob, and if it returns 0 then every entry has a known kind, and goal
  and proof payloads that are aligned and lie inside the blob behind the entry table.\<close>

theorem bcf_bundle_validate_safe:
  assumes "length blob = unat sz" "16 \<le> length blob"
  shows "bcf_bundle_validate packed blob sz = Some (- EINVAL) \<or>
    bcf_bundle_validate packed blob sz = Some 0 \<and>
    (\<exists>hdr. rd_header blob = Some hdr \<and>
      (\<forall>i < unat (entry_cnt hdr). \<exists>e. rd_entry packed blob i = Some e \<and> entry_valid packed hdr e \<and>
         unat (goal_off e) + unat (goal_size e) \<le> length blob \<and>
         unat (proof_off e) + unat (proof_size e) \<le> length blob))"
proof -
  obtain hdr where hdr: "rd_header blob = Some hdr" using rd_header_Some [OF assms(2)] by blast
  have ret: "\<exists>r. bcf_bundle_validate packed blob sz = Some r \<and> (r = 0 \<or> r = - EINVAL)"
  proof (cases "total_size hdr > sz \<or> 16 + unat (entry_cnt hdr) * sizeof_entry packed > unat (total_size hdr)")
    case True
    then show ?thesis using hdr by (auto simp: bcf_bundle_validate_def Let_def)
  next
    case False
    then have "16 + unat (entry_cnt hdr) * sizeof_entry packed \<le> length blob"
      using assms(1) by (simp add: word_less_nat_alt)
    from validate_entries_returns [OF this, of 0 "unat (entry_cnt hdr)"] show ?thesis
      using hdr False by (auto simp: bcf_bundle_validate_def Let_def)
  qed
  moreover have "\<exists>hdr. rd_header blob = Some hdr \<and>
      (\<forall>i < unat (entry_cnt hdr). \<exists>e. rd_entry packed blob i = Some e \<and> entry_valid packed hdr e \<and>
         unat (goal_off e) + unat (goal_size e) \<le> length blob \<and>
         unat (proof_off e) + unat (proof_size e) \<le> length blob)"
    if ok: "bcf_bundle_validate packed blob sz = Some 0"
  proof -
    obtain hdr where h: "rd_header blob = Some hdr" and t: "unat (total_size hdr) \<le> length blob"
      and es: "\<forall>i < unat (entry_cnt hdr). \<exists>e. rd_entry packed blob i = Some e \<and> entry_valid packed hdr e"
      by (rule bcf_bundle_validate_0 [OF ok assms(1)])
    have "unat (goal_off e) + unat (goal_size e) \<le> length blob \<and> unat (proof_off e) + unat (proof_size e) \<le> length blob"
      if "entry_valid packed hdr e" for e
      using that t by (simp add: entry_valid_def)
    then show ?thesis using h es by blast
  qed
  ultimately show ?thesis by blast
qed

theorem bcf_bundle_validate_safe_witness:
  "bcf_bundle_validate True (replicate 20 0) 20 = Some (- EINVAL) \<or>
    bcf_bundle_validate True (replicate 20 0) 20 = Some 0 \<and>
    (\<exists>hdr. rd_header (replicate 20 0) = Some hdr \<and>
      (\<forall>i < unat (entry_cnt hdr). \<exists>e. rd_entry True (replicate 20 0) i = Some e \<and> entry_valid True hdr e \<and>
         unat (goal_off e) + unat (goal_size e) \<le> length (replicate 20 (0 :: u8)) \<and>
         unat (proof_off e) + unat (proof_size e) \<le> length (replicate 20 (0 :: u8))))"
  by (rule bcf_bundle_validate_safe) simp_all

text \<open>C18. \<open>read_bundle_raw\<close> reads back exactly the entries a bundle was written from.\<close>

theorem read_bundle_raw_roundtrip:
  assumes "bundle_total ss < 2 ^ 32"
  shows "read_bundle_raw (Some (bundle_bytes ss)) = ss"
  by (rule read_bundle_raw_written [OF assms])

theorem read_bundle_raw_roundtrip_witness:
  "read_bundle_raw (Some (bundle_bytes [serialized_entry sample_entry])) = [serialized_entry sample_entry]"
  by (rule read_bundle_raw_roundtrip) (use sample_writable in \<open>simp add: writable_def\<close>)

text \<open>Merging is idempotent: writing the entries of a section a second time, over the bundle the
  first write left, leaves the file as it is; no entry is lost and none is duplicated.\<close>

theorem write_bundle_idempotent:
  assumes "list_all goal_ok es" "bundle_total (merged file es) < 2 ^ 32"
  shows "write_bundle (Some (write_bundle file es)) es = write_bundle file es"
proof -
  let ?prior = "filter keep_prior (read_bundle_raw file)"
  have m: "merged file es = merge_entries es (s_hash ` set ?prior) ?prior"
    by (simp add: merged_def)
  have keep: "list_all keep_prior (merged file es)"
    unfolding m by (rule merge_entries_keep [OF assms(1)]) (simp add: list_all_iff)
  have "filter keep_prior (merged file es) = merged file es"
    using keep by (simp add: filter_id_conv list_all_iff)
  moreover have "read_bundle_raw (Some (write_bundle file es)) = merged file es"
    unfolding write_bundle_def by (rule read_bundle_raw_written [OF assms(2)])
  moreover have "re_hash ` {e \<in> set es. fits_kernel e} \<subseteq> s_hash ` set (merged file es)"
    unfolding m merge_entries_seen [OF refl] by blast
  ultimately have "merged (Some (write_bundle file es)) es = merged file es"
    by (simp add: merged_def [of "Some (write_bundle file es)"] merge_entries_again)
  then show ?thesis by (simp add: write_bundle_def)
qed

theorem write_bundle_idempotent_witness:
  "write_bundle (Some (write_bundle None [sample_entry])) [sample_entry] = write_bundle None [sample_entry]"
  by (rule write_bundle_idempotent)
    (use sample_ok sample_writable in \<open>simp_all add: sample_merged writable_def\<close>)

text \<open>C17. What a discharge rests on: if the bundle part of \<open>bpf_check\<close> accepted a bundle, and a
  refinement site is later discharged, then the kernel's hash of the site's condition is the key of
  an entry of the bundle whose proof the checker accepted for the goal stored with it. (That this goal
  is the site's condition is left to the hash.)\<close>

theorem discharge_rests_on_checked_proof:
  assumes "bpf_check_bundle packed check env0 ptr (Some blob) sz h0 = Some (0, env, h1)"
    and "ptr \<noteq> 0" "sz \<noteq> 0" "length blob = unat sz"
    and "bcf_bundle_try_discharge packed (env\<lparr>rs_exprs := exprs, rs_expr_cnt := cnt\<rparr>) cond h = Some (0, h')"
  shows "\<exists>x e tab root hx. bcf_canonical_hash cond exprs cnt h = Some (Inr x, hx) \<and>
    cond_hash e = x \<and> (\<exists>i. rd_entry packed blob i = Some e) \<and>
    bundle_entry_goal_table blob e = Some (Inr (tab, root)) \<and>
    check tab root (bcf_bundle_entry_proof blob e) (proof_size e) = 0"
proof -
  obtain env1 h2 where load: "bcf_bundle_load packed env0 (Some blob) sz h0 = Some (0, env1, h2)"
    and pre: "bcf_bundle_prevalidate packed check env1 = Some 0" and env: "env = env1"
    using assms(1-3) by (auto simp: bpf_check_bundle_def bind_eq_Some_conv split: if_splits prod.splits)
  have val: "bcf_bundle_validate packed blob sz = Some 0" and blob: "bundle_blob env = Some blob"
    using bcf_bundle_load_0 [OF load] env by simp_all
  obtain hdr where hdr: "rd_header blob = Some hdr"
    and es: "\<forall>i < unat (entry_cnt hdr). \<exists>e. rd_entry packed blob i = Some e \<and> entry_valid packed hdr e"
    by (rule bcf_bundle_validate_0 [OF val assms(4)])
  obtain r hx where r: "bcf_canonical_hash cond exprs cnt h = Some (r, hx)"
    using assms(5) blob by (auto simp: bcf_bundle_try_discharge_def bind_eq_Some_conv)
  then obtain x where x: "r = Inr x"
    using assms(5) blob bcf_canonical_hash_error by (cases r) (auto simp: bcf_bundle_try_discharge_def)
  then obtain e where look: "lookup_entries packed blob x 0 (unat (entry_cnt hdr)) = Some (Some e)"
    using assms(5) r blob hdr
    by (auto simp: bcf_bundle_try_discharge_def bcf_bundle_lookup_def bind_eq_Some_conv ENOENT_def
        split: option.splits)
  obtain i where i: "i < unat (entry_cnt hdr)" "rd_entry packed blob i = Some e" and e: "cond_hash e = x"
    by (rule lookup_entries_hit [OF look es])
  have "prevalidate_entries packed check blob 0 (unat (entry_cnt hdr)) = Some 0"
    using pre env blob hdr by (simp add: bcf_bundle_prevalidate_def)
  from prevalidate_entries_0 [OF this i(1)] i(2) show ?thesis using r x e i(2) by auto
qed

text \<open>An instance: the condition is the variable in slot 0, the checker accepts proofs by their first
  two bytes, and the bundle holds one entry under the condition's hash.\<close>

definition var_condition :: expr_table where
  "var_condition = [\<lparr>code = 0x18, vlen = 0, params = 64, args = []\<rparr>]"

definition var_bundle :: "u8 list" where
  "var_bundle = write_bundle None
     [\<lparr>re_hash = 12277891563350405130, re_goal_root = 0, re_goal_exprs = var_condition,
       re_proof_bytes = [0xcf, 0x0b], re_kind = 1\<rparr>]"

definition magic_checker :: proof_checker where
  "magic_checker tab root p sz = (if take 2 p = [0xcf, 0x0b] then 0 else - EINVAL)"

definition no_bundle :: bcf_refine_state where
  "no_bundle = \<lparr>bundle_blob = None, bundle_size = 0, rs_exprs = (\<lambda>_. 0), rs_expr_cnt = 0\<rparr>"

lemma var_condition_siphash: "siphash24 (canonical_bytes (Var 0 0x18 64)) 0 0 = 12277891563350405130"
  by code_simp

lemma var_condition_hash:
  "\<exists>h'. bcf_canonical_hash 0 (kmem_of var_condition) 1 \<lparr>outcomes = [], live = 0\<rparr> = Some (Inr 12277891563350405130, h')"
proof -
  have t: "tree_of 64 (kexprs (kmem_of var_condition) 1) 0 = Some (Var 0 0x18 64)" by code_simp
  obtain r h' where "bcf_canonical_hash 0 (kmem_of var_condition) 1 \<lparr>outcomes = [], live = 0\<rparr> = Some (r, h')"
    "(\<exists>t. tree_of 64 (kexprs (kmem_of var_condition) 1) 0 = Some t \<and> r = Inr (siphash24 (canonical_bytes t) 0 0)) \<or>
     (\<exists>err < 0. r = Inl err) \<and> \<not> (plenty \<lparr>outcomes = [], live = 0\<rparr> \<and> tree_of 64 (kexprs (kmem_of var_condition) 1) 0 \<noteq> None)"
    by (rule bcf_canonical_hash_cases [OF kernel_tableI [of 1 "kmem_of var_condition"]]) simp_all
  then show ?thesis using t var_condition_siphash by (auto simp: plenty_def)
qed

theorem discharge_rests_on_checked_proof_witness:
  "\<exists>e tab root. cond_hash e = 12277891563350405130 \<and> (\<exists>i. rd_entry True var_bundle i = Some e) \<and>
    bundle_entry_goal_table var_bundle e = Some (Inr (tab, root)) \<and>
    magic_checker tab root (bcf_bundle_entry_proof var_bundle e) (proof_size e) = 0"
proof -
  let ?h = "\<lparr>outcomes = [], live = 0\<rparr>"
  have "map_option (\<lambda>(r, env, h). (r, bundle_blob env)) (bpf_check_bundle True magic_checker no_bundle 1 (Some var_bundle) 60 ?h) =
      Some (0, Some var_bundle)"
    by code_simp
  then obtain env h1 where c: "bpf_check_bundle True magic_checker no_bundle 1 (Some var_bundle) 60 ?h = Some (0, env, h1)"
    and blob: "bundle_blob env = Some var_bundle" by auto
  obtain h' where x: "bcf_canonical_hash 0 (kmem_of var_condition) 1 ?h = Some (Inr 12277891563350405130, h')"
    using var_condition_hash by blast
  let ?env = "env\<lparr>rs_exprs := kmem_of var_condition, rs_expr_cnt := 1\<rparr>"
  have "map_option (\<lambda>e. e \<noteq> None) (bcf_bundle_lookup True (no_bundle\<lparr>bundle_blob := Some var_bundle\<rparr>) 12277891563350405130) = Some True"
    by code_simp
  then obtain y where "bcf_bundle_lookup True ?env 12277891563350405130 = Some (Some y)"
    using blob by (auto simp: bcf_bundle_lookup_def)
  then have d: "bcf_bundle_try_discharge True ?env 0 ?h = Some (0, h')"
    using x blob by (simp add: bcf_bundle_try_discharge_def)
  have l: "length var_bundle = unat (60 :: u32)" by code_simp
  have nz: "(1 :: u64) \<noteq> 0" "(60 :: u32) \<noteq> 0" by simp_all
  obtain v e tab root hx where "bcf_canonical_hash 0 (kmem_of var_condition) 1 ?h = Some (Inr v, hx)" "cond_hash e = v"
    and e: "\<exists>i. rd_entry True var_bundle i = Some e" "bundle_entry_goal_table var_bundle e = Some (Inr (tab, root))"
    "magic_checker tab root (bcf_bundle_entry_proof var_bundle e) (proof_size e) = 0"
    using discharge_rests_on_checked_proof [OF c nz l d] by (elim exE conjE) blast
  then have "cond_hash e = 12277891563350405130" using x by simp
  with e show ?thesis by blast
qed

text \<open>C20. A refused bundle leaves nothing behind: whenever the bundle part of \<open>bpf_check\<close> returns an
  error, for a size out of range, no memory, an unreadable user buffer, an invalid blob or a proof the
  checker refuses, the environment holds no bundle and every block allocated has been freed; on
  success exactly the blob stays allocated, until \<open>bcf_bundle_free\<close>.\<close>

theorem bpf_check_bundle_error_cleans_up:
  assumes "bpf_check_bundle packed check env ptr ubuf sz h = Some (r, env', h')" "bundle_blob env = None"
  shows "(if bundle_blob env' = None then live h' = live h
      else live h' = live h + 1 \<and> r = 0) \<and> (r \<noteq> 0 \<longrightarrow> bundle_blob env' = None) \<and>
    live (snd (bcf_bundle_free env' h')) = live h"
proof (cases "ptr \<noteq> 0 \<and> sz \<noteq> 0")
  case True
  then obtain r1 env1 h1 where l: "bcf_bundle_load packed env ubuf sz h = Some (r1, env1, h1)"
    using assms(1) by (auto simp: bpf_check_bundle_def bind_eq_Some_conv)
  have "r1 \<noteq> 0 \<and> env1 = env \<and> live h1 = live h \<or> r1 = 0 \<and> bundle_blob env1 \<noteq> None \<and> live h1 = live h + 1"
    by (rule bcf_bundle_load_balance [OF l])
  then show ?thesis
  proof
    assume "r1 \<noteq> 0 \<and> env1 = env \<and> live h1 = live h"
    then show ?thesis using True l assms by (simp add: bpf_check_bundle_def bcf_bundle_free_def)
  next
    assume r1: "r1 = 0 \<and> bundle_blob env1 \<noteq> None \<and> live h1 = live h + 1"
    then obtain blob r2 where b: "bundle_blob env1 = Some blob" "bcf_bundle_prevalidate packed check env1 = Some r2"
      using True l assms(1) by (auto simp: bpf_check_bundle_def bind_eq_Some_conv)
    then show ?thesis using True l assms r1
      by (cases "r2 = 0") (auto simp: bpf_check_bundle_def bcf_bundle_free_def free_def)
  qed
next
  case False
  then show ?thesis using assms by (auto simp: bpf_check_bundle_def bcf_bundle_free_def)
qed

theorem bpf_check_bundle_error_cleans_up_witness:
  "\<exists>env' h'. bpf_check_bundle True magic_checker no_bundle 1 None 60 \<lparr>outcomes = [], live = 5\<rparr> = Some (- EFAULT, env', h') \<and>
     bundle_blob env' = None \<and> live (snd (bcf_bundle_free env' h')) = 5"
proof -
  have "map_option (\<lambda>(r, env, h). (r, bundle_blob env)) (bpf_check_bundle True magic_checker no_bundle 1 None 60 \<lparr>outcomes = [], live = 5\<rparr>) =
      Some (- EFAULT, None)"
    by code_simp
  then obtain env h where c: "bpf_check_bundle True magic_checker no_bundle 1 None 60 \<lparr>outcomes = [], live = 5\<rparr> = Some (- EFAULT, env, h)" by auto
  have n: "bundle_blob no_bundle = None" by (simp add: no_bundle_def)
  from bpf_check_bundle_error_cleans_up [OF c n] c show ?thesis by (auto simp: EFAULT_def)
qed

end
