(* ===== verification/Bpf_Insn.thy ===== *)
theory Bpf_Insn
  imports Prelude
begin

text \<open>
  eBPF instructions as they are stored: \<open>struct bpf_insn\<close> and the opcode constants and instruction
  macros of \<open>convert_tests.c\<close>, in which the test programs under \<open>selftests/legacy/verifier\<close> are
  written, and \<open>decode_insns\<close> of \<open>src/parsing/bpf_insn.rs\<close>, which reads instructions from the text
  section of an object file.

  The four-bit register fields of the C struct are bytes here, as in \<open>RawBpfInsn\<close>; \<open>off\<close> and \<open>imm\<close> are
  words that are read as signed numbers where the code does so. A macro that expands to several
  instructions is a list.

  Shown here: decoding is the inverse of the struct's little-endian byte layout.
\<close>

unbundle bit_operations_syntax

named_theorems bpf_macro \<open>opcode constants and instruction macros\<close>

section \<open>Instructions\<close>

record raw_insn =
  ri_code :: u8
  ri_dst :: u8
  ri_src :: u8
  ri_off :: u16
  ri_imm :: u32

text \<open>The eight bytes of \<open>struct bpf_insn\<close>; \<open>dst_reg\<close> is the low half of the second byte.\<close>

definition insn_bytes :: "raw_insn \<Rightarrow> u8 list" where
  "insn_bytes i = [ri_code i, (ri_dst i AND 0x0f) OR push_bit 4 (ri_src i)] @ u16_le (ri_off i) @ u32_le (ri_imm i)"

fun decode_insns :: "u8 list \<Rightarrow> raw_insn list" where
  "decode_insns (c # r # o0 # o1 # i0 # i1 # i2 # i3 # bytes) =
     \<lparr>ri_code = c, ri_dst = r AND 0x0f, ri_src = drop_bit 4 r, ri_off = le_u16 o0 o1,
      ri_imm = le_u32 i0 i1 i2 i3\<rparr> # decode_insns bytes"
| "decode_insns _ = []"

section \<open>Opcode constants\<close>

abbreviation (input) BPF_LD :: u8 where "BPF_LD \<equiv> 0x00"
abbreviation (input) BPF_LDX :: u8 where "BPF_LDX \<equiv> 0x01"
abbreviation (input) BPF_ST :: u8 where "BPF_ST \<equiv> 0x02"
abbreviation (input) BPF_STX :: u8 where "BPF_STX \<equiv> 0x03"
abbreviation (input) BPF_ALU :: u8 where "BPF_ALU \<equiv> 0x04"
abbreviation (input) BPF_JMP :: u8 where "BPF_JMP \<equiv> 0x05"
abbreviation (input) BPF_JMP32 :: u8 where "BPF_JMP32 \<equiv> 0x06"
abbreviation (input) BPF_ALU64 :: u8 where "BPF_ALU64 \<equiv> 0x07"
abbreviation (input) BPF_DW :: u8 where "BPF_DW \<equiv> 0x18"
abbreviation (input) BPF_W :: u8 where "BPF_W \<equiv> 0x00"
abbreviation (input) BPF_H :: u8 where "BPF_H \<equiv> 0x08"
abbreviation (input) BPF_B :: u8 where "BPF_B \<equiv> 0x10"
abbreviation (input) BPF_IMM :: u8 where "BPF_IMM \<equiv> 0x00"
abbreviation (input) BPF_ABS :: u8 where "BPF_ABS \<equiv> 0x20"
abbreviation (input) BPF_IND :: u8 where "BPF_IND \<equiv> 0x40"
abbreviation (input) BPF_MEM :: u8 where "BPF_MEM \<equiv> 0x60"
abbreviation (input) BPF_ATOMIC :: u8 where "BPF_ATOMIC \<equiv> 0xc0"
abbreviation (input) BPF_ADD :: u8 where "BPF_ADD \<equiv> 0x00"
abbreviation (input) BPF_SUB :: u8 where "BPF_SUB \<equiv> 0x10"
abbreviation (input) BPF_MUL :: u8 where "BPF_MUL \<equiv> 0x20"
abbreviation (input) BPF_DIV :: u8 where "BPF_DIV \<equiv> 0x30"
abbreviation (input) BPF_OR :: u8 where "BPF_OR \<equiv> 0x40"
abbreviation (input) BPF_AND :: u8 where "BPF_AND \<equiv> 0x50"
abbreviation (input) BPF_LSH :: u8 where "BPF_LSH \<equiv> 0x60"
abbreviation (input) BPF_RSH :: u8 where "BPF_RSH \<equiv> 0x70"
abbreviation (input) BPF_NEG :: u8 where "BPF_NEG \<equiv> 0x80"
abbreviation (input) BPF_MOD :: u8 where "BPF_MOD \<equiv> 0x90"
abbreviation (input) BPF_XOR :: u8 where "BPF_XOR \<equiv> 0xa0"
abbreviation (input) BPF_MOV :: u8 where "BPF_MOV \<equiv> 0xb0"
abbreviation (input) BPF_ARSH :: u8 where "BPF_ARSH \<equiv> 0xc0"
abbreviation (input) BPF_END :: u8 where "BPF_END \<equiv> 0xd0"
abbreviation (input) BPF_JA :: u8 where "BPF_JA \<equiv> 0x00"
abbreviation (input) BPF_JEQ :: u8 where "BPF_JEQ \<equiv> 0x10"
abbreviation (input) BPF_JGT :: u8 where "BPF_JGT \<equiv> 0x20"
abbreviation (input) BPF_JGE :: u8 where "BPF_JGE \<equiv> 0x30"
abbreviation (input) BPF_JSET :: u8 where "BPF_JSET \<equiv> 0x40"
abbreviation (input) BPF_JNE :: u8 where "BPF_JNE \<equiv> 0x50"
abbreviation (input) BPF_JLT :: u8 where "BPF_JLT \<equiv> 0xa0"
abbreviation (input) BPF_JLE :: u8 where "BPF_JLE \<equiv> 0xb0"
abbreviation (input) BPF_JSGT :: u8 where "BPF_JSGT \<equiv> 0x60"
abbreviation (input) BPF_JSGE :: u8 where "BPF_JSGE \<equiv> 0x70"
abbreviation (input) BPF_JSLT :: u8 where "BPF_JSLT \<equiv> 0xc0"
abbreviation (input) BPF_JSLE :: u8 where "BPF_JSLE \<equiv> 0xd0"
abbreviation (input) BPF_CALL :: u8 where "BPF_CALL \<equiv> 0x80"
abbreviation (input) BPF_EXIT :: u8 where "BPF_EXIT \<equiv> 0x90"
abbreviation (input) BPF_K :: u8 where "BPF_K \<equiv> 0x00"
abbreviation (input) BPF_X :: u8 where "BPF_X \<equiv> 0x08"
abbreviation (input) BPF_TO_LE :: u8 where "BPF_TO_LE \<equiv> 0x00"
abbreviation (input) BPF_TO_BE :: u8 where "BPF_TO_BE \<equiv> 0x08"

definition BPF_OP :: "u8 \<Rightarrow> u8" where [bpf_macro]: "BPF_OP c = c AND 0xf0"
definition BPF_SIZE :: "u8 \<Rightarrow> u8" where [bpf_macro]: "BPF_SIZE c = c AND 0x18"
definition BPF_SRC :: "u8 \<Rightarrow> u8" where [bpf_macro]: "BPF_SRC c = c AND 0x08"

abbreviation (input) BPF_PSEUDO_MAP_FD :: u8 where "BPF_PSEUDO_MAP_FD \<equiv> 1"

abbreviation (input) BPF_FUNC_map_lookup_elem :: u32 where "BPF_FUNC_map_lookup_elem \<equiv> 1"
abbreviation (input) BPF_FUNC_get_prandom_u32 :: u32 where "BPF_FUNC_get_prandom_u32 \<equiv> 7"
abbreviation (input) BPF_FUNC_get_cgroup_classid :: u32 where "BPF_FUNC_get_cgroup_classid \<equiv> 17"

abbreviation (input) BPF_REG_0 :: u8 where "BPF_REG_0 \<equiv> 0"
abbreviation (input) BPF_REG_1 :: u8 where "BPF_REG_1 \<equiv> 1"
abbreviation (input) BPF_REG_2 :: u8 where "BPF_REG_2 \<equiv> 2"
abbreviation (input) BPF_REG_3 :: u8 where "BPF_REG_3 \<equiv> 3"
abbreviation (input) BPF_REG_4 :: u8 where "BPF_REG_4 \<equiv> 4"
abbreviation (input) BPF_REG_5 :: u8 where "BPF_REG_5 \<equiv> 5"
abbreviation (input) BPF_REG_6 :: u8 where "BPF_REG_6 \<equiv> 6"
abbreviation (input) BPF_REG_7 :: u8 where "BPF_REG_7 \<equiv> 7"
abbreviation (input) BPF_REG_8 :: u8 where "BPF_REG_8 \<equiv> 8"
abbreviation (input) BPF_REG_9 :: u8 where "BPF_REG_9 \<equiv> 9"
abbreviation (input) BPF_REG_10 :: u8 where "BPF_REG_10 \<equiv> 10"

section \<open>Instruction macros\<close>

definition BPF_RAW_INSN :: "u8 \<Rightarrow> u8 \<Rightarrow> u8 \<Rightarrow> u16 \<Rightarrow> u32 \<Rightarrow> raw_insn" where [bpf_macro]:
  "BPF_RAW_INSN code dst src off imm =
     \<lparr>ri_code = code, ri_dst = dst, ri_src = src, ri_off = off, ri_imm = imm\<rparr>"

definition BPF_ALU64_REG :: "u8 \<Rightarrow> u8 \<Rightarrow> u8 \<Rightarrow> raw_insn" where [bpf_macro]:
  "BPF_ALU64_REG op dst src = BPF_RAW_INSN (BPF_ALU64 OR BPF_OP op OR BPF_X) dst src 0 0"

definition BPF_ALU32_REG :: "u8 \<Rightarrow> u8 \<Rightarrow> u8 \<Rightarrow> raw_insn" where [bpf_macro]:
  "BPF_ALU32_REG op dst src = BPF_RAW_INSN (BPF_ALU OR BPF_OP op OR BPF_X) dst src 0 0"

definition BPF_ALU64_IMM :: "u8 \<Rightarrow> u8 \<Rightarrow> u32 \<Rightarrow> raw_insn" where [bpf_macro]:
  "BPF_ALU64_IMM op dst imm = BPF_RAW_INSN (BPF_ALU64 OR BPF_OP op OR BPF_K) dst 0 0 imm"

definition BPF_ALU32_IMM :: "u8 \<Rightarrow> u8 \<Rightarrow> u32 \<Rightarrow> raw_insn" where [bpf_macro]:
  "BPF_ALU32_IMM op dst imm = BPF_RAW_INSN (BPF_ALU OR BPF_OP op OR BPF_K) dst 0 0 imm"

definition BPF_MOV64_REG :: "u8 \<Rightarrow> u8 \<Rightarrow> raw_insn" where [bpf_macro]:
  "BPF_MOV64_REG dst src = BPF_RAW_INSN (BPF_ALU64 OR BPF_MOV OR BPF_X) dst src 0 0"

definition BPF_MOV32_REG :: "u8 \<Rightarrow> u8 \<Rightarrow> raw_insn" where [bpf_macro]:
  "BPF_MOV32_REG dst src = BPF_RAW_INSN (BPF_ALU OR BPF_MOV OR BPF_X) dst src 0 0"

definition BPF_MOV64_IMM :: "u8 \<Rightarrow> u32 \<Rightarrow> raw_insn" where [bpf_macro]:
  "BPF_MOV64_IMM dst imm = BPF_RAW_INSN (BPF_ALU64 OR BPF_MOV OR BPF_K) dst 0 0 imm"

definition BPF_MOV32_IMM :: "u8 \<Rightarrow> u32 \<Rightarrow> raw_insn" where [bpf_macro]:
  "BPF_MOV32_IMM dst imm = BPF_RAW_INSN (BPF_ALU OR BPF_MOV OR BPF_K) dst 0 0 imm"

definition BPF_LD_IMM64_RAW :: "u8 \<Rightarrow> u8 \<Rightarrow> u64 \<Rightarrow> raw_insn list" where [bpf_macro]:
  "BPF_LD_IMM64_RAW dst src imm =
     [BPF_RAW_INSN (BPF_LD OR BPF_DW OR BPF_IMM) dst src 0 (ucast imm),
      BPF_RAW_INSN 0 0 0 0 (ucast (drop_bit 32 imm))]"

definition BPF_LD_IMM64 :: "u8 \<Rightarrow> u64 \<Rightarrow> raw_insn list" where [bpf_macro]:
  "BPF_LD_IMM64 dst imm = BPF_LD_IMM64_RAW dst 0 imm"

definition BPF_LD_MAP_FD :: "u8 \<Rightarrow> u64 \<Rightarrow> raw_insn list" where [bpf_macro]:
  "BPF_LD_MAP_FD dst map_fd = BPF_LD_IMM64_RAW dst BPF_PSEUDO_MAP_FD map_fd"

definition BPF_LDX_MEM :: "u8 \<Rightarrow> u8 \<Rightarrow> u8 \<Rightarrow> u16 \<Rightarrow> raw_insn" where [bpf_macro]:
  "BPF_LDX_MEM sz dst src off = BPF_RAW_INSN (BPF_LDX OR BPF_SIZE sz OR BPF_MEM) dst src off 0"

definition BPF_STX_MEM :: "u8 \<Rightarrow> u8 \<Rightarrow> u8 \<Rightarrow> u16 \<Rightarrow> raw_insn" where [bpf_macro]:
  "BPF_STX_MEM sz dst src off = BPF_RAW_INSN (BPF_STX OR BPF_SIZE sz OR BPF_MEM) dst src off 0"

definition BPF_ST_MEM :: "u8 \<Rightarrow> u8 \<Rightarrow> u16 \<Rightarrow> u32 \<Rightarrow> raw_insn" where [bpf_macro]:
  "BPF_ST_MEM sz dst off imm = BPF_RAW_INSN (BPF_ST OR BPF_SIZE sz OR BPF_MEM) dst 0 off imm"

definition BPF_ATOMIC_OP :: "u8 \<Rightarrow> u32 \<Rightarrow> u8 \<Rightarrow> u8 \<Rightarrow> u16 \<Rightarrow> raw_insn" where [bpf_macro]:
  "BPF_ATOMIC_OP sz op dst src off = BPF_RAW_INSN (BPF_STX OR BPF_SIZE sz OR BPF_ATOMIC) dst src off op"

definition BPF_JMP_REG :: "u8 \<Rightarrow> u8 \<Rightarrow> u8 \<Rightarrow> u16 \<Rightarrow> raw_insn" where [bpf_macro]:
  "BPF_JMP_REG op dst src off = BPF_RAW_INSN (BPF_JMP OR BPF_OP op OR BPF_X) dst src off 0"

definition BPF_JMP32_REG :: "u8 \<Rightarrow> u8 \<Rightarrow> u8 \<Rightarrow> u16 \<Rightarrow> raw_insn" where [bpf_macro]:
  "BPF_JMP32_REG op dst src off = BPF_RAW_INSN (BPF_JMP32 OR BPF_OP op OR BPF_X) dst src off 0"

definition BPF_JMP_IMM :: "u8 \<Rightarrow> u8 \<Rightarrow> u32 \<Rightarrow> u16 \<Rightarrow> raw_insn" where [bpf_macro]:
  "BPF_JMP_IMM op dst imm off = BPF_RAW_INSN (BPF_JMP OR BPF_OP op OR BPF_K) dst 0 off imm"

definition BPF_JMP32_IMM :: "u8 \<Rightarrow> u8 \<Rightarrow> u32 \<Rightarrow> u16 \<Rightarrow> raw_insn" where [bpf_macro]:
  "BPF_JMP32_IMM op dst imm off = BPF_RAW_INSN (BPF_JMP32 OR BPF_OP op OR BPF_K) dst 0 off imm"

definition BPF_JMP_A :: "u16 \<Rightarrow> raw_insn" where [bpf_macro]:
  "BPF_JMP_A off = BPF_RAW_INSN (BPF_JMP OR BPF_JA) 0 0 off 0"

definition BPF_EXIT_INSN :: raw_insn where [bpf_macro]:
  "BPF_EXIT_INSN = BPF_RAW_INSN (BPF_JMP OR BPF_EXIT) 0 0 0 0"

definition BPF_ENDIAN :: "u8 \<Rightarrow> u8 \<Rightarrow> u32 \<Rightarrow> raw_insn" where [bpf_macro]:
  "BPF_ENDIAN type dst len = BPF_RAW_INSN (BPF_ALU OR BPF_END OR BPF_SRC type) dst 0 0 len"

definition BPF_EMIT_CALL :: "u32 \<Rightarrow> raw_insn" where [bpf_macro]:
  "BPF_EMIT_CALL func = BPF_RAW_INSN (BPF_JMP OR BPF_CALL) 0 0 0 func"

text \<open>The fields of \<open>struct __sk_buff\<close> and \<open>struct xdp_md\<close> the programs read.\<close>

abbreviation (input) sk_buff_len :: u16 where "sk_buff_len \<equiv> 0"
abbreviation (input) sk_buff_mark :: u16 where "sk_buff_mark \<equiv> 8"
abbreviation (input) sk_buff_data :: u16 where "sk_buff_data \<equiv> 76"
abbreviation (input) sk_buff_data_end :: u16 where "sk_buff_data_end \<equiv> 80"
abbreviation (input) xdp_md_data :: u16 where "xdp_md_data \<equiv> 0"
abbreviation (input) xdp_md_data_end :: u16 where "xdp_md_data_end \<equiv> 4"
abbreviation (input) xdp_md_data_meta :: u16 where "xdp_md_data_meta \<equiv> 8"

text \<open>Seven instructions that set the default return value 0 and check for eight bytes of packet at \<open>r2\<close>.\<close>

definition BPF_DIRECT_PKT_R2 :: "raw_insn list" where [bpf_macro]:
  "BPF_DIRECT_PKT_R2 =
     [BPF_MOV64_IMM BPF_REG_0 0,
      BPF_LDX_MEM BPF_W BPF_REG_2 BPF_REG_1 sk_buff_data,
      BPF_LDX_MEM BPF_W BPF_REG_3 BPF_REG_1 sk_buff_data_end,
      BPF_MOV64_REG BPF_REG_4 BPF_REG_2,
      BPF_ALU64_IMM BPF_ADD BPF_REG_4 8,
      BPF_JMP_REG BPF_JLE BPF_REG_4 BPF_REG_3 1,
      BPF_EXIT_INSN]"

text \<open>A random number below \<open>2^31\<close> in \<open>r7\<close>.\<close>

definition BPF_RAND_UEXT_R7 :: "raw_insn list" where [bpf_macro]:
  "BPF_RAND_UEXT_R7 =
     [BPF_RAW_INSN (BPF_JMP OR BPF_CALL) 0 0 0 BPF_FUNC_get_prandom_u32,
      BPF_MOV64_REG BPF_REG_7 BPF_REG_0,
      BPF_ALU64_IMM BPF_LSH BPF_REG_7 33,
      BPF_ALU64_IMM BPF_RSH BPF_REG_7 33]"

definition BPF_RAND_SEXT_R7 :: "raw_insn list" where [bpf_macro]:
  "BPF_RAND_SEXT_R7 =
     [BPF_RAW_INSN (BPF_JMP OR BPF_CALL) 0 0 0 BPF_FUNC_get_prandom_u32,
      BPF_ALU64_IMM BPF_LSH BPF_REG_0 32,
      BPF_ALU64_IMM BPF_ARSH BPF_REG_0 32,
      BPF_MOV64_REG BPF_REG_7 BPF_REG_0]"

section \<open>Decoding\<close>

lemma nibble_bit:
  assumes "d < 16" "bit (d :: u8) n"
  shows "n < 4"
proof -
  have "unat (take_bit 4 d) = unat d"
    using assms(1) by (simp add: unsigned_take_bit_eq word_less_nat_alt take_bit_nat_eq_self)
  then have "take_bit 4 d = d" by (rule unsigned_word_eqI)
  then show ?thesis using assms(2) bit_take_bit_iff [of 4 d n] by simp
qed

lemma nibbles:
  assumes "d < 16" "s < 16"
  shows "((d AND 0x0f) OR push_bit 4 s) AND 0x0f = (d :: u8)" "drop_bit 4 ((d AND 0x0f) OR push_bit 4 s) = (s :: u8)"
proof -
  have m: "(0x0f :: u8) = mask 4" by (simp add: mask_eq_exp_minus_1)
  show "((d AND 0x0f) OR push_bit 4 s) AND 0x0f = d"
    unfolding m by (rule bit_word_eqI) (auto simp: bit_simps dest: nibble_bit [OF assms(1)])
  show "drop_bit 4 ((d AND 0x0f) OR push_bit 4 s) = s"
    unfolding m by (rule bit_word_eqI) (auto simp: bit_simps dest: nibble_bit [OF assms(2)])
qed

lemma decode_insns_Cons:
  assumes "ri_dst i < 16" "ri_src i < 16"
  shows "decode_insns (insn_bytes i @ bytes) = i # decode_insns bytes"
  using nibbles [OF assms] le_u16_of_bytes [of "ri_off i"] le_u32_of_bytes [of "ri_imm i"]
  by (simp add: insn_bytes_def u16_le_def u32_le_def)

lemma decode_insns_short: "length bytes < 8 \<Longrightarrow> decode_insns bytes = []"
  by (cases bytes rule: decode_insns.cases) auto

text \<open>C26. Decoding the bytes of a sequence of instructions, register fields in four bits, gives the
  instructions back; bytes left over at the end of the section are ignored.\<close>

theorem decode_insns_bytes:
  assumes "list_all (\<lambda>i. ri_dst i < 16 \<and> ri_src i < 16) is" "length rest < 8"
  shows "decode_insns (concat (map insn_bytes is) @ rest) = is"
  using assms(1) by (induction "is") (simp_all add: decode_insns_Cons decode_insns_short assms(2))

theorem decode_insns_bytes_witness:
  "decode_insns (concat (map insn_bytes (BPF_LD_IMM64 BPF_REG_7 0x8000000000000001)) @ [0, 0]) =
     BPF_LD_IMM64 BPF_REG_7 0x8000000000000001"
  by (rule decode_insns_bytes) (simp_all add: bpf_macro)

end
