(* ===== verification/Bpf_Ast.thy ===== *)
theory Bpf_Ast
  imports Prelude
begin

text \<open>
  The verifier's instruction set, \<open>src/ast/mod.rs\<close> and \<open>src/ast/instr.rs\<close>: the tree an instruction is
  lowered to before it is analysed. \<open>i64\<close>, \<open>i32\<close> and \<open>i16\<close> values are words; a branch target is an
  absolute instruction number.
\<close>

section \<open>Instructions\<close>

datatype reg = RZero | R0 | R1 | R2 | R3 | R4 | R5 | R6 | R7 | R8 | R9 | R10
  | AnchorDataMeta | AnchorData | AnchorDataEnd

datatype operand = Reg reg | Imm u64

datatype width = W32 | W64

datatype sx_width = B8 | B16 | B32

datatype alu_op = Add | Sub | And | Or | Xor | Mov | Shl | Shr | Arsh | Mul | Mod | Div | Neg | Rsh | Lsh

datatype cmp_op = UGe | ULe | UGt | ULt | Eq | Ne | SLt | SGt | SLe | SGe | Test

datatype endian_op = ToBe | ToLe | Bswap

datatype mem_size = U8 | U16 | U32 | U64

fun mem_bytes :: "mem_size \<Rightarrow> nat" where
  "mem_bytes U8 = 1"
| "mem_bytes U16 = 2"
| "mem_bytes U32 = 4"
| "mem_bytes U64 = 8"

fun sx_bits :: "sx_width \<Rightarrow> nat" where
  "sx_bits B8 = 8"
| "sx_bits B16 = 16"
| "sx_bits B32 = 32"

datatype packet_load_mode = Abs | Ind

datatype map_load_kind = MapPtr | MapValue | PseudoFunc u32 | PseudoBtfId u32 | PseudoMapIdx | PseudoMapIdxValue

datatype atomic_op = Atomic_Add | Atomic_Or | Atomic_And | Atomic_Xor | Atomic_Xchg | Atomic_CmpXchg

datatype call_kind = Helper u32 | Kfunc u32 u16

datatype instr =
    Alu width alu_op reg operand
  | MovSx width sx_width reg operand
  | Endian reg width endian_op u32
  | If_instr width reg cmp_op operand nat
  | Jmp nat
  | MayGoto nat
  | Load mem_size reg reg u16
  | LoadSx mem_size reg reg u16
  | Store mem_size reg u16 operand
  | LoadAcq mem_size reg reg u16
  | StoreRel mem_size reg u16 reg
  | Atomic atomic_op mem_size bool reg u16 reg
  | Call call_kind
  | CallRel nat
  | LoadPacket mem_size packet_load_mode u32 "reg option"
  | LoadMap reg map_load_kind u32 u32
  | Exit

record bpf_program =
  pr_instrs :: "instr list"
  pr_invalid_pcs :: "nat set"
  pr_arena_pcs :: "nat set"

text \<open>Where an instruction may continue, other than at the next one.\<close>

fun instr_targets :: "instr \<Rightarrow> nat list" where
  "instr_targets (If_instr _ _ _ _ target) = [target]"
| "instr_targets (Jmp target) = [target]"
| "instr_targets (MayGoto target) = [target]"
| "instr_targets (CallRel target) = [target]"
| "instr_targets (LoadMap _ (PseudoFunc pc) _ _) = [unat pc]"
| "instr_targets _ = []"

end
