(* ===== verification/Lowering.thy ===== *)
theory Lowering
  imports Bpf_Insn Bpf_Ast
begin

text \<open>
  \<open>src/parsing/bpf_to_ast.rs\<close>: lowering raw instructions to the verifier's instruction set. The
  arms of the big \<open>match insn.code\<close> that differ only in width, operator and operand are rows of the
  tables \<open>alu_rows\<close> and \<open>if_rows\<close>, in the order of the source. Error values keep the position, the
  opcode and the kind; the message text is left out.

  Shown here: a program that is lowered keeps its length and its branches stay inside it.
\<close>

section \<open>Errors\<close>

datatype lower_error_kind =
    UnknownOpcode | InvalidLDIMM64 | BranchTargetOutOfRange | CallTargetOutOfBounds | InvalidSrcReg
  | UnknownAtomicOp | CallUsedReservedFields | InvalidRegister

record lower_error =
  le_pc :: nat
  le_code :: u8
  le_kind :: lower_error_kind

type_synonym 'a lowered = "lower_error + 'a"

definition lower_err :: "nat \<Rightarrow> u8 \<Rightarrow> lower_error_kind \<Rightarrow> 'a lowered" where
  "lower_err pc c k = Inl \<lparr>le_pc = pc, le_code = c, le_kind = k\<rparr>"

text \<open>Rust's \<open>?\<close>.\<close>

definition on_ok :: "'e + 'a \<Rightarrow> ('a \<Rightarrow> 'e + 'b) \<Rightarrow> 'e + 'b" where
  "on_ok r f = (case r of Inl e \<Rightarrow> Inl e | Inr x \<Rightarrow> f x)"

lemma on_ok_simps [simp]: "on_ok (Inl e) f = Inl e" "on_ok (Inr x) f = f x"
  by (simp_all add: on_ok_def)

lemma on_ok_cong [fundef_cong]: "r = r' \<Longrightarrow> (\<And>x. r' = Inr x \<Longrightarrow> f x = g x) \<Longrightarrow> on_ok r f = on_ok r' g"
  by (auto simp: on_ok_def split: sum.split)

section \<open>Registers and branch targets\<close>

definition reg_of :: "u8 \<Rightarrow> reg option" where
  "reg_of r = map_of [(0, R0), (1, R1), (2, R2), (3, R3), (4, R4), (5, R5), (6, R6), (7, R7), (8, R8), (9, R9), (10, R10)] r"

definition reg_to_var :: "raw_insn \<Rightarrow> u8 \<Rightarrow> nat \<Rightarrow> reg lowered" where
  "reg_to_var insn r pc =
     (case reg_of r of Some v \<Rightarrow> Inr v | None \<Rightarrow> lower_err pc (ri_code insn) InvalidRegister)"

definition branch_target_disp :: "nat \<Rightarrow> u32 \<Rightarrow> nat \<Rightarrow> u8 \<Rightarrow> nat lowered" where
  "branch_target_disp pc disp len code =
     (let t = int pc + 1 + sint disp in
      if t < 0 \<or> t \<ge> int len then lower_err pc code BranchTargetOutOfRange else Inr (nat t))"

definition branch_target :: "nat \<Rightarrow> u16 \<Rightarrow> nat \<Rightarrow> u8 \<Rightarrow> nat lowered" where
  "branch_target pc off len code = branch_target_disp pc (scast off) len code"

section \<open>The tables\<close>

text \<open>The second operand: the source register, \<open>insn.imm as i64\<close>, \<open>(insn.imm as u32) as i64\<close>, or the
  dummy 0 of a unary operation.\<close>

datatype src_kind = Src_X | Src_K | Src_KU | Src_0

fun row_operand :: "src_kind \<Rightarrow> raw_insn \<Rightarrow> reg \<Rightarrow> operand" where
  "row_operand Src_X insn src = Reg src"
| "row_operand Src_K insn src = Imm (scast (ri_imm insn))"
| "row_operand Src_KU insn src = Imm (ucast (ri_imm insn))"
| "row_operand Src_0 insn src = Imm 0"

definition alu_rows :: "(u8 \<times> width \<times> alu_op \<times> src_kind) list" where
  "alu_rows =
     [(0xb7, W64, Mov, Src_K), (0x04, W32, Add, Src_K), (0x0c, W32, Add, Src_X),
      (0x07, W64, Add, Src_K), (0x0f, W64, Add, Src_X), (0x1f, W64, Sub, Src_X),
      (0x14, W32, Sub, Src_K), (0x17, W64, Sub, Src_K), (0x1c, W32, Sub, Src_X),
      (0x24, W32, Mul, Src_K), (0x2c, W32, Mul, Src_X), (0x27, W64, Mul, Src_K),
      (0x2f, W64, Mul, Src_X), (0x37, W64, Div, Src_K), (0x3f, W64, Div, Src_X),
      (0x34, W32, Div, Src_KU), (0x3c, W32, Div, Src_X), (0x4f, W64, Or, Src_X),
      (0x5c, W32, And, Src_X), (0x5f, W64, And, Src_X), (0x6f, W64, Shl, Src_X),
      (0x7f, W64, Shr, Src_X), (0x54, W32, And, Src_KU), (0x57, W64, And, Src_K),
      (0x44, W32, Or, Src_KU), (0x4c, W32, Or, Src_X), (0x47, W64, Or, Src_KU),
      (0x64, W32, Shl, Src_KU), (0x6c, W32, Shl, Src_X), (0x67, W64, Shl, Src_KU),
      (0x74, W32, Shr, Src_KU), (0x77, W64, Shr, Src_KU), (0x7c, W32, Shr, Src_X),
      (0x84, W32, Neg, Src_0), (0x87, W64, Neg, Src_0), (0x94, W32, Mod, Src_K),
      (0x9c, W32, Mod, Src_X), (0x97, W64, Mod, Src_K), (0x9f, W64, Mod, Src_X),
      (0xa4, W32, Xor, Src_KU), (0xac, W32, Xor, Src_X), (0xa7, W64, Xor, Src_K),
      (0xaf, W64, Xor, Src_X), (0xc4, W32, Arsh, Src_KU), (0xcc, W32, Arsh, Src_X),
      (0xc7, W64, Arsh, Src_KU), (0xcf, W64, Arsh, Src_X), (0xb4, W32, Mov, Src_KU)]"

definition if_rows :: "(u8 \<times> width \<times> cmp_op \<times> src_kind) list" where
  "if_rows =
     [(0x15, W64, Eq, Src_K), (0x1d, W64, Eq, Src_X), (0x1e, W32, Eq, Src_X),
      (0x25, W64, UGt, Src_K), (0x26, W32, UGt, Src_KU), (0x2d, W64, UGt, Src_X),
      (0x2e, W32, UGt, Src_X), (0x35, W64, UGe, Src_K), (0x36, W32, UGe, Src_K),
      (0x3d, W64, UGe, Src_X), (0x3e, W32, UGe, Src_X), (0x45, W64, Test, Src_K),
      (0x46, W32, Test, Src_K), (0x4d, W64, Test, Src_X), (0x4e, W32, Test, Src_X),
      (0x55, W64, Ne, Src_K), (0x56, W32, Ne, Src_KU), (0x5d, W64, Ne, Src_X),
      (0x5e, W32, Ne, Src_X), (0x65, W64, SGt, Src_K), (0x66, W32, SGt, Src_K),
      (0x6d, W64, SGt, Src_X), (0x6e, W32, SGt, Src_X), (0x75, W64, SGe, Src_K),
      (0x76, W32, SGe, Src_K), (0x7d, W64, SGe, Src_X), (0x7e, W32, SGe, Src_X),
      (0xa5, W64, ULt, Src_K), (0xa6, W32, ULt, Src_KU), (0xad, W64, ULt, Src_X),
      (0xae, W32, ULt, Src_X), (0xbd, W64, ULe, Src_X), (0xb5, W64, ULe, Src_K),
      (0xb6, W32, ULe, Src_KU), (0xbe, W32, ULe, Src_X), (0xc5, W64, SLt, Src_K),
      (0xc6, W32, SLt, Src_K), (0xcd, W64, SLt, Src_X), (0xce, W32, SLt, Src_X),
      (0xd5, W64, SLe, Src_K), (0xd6, W32, SLe, Src_K), (0xdd, W64, SLe, Src_X),
      (0xde, W32, SLe, Src_X), (0x16, W32, Eq, Src_KU)]"

definition load_rows :: "(u8 \<times> mem_size) list" where
  "load_rows = [(0x61, U32), (0x69, U16), (0x71, U8), (0x79, U64)]"

definition load_sx_rows :: "(u8 \<times> mem_size) list" where
  "load_sx_rows = [(0x91, U8), (0x89, U16), (0x81, U32)]"

definition store_rows :: "(u8 \<times> mem_size \<times> src_kind) list" where
  "store_rows = [(0x62, U32, Src_K), (0x63, U32, Src_X), (0x6a, U16, Src_K), (0x6b, U16, Src_X),
     (0x72, U8, Src_K), (0x73, U8, Src_X), (0x7a, U64, Src_K), (0x7b, U64, Src_X)]"

definition atomic_sizes :: "(u8 \<times> mem_size) list" where
  "atomic_sizes = [(0xDB, U64), (0xC3, U32), (0xCB, U16), (0xD3, U8)]"

definition atomic_ops :: "(u32 \<times> atomic_op \<times> bool) list" where
  "atomic_ops = [(0x00, Atomic_Add, False), (0x01, Atomic_Add, True), (0x40, Atomic_Or, False), (0x41, Atomic_Or, True),
     (0x50, Atomic_And, False), (0x51, Atomic_And, True), (0xA0, Atomic_Xor, False), (0xA1, Atomic_Xor, True),
     (0xE1, Atomic_Xchg, True), (0xF1, Atomic_CmpXchg, True)]"

definition packet_rows :: "(u8 \<times> mem_size \<times> packet_load_mode) list" where
  "packet_rows = [(0x20, U32, Abs), (0x28, U16, Abs), (0x30, U8, Abs), (0x40, U32, Ind), (0x48, U16, Ind), (0x50, U8, Ind)]"

section \<open>Lowering one instruction\<close>

definition lower_mov32_x :: "nat \<Rightarrow> raw_insn \<Rightarrow> reg \<Rightarrow> reg \<Rightarrow> instr lowered" where
  "lower_mov32_x pc insn dst src =
     (if ri_off insn = 0 then Inr (Alu W32 Mov dst (Reg src))
      else if ri_off insn = 8 \<or> ri_off insn = 16 then
        Inr (MovSx W32 (if ri_off insn = 8 then B8 else B16) dst (Reg src))
      else lower_err pc (ri_code insn) UnknownOpcode)"

definition lower_mov64_x :: "nat \<Rightarrow> raw_insn \<Rightarrow> reg \<Rightarrow> reg \<Rightarrow> instr lowered" where
  "lower_mov64_x pc insn dst src =
     (if ri_off insn = 0 \<or> ri_off insn = 1 then Inr (Alu W64 Mov dst (Reg src))
      else if ri_off insn = 8 then Inr (MovSx W64 B8 dst (Reg src))
      else if ri_off insn = 16 then Inr (MovSx W64 B16 dst (Reg src))
      else if ri_off insn = 32 then Inr (MovSx W64 B32 dst (Reg src))
      else lower_err pc (ri_code insn) UnknownOpcode)"

definition lower_call :: "nat \<Rightarrow> nat \<Rightarrow> raw_insn \<Rightarrow> reg \<Rightarrow> instr lowered" where
  "lower_call len pc insn src =
     (let off_reserved = ri_src insn \<noteq> 2 in
      if off_reserved \<and> ri_off insn \<noteq> 0 \<or> ri_dst insn \<noteq> 0 then lower_err pc (ri_code insn) CallUsedReservedFields
      else if src = R0 then Inr (Call (Helper (ri_imm insn)))
      else if src = R1 then
        (let target = int pc + 1 + sint (ri_imm insn) in
         if target < 0 \<or> target \<ge> int len then lower_err pc 0x85 CallTargetOutOfBounds
         else Inr (CallRel (nat target)))
      else if src = R2 then Inr (Call (Kfunc (ri_imm insn) (ri_off insn)))
      else lower_err pc 0x85 InvalidSrcReg)"

definition lower_atomic :: "nat \<Rightarrow> raw_insn \<Rightarrow> mem_size \<Rightarrow> reg \<Rightarrow> reg \<Rightarrow> instr lowered" where
  "lower_atomic pc insn sz dst src =
     (if ri_imm insn = 0x100 then Inr (LoadAcq sz dst src (ri_off insn))
      else if ri_imm insn = 0x110 then Inr (StoreRel sz dst (ri_off insn) src)
      else if ri_code insn = 0xCB \<or> ri_code insn = 0xD3 then lower_err pc (ri_code insn) UnknownAtomicOp
      else
        (case map_of atomic_ops (ri_imm insn) of
           Some (op, fetch) \<Rightarrow> Inr (Atomic op sz fetch dst (ri_off insn) src)
         | None \<Rightarrow> lower_err pc (ri_code insn) UnknownAtomicOp))"

definition lower_other :: "nat \<Rightarrow> nat \<Rightarrow> raw_insn \<Rightarrow> reg \<Rightarrow> reg \<Rightarrow> instr lowered" where
  "lower_other len pc insn dst src =
     (let code = ri_code insn in
      if code = 0xbc then lower_mov32_x pc insn dst src
      else if code = 0xbf then lower_mov64_x pc insn dst src
      else if code = 0xd4 then Inr (Endian dst W32 ToLe (ri_imm insn))
      else if code = 0xdc then Inr (Endian dst W32 ToBe (ri_imm insn))
      else if code = 0xd7 then Inr (Endian dst W64 Bswap (ri_imm insn))
      else if code = 0x95 then Inr Exit
      else if code = 0x05 then on_ok (branch_target pc (ri_off insn) len code) (\<lambda>target. Inr (Jmp target))
      else if code = 0xe5 then
        (if ri_src insn \<noteq> 0 \<or> ri_dst insn \<noteq> 0 \<or> ri_imm insn \<noteq> 0 then lower_err pc code UnknownOpcode
         else on_ok (branch_target pc (ri_off insn) len code) (\<lambda>target. Inr (MayGoto target)))
      else if code = 0x06 then
        (if ri_off insn \<noteq> 0 then lower_err pc code UnknownOpcode
         else on_ok (branch_target_disp pc (ri_imm insn) len code) (\<lambda>target. Inr (Jmp target)))
      else if code = 0x85 then lower_call len pc insn src
      else if code = 0x00 then lower_err pc code InvalidLDIMM64
      else lower_err pc code UnknownOpcode)"

definition lower_mem :: "nat \<Rightarrow> nat \<Rightarrow> raw_insn \<Rightarrow> reg \<Rightarrow> reg \<Rightarrow> instr lowered" where
  "lower_mem len pc insn dst src =
     (case map_of load_rows (ri_code insn) of
        Some sz \<Rightarrow> Inr (Load sz dst src (ri_off insn))
      | None \<Rightarrow>
     (case map_of load_sx_rows (ri_code insn) of
        Some sz \<Rightarrow> Inr (LoadSx sz dst src (ri_off insn))
      | None \<Rightarrow>
     (case map_of store_rows (ri_code insn) of
        Some (sz, k) \<Rightarrow> Inr (Store sz dst (ri_off insn) (row_operand k insn src))
      | None \<Rightarrow>
     (case map_of atomic_sizes (ri_code insn) of
        Some sz \<Rightarrow> lower_atomic pc insn sz dst src
      | None \<Rightarrow>
     (case map_of packet_rows (ri_code insn) of
        Some (sz, mode) \<Rightarrow>
          Inr (LoadPacket sz mode (ri_imm insn) (case mode of Abs \<Rightarrow> None | Ind \<Rightarrow> Some src))
      | None \<Rightarrow> lower_other len pc insn dst src)))))"

definition lower_insn :: "nat \<Rightarrow> nat \<Rightarrow> raw_insn \<Rightarrow> reg \<Rightarrow> reg \<Rightarrow> instr lowered" where
  "lower_insn len pc insn dst src =
     (case map_of alu_rows (ri_code insn) of
        Some (w, op, k) \<Rightarrow> Inr (Alu w op dst (row_operand k insn src))
      | None \<Rightarrow>
     (case map_of if_rows (ri_code insn) of
        Some (w, op, k) \<Rightarrow>
          on_ok (branch_target pc (ri_off insn) len (ri_code insn))
            (\<lambda>target. Inr (If_instr w dst op (row_operand k insn src) target))
      | None \<Rightarrow> lower_mem len pc insn dst src))"

text \<open>\<open>LD_IMM64\<close>, the instruction of two slots; \<open>cont\<close> is the second one, \<open>src\<close> selects what is loaded.\<close>

definition lower_ld_imm64 :: "nat \<Rightarrow> nat \<Rightarrow> raw_insn \<Rightarrow> raw_insn option \<Rightarrow> reg \<Rightarrow> reg \<Rightarrow> instr lowered" where
  "lower_ld_imm64 len pc insn next_insn dst src =
     (if ri_src insn > 6 \<or> ri_off insn \<noteq> 0 then lower_err pc (ri_code insn) InvalidLDIMM64
      else
        (case next_insn of
           None \<Rightarrow> lower_err pc (ri_code insn) InvalidLDIMM64
         | Some cont \<Rightarrow>
             if ri_code cont \<noteq> 0x00 then lower_err pc (ri_code cont) InvalidLDIMM64
             else if ri_code cont \<noteq> 0 \<or> ri_dst cont \<noteq> 0 \<or> ri_src cont \<noteq> 0 \<or> ri_off cont \<noteq> 0 then
               lower_err pc (ri_code cont) InvalidLDIMM64
             else
               (let imm = (ucast (ri_imm insn) OR push_bit 32 (ucast (ri_imm cont)) :: u64) in
                case src of
                  R0 \<Rightarrow> Inr (Alu W64 Mov dst (Imm imm))
                | R1 \<Rightarrow> if ri_imm cont \<noteq> 0 then lower_err pc (ri_code insn) InvalidLDIMM64
                        else Inr (LoadMap dst MapPtr (ucast imm) 0)
                | R2 \<Rightarrow> Inr (LoadMap dst MapValue (ucast imm) (ri_imm cont))
                | R3 \<Rightarrow> Inr (LoadMap dst (PseudoBtfId (ucast imm)) 0 0)
                | R4 \<Rightarrow>
                    (let target = int pc + 2 + sint imm in
                     if target < 0 \<or> target \<ge> int len then lower_err pc (ri_code cont) InvalidLDIMM64
                     else Inr (LoadMap dst (PseudoFunc (of_int target)) 0 0))
                | R5 \<Rightarrow> Inr (LoadMap dst PseudoMapIdx (ucast imm) 0)
                | R6 \<Rightarrow> Inr (LoadMap dst PseudoMapIdxValue (ucast imm) (ri_imm cont))
                | _ \<Rightarrow> lower_err pc (ri_code cont) InvalidLDIMM64)))"

section \<open>Lowering a program\<close>

text \<open>The loop over the instructions; \<open>len\<close> is the number of all instructions, \<open>pc\<close> the position of the
  rest that is still to be lowered.\<close>

fun lower_from :: "nat \<Rightarrow> nat \<Rightarrow> raw_insn list \<Rightarrow> bpf_program \<Rightarrow> bpf_program lowered" where
  "lower_from len pc [] p = Inr p"
| "lower_from len pc (insn # rest) p =
     on_ok (reg_to_var insn (ri_dst insn) pc) (\<lambda>dst.
     on_ok (reg_to_var insn (ri_src insn) pc) (\<lambda>src.
     if ri_code insn = 0x18 then
       on_ok (lower_ld_imm64 len pc insn (case rest of [] \<Rightarrow> None | cont # _ \<Rightarrow> Some cont) dst src) (\<lambda>ir.
         lower_from len (pc + 2) (drop 1 rest)
           (p\<lparr>pr_instrs := pr_instrs p @ [ir, Alu W64 Mov R0 (Reg R0)],
              pr_invalid_pcs := insert (pc + 1) (pr_invalid_pcs p)\<rparr>))
     else
       on_ok (lower_insn len pc insn dst src) (\<lambda>ir.
         lower_from len (pc + 1) rest
           (p\<lparr>pr_instrs := pr_instrs p @ [ir],
              pr_arena_pcs := (if ri_code insn = 0xbf \<and> ri_off insn = 1 \<and> ri_imm insn = 1
                               then insert pc (pr_arena_pcs p) else pr_arena_pcs p)\<rparr>))))"

definition lower_raw_to_program :: "raw_insn list \<Rightarrow> bpf_program lowered" where
  "lower_raw_to_program raw =
     lower_from (length raw) 0 raw \<lparr>pr_instrs = [], pr_invalid_pcs = {}, pr_arena_pcs = {}\<rparr>"

section \<open>Branches stay inside the program\<close>

lemma branch_target_disp_less: "branch_target_disp pc disp len c = Inr t \<Longrightarrow> t < len"
  by (auto simp: branch_target_disp_def lower_err_def Let_def split: if_splits)

lemma branch_target_less: "branch_target pc off len c = Inr t \<Longrightarrow> t < len"
  by (auto simp: branch_target_def dest: branch_target_disp_less)

lemma on_ok_Inr: "on_ok r f = Inr y \<longleftrightarrow> (\<exists>x. r = Inr x \<and> f x = Inr y)"
  by (cases r) auto

lemmas lower_inr = on_ok_Inr lower_err_def Let_def

lemma lower_call_targets: "lower_call len pc insn src = Inr ir \<Longrightarrow> t \<in> set (instr_targets ir) \<Longrightarrow> t < len"
  by (auto simp: lower_call_def lower_inr split: if_splits)

lemma lower_other_targets:
  "lower_other len pc insn dst src = Inr ir \<Longrightarrow> t \<in> set (instr_targets ir) \<Longrightarrow> t < len"
  by (auto simp: lower_other_def lower_mov32_x_def lower_mov64_x_def lower_inr
      dest: branch_target_less branch_target_disp_less lower_call_targets split: if_splits)

lemma lower_atomic_targets: "lower_atomic pc insn sz dst src = Inr ir \<Longrightarrow> instr_targets ir = []"
  by (auto simp: lower_atomic_def lower_inr split: if_splits option.splits prod.splits)

lemma lower_mem_targets:
  "lower_mem len pc insn dst src = Inr ir \<Longrightarrow> t \<in> set (instr_targets ir) \<Longrightarrow> t < len"
  by (auto simp: lower_mem_def dest: lower_other_targets lower_atomic_targets split: option.splits prod.splits)

lemma lower_insn_targets:
  "lower_insn len pc insn dst src = Inr ir \<Longrightarrow> t \<in> set (instr_targets ir) \<Longrightarrow> t < len"
  by (auto simp: lower_insn_def on_ok_Inr dest: branch_target_less lower_mem_targets split: option.splits prod.splits)

lemma unat_of_int_le: "0 \<le> i \<Longrightarrow> unat (of_int i :: u32) \<le> nat i"
  by (simp add: unsigned_of_int nat_mono take_bit_eq_mod zmod_le_nonneg_dividend)

lemma lower_ld_imm64_targets:
  assumes "lower_ld_imm64 len pc insn next_insn dst src = Inr ir"
  shows "next_insn \<noteq> None" "t \<in> set (instr_targets ir) \<Longrightarrow> t < len"
proof -
  show "next_insn \<noteq> None"
    using assms by (cases next_insn) (simp_all add: lower_ld_imm64_def lower_err_def split: if_splits)
  then obtain cont where cont: "next_insn = Some cont" by auto
  show "t < len" if "t \<in> set (instr_targets ir)"
  proof (cases src)
    case R4
    let ?i = "int pc + 2 + sint (ucast (ri_imm insn) OR push_bit 32 (ucast (ri_imm cont)) :: u64)"
    have "0 \<le> ?i" "?i < int len" "t = unat (of_int ?i :: u32)"
      using R4 cont assms that by (auto simp: lower_ld_imm64_def lower_inr simp del: of_int_add split: if_splits)
    then show ?thesis using unat_of_int_le [of ?i] by linarith
  qed (use cont assms that in \<open>auto simp: lower_ld_imm64_def lower_inr split: if_splits\<close>)
qed

definition targets_inside :: "nat \<Rightarrow> bpf_program \<Rightarrow> bool" where
  "targets_inside len p \<longleftrightarrow> (\<forall>ir \<in> set (pr_instrs p). \<forall>t \<in> set (instr_targets ir). t < len)"

lemma lower_from_inside:
  assumes "lower_from len pc rest p = Inr q" "targets_inside len p"
    and "length (pr_instrs p) = pc" "pc + length rest = len" "pr_invalid_pcs p \<subseteq> {0<..<pc}"
  shows "targets_inside len q \<and> length (pr_instrs q) = len \<and> pr_invalid_pcs q \<subseteq> {0<..<len}"
  using assms
proof (induction len pc rest p rule: lower_from.induct)
  case (2 len pc insn rest p)
  obtain dst src where r: "reg_to_var insn (ri_dst insn) pc = Inr dst" "reg_to_var insn (ri_src insn) pc = Inr src"
    using "2.prems"(1) by (auto simp: on_ok_Inr)
  show ?case
  proof (cases "ri_code insn = 0x18")
    case True
    then obtain ir where ir: "lower_ld_imm64 len pc insn (case rest of [] \<Rightarrow> None | c # _ \<Rightarrow> Some c) dst src = Inr ir"
      using "2.prems"(1) r by (auto simp: on_ok_Inr)
    then have "rest \<noteq> []" using lower_ld_imm64_targets(1) by fastforce
    then have l: "Suc (length rest - Suc 0) = length rest" by (cases rest) simp_all
    show ?thesis
      by (rule "2.IH"(1) [OF r True ir])
        (use "2.prems" r True ir l lower_ld_imm64_targets(2) [OF ir] in \<open>auto simp: targets_inside_def\<close>)
  next
    case False
    then obtain ir where ir: "lower_insn len pc insn dst src = Inr ir"
      using "2.prems"(1) r by (auto simp: on_ok_Inr)
    show ?thesis
      by (rule "2.IH"(2) [OF r False ir])
        (use "2.prems" r False ir lower_insn_targets [OF ir] in \<open>auto simp: targets_inside_def\<close>)
  qed
qed simp

text \<open>C23. A program that is lowered has one instruction per slot, and every branch, call and function
  reference in it leads to a slot of the program; the slots that must not be entered are second
  halves of 64-bit loads.\<close>

theorem lower_raw_to_program_wf:
  assumes "lower_raw_to_program raw = Inr p"
  shows "length (pr_instrs p) = length raw \<and>
    (\<forall>ir \<in> set (pr_instrs p). \<forall>t \<in> set (instr_targets ir). t < length raw) \<and>
    pr_invalid_pcs p \<subseteq> {0<..<length raw}"
  using lower_from_inside [OF assms [unfolded lower_raw_to_program_def]] by (simp add: targets_inside_def)

theorem lower_raw_to_program_wf_witness:
  "\<exists>p. lower_raw_to_program (BPF_DIRECT_PKT_R2 @ [BPF_EXIT_INSN]) = Inr p \<and> length (pr_instrs p) = 8 \<and>
    (\<forall>ir \<in> set (pr_instrs p). \<forall>t \<in> set (instr_targets ir). t < 8)"
proof -
  let ?raw = "BPF_DIRECT_PKT_R2 @ [BPF_EXIT_INSN]"
  have "isl (lower_raw_to_program ?raw) = False" by code_simp
  then obtain p where p: "lower_raw_to_program ?raw = Inr p" by (cases "lower_raw_to_program ?raw") auto
  have "length ?raw = 8" by code_simp
  with lower_raw_to_program_wf [OF p] p show ?thesis by auto
qed

declare lower_from.simps [simp del]

end
