(* ===== verification/Ebpf_Machine.thy ===== *)
theory Ebpf_Machine
  imports Lowering
begin

text \<open>
  What the instructions of \<open>Bpf_Ast\<close> do: a machine for lowered programs, against which verdicts
  about a program can be stated.

  A register holds nothing yet, a 64-bit number, or a pointer: a region and an offset from the
  region's reference point (\<open>data\<close> for the packet, the frame pointer for the stack, the start of the
  value for a map value). Offsets are integers: regions lie away from the ends of the address space,
  so pointers into one region are ordered as their offsets. Everything a verified program must never
  do ends the run with a fault: reading a register or a stack byte that was never written, touching
  memory outside a region, arithmetic that is not defined on pointers, returning a pointer, leaving
  the program.

  The outside world is a parameter of a run (\<open>world\<close>): the length of the packet and of the metadata
  in front of it, the context fields, the numbers the helper functions return and the outcomes of
  map lookups.

  Shown here: a machine step is monotone in fuel, and a program all of whose branches lead forward
  runs to an end.
\<close>

unbundle bit_operations_syntax

named_theorems exec_simps \<open>the machine, evaluated\<close>

section \<open>Arithmetic\<close>

text \<open>Division by zero gives 0 and the remainder modulo zero is the dividend; shifts take their
  amount modulo the width.\<close>

fun alu_word :: "alu_op \<Rightarrow> 'a::len word \<Rightarrow> 'a word \<Rightarrow> 'a word" where
  "alu_word Add a b = a + b"
| "alu_word Sub a b = a - b"
| "alu_word And a b = a AND b"
| "alu_word Or a b = a OR b"
| "alu_word Xor a b = a XOR b"
| "alu_word Mov a b = b"
| "alu_word Shl a b = push_bit (unat b mod LENGTH('a)) a"
| "alu_word Shr a b = drop_bit (unat b mod LENGTH('a)) a"
| "alu_word Arsh a b = signed_drop_bit (unat b mod LENGTH('a)) a"
| "alu_word Mul a b = a * b"
| "alu_word Mod a b = (if b = 0 then a else a mod b)"
| "alu_word Div a b = (if b = 0 then 0 else a div b)"
| "alu_word Neg a b = - a"
| "alu_word Rsh a b = drop_bit (unat b mod LENGTH('a)) a"
| "alu_word Lsh a b = push_bit (unat b mod LENGTH('a)) a"

fun alu_eval :: "width \<Rightarrow> alu_op \<Rightarrow> u64 \<Rightarrow> u64 \<Rightarrow> u64" where
  "alu_eval W64 op a b = alu_word op a b"
| "alu_eval W32 op a b = ucast (alu_word op (ucast a :: u32) (ucast b))"

fun cmp_word :: "cmp_op \<Rightarrow> 'a::len word \<Rightarrow> 'a word \<Rightarrow> bool" where
  "cmp_word UGe a b \<longleftrightarrow> b \<le> a"
| "cmp_word ULe a b \<longleftrightarrow> a \<le> b"
| "cmp_word UGt a b \<longleftrightarrow> b < a"
| "cmp_word ULt a b \<longleftrightarrow> a < b"
| "cmp_word Eq a b \<longleftrightarrow> a = b"
| "cmp_word Ne a b \<longleftrightarrow> a \<noteq> b"
| "cmp_word SLt a b \<longleftrightarrow> sint a < sint b"
| "cmp_word SGt a b \<longleftrightarrow> sint b < sint a"
| "cmp_word SLe a b \<longleftrightarrow> sint a \<le> sint b"
| "cmp_word SGe a b \<longleftrightarrow> sint b \<le> sint a"
| "cmp_word Test a b \<longleftrightarrow> a AND b \<noteq> 0"

fun cmp_eval :: "width \<Rightarrow> cmp_op \<Rightarrow> u64 \<Rightarrow> u64 \<Rightarrow> bool" where
  "cmp_eval W64 op a b = cmp_word op a b"
| "cmp_eval W32 op a b = cmp_word op (ucast a :: u32) (ucast b)"

definition movsx_eval :: "width \<Rightarrow> sx_width \<Rightarrow> u64 \<Rightarrow> u64" where
  "movsx_eval w k v =
     (let x = signed_take_bit (sx_bits k - 1) v in
      case w of W64 \<Rightarrow> x | W32 \<Rightarrow> ucast (ucast x :: u32))"

text \<open>Little-endian bytes of a value, and back.\<close>

definition bytes_of :: "nat \<Rightarrow> u64 \<Rightarrow> u8 list" where
  "bytes_of n v = map (\<lambda>i. ucast (drop_bit (8 * i) v)) [0..<n]"

fun of_bytes :: "u8 list \<Rightarrow> u64" where
  "of_bytes [] = 0"
| "of_bytes (b # bs) = ucast b OR push_bit 8 (of_bytes bs)"

definition endian_eval :: "endian_op \<Rightarrow> u32 \<Rightarrow> u64 \<Rightarrow> u64 option" where
  "endian_eval op sz v =
     (if sz = 16 \<or> sz = 32 \<or> sz = 64 then
        (let bs = bytes_of (unat sz div 8) v in
         Some (of_bytes (case op of ToLe \<Rightarrow> bs | _ \<Rightarrow> rev bs)))
      else None)"

section \<open>Values\<close>

datatype region = Ctx | Pkt | Stk | MapObj | MapVal

datatype val = Undef | Scalar u64 | Ptr region int

datatype fault = ReadUndef | OutOfBounds | BadPointer | BadReturn | Unsupported | BadPc

datatype outcome = Exited u64 | Fault fault

text \<open>Arithmetic with pointers: moving, adding and subtracting a number, and the difference of two
  pointers into one region.\<close>

fun alu_val :: "width \<Rightarrow> alu_op \<Rightarrow> val \<Rightarrow> val \<Rightarrow> val option" where
  "alu_val w op (Scalar a) (Scalar b) = Some (Scalar (alu_eval w op a b))"
| "alu_val w op Undef (Scalar b) = (if op = Mov then Some (Scalar (alu_eval w Mov 0 b)) else None)"
| "alu_val w op (Ptr r q) (Scalar b) =
     (if op = Mov then Some (Scalar (alu_eval w Mov 0 b))
      else if w = W32 \<or> r = MapObj then None
      else if op = Add then Some (Ptr r (q + sint b))
      else if op = Sub then Some (Ptr r (q - sint b)) else None)"
| "alu_val w op Undef (Ptr r' q') = (if w = W64 \<and> op = Mov then Some (Ptr r' q') else None)"
| "alu_val w op (Scalar a) (Ptr r' q') =
     (if w = W32 then None
      else if op = Mov then Some (Ptr r' q')
      else if op = Add \<and> r' \<noteq> MapObj then Some (Ptr r' (q' + sint a)) else None)"
| "alu_val w op (Ptr r q) (Ptr r' q') =
     (if w = W32 then None
      else if op = Mov then Some (Ptr r' q')
      else if op = Sub \<and> r = r' then Some (Scalar (of_int (q - q'))) else None)"
| "alu_val w op a Undef = None"

fun cmp_offset :: "cmp_op \<Rightarrow> int \<Rightarrow> int \<Rightarrow> bool option" where
  "cmp_offset UGe a b = Some (b \<le> a)"
| "cmp_offset ULe a b = Some (a \<le> b)"
| "cmp_offset UGt a b = Some (b < a)"
| "cmp_offset ULt a b = Some (a < b)"
| "cmp_offset Eq a b = Some (a = b)"
| "cmp_offset Ne a b = Some (a \<noteq> b)"
| "cmp_offset _ a b = None"

text \<open>A pointer is never 0.\<close>

fun cmp_val :: "width \<Rightarrow> cmp_op \<Rightarrow> val \<Rightarrow> val \<Rightarrow> bool option" where
  "cmp_val w op (Scalar a) (Scalar b) = Some (cmp_eval w op a b)"
| "cmp_val w op (Ptr r a) (Ptr r' b) =
     (if w = W32 then None
      else if r = r' then cmp_offset op a b
      else if op = Eq then Some False else if op = Ne then Some True else None)"
| "cmp_val w op (Ptr r a) (Scalar b) =
     (if w = W32 \<or> b \<noteq> 0 then None
      else if op = Eq then Some False else if op = Ne then Some True else None)"
| "cmp_val w op (Scalar a) (Ptr r b) = None"
| "cmp_val w op Undef b = None"
| "cmp_val w op a Undef = None"

section \<open>The machine\<close>

record world =
  w_len :: int
  w_meta :: int
  w_ctx :: "int \<Rightarrow> nat \<Rightarrow> val option"
  w_rand :: "nat \<Rightarrow> u32"
  w_found :: "nat \<Rightarrow> bool"

datatype stack_byte = SInvalid | SByte u8 | SPtr val nat

record machine =
  m_pc :: nat
  m_regs :: "reg \<Rightarrow> val"
  m_pkt :: "int \<Rightarrow> u8"
  m_stack :: "int \<Rightarrow> stack_byte"
  m_mapval :: "int \<Rightarrow> u8"
  m_calls :: nat

type_synonym step_result = "outcome + machine"

abbreviation fault :: "fault \<Rightarrow> outcome + 'a" where
  "fault f \<equiv> Inl (Fault f)"

definition MAP_VALUE_SIZE :: int where "MAP_VALUE_SIZE = 48"
definition MAP_KEY_SIZE :: nat where "MAP_KEY_SIZE = 8"
definition STACK_SIZE :: int where "STACK_SIZE = 512"

definition addresses :: "int \<Rightarrow> nat \<Rightarrow> int list" where
  "addresses off n = map (\<lambda>i. off + int i) [0..<n]"

fun stack_value :: "stack_byte list \<Rightarrow> outcome + val" where
  "stack_value bs =
     (if list_all (\<lambda>b. case b of SByte _ \<Rightarrow> True | _ \<Rightarrow> False) bs then
        Inr (Scalar (of_bytes (map (\<lambda>b. case b of SByte x \<Rightarrow> x | _ \<Rightarrow> 0) bs)))
      else if SInvalid \<in> set bs then fault ReadUndef
      else
        (case bs of
           SPtr v i # _ \<Rightarrow> if bs = map (SPtr v) [0..<8] then Inr v else fault BadPointer
         | _ \<Rightarrow> fault BadPointer))"

declare stack_value.simps [simp del]

fun mem_load :: "world \<Rightarrow> machine \<Rightarrow> val \<Rightarrow> int \<Rightarrow> nat \<Rightarrow> outcome + val" where
  "mem_load w s Undef off n = fault ReadUndef"
| "mem_load w s (Scalar a) off n = fault BadPointer"
| "mem_load w s (Ptr Ctx q) off n =
     (case w_ctx w (q + off) n of Some v \<Rightarrow> Inr v | None \<Rightarrow> fault OutOfBounds)"
| "mem_load w s (Ptr Pkt q) off n =
     (if - w_meta w \<le> q + off \<and> q + off + int n \<le> w_len w
      then Inr (Scalar (of_bytes (map (m_pkt s) (addresses (q + off) n)))) else fault OutOfBounds)"
| "mem_load w s (Ptr MapVal q) off n =
     (if 0 \<le> q + off \<and> q + off + int n \<le> MAP_VALUE_SIZE
      then Inr (Scalar (of_bytes (map (m_mapval s) (addresses (q + off) n)))) else fault OutOfBounds)"
| "mem_load w s (Ptr Stk q) off n =
     (if - STACK_SIZE \<le> q + off \<and> q + off + int n \<le> 0
      then stack_value (map (m_stack s) (addresses (q + off) n)) else fault OutOfBounds)"
| "mem_load w s (Ptr MapObj q) off n = fault BadPointer"

definition put_bytes :: "(int \<Rightarrow> 'b) \<Rightarrow> int \<Rightarrow> 'b list \<Rightarrow> int \<Rightarrow> 'b" where
  "put_bytes f off bs = (\<lambda>a. if off \<le> a \<and> a < off + int (length bs) then bs ! nat (a - off) else f a)"

fun mem_store :: "world \<Rightarrow> machine \<Rightarrow> val \<Rightarrow> int \<Rightarrow> nat \<Rightarrow> val \<Rightarrow> outcome + machine" where
  "mem_store w s p off n Undef = fault ReadUndef"
| "mem_store w s Undef off n v = fault ReadUndef"
| "mem_store w s (Ptr Pkt q) off n (Scalar v) =
     (if - w_meta w \<le> q + off \<and> q + off + int n \<le> w_len w
      then Inr (s\<lparr>m_pkt := put_bytes (m_pkt s) (q + off) (bytes_of n v)\<rparr>) else fault OutOfBounds)"
| "mem_store w s (Ptr MapVal q) off n (Scalar v) =
     (if 0 \<le> q + off \<and> q + off + int n \<le> MAP_VALUE_SIZE
      then Inr (s\<lparr>m_mapval := put_bytes (m_mapval s) (q + off) (bytes_of n v)\<rparr>) else fault OutOfBounds)"
| "mem_store w s (Ptr Stk q) off n (Scalar v) =
     (if - STACK_SIZE \<le> q + off \<and> q + off + int n \<le> 0
      then Inr (s\<lparr>m_stack := put_bytes (m_stack s) (q + off) (map SByte (bytes_of n v))\<rparr>) else fault OutOfBounds)"
| "mem_store w s (Ptr Stk q) off n (Ptr r q') =
     (if n \<noteq> 8 then fault BadPointer
      else if - STACK_SIZE \<le> q + off \<and> q + off + int n \<le> 0
      then Inr (s\<lparr>m_stack := put_bytes (m_stack s) (q + off) (map (SPtr (Ptr r q')) [0..<8])\<rparr>) else fault OutOfBounds)"
| "mem_store w s p off n v = fault BadPointer"

fun operand_val :: "machine \<Rightarrow> operand \<Rightarrow> val" where
  "operand_val s (Reg r) = m_regs s r"
| "operand_val s (Imm c) = Scalar c"

text \<open>\<open>r10\<close>, the frame pointer, cannot be written.\<close>

definition set_reg :: "reg \<Rightarrow> val \<Rightarrow> machine \<Rightarrow> step_result" where
  "set_reg d v s = (if d = R10 then fault BadPointer else Inr (s\<lparr>m_regs := (m_regs s)(d := v), m_pc := m_pc s + 1\<rparr>))"

definition clobber_args :: "(reg \<Rightarrow> val) \<Rightarrow> reg \<Rightarrow> val" where
  "clobber_args regs = regs(R1 := Undef, R2 := Undef, R3 := Undef, R4 := Undef, R5 := Undef)"

text \<open>The helper functions the programs use: \<open>map_lookup_elem\<close> reads a key and returns the value or 0,
  \<open>get_prandom_u32\<close> returns a random number, \<open>get_cgroup_classid\<close> takes the context and returns a
  number of 32 bits.\<close>

definition call_helper :: "world \<Rightarrow> u32 \<Rightarrow> machine \<Rightarrow> step_result" where
  "call_helper w f s =
     (let ret = (\<lambda>v. Inr (s\<lparr>m_regs := (clobber_args (m_regs s))(R0 := v), m_pc := m_pc s + 1, m_calls := m_calls s + 1\<rparr>)) in
      if f = BPF_FUNC_get_prandom_u32 then ret (Scalar (ucast (w_rand w (m_calls s))))
      else if f = BPF_FUNC_get_cgroup_classid then
        (if m_regs s R1 \<noteq> Ptr Ctx 0 then fault BadPointer else ret (Scalar (ucast (w_rand w (m_calls s)))))
      else if f = BPF_FUNC_map_lookup_elem then
        (if m_regs s R1 \<noteq> Ptr MapObj 0 then fault BadPointer
         else
           (case mem_load w s (m_regs s R2) 0 MAP_KEY_SIZE of
              Inl err \<Rightarrow> Inl err
            | Inr _ \<Rightarrow> ret (if w_found w (m_calls s) then Ptr MapVal 0 else Scalar 0)))
      else fault Unsupported)"

definition load_sx_val :: "nat \<Rightarrow> val \<Rightarrow> val option" where
  "load_sx_val n v = (case v of Scalar x \<Rightarrow> Some (Scalar (signed_take_bit (8 * n - 1) x)) | _ \<Rightarrow> None)"

fun atomic_word :: "atomic_op \<Rightarrow> 'a::len word \<Rightarrow> 'a word \<Rightarrow> 'a word \<Rightarrow> 'a word" where
  "atomic_word Atomic_Add r0 old x = old + x"
| "atomic_word Atomic_Or r0 old x = old OR x"
| "atomic_word Atomic_And r0 old x = old AND x"
| "atomic_word Atomic_Xor r0 old x = old XOR x"
| "atomic_word Atomic_Xchg r0 old x = x"
| "atomic_word Atomic_CmpXchg r0 old x = (if r0 = old then x else old)"

definition atomic_eval :: "atomic_op \<Rightarrow> mem_size \<Rightarrow> u64 \<Rightarrow> u64 \<Rightarrow> u64 \<Rightarrow> u64" where
  "atomic_eval op sz r0 old x =
     (if sz = U64 then atomic_word op r0 old x
      else ucast (atomic_word op (ucast r0 :: u32) (ucast old) (ucast x)))"

definition exec_atomic :: "world \<Rightarrow> atomic_op \<Rightarrow> mem_size \<Rightarrow> bool \<Rightarrow> reg \<Rightarrow> u16 \<Rightarrow> reg \<Rightarrow> machine \<Rightarrow> step_result" where
  "exec_atomic w op sz fetch base off src s =
     (let r0 = (if op = Atomic_CmpXchg then m_regs s R0 else Scalar 0) in
      case (r0, mem_load w s (m_regs s base) (sint off) (mem_bytes sz), m_regs s src) of
        (Scalar r0, Inr (Scalar old), Scalar x) \<Rightarrow>
          on_ok (mem_store w s (m_regs s base) (sint off) (mem_bytes sz) (Scalar (atomic_eval op sz r0 old x))) (\<lambda>s.
            if op = Atomic_CmpXchg then set_reg R0 (Scalar old) s
            else if fetch then set_reg src (Scalar old) s
            else Inr (s\<lparr>m_pc := m_pc s + 1\<rparr>))
      | (_, Inl err, _) \<Rightarrow> Inl err
      | (Undef, _, _) \<Rightarrow> fault ReadUndef
      | (_, _, Undef) \<Rightarrow> fault ReadUndef
      | _ \<Rightarrow> fault BadPointer)"

fun exec_instr :: "world \<Rightarrow> instr \<Rightarrow> machine \<Rightarrow> step_result" where
  "exec_instr w (Alu k op d src) s =
     (if op \<noteq> Mov \<and> m_regs s d = Undef \<or> operand_val s src = Undef then fault ReadUndef
      else
        (case alu_val k op (m_regs s d) (operand_val s src) of
           None \<Rightarrow> fault BadPointer
         | Some v \<Rightarrow> set_reg d v s))"
| "exec_instr w (MovSx k b d src) s =
     (case operand_val s src of
        Undef \<Rightarrow> fault ReadUndef
      | Scalar x \<Rightarrow> set_reg d (Scalar (movsx_eval k b x)) s
      | Ptr _ _ \<Rightarrow> fault BadPointer)"
| "exec_instr w (Endian d k op sz) s =
     (case m_regs s d of
        Undef \<Rightarrow> fault ReadUndef
      | Scalar x \<Rightarrow> (case endian_eval op sz x of Some y \<Rightarrow> set_reg d (Scalar y) s | None \<Rightarrow> fault Unsupported)
      | Ptr _ _ \<Rightarrow> fault BadPointer)"
| "exec_instr w (If_instr k d op src target) s =
     (if m_regs s d = Undef \<or> operand_val s src = Undef then fault ReadUndef
      else
        (case cmp_val k op (m_regs s d) (operand_val s src) of
           None \<Rightarrow> fault BadPointer
         | Some c \<Rightarrow> Inr (s\<lparr>m_pc := (if c then target else m_pc s + 1)\<rparr>)))"
| "exec_instr w (Jmp target) s = Inr (s\<lparr>m_pc := target\<rparr>)"
| "exec_instr w (Load sz d base off) s =
     on_ok (mem_load w s (m_regs s base) (sint off) (mem_bytes sz)) (\<lambda>v. set_reg d v s)"
| "exec_instr w (LoadSx sz d base off) s =
     on_ok (mem_load w s (m_regs s base) (sint off) (mem_bytes sz)) (\<lambda>v.
       case load_sx_val (mem_bytes sz) v of Some x \<Rightarrow> set_reg d x s | None \<Rightarrow> fault BadPointer)"
| "exec_instr w (LoadAcq sz d base off) s =
     on_ok (mem_load w s (m_regs s base) (sint off) (mem_bytes sz)) (\<lambda>v. set_reg d v s)"
| "exec_instr w (Store sz base off src) s =
     on_ok (mem_store w s (m_regs s base) (sint off) (mem_bytes sz) (operand_val s src)) (\<lambda>s.
       Inr (s\<lparr>m_pc := m_pc s + 1\<rparr>))"
| "exec_instr w (StoreRel sz base off src) s =
     on_ok (mem_store w s (m_regs s base) (sint off) (mem_bytes sz) (m_regs s src)) (\<lambda>s.
       Inr (s\<lparr>m_pc := m_pc s + 1\<rparr>))"
| "exec_instr w (Atomic op sz fetch base off src) s = exec_atomic w op sz fetch base off src s"
| "exec_instr w (Call (Helper f)) s = call_helper w f s"
| "exec_instr w (LoadMap d MapPtr fd off) s = set_reg d (Ptr MapObj 0) s"
| "exec_instr w Exit s =
     (case m_regs s R0 of
        Undef \<Rightarrow> fault ReadUndef
      | Scalar x \<Rightarrow> Inl (Exited x)
      | Ptr _ _ \<Rightarrow> fault BadReturn)"
| "exec_instr w _ s = fault Unsupported"

text \<open>After a 64-bit load the run goes on behind its second slot, which must not be entered itself.\<close>

definition next_slot :: "bpf_program \<Rightarrow> nat \<Rightarrow> machine \<Rightarrow> machine" where
  "next_slot p pc s = (if m_pc s = pc + 1 \<and> pc + 1 \<in> pr_invalid_pcs p then s\<lparr>m_pc := pc + 2\<rparr> else s)"

definition step :: "world \<Rightarrow> bpf_program \<Rightarrow> machine \<Rightarrow> step_result" where
  "step w p s =
     (if m_pc s \<ge> length (pr_instrs p) \<or> m_pc s \<in> pr_invalid_pcs p then fault BadPc
      else on_ok (exec_instr w (pr_instrs p ! m_pc s) s) (\<lambda>s'. Inr (next_slot p (m_pc s) s')))"

text \<open>A run of at most the given number of steps; \<open>None\<close> if it is still going on.\<close>

fun run :: "world \<Rightarrow> bpf_program \<Rightarrow> nat \<Rightarrow> machine \<Rightarrow> outcome option" where
  "run w p 0 s = None"
| "run w p (Suc n) s = (case step w p s of Inl out \<Rightarrow> Some out | Inr s' \<Rightarrow> run w p n s')"

section \<open>Runs\<close>

lemma run_mono: "run w p n s = Some out \<Longrightarrow> n \<le> m \<Longrightarrow> run w p m s = Some out"
proof (induction n arbitrary: m s)
  case (Suc n)
  then obtain m' where "m = Suc m'" "n \<le> m'" by (cases m) auto
  with Suc show ?case by (auto split: sum.splits)
qed simp

text \<open>One step of a run whose fuel is a numeral.\<close>

lemma run_numeral [exec_simps]:
  "run w p (numeral k) s = (case step w p s of Inl out \<Rightarrow> Some out | Inr s' \<Rightarrow> run w p (pred_numeral k) s')"
  by (simp add: numeral_eq_Suc)

text \<open>Every way out of an instruction leads to the next one or to one of its targets.\<close>

lemma set_reg_pc: "set_reg d v s = Inr s' \<Longrightarrow> m_pc s' = m_pc s + 1"
  by (auto simp: set_reg_def split: if_splits)

lemma mem_store_pc: "mem_store w s p off n v = Inr s' \<Longrightarrow> m_pc s' = m_pc s"
  by (cases "(w, s, p, off, n, v)" rule: mem_store.cases) (auto split: if_splits)

lemma exec_atomic_pc: "exec_atomic w op sz fetch base off src s = Inr s' \<Longrightarrow> m_pc s' = m_pc s + 1"
  by (auto simp: exec_atomic_def Let_def on_ok_Inr dest!: set_reg_pc mem_store_pc
      split: prod.splits sum.splits val.splits if_splits)

lemma call_helper_pc: "call_helper w f s = Inr s' \<Longrightarrow> m_pc s' = m_pc s + 1"
  by (auto simp: call_helper_def Let_def split: if_splits sum.splits)

lemma exec_instr_pc:
  "exec_instr w i s = Inr s' \<Longrightarrow> m_pc s' = m_pc s + 1 \<or> m_pc s' \<in> set (instr_targets i)"
  by (cases "(w, i, s)" rule: exec_instr.cases)
    (auto simp: on_ok_Inr dest!: set_reg_pc mem_store_pc exec_atomic_pc call_helper_pc
      split: if_splits option.splits val.splits)

definition forward :: "bpf_program \<Rightarrow> bool" where
  "forward p \<longleftrightarrow> (\<forall>pc < length (pr_instrs p). \<forall>t \<in> set (instr_targets (pr_instrs p ! pc)). pc < t)"

text \<open>With one step more than it has instructions, a program whose branches all lead forward comes to
  an end.\<close>

lemma run_forward:
  assumes "forward p" "length (pr_instrs p) < m_pc s + n" "0 < n"
  shows "\<exists>out. run w p n s = Some out"
  using assms(2,3)
proof (induction n arbitrary: s)
  case (Suc n)
  show ?case
  proof (cases "step w p s")
    case (Inr s')
    then obtain s'' where pc: "m_pc s < length (pr_instrs p)"
      and "exec_instr w (pr_instrs p ! m_pc s) s = Inr s''" and s': "s' = next_slot p (m_pc s) s''"
      by (auto simp: step_def on_ok_Inr split: if_splits)
    then have "m_pc s < m_pc s''"
      using exec_instr_pc assms(1) unfolding forward_def by fastforce
    then have "m_pc s < m_pc s'" by (simp add: s' next_slot_def)
    then show ?thesis using Suc Inr pc by simp
  qed simp
qed simp

text \<open>A program without a way back always comes to an end, whatever the input and wherever it starts:
  it exits or it faults, after at most one step more than it has instructions.\<close>

theorem forward_program_ends:
  assumes "forward p"
  shows "\<exists>out. run w p (length (pr_instrs p) + 1) s = Some out"
  using run_forward [OF assms, of s "length (pr_instrs p) + 1" w] by simp

theorem forward_program_ends_witness:
  "\<forall>w s. \<exists>out. run w \<lparr>pr_instrs = [If_instr W64 R1 Eq (Imm 0) 2, Jmp 3, Alu W64 Mov R0 (Imm 0), Exit],
     pr_invalid_pcs = {}, pr_arena_pcs = {}\<rparr> 5 s = Some out"
proof -
  let ?p = "\<lparr>pr_instrs = [If_instr W64 R1 Eq (Imm 0) 2, Jmp 3, Alu W64 Mov R0 (Imm 0), Exit],
     pr_invalid_pcs = {}, pr_arena_pcs = {}\<rparr>"
  have "forward ?p" by (auto simp: forward_def less_Suc_eq numeral_eq_Suc)
  moreover have "length (pr_instrs ?p) + 1 = 5" by simp
  ultimately show ?thesis using forward_program_ends by metis
qed

end
