(* ===== verification/Lowering_Eval.thy ===== *)
theory Lowering_Eval
  imports Lowering
begin

text \<open>
  Lowering evaluated on programs written with the instruction macros: what each macro is lowered to, for
  all registers, offsets and immediates. The rules are collected in \<open>lower_eval\<close>; with them a program
  text is lowered by rewriting.
\<close>

unbundle bit_operations_syntax

named_theorems lower_eval \<open>lowering, evaluated\<close>

section \<open>One instruction after the other\<close>

definition add_instr :: "instr \<Rightarrow> bpf_program \<Rightarrow> bpf_program" where
  "add_instr ir p = p\<lparr>pr_instrs := pr_instrs p @ [ir]\<rparr>"

definition add_load64 :: "nat \<Rightarrow> instr \<Rightarrow> bpf_program \<Rightarrow> bpf_program" where
  "add_load64 pc ir p = p\<lparr>pr_instrs := pr_instrs p @ [ir, Alu W64 Mov R0 (Reg R0)],
     pr_invalid_pcs := insert (pc + 1) (pr_invalid_pcs p)\<rparr>"

lemma add_instr_record [lower_eval]:
  "add_instr ir \<lparr>pr_instrs = is, pr_invalid_pcs = I, pr_arena_pcs = A\<rparr> =
     \<lparr>pr_instrs = is @ [ir], pr_invalid_pcs = I, pr_arena_pcs = A\<rparr>"
  "add_load64 pc ir \<lparr>pr_instrs = is, pr_invalid_pcs = I, pr_arena_pcs = A\<rparr> =
     \<lparr>pr_instrs = is @ [ir, Alu W64 Mov R0 (Reg R0)], pr_invalid_pcs = insert (pc + 1) I, pr_arena_pcs = A\<rparr>"
  by (simp_all add: add_instr_def add_load64_def)

text \<open>An instruction that is neither a 64-bit load nor a cast between address spaces.\<close>

definition plain_insn :: "raw_insn \<Rightarrow> bool" where
  "plain_insn i \<longleftrightarrow> ri_code i \<noteq> 0x18 \<and> (ri_code i \<noteq> 0xbf \<or> ri_off i = 0)"

lemma lower_from_plain:
  assumes "plain_insn i"
  shows "lower_from len pc (i # rest) p =
    on_ok (reg_to_var i (ri_dst i) pc) (\<lambda>dst.
    on_ok (reg_to_var i (ri_src i) pc) (\<lambda>src.
    on_ok (lower_insn len pc i dst src) (\<lambda>ir. lower_from len (Suc pc) rest (add_instr ir p))))"
  using assms by (auto simp: lower_from.simps plain_insn_def add_instr_def intro!: on_ok_cong)

lemma class_bit: "bit c 0 \<or> bit c 1 \<or> bit c 2 \<Longrightarrow> c \<noteq> (0x18 :: u8)"
  by (auto simp: bit_numeral_rec)

lemma class_bits: "c = (0xbf :: u8) \<Longrightarrow> bit c 0 \<and> bit c 1 \<and> bit c 2"
  by (auto simp: bit_numeral_rec)

lemma plain_macros:
  "plain_insn (BPF_ALU64_IMM op d i)"
  "plain_insn (BPF_ALU64_REG op d s)"
  "plain_insn (BPF_ALU32_IMM op d i)"
  "plain_insn (BPF_ALU32_REG op d s)"
  "plain_insn (BPF_MOV64_IMM d i)"
  "plain_insn (BPF_MOV64_REG d s)"
  "plain_insn (BPF_MOV32_IMM d i)"
  "plain_insn (BPF_MOV32_REG d s)"
  "plain_insn (BPF_LDX_MEM sz d s off)"
  "plain_insn (BPF_STX_MEM sz d s off)"
  "plain_insn (BPF_ST_MEM sz d off i)"
  "plain_insn (BPF_ATOMIC_OP sz aop d s off)"
  "plain_insn (BPF_JMP_IMM op d i off)"
  "plain_insn (BPF_JMP_REG op d s off)"
  "plain_insn (BPF_JMP32_IMM op d i off)"
  "plain_insn (BPF_JMP32_REG op d s off)"
  "plain_insn (BPF_JMP_A off)"
  "plain_insn (BPF_EXIT_INSN)"
  "plain_insn (BPF_ENDIAN ty d i)"
  "plain_insn (BPF_EMIT_CALL f)"
  by (auto simp: plain_insn_def bpf_macro bit_simps bit_numeral_rec intro!: class_bit dest!: class_bits)

lemma reg_to_var_numeral [lower_eval]:
  "reg_to_var i 0 pc = Inr R0"
  "reg_to_var i 1 pc = Inr R1"
  "reg_to_var i 2 pc = Inr R2"
  "reg_to_var i 3 pc = Inr R3"
  "reg_to_var i 4 pc = Inr R4"
  "reg_to_var i 5 pc = Inr R5"
  "reg_to_var i 6 pc = Inr R6"
  "reg_to_var i 7 pc = Inr R7"
  "reg_to_var i 8 pc = Inr R8"
  "reg_to_var i 9 pc = Inr R9"
  "reg_to_var i 10 pc = Inr R10"
  by (simp_all add: reg_to_var_def reg_of_def)

lemma lower_from_macro [lower_eval]:
  "lower_from len pc (BPF_ALU64_IMM op d i # rest) p =
     on_ok (reg_to_var (BPF_ALU64_IMM op d i) d pc) (\<lambda>dst. on_ok (reg_to_var (BPF_ALU64_IMM op d i) 0 pc) (\<lambda>src.
     on_ok (lower_insn len pc (BPF_ALU64_IMM op d i) dst src) (\<lambda>ir. lower_from len (Suc pc) rest (add_instr ir p))))"
  "lower_from len pc (BPF_ALU64_REG op d s # rest) p =
     on_ok (reg_to_var (BPF_ALU64_REG op d s) d pc) (\<lambda>dst. on_ok (reg_to_var (BPF_ALU64_REG op d s) s pc) (\<lambda>src.
     on_ok (lower_insn len pc (BPF_ALU64_REG op d s) dst src) (\<lambda>ir. lower_from len (Suc pc) rest (add_instr ir p))))"
  "lower_from len pc (BPF_ALU32_IMM op d i # rest) p =
     on_ok (reg_to_var (BPF_ALU32_IMM op d i) d pc) (\<lambda>dst. on_ok (reg_to_var (BPF_ALU32_IMM op d i) 0 pc) (\<lambda>src.
     on_ok (lower_insn len pc (BPF_ALU32_IMM op d i) dst src) (\<lambda>ir. lower_from len (Suc pc) rest (add_instr ir p))))"
  "lower_from len pc (BPF_ALU32_REG op d s # rest) p =
     on_ok (reg_to_var (BPF_ALU32_REG op d s) d pc) (\<lambda>dst. on_ok (reg_to_var (BPF_ALU32_REG op d s) s pc) (\<lambda>src.
     on_ok (lower_insn len pc (BPF_ALU32_REG op d s) dst src) (\<lambda>ir. lower_from len (Suc pc) rest (add_instr ir p))))"
  "lower_from len pc (BPF_MOV64_IMM d i # rest) p =
     on_ok (reg_to_var (BPF_MOV64_IMM d i) d pc) (\<lambda>dst. on_ok (reg_to_var (BPF_MOV64_IMM d i) 0 pc) (\<lambda>src.
     on_ok (lower_insn len pc (BPF_MOV64_IMM d i) dst src) (\<lambda>ir. lower_from len (Suc pc) rest (add_instr ir p))))"
  "lower_from len pc (BPF_MOV64_REG d s # rest) p =
     on_ok (reg_to_var (BPF_MOV64_REG d s) d pc) (\<lambda>dst. on_ok (reg_to_var (BPF_MOV64_REG d s) s pc) (\<lambda>src.
     on_ok (lower_insn len pc (BPF_MOV64_REG d s) dst src) (\<lambda>ir. lower_from len (Suc pc) rest (add_instr ir p))))"
  "lower_from len pc (BPF_MOV32_IMM d i # rest) p =
     on_ok (reg_to_var (BPF_MOV32_IMM d i) d pc) (\<lambda>dst. on_ok (reg_to_var (BPF_MOV32_IMM d i) 0 pc) (\<lambda>src.
     on_ok (lower_insn len pc (BPF_MOV32_IMM d i) dst src) (\<lambda>ir. lower_from len (Suc pc) rest (add_instr ir p))))"
  "lower_from len pc (BPF_MOV32_REG d s # rest) p =
     on_ok (reg_to_var (BPF_MOV32_REG d s) d pc) (\<lambda>dst. on_ok (reg_to_var (BPF_MOV32_REG d s) s pc) (\<lambda>src.
     on_ok (lower_insn len pc (BPF_MOV32_REG d s) dst src) (\<lambda>ir. lower_from len (Suc pc) rest (add_instr ir p))))"
  "lower_from len pc (BPF_LDX_MEM sz d s off # rest) p =
     on_ok (reg_to_var (BPF_LDX_MEM sz d s off) d pc) (\<lambda>dst. on_ok (reg_to_var (BPF_LDX_MEM sz d s off) s pc) (\<lambda>src.
     on_ok (lower_insn len pc (BPF_LDX_MEM sz d s off) dst src) (\<lambda>ir. lower_from len (Suc pc) rest (add_instr ir p))))"
  "lower_from len pc (BPF_STX_MEM sz d s off # rest) p =
     on_ok (reg_to_var (BPF_STX_MEM sz d s off) d pc) (\<lambda>dst. on_ok (reg_to_var (BPF_STX_MEM sz d s off) s pc) (\<lambda>src.
     on_ok (lower_insn len pc (BPF_STX_MEM sz d s off) dst src) (\<lambda>ir. lower_from len (Suc pc) rest (add_instr ir p))))"
  "lower_from len pc (BPF_ST_MEM sz d off i # rest) p =
     on_ok (reg_to_var (BPF_ST_MEM sz d off i) d pc) (\<lambda>dst. on_ok (reg_to_var (BPF_ST_MEM sz d off i) 0 pc) (\<lambda>src.
     on_ok (lower_insn len pc (BPF_ST_MEM sz d off i) dst src) (\<lambda>ir. lower_from len (Suc pc) rest (add_instr ir p))))"
  "lower_from len pc (BPF_ATOMIC_OP sz aop d s off # rest) p =
     on_ok (reg_to_var (BPF_ATOMIC_OP sz aop d s off) d pc) (\<lambda>dst. on_ok (reg_to_var (BPF_ATOMIC_OP sz aop d s off) s pc) (\<lambda>src.
     on_ok (lower_insn len pc (BPF_ATOMIC_OP sz aop d s off) dst src) (\<lambda>ir. lower_from len (Suc pc) rest (add_instr ir p))))"
  "lower_from len pc (BPF_JMP_IMM op d i off # rest) p =
     on_ok (reg_to_var (BPF_JMP_IMM op d i off) d pc) (\<lambda>dst. on_ok (reg_to_var (BPF_JMP_IMM op d i off) 0 pc) (\<lambda>src.
     on_ok (lower_insn len pc (BPF_JMP_IMM op d i off) dst src) (\<lambda>ir. lower_from len (Suc pc) rest (add_instr ir p))))"
  "lower_from len pc (BPF_JMP_REG op d s off # rest) p =
     on_ok (reg_to_var (BPF_JMP_REG op d s off) d pc) (\<lambda>dst. on_ok (reg_to_var (BPF_JMP_REG op d s off) s pc) (\<lambda>src.
     on_ok (lower_insn len pc (BPF_JMP_REG op d s off) dst src) (\<lambda>ir. lower_from len (Suc pc) rest (add_instr ir p))))"
  "lower_from len pc (BPF_JMP32_IMM op d i off # rest) p =
     on_ok (reg_to_var (BPF_JMP32_IMM op d i off) d pc) (\<lambda>dst. on_ok (reg_to_var (BPF_JMP32_IMM op d i off) 0 pc) (\<lambda>src.
     on_ok (lower_insn len pc (BPF_JMP32_IMM op d i off) dst src) (\<lambda>ir. lower_from len (Suc pc) rest (add_instr ir p))))"
  "lower_from len pc (BPF_JMP32_REG op d s off # rest) p =
     on_ok (reg_to_var (BPF_JMP32_REG op d s off) d pc) (\<lambda>dst. on_ok (reg_to_var (BPF_JMP32_REG op d s off) s pc) (\<lambda>src.
     on_ok (lower_insn len pc (BPF_JMP32_REG op d s off) dst src) (\<lambda>ir. lower_from len (Suc pc) rest (add_instr ir p))))"
  "lower_from len pc (BPF_JMP_A off # rest) p =
     on_ok (reg_to_var (BPF_JMP_A off) 0 pc) (\<lambda>dst. on_ok (reg_to_var (BPF_JMP_A off) 0 pc) (\<lambda>src.
     on_ok (lower_insn len pc (BPF_JMP_A off) dst src) (\<lambda>ir. lower_from len (Suc pc) rest (add_instr ir p))))"
  "lower_from len pc (BPF_EXIT_INSN # rest) p =
     on_ok (reg_to_var BPF_EXIT_INSN 0 pc) (\<lambda>dst. on_ok (reg_to_var BPF_EXIT_INSN 0 pc) (\<lambda>src.
     on_ok (lower_insn len pc BPF_EXIT_INSN dst src) (\<lambda>ir. lower_from len (Suc pc) rest (add_instr ir p))))"
  "lower_from len pc (BPF_ENDIAN ty d i # rest) p =
     on_ok (reg_to_var (BPF_ENDIAN ty d i) d pc) (\<lambda>dst. on_ok (reg_to_var (BPF_ENDIAN ty d i) 0 pc) (\<lambda>src.
     on_ok (lower_insn len pc (BPF_ENDIAN ty d i) dst src) (\<lambda>ir. lower_from len (Suc pc) rest (add_instr ir p))))"
  "lower_from len pc (BPF_EMIT_CALL f # rest) p =
     on_ok (reg_to_var (BPF_EMIT_CALL f) 0 pc) (\<lambda>dst. on_ok (reg_to_var (BPF_EMIT_CALL f) 0 pc) (\<lambda>src.
     on_ok (lower_insn len pc (BPF_EMIT_CALL f) dst src) (\<lambda>ir. lower_from len (Suc pc) rest (add_instr ir p))))"
  by (subst lower_from_plain, rule plain_macros, simp add: bpf_macro)+

lemma lower_from_Nil [lower_eval]: "lower_from len pc [] p = Inr p"
  by (simp add: lower_from.simps)

section \<open>64-bit loads\<close>

lemma lower_from_ld_imm64 [lower_eval]:
  "lower_from len pc (BPF_LD_IMM64 d v @ rest) p =
     on_ok (reg_to_var (BPF_RAW_INSN 0x18 d 0 0 (ucast v)) d pc) (\<lambda>dst.
       lower_from len (Suc (Suc pc)) rest (add_load64 pc (Alu W64 Mov dst (Imm v)) p))"
  using u64_join [of v]
  by (simp add: lower_from.simps bpf_macro reg_to_var_numeral lower_ld_imm64_def add_load64_def)

lemma lower_from_ld_map_fd [lower_eval]:
  "lower_from len pc (BPF_LD_MAP_FD d 0 @ rest) p =
     on_ok (reg_to_var (BPF_RAW_INSN 0x18 d 1 0 0) d pc) (\<lambda>dst.
       lower_from len (Suc (Suc pc)) rest (add_load64 pc (LoadMap dst MapPtr 0 0) p))"
  by (simp add: lower_from.simps bpf_macro reg_to_var_numeral lower_ld_imm64_def add_load64_def)

lemma length_ld_imm64 [lower_eval]: "length (BPF_LD_IMM64 d v) = 2" "length (BPF_LD_MAP_FD d v) = 2"
  by (simp_all add: bpf_macro)

section \<open>The tables, per macro\<close>

lemmas lower_tables = bpf_macro lower_insn_def alu_rows_def if_rows_def lower_mem_def load_rows_def load_sx_rows_def
  store_rows_def atomic_sizes_def packet_rows_def lower_other_def lower_mov32_x_def lower_mov64_x_def Let_def

definition lower_branch :: "nat \<Rightarrow> nat \<Rightarrow> u16 \<Rightarrow> raw_insn \<Rightarrow> (nat \<Rightarrow> instr) \<Rightarrow> instr lowered" where
  "lower_branch len pc off insn f = on_ok (branch_target pc off len (ri_code insn)) (\<lambda>target. Inr (f target))"

lemma lower_branch_eval [lower_eval]:
  "lower_branch len pc off insn f =
     (let t = int pc + 1 + sint off in
      if t < 0 \<or> t \<ge> int len then lower_err pc (ri_code insn) BranchTargetOutOfRange else Inr (f (nat t)))"
  by (simp add: lower_branch_def branch_target_def branch_target_disp_def Let_def lower_err_def sint_up_scast is_up)

lemma lower_alu64_imm [lower_eval]:
  "lower_insn len pc (BPF_ALU64_IMM BPF_ADD d i) dst src = Inr (Alu W64 Add dst (Imm (scast i)))"
  "lower_insn len pc (BPF_ALU64_IMM BPF_SUB d i) dst src = Inr (Alu W64 Sub dst (Imm (scast i)))"
  "lower_insn len pc (BPF_ALU64_IMM BPF_MUL d i) dst src = Inr (Alu W64 Mul dst (Imm (scast i)))"
  "lower_insn len pc (BPF_ALU64_IMM BPF_DIV d i) dst src = Inr (Alu W64 Div dst (Imm (scast i)))"
  "lower_insn len pc (BPF_ALU64_IMM BPF_OR d i) dst src = Inr (Alu W64 Or dst (Imm (ucast i)))"
  "lower_insn len pc (BPF_ALU64_IMM BPF_AND d i) dst src = Inr (Alu W64 And dst (Imm (scast i)))"
  "lower_insn len pc (BPF_ALU64_IMM BPF_LSH d i) dst src = Inr (Alu W64 Shl dst (Imm (ucast i)))"
  "lower_insn len pc (BPF_ALU64_IMM BPF_RSH d i) dst src = Inr (Alu W64 Shr dst (Imm (ucast i)))"
  "lower_insn len pc (BPF_ALU64_IMM BPF_NEG d i) dst src = Inr (Alu W64 Neg dst (Imm 0))"
  "lower_insn len pc (BPF_ALU64_IMM BPF_MOD d i) dst src = Inr (Alu W64 Mod dst (Imm (scast i)))"
  "lower_insn len pc (BPF_ALU64_IMM BPF_XOR d i) dst src = Inr (Alu W64 Xor dst (Imm (scast i)))"
  "lower_insn len pc (BPF_ALU64_IMM BPF_MOV d i) dst src = Inr (Alu W64 Mov dst (Imm (scast i)))"
  "lower_insn len pc (BPF_ALU64_IMM BPF_ARSH d i) dst src = Inr (Alu W64 Arsh dst (Imm (ucast i)))"
  by (simp_all add: lower_tables)

lemma lower_alu64_reg [lower_eval]:
  "lower_insn len pc (BPF_ALU64_REG BPF_ADD d s) dst src = Inr (Alu W64 Add dst (Reg src))"
  "lower_insn len pc (BPF_ALU64_REG BPF_SUB d s) dst src = Inr (Alu W64 Sub dst (Reg src))"
  "lower_insn len pc (BPF_ALU64_REG BPF_MUL d s) dst src = Inr (Alu W64 Mul dst (Reg src))"
  "lower_insn len pc (BPF_ALU64_REG BPF_DIV d s) dst src = Inr (Alu W64 Div dst (Reg src))"
  "lower_insn len pc (BPF_ALU64_REG BPF_OR d s) dst src = Inr (Alu W64 Or dst (Reg src))"
  "lower_insn len pc (BPF_ALU64_REG BPF_AND d s) dst src = Inr (Alu W64 And dst (Reg src))"
  "lower_insn len pc (BPF_ALU64_REG BPF_LSH d s) dst src = Inr (Alu W64 Shl dst (Reg src))"
  "lower_insn len pc (BPF_ALU64_REG BPF_RSH d s) dst src = Inr (Alu W64 Shr dst (Reg src))"
  "lower_insn len pc (BPF_ALU64_REG BPF_MOD d s) dst src = Inr (Alu W64 Mod dst (Reg src))"
  "lower_insn len pc (BPF_ALU64_REG BPF_XOR d s) dst src = Inr (Alu W64 Xor dst (Reg src))"
  "lower_insn len pc (BPF_ALU64_REG BPF_MOV d s) dst src = Inr (Alu W64 Mov dst (Reg src))"
  "lower_insn len pc (BPF_ALU64_REG BPF_ARSH d s) dst src = Inr (Alu W64 Arsh dst (Reg src))"
  by (simp_all add: lower_tables)

lemma lower_alu32_imm [lower_eval]:
  "lower_insn len pc (BPF_ALU32_IMM BPF_ADD d i) dst src = Inr (Alu W32 Add dst (Imm (scast i)))"
  "lower_insn len pc (BPF_ALU32_IMM BPF_SUB d i) dst src = Inr (Alu W32 Sub dst (Imm (scast i)))"
  "lower_insn len pc (BPF_ALU32_IMM BPF_MUL d i) dst src = Inr (Alu W32 Mul dst (Imm (scast i)))"
  "lower_insn len pc (BPF_ALU32_IMM BPF_DIV d i) dst src = Inr (Alu W32 Div dst (Imm (ucast i)))"
  "lower_insn len pc (BPF_ALU32_IMM BPF_OR d i) dst src = Inr (Alu W32 Or dst (Imm (ucast i)))"
  "lower_insn len pc (BPF_ALU32_IMM BPF_AND d i) dst src = Inr (Alu W32 And dst (Imm (ucast i)))"
  "lower_insn len pc (BPF_ALU32_IMM BPF_LSH d i) dst src = Inr (Alu W32 Shl dst (Imm (ucast i)))"
  "lower_insn len pc (BPF_ALU32_IMM BPF_RSH d i) dst src = Inr (Alu W32 Shr dst (Imm (ucast i)))"
  "lower_insn len pc (BPF_ALU32_IMM BPF_NEG d i) dst src = Inr (Alu W32 Neg dst (Imm 0))"
  "lower_insn len pc (BPF_ALU32_IMM BPF_MOD d i) dst src = Inr (Alu W32 Mod dst (Imm (scast i)))"
  "lower_insn len pc (BPF_ALU32_IMM BPF_XOR d i) dst src = Inr (Alu W32 Xor dst (Imm (ucast i)))"
  "lower_insn len pc (BPF_ALU32_IMM BPF_MOV d i) dst src = Inr (Alu W32 Mov dst (Imm (ucast i)))"
  "lower_insn len pc (BPF_ALU32_IMM BPF_ARSH d i) dst src = Inr (Alu W32 Arsh dst (Imm (ucast i)))"
  by (simp_all add: lower_tables)

lemma lower_alu32_reg [lower_eval]:
  "lower_insn len pc (BPF_ALU32_REG BPF_ADD d s) dst src = Inr (Alu W32 Add dst (Reg src))"
  "lower_insn len pc (BPF_ALU32_REG BPF_SUB d s) dst src = Inr (Alu W32 Sub dst (Reg src))"
  "lower_insn len pc (BPF_ALU32_REG BPF_MUL d s) dst src = Inr (Alu W32 Mul dst (Reg src))"
  "lower_insn len pc (BPF_ALU32_REG BPF_DIV d s) dst src = Inr (Alu W32 Div dst (Reg src))"
  "lower_insn len pc (BPF_ALU32_REG BPF_OR d s) dst src = Inr (Alu W32 Or dst (Reg src))"
  "lower_insn len pc (BPF_ALU32_REG BPF_AND d s) dst src = Inr (Alu W32 And dst (Reg src))"
  "lower_insn len pc (BPF_ALU32_REG BPF_LSH d s) dst src = Inr (Alu W32 Shl dst (Reg src))"
  "lower_insn len pc (BPF_ALU32_REG BPF_RSH d s) dst src = Inr (Alu W32 Shr dst (Reg src))"
  "lower_insn len pc (BPF_ALU32_REG BPF_MOD d s) dst src = Inr (Alu W32 Mod dst (Reg src))"
  "lower_insn len pc (BPF_ALU32_REG BPF_XOR d s) dst src = Inr (Alu W32 Xor dst (Reg src))"
  "lower_insn len pc (BPF_ALU32_REG BPF_MOV d s) dst src = Inr (Alu W32 Mov dst (Reg src))"
  "lower_insn len pc (BPF_ALU32_REG BPF_ARSH d s) dst src = Inr (Alu W32 Arsh dst (Reg src))"
  by (simp_all add: lower_tables)

lemma lower_jmp_imm [lower_eval]:
  "lower_insn len pc (BPF_JMP_IMM BPF_JEQ d i off) dst src =
     lower_branch len pc off (BPF_JMP_IMM BPF_JEQ d i off) (If_instr W64 dst Eq (Imm (scast i)))"
  "lower_insn len pc (BPF_JMP_IMM BPF_JGT d i off) dst src =
     lower_branch len pc off (BPF_JMP_IMM BPF_JGT d i off) (If_instr W64 dst UGt (Imm (scast i)))"
  "lower_insn len pc (BPF_JMP_IMM BPF_JGE d i off) dst src =
     lower_branch len pc off (BPF_JMP_IMM BPF_JGE d i off) (If_instr W64 dst UGe (Imm (scast i)))"
  "lower_insn len pc (BPF_JMP_IMM BPF_JSET d i off) dst src =
     lower_branch len pc off (BPF_JMP_IMM BPF_JSET d i off) (If_instr W64 dst Test (Imm (scast i)))"
  "lower_insn len pc (BPF_JMP_IMM BPF_JNE d i off) dst src =
     lower_branch len pc off (BPF_JMP_IMM BPF_JNE d i off) (If_instr W64 dst Ne (Imm (scast i)))"
  "lower_insn len pc (BPF_JMP_IMM BPF_JLT d i off) dst src =
     lower_branch len pc off (BPF_JMP_IMM BPF_JLT d i off) (If_instr W64 dst ULt (Imm (scast i)))"
  "lower_insn len pc (BPF_JMP_IMM BPF_JLE d i off) dst src =
     lower_branch len pc off (BPF_JMP_IMM BPF_JLE d i off) (If_instr W64 dst ULe (Imm (scast i)))"
  "lower_insn len pc (BPF_JMP_IMM BPF_JSGT d i off) dst src =
     lower_branch len pc off (BPF_JMP_IMM BPF_JSGT d i off) (If_instr W64 dst SGt (Imm (scast i)))"
  "lower_insn len pc (BPF_JMP_IMM BPF_JSGE d i off) dst src =
     lower_branch len pc off (BPF_JMP_IMM BPF_JSGE d i off) (If_instr W64 dst SGe (Imm (scast i)))"
  "lower_insn len pc (BPF_JMP_IMM BPF_JSLT d i off) dst src =
     lower_branch len pc off (BPF_JMP_IMM BPF_JSLT d i off) (If_instr W64 dst SLt (Imm (scast i)))"
  "lower_insn len pc (BPF_JMP_IMM BPF_JSLE d i off) dst src =
     lower_branch len pc off (BPF_JMP_IMM BPF_JSLE d i off) (If_instr W64 dst SLe (Imm (scast i)))"
  by (simp_all add: lower_tables lower_branch_def)

lemma lower_jmp_reg [lower_eval]:
  "lower_insn len pc (BPF_JMP_REG BPF_JEQ d s off) dst src =
     lower_branch len pc off (BPF_JMP_REG BPF_JEQ d s off) (If_instr W64 dst Eq (Reg src))"
  "lower_insn len pc (BPF_JMP_REG BPF_JGT d s off) dst src =
     lower_branch len pc off (BPF_JMP_REG BPF_JGT d s off) (If_instr W64 dst UGt (Reg src))"
  "lower_insn len pc (BPF_JMP_REG BPF_JGE d s off) dst src =
     lower_branch len pc off (BPF_JMP_REG BPF_JGE d s off) (If_instr W64 dst UGe (Reg src))"
  "lower_insn len pc (BPF_JMP_REG BPF_JSET d s off) dst src =
     lower_branch len pc off (BPF_JMP_REG BPF_JSET d s off) (If_instr W64 dst Test (Reg src))"
  "lower_insn len pc (BPF_JMP_REG BPF_JNE d s off) dst src =
     lower_branch len pc off (BPF_JMP_REG BPF_JNE d s off) (If_instr W64 dst Ne (Reg src))"
  "lower_insn len pc (BPF_JMP_REG BPF_JLT d s off) dst src =
     lower_branch len pc off (BPF_JMP_REG BPF_JLT d s off) (If_instr W64 dst ULt (Reg src))"
  "lower_insn len pc (BPF_JMP_REG BPF_JLE d s off) dst src =
     lower_branch len pc off (BPF_JMP_REG BPF_JLE d s off) (If_instr W64 dst ULe (Reg src))"
  "lower_insn len pc (BPF_JMP_REG BPF_JSGT d s off) dst src =
     lower_branch len pc off (BPF_JMP_REG BPF_JSGT d s off) (If_instr W64 dst SGt (Reg src))"
  "lower_insn len pc (BPF_JMP_REG BPF_JSGE d s off) dst src =
     lower_branch len pc off (BPF_JMP_REG BPF_JSGE d s off) (If_instr W64 dst SGe (Reg src))"
  "lower_insn len pc (BPF_JMP_REG BPF_JSLT d s off) dst src =
     lower_branch len pc off (BPF_JMP_REG BPF_JSLT d s off) (If_instr W64 dst SLt (Reg src))"
  "lower_insn len pc (BPF_JMP_REG BPF_JSLE d s off) dst src =
     lower_branch len pc off (BPF_JMP_REG BPF_JSLE d s off) (If_instr W64 dst SLe (Reg src))"
  by (simp_all add: lower_tables lower_branch_def)

lemma lower_jmp32_imm [lower_eval]:
  "lower_insn len pc (BPF_JMP32_IMM BPF_JEQ d i off) dst src =
     lower_branch len pc off (BPF_JMP32_IMM BPF_JEQ d i off) (If_instr W32 dst Eq (Imm (ucast i)))"
  "lower_insn len pc (BPF_JMP32_IMM BPF_JGT d i off) dst src =
     lower_branch len pc off (BPF_JMP32_IMM BPF_JGT d i off) (If_instr W32 dst UGt (Imm (ucast i)))"
  "lower_insn len pc (BPF_JMP32_IMM BPF_JGE d i off) dst src =
     lower_branch len pc off (BPF_JMP32_IMM BPF_JGE d i off) (If_instr W32 dst UGe (Imm (scast i)))"
  "lower_insn len pc (BPF_JMP32_IMM BPF_JSET d i off) dst src =
     lower_branch len pc off (BPF_JMP32_IMM BPF_JSET d i off) (If_instr W32 dst Test (Imm (scast i)))"
  "lower_insn len pc (BPF_JMP32_IMM BPF_JNE d i off) dst src =
     lower_branch len pc off (BPF_JMP32_IMM BPF_JNE d i off) (If_instr W32 dst Ne (Imm (ucast i)))"
  "lower_insn len pc (BPF_JMP32_IMM BPF_JLT d i off) dst src =
     lower_branch len pc off (BPF_JMP32_IMM BPF_JLT d i off) (If_instr W32 dst ULt (Imm (ucast i)))"
  "lower_insn len pc (BPF_JMP32_IMM BPF_JLE d i off) dst src =
     lower_branch len pc off (BPF_JMP32_IMM BPF_JLE d i off) (If_instr W32 dst ULe (Imm (ucast i)))"
  "lower_insn len pc (BPF_JMP32_IMM BPF_JSGT d i off) dst src =
     lower_branch len pc off (BPF_JMP32_IMM BPF_JSGT d i off) (If_instr W32 dst SGt (Imm (scast i)))"
  "lower_insn len pc (BPF_JMP32_IMM BPF_JSGE d i off) dst src =
     lower_branch len pc off (BPF_JMP32_IMM BPF_JSGE d i off) (If_instr W32 dst SGe (Imm (scast i)))"
  "lower_insn len pc (BPF_JMP32_IMM BPF_JSLT d i off) dst src =
     lower_branch len pc off (BPF_JMP32_IMM BPF_JSLT d i off) (If_instr W32 dst SLt (Imm (scast i)))"
  "lower_insn len pc (BPF_JMP32_IMM BPF_JSLE d i off) dst src =
     lower_branch len pc off (BPF_JMP32_IMM BPF_JSLE d i off) (If_instr W32 dst SLe (Imm (scast i)))"
  by (simp_all add: lower_tables lower_branch_def)

lemma lower_jmp32_reg [lower_eval]:
  "lower_insn len pc (BPF_JMP32_REG BPF_JEQ d s off) dst src =
     lower_branch len pc off (BPF_JMP32_REG BPF_JEQ d s off) (If_instr W32 dst Eq (Reg src))"
  "lower_insn len pc (BPF_JMP32_REG BPF_JGT d s off) dst src =
     lower_branch len pc off (BPF_JMP32_REG BPF_JGT d s off) (If_instr W32 dst UGt (Reg src))"
  "lower_insn len pc (BPF_JMP32_REG BPF_JGE d s off) dst src =
     lower_branch len pc off (BPF_JMP32_REG BPF_JGE d s off) (If_instr W32 dst UGe (Reg src))"
  "lower_insn len pc (BPF_JMP32_REG BPF_JSET d s off) dst src =
     lower_branch len pc off (BPF_JMP32_REG BPF_JSET d s off) (If_instr W32 dst Test (Reg src))"
  "lower_insn len pc (BPF_JMP32_REG BPF_JNE d s off) dst src =
     lower_branch len pc off (BPF_JMP32_REG BPF_JNE d s off) (If_instr W32 dst Ne (Reg src))"
  "lower_insn len pc (BPF_JMP32_REG BPF_JLT d s off) dst src =
     lower_branch len pc off (BPF_JMP32_REG BPF_JLT d s off) (If_instr W32 dst ULt (Reg src))"
  "lower_insn len pc (BPF_JMP32_REG BPF_JLE d s off) dst src =
     lower_branch len pc off (BPF_JMP32_REG BPF_JLE d s off) (If_instr W32 dst ULe (Reg src))"
  "lower_insn len pc (BPF_JMP32_REG BPF_JSGT d s off) dst src =
     lower_branch len pc off (BPF_JMP32_REG BPF_JSGT d s off) (If_instr W32 dst SGt (Reg src))"
  "lower_insn len pc (BPF_JMP32_REG BPF_JSGE d s off) dst src =
     lower_branch len pc off (BPF_JMP32_REG BPF_JSGE d s off) (If_instr W32 dst SGe (Reg src))"
  "lower_insn len pc (BPF_JMP32_REG BPF_JSLT d s off) dst src =
     lower_branch len pc off (BPF_JMP32_REG BPF_JSLT d s off) (If_instr W32 dst SLt (Reg src))"
  "lower_insn len pc (BPF_JMP32_REG BPF_JSLE d s off) dst src =
     lower_branch len pc off (BPF_JMP32_REG BPF_JSLE d s off) (If_instr W32 dst SLe (Reg src))"
  by (simp_all add: lower_tables lower_branch_def)

lemma lower_moves [lower_eval]:
  "lower_insn len pc (BPF_MOV64_IMM d i) dst src = Inr (Alu W64 Mov dst (Imm (scast i)))"
  "lower_insn len pc (BPF_MOV64_REG d s) dst src = Inr (Alu W64 Mov dst (Reg src))"
  "lower_insn len pc (BPF_MOV32_IMM d i) dst src = Inr (Alu W32 Mov dst (Imm (ucast i)))"
  "lower_insn len pc (BPF_MOV32_REG d s) dst src = Inr (Alu W32 Mov dst (Reg src))"
  by (simp_all add: lower_tables)

lemma lower_memory [lower_eval]:
  "lower_insn len pc (BPF_LDX_MEM BPF_B d s off) dst src = Inr (Load U8 dst src off)"
  "lower_insn len pc (BPF_LDX_MEM BPF_H d s off) dst src = Inr (Load U16 dst src off)"
  "lower_insn len pc (BPF_LDX_MEM BPF_W d s off) dst src = Inr (Load U32 dst src off)"
  "lower_insn len pc (BPF_LDX_MEM BPF_DW d s off) dst src = Inr (Load U64 dst src off)"
  "lower_insn len pc (BPF_STX_MEM BPF_B d s off) dst src = Inr (Store U8 dst off (Reg src))"
  "lower_insn len pc (BPF_STX_MEM BPF_H d s off) dst src = Inr (Store U16 dst off (Reg src))"
  "lower_insn len pc (BPF_STX_MEM BPF_W d s off) dst src = Inr (Store U32 dst off (Reg src))"
  "lower_insn len pc (BPF_STX_MEM BPF_DW d s off) dst src = Inr (Store U64 dst off (Reg src))"
  "lower_insn len pc (BPF_ST_MEM BPF_B d off i) dst src = Inr (Store U8 dst off (Imm (scast i)))"
  "lower_insn len pc (BPF_ST_MEM BPF_H d off i) dst src = Inr (Store U16 dst off (Imm (scast i)))"
  "lower_insn len pc (BPF_ST_MEM BPF_W d off i) dst src = Inr (Store U32 dst off (Imm (scast i)))"
  "lower_insn len pc (BPF_ST_MEM BPF_DW d off i) dst src = Inr (Store U64 dst off (Imm (scast i)))"
  by (simp_all add: lower_tables)

lemma lower_jumps [lower_eval]:
  "lower_insn len pc (BPF_JMP_IMM BPF_JA d i off) dst src = lower_branch len pc off (BPF_JMP_IMM BPF_JA d i off) Jmp"
  "lower_insn len pc (BPF_JMP_A off) dst src = lower_branch len pc off (BPF_JMP_A off) Jmp"
  "lower_insn len pc BPF_EXIT_INSN dst src = Inr Exit"
  "lower_insn len pc (BPF_ENDIAN BPF_TO_LE d i) dst src = Inr (Endian dst W32 ToLe i)"
  "lower_insn len pc (BPF_ENDIAN BPF_TO_BE d i) dst src = Inr (Endian dst W32 ToBe i)"
  "lower_insn len pc (BPF_EMIT_CALL f) dst R0 = Inr (Call (Helper f))"
  by (simp_all add: lower_tables lower_branch_def lower_call_def)

text \<open>A raw call instruction is the macro for calls.\<close>

lemma raw_call [lower_eval]: "BPF_RAW_INSN 0x85 0 0 0 f = BPF_EMIT_CALL f"
  by (simp add: BPF_EMIT_CALL_def)

end
