(* ===== verification/Legacy_Tests.thy ===== *)
theory Legacy_Tests
  imports Ebpf_Machine Lowering_Eval
begin

text \<open>
  The test records of \<open>convert_tests.c\<close> and what their expectations mean. An entry of a test file under
  \<open>selftests/legacy/verifier\<close> is a value of \<open>struct bpf_test\<close>, written with designated initialisers;
  fields that are not set are zero (\<open>no_test\<close>). The fields of \<open>struct bpf_test\<close> that no modelled test
  sets are left out.

  A test program is run as the kernel would run it after loading: lowered, with \<open>r1\<close> pointing to the
  context and \<open>r10\<close> to the end of the stack, on every input that the outside world can provide.
\<close>

unbundle bit_operations_syntax

section \<open>Tests\<close>

datatype test_verdict = UNDEF | ACCEPT | REJECT | VERBOSE_ACCEPT

datatype bpf_prog_type =
    BPF_PROG_TYPE_UNSPEC | BPF_PROG_TYPE_SOCKET_FILTER | BPF_PROG_TYPE_KPROBE
  | BPF_PROG_TYPE_SCHED_CLS | BPF_PROG_TYPE_SCHED_ACT | BPF_PROG_TYPE_TRACEPOINT
  | BPF_PROG_TYPE_XDP | BPF_PROG_TYPE_PERF_EVENT | BPF_PROG_TYPE_CGROUP_SKB
  | BPF_PROG_TYPE_CGROUP_SOCK | BPF_PROG_TYPE_LWT_IN | BPF_PROG_TYPE_LWT_OUT
  | BPF_PROG_TYPE_LWT_XMIT | BPF_PROG_TYPE_SOCK_OPS | BPF_PROG_TYPE_SK_SKB
  | BPF_PROG_TYPE_CGROUP_DEVICE | BPF_PROG_TYPE_SK_MSG | BPF_PROG_TYPE_RAW_TRACEPOINT
  | BPF_PROG_TYPE_CGROUP_SOCK_ADDR | BPF_PROG_TYPE_LWT_SEG6LOCAL | BPF_PROG_TYPE_LIRC_MODE2
  | BPF_PROG_TYPE_SK_REUSEPORT | BPF_PROG_TYPE_FLOW_DISSECTOR | BPF_PROG_TYPE_CGROUP_SYSCTL
  | BPF_PROG_TYPE_RAW_TRACEPOINT_WRITABLE | BPF_PROG_TYPE_CGROUP_SOCKOPT | BPF_PROG_TYPE_TRACING
  | BPF_PROG_TYPE_STRUCT_OPS | BPF_PROG_TYPE_EXT | BPF_PROG_TYPE_LSM
  | BPF_PROG_TYPE_SK_LOOKUP | BPF_PROG_TYPE_SYSCALL

record test_result =
  tr_retval :: u32
  tr_data64 :: "u64 list"

record bpf_test =
  bt_descr :: string
  bt_insns :: "raw_insn list"
  bt_fixup_map_hash_48b :: "nat list"
  bt_errstr :: "string option"
  bt_errstr_unpriv :: "string option"
  bt_result :: test_verdict
  bt_result_unpriv :: test_verdict
  bt_prog_type :: bpf_prog_type
  bt_flags :: u8
  bt_data :: "u8 list"
  bt_runs :: nat
  bt_retvals :: "test_result list"
  bt_retval :: u32

definition no_test :: bpf_test where
  "no_test = \<lparr>bt_descr = [], bt_insns = [], bt_fixup_map_hash_48b = [], bt_errstr = None, bt_errstr_unpriv = None,
     bt_result = UNDEF, bt_result_unpriv = UNDEF, bt_prog_type = BPF_PROG_TYPE_UNSPEC, bt_flags = 0, bt_data = [],
     bt_runs = 0, bt_retvals = [], bt_retval = 0\<rparr>"

definition F_NEEDS_EFFICIENT_UNALIGNED_ACCESS :: u8 where "F_NEEDS_EFFICIENT_UNALIGNED_ACCESS = 1"
definition F_LOAD_WITH_STRICT_ALIGNMENT :: u8 where "F_LOAD_WITH_STRICT_ALIGNMENT = 2"

section \<open>Running a test\<close>

text \<open>What the outside world provides: the packet with the metadata in front of it (at negative
  positions), the other context fields, the numbers helper functions return, the outcomes of map lookups and the contents
  of map values.\<close>

record inputs =
  in_len :: nat
  in_meta :: nat
  in_pkt :: "int \<Rightarrow> u8"
  in_fields :: "int \<Rightarrow> u32"
  in_rand :: "nat \<Rightarrow> u32"
  in_found :: "nat \<Rightarrow> bool"
  in_mapval :: "int \<Rightarrow> u8"

text \<open>\<open>struct xdp_md\<close>\<close>

definition xdp_ctx :: "inputs \<Rightarrow> int \<Rightarrow> nat \<Rightarrow> val option" where
  "xdp_ctx i off n =
     (if n \<noteq> 4 then None
      else if off = 0 then Some (Ptr Pkt 0)
      else if off = 4 then Some (Ptr Pkt (int (in_len i)))
      else if off = 8 then Some (Ptr Pkt (- int (in_meta i)))
      else if off = 12 \<or> off = 16 \<or> off = 20 then Some (Scalar (ucast (in_fields i off)))
      else None)"

text \<open>\<open>struct __sk_buff\<close>; packet pointers are given to traffic classifiers only.\<close>

definition skb_ctx :: "bool \<Rightarrow> inputs \<Rightarrow> int \<Rightarrow> nat \<Rightarrow> val option" where
  "skb_ctx direct i off n =
     (if n \<noteq> 4 \<or> off < 0 \<or> off mod 4 \<noteq> 0 \<or> 188 \<le> off then None
      else if off = 76 then (if direct then Some (Ptr Pkt 0) else None)
      else if off = 80 then (if direct then Some (Ptr Pkt (int (in_len i))) else None)
      else if off = 140 then (if direct then Some (Ptr Pkt (- int (in_meta i))) else None)
      else Some (Scalar (ucast (in_fields i off))))"

definition ctx_of :: "bpf_prog_type \<Rightarrow> inputs \<Rightarrow> int \<Rightarrow> nat \<Rightarrow> val option" where
  "ctx_of t i =
     (case t of
        BPF_PROG_TYPE_XDP \<Rightarrow> xdp_ctx i
      | BPF_PROG_TYPE_SCHED_CLS \<Rightarrow> skb_ctx True i
      | BPF_PROG_TYPE_UNSPEC \<Rightarrow> skb_ctx False i
      | BPF_PROG_TYPE_SOCKET_FILTER \<Rightarrow> skb_ctx False i
      | _ \<Rightarrow> (\<lambda>_ _. None))"

definition world_of :: "bpf_prog_type \<Rightarrow> inputs \<Rightarrow> world" where
  "world_of t i = \<lparr>w_len = int (in_len i), w_meta = int (in_meta i), w_ctx = ctx_of t i,
     w_rand = in_rand i, w_found = in_found i\<rparr>"

definition start_regs :: "reg \<Rightarrow> val" where
  "start_regs = (\<lambda>_. Undef)(R1 := Ptr Ctx 0, R10 := Ptr Stk 0)"

definition start :: "inputs \<Rightarrow> machine" where
  "start i = \<lparr>m_pc = 0, m_regs = start_regs, m_pkt = in_pkt i, m_stack = (\<lambda>_. SInvalid),
     m_mapval = in_mapval i, m_calls = 0\<rparr>"

definition exec_insns :: "bpf_prog_type \<Rightarrow> raw_insn list \<Rightarrow> inputs \<Rightarrow> outcome option" where
  "exec_insns t raw i =
     (case lower_raw_to_program raw of
        Inl err \<Rightarrow> None
      | Inr p \<Rightarrow> run (world_of t i) p (length (pr_instrs p) + 1) (start i))"

definition exec_test :: "bpf_test \<Rightarrow> inputs \<Rightarrow> outcome option" where
  "exec_test t i = exec_insns (bt_prog_type t) (bt_insns t) i"

text \<open>The run ends with the given return value, read as 32 bits; it ends with some return value; it
  ends with a fault.\<close>

definition returns :: "outcome option \<Rightarrow> u32 \<Rightarrow> bool" where
  "returns out v = (case out of Some (Exited r) \<Rightarrow> ucast r = v | _ \<Rightarrow> False)"

definition exits :: "outcome option \<Rightarrow> bool" where
  "exits out = (case out of Some (Exited r) \<Rightarrow> True | _ \<Rightarrow> False)"

definition faults :: "outcome option \<Rightarrow> bool" where
  "faults out = (case out of Some (Fault f) \<Rightarrow> True | _ \<Rightarrow> False)"

text \<open>The packet of a test run: 64 bytes, given as 64-bit little-endian numbers, the rest 0.\<close>

definition TEST_DATA_LEN :: nat where "TEST_DATA_LEN = 64"

definition data64_at :: "u64 list \<Rightarrow> nat \<Rightarrow> u64" where
  "data64_at xs k = (if k < length xs then xs ! k else 0)"

definition has_data64 :: "inputs \<Rightarrow> u64 list \<Rightarrow> bool" where
  "has_data64 i xs \<longleftrightarrow> in_len i = TEST_DATA_LEN \<and>
     (\<forall>k < 8. map (in_pkt i) (addresses (8 * int k) 8) = bytes_of 8 (data64_at xs k))"

definition has_data :: "inputs \<Rightarrow> u8 list \<Rightarrow> bool" where
  "has_data i bs \<longleftrightarrow> in_len i = TEST_DATA_LEN \<and>
     (\<forall>k < TEST_DATA_LEN. in_pkt i (int k) = (if k < length bs then bs ! k else 0))"

text \<open>What a test says of its program: one that is to be accepted ends without a fault on every input, and
  with the return value given for the packet of each run; one that is to be rejected faults on some
  input.\<close>

definition safe :: "bpf_test \<Rightarrow> bool" where
  "safe t \<longleftrightarrow> (\<forall>i. exits (exec_test t i))"

definition meets_retvals :: "bpf_test \<Rightarrow> bool" where
  "meets_retvals t \<longleftrightarrow>
     (if bt_runs t = 0 then \<forall>i. has_data i (bt_data t) \<longrightarrow> returns (exec_test t i) (bt_retval t)
      else \<forall>r \<in> set (bt_retvals t). \<forall>i. has_data64 i (tr_data64 r) \<longrightarrow> returns (exec_test t i) (tr_retval r))"

definition verdict_right :: "bpf_test \<Rightarrow> bool" where
  "verdict_right t \<longleftrightarrow>
     (case bt_result t of
        ACCEPT \<Rightarrow> safe t \<and> meets_retvals t
      | REJECT \<Rightarrow> \<exists>i. faults (exec_test t i)
      | _ \<Rightarrow> True)"

section \<open>Evaluation\<close>

declare of_bytes.simps [simp del]

text \<open>A result of 32 bits has no upper half.\<close>

lemma drop_bit_32_ucast [exec_simps]: "drop_bit 32 (ucast (x :: u32) :: u64) = 0"
  by (rule bit_word_eqI) (auto simp: bit_simps dest: bit_imp_le_length)

lemma bit_of_bytes: "bit (of_bytes bs) n \<Longrightarrow> n < 8 * length bs"
proof (induction bs arbitrary: n)
  case (Cons b bs)
  then consider "bit (ucast b :: u64) n" | "8 \<le> n" "bit (of_bytes bs) (n - 8)"
    by (auto simp: of_bytes.simps bit_simps)
  then show ?case
  proof cases
    case 1
    then have "n < 8" by (auto simp: bit_simps dest: bit_imp_le_length)
    then show ?thesis by simp
  next
    case 2
    then show ?thesis using Cons.IH by fastforce
  qed
qed (simp add: of_bytes.simps)

lemma drop_bit_32_of_bytes [exec_simps]: "length bs \<le> 4 \<Longrightarrow> drop_bit 32 (of_bytes bs) = 0"
  by (rule bit_word_eqI) (auto simp: bit_simps dest!: bit_of_bytes)

lemma ucast_minus_1 [exec_simps]: "ucast (- 1 :: u32) = (0xffffffff :: u64)" "ucast (- 1 :: u64) = (- 1 :: u32)"
  by (simp_all add: unsigned_minus_1_eq_mask ucast_mask_eq mask_eq_exp_minus_1)

text \<open>Idioms of the programs: shifting left and right again.\<close>

lemma bit_u32_less: "bit (r :: u32) n \<Longrightarrow> n < 32"
  using bit_imp_le_length by fastforce

lemma shift_idioms [exec_simps]:
  "drop_bit 32 (push_bit 32 (ucast (r :: u32) :: u64)) = ucast r"
  "drop_bit 33 (push_bit 33 (ucast r :: u64)) = ucast (take_bit 31 r)"
  "signed_drop_bit 32 (push_bit 32 (ucast r :: u64)) = scast r"
  by (rule bit_word_eqI; auto simp: bit_simps dest: bit_u32_less)+

lemma ucast_back [exec_simps]: "ucast (ucast (r :: u32) :: u64) = r" "ucast (scast r :: u64) = r"
  by (rule bit_word_eqI; auto simp: bit_simps)+

lemma sint_of_u32 [exec_simps]: "sint (ucast (r :: u32) :: u64) = uint r" "sint (scast r :: u64) = sint r"
proof -
  show "sint (ucast r :: u64) = uint r"
    by (rule bit_eqI) (auto simp: sint_uint bit_simps min_def dest: bit_u32_less)
  show "sint (scast r :: u64) = sint r" by (rule bit_eqI) (auto simp: signed_scast_eq sint_uint bit_simps min_def)
qed

lemma uint_take_bit_31: "uint (take_bit 31 (r :: u32)) < 2147483648"
  using take_bit_int_less_exp [of 31 "uint r"] by (simp add: unsigned_take_bit_eq)

lemma sint_take_bit_31: "sint (take_bit 31 (r :: u32)) = uint (take_bit 31 r)"
  by (simp add: sint_uint signed_take_bit_eq_if_positive bit_simps unsigned_take_bit_eq)

lemma upt_numerals: "[0..<2] = [0, 1]" "[0..<4] = [0, 1, 2, 3]" "[0..<8] = [0, 1, 2, 3, 4, 5, 6, 7]"
  by code_simp+

lemma addresses_eval:
  "addresses off (Suc 0) = [off]"
  "addresses off 2 = [off, off + 1]"
  "addresses off 4 = [off, off + 1, off + 2, off + 3]"
  "addresses off 8 = [off, off + 1, off + 2, off + 3, off + 4, off + 5, off + 6, off + 7]"
  by (simp_all add: addresses_def upt_numerals)

lemma bytes_of_eval:
  "bytes_of (Suc 0) v = [ucast v]"
  "bytes_of 2 v = [ucast v, ucast (drop_bit 8 v)]"
  "bytes_of 4 v = [ucast v, ucast (drop_bit 8 v), ucast (drop_bit 16 v), ucast (drop_bit 24 v)]"
  "bytes_of 8 v = [ucast v, ucast (drop_bit 8 v), ucast (drop_bit 16 v), ucast (drop_bit 24 v),
     ucast (drop_bit 32 v), ucast (drop_bit 40 v), ucast (drop_bit 48 v), ucast (drop_bit 56 v)]"
  by (simp_all add: bytes_of_def upt_numerals)

text \<open>What is stored is what is loaded; in particular the first number of a test run's packet.\<close>

lemma bytes_of_Suc: "bytes_of (Suc n) v = ucast v # bytes_of n (drop_bit 8 v)"
  by (simp add: bytes_of_def upt_conv_Cons map_Suc_upt [symmetric] ac_simps del: upt_Suc)

lemma of_bytes_bytes_of: "of_bytes (bytes_of n v) = take_bit (8 * n) v"
proof (induction n arbitrary: v)
  case 0
  then show ?case by (simp add: bytes_of_def of_bytes.simps)
next
  case (Suc n)
  show ?case unfolding bytes_of_Suc of_bytes.simps Suc
    by (rule bit_word_eqI) (auto simp: bit_simps)
qed

lemma data64_load:
  assumes "has_data64 i xs"
  shows "of_bytes [in_pkt i 0, in_pkt i 1, in_pkt i 2, in_pkt i 3, in_pkt i 4, in_pkt i 5, in_pkt i 6, in_pkt i 7] =
      data64_at xs 0"
proof -
  have "map (in_pkt i) (addresses (8 * int 0) 8) = bytes_of 8 (data64_at xs 0)"
    using assms unfolding has_data64_def by (metis zero_less_numeral)
  then have "[in_pkt i 0, in_pkt i 1, in_pkt i 2, in_pkt i 3, in_pkt i 4, in_pkt i 5, in_pkt i 6, in_pkt i 7] =
      bytes_of 8 (data64_at xs 0)"
    by (simp add: addresses_eval)
  then show ?thesis using of_bytes_bytes_of [of 8 "data64_at xs 0"] by (simp add: take_bit_word_eq_self)
qed

lemma data64_len: "has_data64 i xs \<Longrightarrow> in_len i = 64"
  by (simp add: has_data64_def TEST_DATA_LEN_def)

lemma returns_exits: "returns out v \<Longrightarrow> exits out"
  by (auto simp: returns_def exits_def split: option.splits outcome.splits)

text \<open>Tests whose programs return the same on every input.\<close>

lemma verdict_right_const:
  assumes "\<And>i. returns (exec_test t i) (bt_retval t)" and "bt_runs t = 0" "bt_result t = ACCEPT"
  shows "verdict_right t"
  using assms returns_exits by (auto simp: verdict_right_def safe_def meets_retvals_def)

lemmas test_eval = BPF_DIRECT_PKT_R2_def BPF_RAND_UEXT_R7_def BPF_RAND_SEXT_R7_def no_test_def exec_test_def exec_insns_def lower_raw_to_program_def lower_eval

lemmas run_eval = exec_simps step_def next_slot_def world_of_def start_def start_regs_def ctx_of_def xdp_ctx_def skb_ctx_def
  set_reg_def call_helper_def clobber_args_def endian_eval_def bytes_of_eval addresses_eval put_bytes_def stack_value.simps
  STACK_SIZE_def MAP_VALUE_SIZE_def MAP_KEY_SIZE_def returns_def exits_def faults_def

text \<open>A small input for counterexamples: a packet of zeros.\<close>

definition zeros :: "nat \<Rightarrow> nat \<Rightarrow> inputs" where
  "zeros len meta = \<lparr>in_len = len, in_meta = meta, in_pkt = (\<lambda>_. 0), in_fields = (\<lambda>_. 0), in_rand = (\<lambda>_. 0),
     in_found = (\<lambda>_. False), in_mapval = (\<lambda>_. 0)\<rparr>"

end
