(* ===== verification/Xdp_Packet_Tests.thy ===== *)
theory Xdp_Packet_Tests
  imports Legacy_Tests
begin

text \<open>
  The programs of \<open>selftests/legacy/verifier/xdp_direct_packet_access.c\<close>: 82 programs that read an XDP
  packet, or the metadata in front of it, behind a comparison with \<open>data_end\<close> or \<open>data\<close>, on either side
  of the comparison, with each of the four unsigned comparisons, on the taken and on the other branch,
  and one byte more and less than the comparison allows.

  Shown here: the programs the file expects to be accepted return 0 on every packet without touching
  memory outside it; those it expects to be rejected do go out of bounds for some packet, with one
  exception.
\<close>

section \<open>The programs\<close>

definition xdp_tests_1 :: "bpf_test list" where
  "xdp_tests_1 =
     [no_test\<lparr>
      bt_descr := ''XDP pkt read, pkt_end mangling, bad access 1'',
      bt_insns :=
        [BPF_LDX_MEM BPF_W BPF_REG_2 BPF_REG_1 xdp_md_data,
         BPF_LDX_MEM BPF_W BPF_REG_3 BPF_REG_1 xdp_md_data_end,
         BPF_MOV64_REG BPF_REG_1 BPF_REG_2,
         BPF_ALU64_IMM BPF_ADD BPF_REG_1 8,
         BPF_ALU64_IMM BPF_ADD BPF_REG_3 8,
         BPF_JMP_REG BPF_JGT BPF_REG_1 BPF_REG_3 1,
         BPF_LDX_MEM BPF_DW BPF_REG_0 BPF_REG_1 (-8),
         BPF_MOV64_IMM BPF_REG_0 0,
         BPF_EXIT_INSN],
      bt_errstr := Some ''R3 pointer arithmetic on pkt_end'',
      bt_result := REJECT,
      bt_prog_type := BPF_PROG_TYPE_XDP\<rparr>,
      no_test\<lparr>
      bt_descr := ''XDP pkt read, pkt_end mangling, bad access 2'',
      bt_insns :=
        [BPF_LDX_MEM BPF_W BPF_REG_2 BPF_REG_1 xdp_md_data,
         BPF_LDX_MEM BPF_W BPF_REG_3 BPF_REG_1 xdp_md_data_end,
         BPF_MOV64_REG BPF_REG_1 BPF_REG_2,
         BPF_ALU64_IMM BPF_ADD BPF_REG_1 8,
         BPF_ALU64_IMM BPF_SUB BPF_REG_3 8,
         BPF_JMP_REG BPF_JGT BPF_REG_1 BPF_REG_3 1,
         BPF_LDX_MEM BPF_DW BPF_REG_0 BPF_REG_1 (-8),
         BPF_MOV64_IMM BPF_REG_0 0,
         BPF_EXIT_INSN],
      bt_errstr := Some ''R3 pointer arithmetic on pkt_end'',
      bt_result := REJECT,
      bt_prog_type := BPF_PROG_TYPE_XDP\<rparr>,
      no_test\<lparr>
      bt_descr := (''XDP pkt read, pkt_data'' @ [CHR 0x27] @ '' > pkt_end, corner case, good access''),
      bt_insns :=
        [BPF_LDX_MEM BPF_W BPF_REG_2 BPF_REG_1 xdp_md_data,
         BPF_LDX_MEM BPF_W BPF_REG_3 BPF_REG_1 xdp_md_data_end,
         BPF_MOV64_REG BPF_REG_1 BPF_REG_2,
         BPF_ALU64_IMM BPF_ADD BPF_REG_1 8,
         BPF_JMP_REG BPF_JGT BPF_REG_1 BPF_REG_3 1,
         BPF_LDX_MEM BPF_DW BPF_REG_0 BPF_REG_1 (-8),
         BPF_MOV64_IMM BPF_REG_0 0,
         BPF_EXIT_INSN],
      bt_result := ACCEPT,
      bt_prog_type := BPF_PROG_TYPE_XDP,
      bt_flags := F_NEEDS_EFFICIENT_UNALIGNED_ACCESS\<rparr>,
      no_test\<lparr>
      bt_descr := (''XDP pkt read, pkt_data'' @ [CHR 0x27] @ '' > pkt_end, bad access 1''),
      bt_insns :=
        [BPF_LDX_MEM BPF_W BPF_REG_2 BPF_REG_1 xdp_md_data,
         BPF_LDX_MEM BPF_W BPF_REG_3 BPF_REG_1 xdp_md_data_end,
         BPF_MOV64_REG BPF_REG_1 BPF_REG_2,
         BPF_ALU64_IMM BPF_ADD BPF_REG_1 8,
         BPF_JMP_REG BPF_JGT BPF_REG_1 BPF_REG_3 1,
         BPF_LDX_MEM BPF_DW BPF_REG_0 BPF_REG_1 (-4),
         BPF_MOV64_IMM BPF_REG_0 0,
         BPF_EXIT_INSN],
      bt_errstr := Some ''R1 offset is outside of the packet'',
      bt_result := REJECT,
      bt_prog_type := BPF_PROG_TYPE_XDP,
      bt_flags := F_NEEDS_EFFICIENT_UNALIGNED_ACCESS\<rparr>,
      no_test\<lparr>
      bt_descr := (''XDP pkt read, pkt_data'' @ [CHR 0x27] @ '' > pkt_end, bad access 2''),
      bt_insns :=
        [BPF_LDX_MEM BPF_W BPF_REG_2 BPF_REG_1 xdp_md_data,
         BPF_LDX_MEM BPF_W BPF_REG_3 BPF_REG_1 xdp_md_data_end,
         BPF_MOV64_REG BPF_REG_1 BPF_REG_2,
         BPF_ALU64_IMM BPF_ADD BPF_REG_1 8,
         BPF_JMP_REG BPF_JGT BPF_REG_1 BPF_REG_3 0,
         BPF_LDX_MEM BPF_DW BPF_REG_0 BPF_REG_1 (-8),
         BPF_MOV64_IMM BPF_REG_0 0,
         BPF_EXIT_INSN],
      bt_errstr := Some ''R1 offset is outside of the packet'',
      bt_result := REJECT,
      bt_prog_type := BPF_PROG_TYPE_XDP,
      bt_flags := F_NEEDS_EFFICIENT_UNALIGNED_ACCESS\<rparr>,
      no_test\<lparr>
      bt_descr := (''XDP pkt read, pkt_data'' @ [CHR 0x27] @ '' > pkt_end, corner case +1, good access''),
      bt_insns :=
        [BPF_LDX_MEM BPF_W BPF_REG_2 BPF_REG_1 xdp_md_data,
         BPF_LDX_MEM BPF_W BPF_REG_3 BPF_REG_1 xdp_md_data_end,
         BPF_MOV64_REG BPF_REG_1 BPF_REG_2,
         BPF_ALU64_IMM BPF_ADD BPF_REG_1 9,
         BPF_JMP_REG BPF_JGT BPF_REG_1 BPF_REG_3 1,
         BPF_LDX_MEM BPF_DW BPF_REG_0 BPF_REG_1 (-9),
         BPF_MOV64_IMM BPF_REG_0 0,
         BPF_EXIT_INSN],
      bt_result := ACCEPT,
      bt_prog_type := BPF_PROG_TYPE_XDP,
      bt_flags := F_NEEDS_EFFICIENT_UNALIGNED_ACCESS\<rparr>,
      no_test\<lparr>
      bt_descr := (''XDP pkt read, pkt_data'' @ [CHR 0x27] @ '' > pkt_end, corner case -1, bad access''),
      bt_insns :=
        [BPF_LDX_MEM BPF_W BPF_REG_2 BPF_REG_1 xdp_md_data,
         BPF_LDX_MEM BPF_W BPF_REG_3 BPF_REG_1 xdp_md_data_end,
         BPF_MOV64_REG BPF_REG_1 BPF_REG_2,
         BPF_ALU64_IMM BPF_ADD BPF_REG_1 7,
         BPF_JMP_REG BPF_JGT BPF_REG_1 BPF_REG_3 1,
         BPF_LDX_MEM BPF_DW BPF_REG_0 BPF_REG_1 (-7),
         BPF_MOV64_IMM BPF_REG_0 0,
         BPF_EXIT_INSN],
      bt_errstr := Some ''R1 offset is outside of the packet'',
      bt_result := REJECT,
      bt_prog_type := BPF_PROG_TYPE_XDP,
      bt_flags := F_NEEDS_EFFICIENT_UNALIGNED_ACCESS\<rparr>,
      no_test\<lparr>
      bt_descr := (''XDP pkt read, pkt_end > pkt_data'' @ [CHR 0x27] @ '', good access''),
      bt_insns :=
        [BPF_LDX_MEM BPF_W BPF_REG_2 BPF_REG_1 xdp_md_data,
         BPF_LDX_MEM BPF_W BPF_REG_3 BPF_REG_1 xdp_md_data_end,
         BPF_MOV64_REG BPF_REG_1 BPF_REG_2,
         BPF_ALU64_IMM BPF_ADD BPF_REG_1 8,
         BPF_JMP_REG BPF_JGT BPF_REG_3 BPF_REG_1 1,
         BPF_JMP_IMM BPF_JA 0 0 1,
         BPF_LDX_MEM BPF_W BPF_REG_0 BPF_REG_1 (-5),
         BPF_MOV64_IMM BPF_REG_0 0,
         BPF_EXIT_INSN],
      bt_result := ACCEPT,
      bt_prog_type := BPF_PROG_TYPE_XDP,
      bt_flags := F_NEEDS_EFFICIENT_UNALIGNED_ACCESS\<rparr>]"

definition xdp_tests_2 :: "bpf_test list" where
  "xdp_tests_2 =
     [no_test\<lparr>
      bt_descr := (''XDP pkt read, pkt_end > pkt_data'' @ [CHR 0x27] @ '', corner case -1, bad access''),
      bt_insns :=
        [BPF_LDX_MEM BPF_W BPF_REG_2 BPF_REG_1 xdp_md_data,
         BPF_LDX_MEM BPF_W BPF_REG_3 BPF_REG_1 xdp_md_data_end,
         BPF_MOV64_REG BPF_REG_1 BPF_REG_2,
         BPF_ALU64_IMM BPF_ADD BPF_REG_1 6,
         BPF_JMP_REG BPF_JGT BPF_REG_3 BPF_REG_1 1,
         BPF_JMP_IMM BPF_JA 0 0 1,
         BPF_LDX_MEM BPF_DW BPF_REG_0 BPF_REG_1 (-6),
         BPF_MOV64_IMM BPF_REG_0 0,
         BPF_EXIT_INSN],
      bt_errstr := Some ''R1 offset is outside of the packet'',
      bt_result := REJECT,
      bt_prog_type := BPF_PROG_TYPE_XDP,
      bt_flags := F_NEEDS_EFFICIENT_UNALIGNED_ACCESS\<rparr>,
      no_test\<lparr>
      bt_descr := (''XDP pkt read, pkt_end > pkt_data'' @ [CHR 0x27] @ '', bad access 2''),
      bt_insns :=
        [BPF_LDX_MEM BPF_W BPF_REG_2 BPF_REG_1 xdp_md_data,
         BPF_LDX_MEM BPF_W BPF_REG_3 BPF_REG_1 xdp_md_data_end,
         BPF_MOV64_REG BPF_REG_1 BPF_REG_2,
         BPF_ALU64_IMM BPF_ADD BPF_REG_1 8,
         BPF_JMP_REG BPF_JGT BPF_REG_3 BPF_REG_1 1,
         BPF_LDX_MEM BPF_DW BPF_REG_0 BPF_REG_1 (-8),
         BPF_MOV64_IMM BPF_REG_0 0,
         BPF_EXIT_INSN],
      bt_errstr := Some ''R1 offset is outside of the packet'',
      bt_result := REJECT,
      bt_prog_type := BPF_PROG_TYPE_XDP,
      bt_flags := F_NEEDS_EFFICIENT_UNALIGNED_ACCESS\<rparr>,
      no_test\<lparr>
      bt_descr := (''XDP pkt read, pkt_end > pkt_data'' @ [CHR 0x27] @ '', corner case, good access''),
      bt_insns :=
        [BPF_LDX_MEM BPF_W BPF_REG_2 BPF_REG_1 xdp_md_data,
         BPF_LDX_MEM BPF_W BPF_REG_3 BPF_REG_1 xdp_md_data_end,
         BPF_MOV64_REG BPF_REG_1 BPF_REG_2,
         BPF_ALU64_IMM BPF_ADD BPF_REG_1 7,
         BPF_JMP_REG BPF_JGT BPF_REG_3 BPF_REG_1 1,
         BPF_JMP_IMM BPF_JA 0 0 1,
         BPF_LDX_MEM BPF_DW BPF_REG_0 BPF_REG_1 (-7),
         BPF_MOV64_IMM BPF_REG_0 0,
         BPF_EXIT_INSN],
      bt_result := ACCEPT,
      bt_prog_type := BPF_PROG_TYPE_XDP,
      bt_flags := F_NEEDS_EFFICIENT_UNALIGNED_ACCESS\<rparr>,
      no_test\<lparr>
      bt_descr := (''XDP pkt read, pkt_end > pkt_data'' @ [CHR 0x27] @ '', corner case +1, good access''),
      bt_insns :=
        [BPF_LDX_MEM BPF_W BPF_REG_2 BPF_REG_1 xdp_md_data,
         BPF_LDX_MEM BPF_W BPF_REG_3 BPF_REG_1 xdp_md_data_end,
         BPF_MOV64_REG BPF_REG_1 BPF_REG_2,
         BPF_ALU64_IMM BPF_ADD BPF_REG_1 8,
         BPF_JMP_REG BPF_JGT BPF_REG_3 BPF_REG_1 1,
         BPF_JMP_IMM BPF_JA 0 0 1,
         BPF_LDX_MEM BPF_DW BPF_REG_0 BPF_REG_1 (-8),
         BPF_MOV64_IMM BPF_REG_0 0,
         BPF_EXIT_INSN],
      bt_result := ACCEPT,
      bt_prog_type := BPF_PROG_TYPE_XDP,
      bt_flags := F_NEEDS_EFFICIENT_UNALIGNED_ACCESS\<rparr>,
      no_test\<lparr>
      bt_descr := (''XDP pkt read, pkt_data'' @ [CHR 0x27] @ '' < pkt_end, good access''),
      bt_insns :=
        [BPF_LDX_MEM BPF_W BPF_REG_2 BPF_REG_1 xdp_md_data,
         BPF_LDX_MEM BPF_W BPF_REG_3 BPF_REG_1 xdp_md_data_end,
         BPF_MOV64_REG BPF_REG_1 BPF_REG_2,
         BPF_ALU64_IMM BPF_ADD BPF_REG_1 8,
         BPF_JMP_REG BPF_JLT BPF_REG_1 BPF_REG_3 1,
         BPF_JMP_IMM BPF_JA 0 0 1,
         BPF_LDX_MEM BPF_W BPF_REG_0 BPF_REG_1 (-5),
         BPF_MOV64_IMM BPF_REG_0 0,
         BPF_EXIT_INSN],
      bt_result := ACCEPT,
      bt_prog_type := BPF_PROG_TYPE_XDP,
      bt_flags := F_NEEDS_EFFICIENT_UNALIGNED_ACCESS\<rparr>,
      no_test\<lparr>
      bt_descr := (''XDP pkt read, pkt_data'' @ [CHR 0x27] @ '' < pkt_end, corner case -1, bad access''),
      bt_insns :=
        [BPF_LDX_MEM BPF_W BPF_REG_2 BPF_REG_1 xdp_md_data,
         BPF_LDX_MEM BPF_W BPF_REG_3 BPF_REG_1 xdp_md_data_end,
         BPF_MOV64_REG BPF_REG_1 BPF_REG_2,
         BPF_ALU64_IMM BPF_ADD BPF_REG_1 6,
         BPF_JMP_REG BPF_JLT BPF_REG_1 BPF_REG_3 1,
         BPF_JMP_IMM BPF_JA 0 0 1,
         BPF_LDX_MEM BPF_DW BPF_REG_0 BPF_REG_1 (-6),
         BPF_MOV64_IMM BPF_REG_0 0,
         BPF_EXIT_INSN],
      bt_errstr := Some ''R1 offset is outside of the packet'',
      bt_result := REJECT,
      bt_prog_type := BPF_PROG_TYPE_XDP,
      bt_flags := F_NEEDS_EFFICIENT_UNALIGNED_ACCESS\<rparr>,
      no_test\<lparr>
      bt_descr := (''XDP pkt read, pkt_data'' @ [CHR 0x27] @ '' < pkt_end, bad access 2''),
      bt_insns :=
        [BPF_LDX_MEM BPF_W BPF_REG_2 BPF_REG_1 xdp_md_data,
         BPF_LDX_MEM BPF_W BPF_REG_3 BPF_REG_1 xdp_md_data_end,
         BPF_MOV64_REG BPF_REG_1 BPF_REG_2,
         BPF_ALU64_IMM BPF_ADD BPF_REG_1 8,
         BPF_JMP_REG BPF_JLT BPF_REG_1 BPF_REG_3 1,
         BPF_LDX_MEM BPF_DW BPF_REG_0 BPF_REG_1 (-8),
         BPF_MOV64_IMM BPF_REG_0 0,
         BPF_EXIT_INSN],
      bt_errstr := Some ''R1 offset is outside of the packet'',
      bt_result := REJECT,
      bt_prog_type := BPF_PROG_TYPE_XDP,
      bt_flags := F_NEEDS_EFFICIENT_UNALIGNED_ACCESS\<rparr>,
      no_test\<lparr>
      bt_descr := (''XDP pkt read, pkt_data'' @ [CHR 0x27] @ '' < pkt_end, corner case, good access''),
      bt_insns :=
        [BPF_LDX_MEM BPF_W BPF_REG_2 BPF_REG_1 xdp_md_data,
         BPF_LDX_MEM BPF_W BPF_REG_3 BPF_REG_1 xdp_md_data_end,
         BPF_MOV64_REG BPF_REG_1 BPF_REG_2,
         BPF_ALU64_IMM BPF_ADD BPF_REG_1 7,
         BPF_JMP_REG BPF_JLT BPF_REG_1 BPF_REG_3 1,
         BPF_JMP_IMM BPF_JA 0 0 1,
         BPF_LDX_MEM BPF_DW BPF_REG_0 BPF_REG_1 (-7),
         BPF_MOV64_IMM BPF_REG_0 0,
         BPF_EXIT_INSN],
      bt_result := ACCEPT,
      bt_prog_type := BPF_PROG_TYPE_XDP,
      bt_flags := F_NEEDS_EFFICIENT_UNALIGNED_ACCESS\<rparr>]"

definition xdp_tests_3 :: "bpf_test list" where
  "xdp_tests_3 =
     [no_test\<lparr>
      bt_descr := (''XDP pkt read, pkt_data'' @ [CHR 0x27] @ '' < pkt_end, corner case +1, good access''),
      bt_insns :=
        [BPF_LDX_MEM BPF_W BPF_REG_2 BPF_REG_1 xdp_md_data,
         BPF_LDX_MEM BPF_W BPF_REG_3 BPF_REG_1 xdp_md_data_end,
         BPF_MOV64_REG BPF_REG_1 BPF_REG_2,
         BPF_ALU64_IMM BPF_ADD BPF_REG_1 8,
         BPF_JMP_REG BPF_JLT BPF_REG_1 BPF_REG_3 1,
         BPF_JMP_IMM BPF_JA 0 0 1,
         BPF_LDX_MEM BPF_DW BPF_REG_0 BPF_REG_1 (-8),
         BPF_MOV64_IMM BPF_REG_0 0,
         BPF_EXIT_INSN],
      bt_result := ACCEPT,
      bt_prog_type := BPF_PROG_TYPE_XDP,
      bt_flags := F_NEEDS_EFFICIENT_UNALIGNED_ACCESS\<rparr>,
      no_test\<lparr>
      bt_descr := (''XDP pkt read, pkt_end < pkt_data'' @ [CHR 0x27] @ '', corner case, good access''),
      bt_insns :=
        [BPF_LDX_MEM BPF_W BPF_REG_2 BPF_REG_1 xdp_md_data,
         BPF_LDX_MEM BPF_W BPF_REG_3 BPF_REG_1 xdp_md_data_end,
         BPF_MOV64_REG BPF_REG_1 BPF_REG_2,
         BPF_ALU64_IMM BPF_ADD BPF_REG_1 8,
         BPF_JMP_REG BPF_JLT BPF_REG_3 BPF_REG_1 1,
         BPF_LDX_MEM BPF_DW BPF_REG_0 BPF_REG_1 (-8),
         BPF_MOV64_IMM BPF_REG_0 0,
         BPF_EXIT_INSN],
      bt_result := ACCEPT,
      bt_prog_type := BPF_PROG_TYPE_XDP,
      bt_flags := F_NEEDS_EFFICIENT_UNALIGNED_ACCESS\<rparr>,
      no_test\<lparr>
      bt_descr := (''XDP pkt read, pkt_end < pkt_data'' @ [CHR 0x27] @ '', bad access 1''),
      bt_insns :=
        [BPF_LDX_MEM BPF_W BPF_REG_2 BPF_REG_1 xdp_md_data,
         BPF_LDX_MEM BPF_W BPF_REG_3 BPF_REG_1 xdp_md_data_end,
         BPF_MOV64_REG BPF_REG_1 BPF_REG_2,
         BPF_ALU64_IMM BPF_ADD BPF_REG_1 8,
         BPF_JMP_REG BPF_JLT BPF_REG_3 BPF_REG_1 1,
         BPF_LDX_MEM BPF_DW BPF_REG_0 BPF_REG_1 (-4),
         BPF_MOV64_IMM BPF_REG_0 0,
         BPF_EXIT_INSN],
      bt_errstr := Some ''R1 offset is outside of the packet'',
      bt_result := REJECT,
      bt_prog_type := BPF_PROG_TYPE_XDP,
      bt_flags := F_NEEDS_EFFICIENT_UNALIGNED_ACCESS\<rparr>,
      no_test\<lparr>
      bt_descr := (''XDP pkt read, pkt_end < pkt_data'' @ [CHR 0x27] @ '', bad access 2''),
      bt_insns :=
        [BPF_LDX_MEM BPF_W BPF_REG_2 BPF_REG_1 xdp_md_data,
         BPF_LDX_MEM BPF_W BPF_REG_3 BPF_REG_1 xdp_md_data_end,
         BPF_MOV64_REG BPF_REG_1 BPF_REG_2,
         BPF_ALU64_IMM BPF_ADD BPF_REG_1 8,
         BPF_JMP_REG BPF_JLT BPF_REG_3 BPF_REG_1 0,
         BPF_LDX_MEM BPF_DW BPF_REG_0 BPF_REG_1 (-8),
         BPF_MOV64_IMM BPF_REG_0 0,
         BPF_EXIT_INSN],
      bt_errstr := Some ''R1 offset is outside of the packet'',
      bt_result := REJECT,
      bt_prog_type := BPF_PROG_TYPE_XDP,
      bt_flags := F_NEEDS_EFFICIENT_UNALIGNED_ACCESS\<rparr>,
      no_test\<lparr>
      bt_descr := (''XDP pkt read, pkt_end < pkt_data'' @ [CHR 0x27] @ '', corner case +1, good access''),
      bt_insns :=
        [BPF_LDX_MEM BPF_W BPF_REG_2 BPF_REG_1 xdp_md_data,
         BPF_LDX_MEM BPF_W BPF_REG_3 BPF_REG_1 xdp_md_data_end,
         BPF_MOV64_REG BPF_REG_1 BPF_REG_2,
         BPF_ALU64_IMM BPF_ADD BPF_REG_1 9,
         BPF_JMP_REG BPF_JLT BPF_REG_3 BPF_REG_1 1,
         BPF_LDX_MEM BPF_DW BPF_REG_0 BPF_REG_1 (-9),
         BPF_MOV64_IMM BPF_REG_0 0,
         BPF_EXIT_INSN],
      bt_result := ACCEPT,
      bt_prog_type := BPF_PROG_TYPE_XDP,
      bt_flags := F_NEEDS_EFFICIENT_UNALIGNED_ACCESS\<rparr>,
      no_test\<lparr>
      bt_descr := (''XDP pkt read, pkt_end < pkt_data'' @ [CHR 0x27] @ '', corner case -1, bad access''),
      bt_insns :=
        [BPF_LDX_MEM BPF_W BPF_REG_2 BPF_REG_1 xdp_md_data,
         BPF_LDX_MEM BPF_W BPF_REG_3 BPF_REG_1 xdp_md_data_end,
         BPF_MOV64_REG BPF_REG_1 BPF_REG_2,
         BPF_ALU64_IMM BPF_ADD BPF_REG_1 7,
         BPF_JMP_REG BPF_JLT BPF_REG_3 BPF_REG_1 1,
         BPF_LDX_MEM BPF_DW BPF_REG_0 BPF_REG_1 (-7),
         BPF_MOV64_IMM BPF_REG_0 0,
         BPF_EXIT_INSN],
      bt_errstr := Some ''R1 offset is outside of the packet'',
      bt_result := REJECT,
      bt_prog_type := BPF_PROG_TYPE_XDP,
      bt_flags := F_NEEDS_EFFICIENT_UNALIGNED_ACCESS\<rparr>,
      no_test\<lparr>
      bt_descr := (''XDP pkt read, pkt_data'' @ [CHR 0x27] @ '' >= pkt_end, good access''),
      bt_insns :=
        [BPF_LDX_MEM BPF_W BPF_REG_2 BPF_REG_1 xdp_md_data,
         BPF_LDX_MEM BPF_W BPF_REG_3 BPF_REG_1 xdp_md_data_end,
         BPF_MOV64_REG BPF_REG_1 BPF_REG_2,
         BPF_ALU64_IMM BPF_ADD BPF_REG_1 8,
         BPF_JMP_REG BPF_JGE BPF_REG_1 BPF_REG_3 1,
         BPF_LDX_MEM BPF_W BPF_REG_0 BPF_REG_1 (-5),
         BPF_MOV64_IMM BPF_REG_0 0,
         BPF_EXIT_INSN],
      bt_result := ACCEPT,
      bt_prog_type := BPF_PROG_TYPE_XDP,
      bt_flags := F_NEEDS_EFFICIENT_UNALIGNED_ACCESS\<rparr>,
      no_test\<lparr>
      bt_descr := (''XDP pkt read, pkt_data'' @ [CHR 0x27] @ '' >= pkt_end, corner case -1, bad access''),
      bt_insns :=
        [BPF_LDX_MEM BPF_W BPF_REG_2 BPF_REG_1 xdp_md_data,
         BPF_LDX_MEM BPF_W BPF_REG_3 BPF_REG_1 xdp_md_data_end,
         BPF_MOV64_REG BPF_REG_1 BPF_REG_2,
         BPF_ALU64_IMM BPF_ADD BPF_REG_1 6,
         BPF_JMP_REG BPF_JGE BPF_REG_1 BPF_REG_3 1,
         BPF_LDX_MEM BPF_DW BPF_REG_0 BPF_REG_1 (-6),
         BPF_MOV64_IMM BPF_REG_0 0,
         BPF_EXIT_INSN],
      bt_errstr := Some ''R1 offset is outside of the packet'',
      bt_result := REJECT,
      bt_prog_type := BPF_PROG_TYPE_XDP,
      bt_flags := F_NEEDS_EFFICIENT_UNALIGNED_ACCESS\<rparr>]"

definition xdp_tests_4 :: "bpf_test list" where
  "xdp_tests_4 =
     [no_test\<lparr>
      bt_descr := (''XDP pkt read, pkt_data'' @ [CHR 0x27] @ '' >= pkt_end, bad access 2''),
      bt_insns :=
        [BPF_LDX_MEM BPF_W BPF_REG_2 BPF_REG_1 xdp_md_data,
         BPF_LDX_MEM BPF_W BPF_REG_3 BPF_REG_1 xdp_md_data_end,
         BPF_MOV64_REG BPF_REG_1 BPF_REG_2,
         BPF_ALU64_IMM BPF_ADD BPF_REG_1 8,
         BPF_JMP_REG BPF_JGE BPF_REG_1 BPF_REG_3 0,
         BPF_LDX_MEM BPF_W BPF_REG_0 BPF_REG_1 (-5),
         BPF_MOV64_IMM BPF_REG_0 0,
         BPF_EXIT_INSN],
      bt_errstr := Some ''R1 offset is outside of the packet'',
      bt_result := REJECT,
      bt_prog_type := BPF_PROG_TYPE_XDP,
      bt_flags := F_NEEDS_EFFICIENT_UNALIGNED_ACCESS\<rparr>,
      no_test\<lparr>
      bt_descr := (''XDP pkt read, pkt_data'' @ [CHR 0x27] @ '' >= pkt_end, corner case, good access''),
      bt_insns :=
        [BPF_LDX_MEM BPF_W BPF_REG_2 BPF_REG_1 xdp_md_data,
         BPF_LDX_MEM BPF_W BPF_REG_3 BPF_REG_1 xdp_md_data_end,
         BPF_MOV64_REG BPF_REG_1 BPF_REG_2,
         BPF_ALU64_IMM BPF_ADD BPF_REG_1 7,
         BPF_JMP_REG BPF_JGE BPF_REG_1 BPF_REG_3 1,
         BPF_LDX_MEM BPF_DW BPF_REG_0 BPF_REG_1 (-7),
         BPF_MOV64_IMM BPF_REG_0 0,
         BPF_EXIT_INSN],
      bt_result := ACCEPT,
      bt_prog_type := BPF_PROG_TYPE_XDP,
      bt_flags := F_NEEDS_EFFICIENT_UNALIGNED_ACCESS\<rparr>,
      no_test\<lparr>
      bt_descr := (''XDP pkt read, pkt_data'' @ [CHR 0x27] @ '' >= pkt_end, corner case +1, good access''),
      bt_insns :=
        [BPF_LDX_MEM BPF_W BPF_REG_2 BPF_REG_1 xdp_md_data,
         BPF_LDX_MEM BPF_W BPF_REG_3 BPF_REG_1 xdp_md_data_end,
         BPF_MOV64_REG BPF_REG_1 BPF_REG_2,
         BPF_ALU64_IMM BPF_ADD BPF_REG_1 8,
         BPF_JMP_REG BPF_JGE BPF_REG_1 BPF_REG_3 1,
         BPF_LDX_MEM BPF_DW BPF_REG_0 BPF_REG_1 (-8),
         BPF_MOV64_IMM BPF_REG_0 0,
         BPF_EXIT_INSN],
      bt_result := ACCEPT,
      bt_prog_type := BPF_PROG_TYPE_XDP,
      bt_flags := F_NEEDS_EFFICIENT_UNALIGNED_ACCESS\<rparr>,
      no_test\<lparr>
      bt_descr := (''XDP pkt read, pkt_end >= pkt_data'' @ [CHR 0x27] @ '', corner case, good access''),
      bt_insns :=
        [BPF_LDX_MEM BPF_W BPF_REG_2 BPF_REG_1 xdp_md_data,
         BPF_LDX_MEM BPF_W BPF_REG_3 BPF_REG_1 xdp_md_data_end,
         BPF_MOV64_REG BPF_REG_1 BPF_REG_2,
         BPF_ALU64_IMM BPF_ADD BPF_REG_1 8,
         BPF_JMP_REG BPF_JGE BPF_REG_3 BPF_REG_1 1,
         BPF_JMP_IMM BPF_JA 0 0 1,
         BPF_LDX_MEM BPF_DW BPF_REG_0 BPF_REG_1 (-8),
         BPF_MOV64_IMM BPF_REG_0 0,
         BPF_EXIT_INSN],
      bt_result := ACCEPT,
      bt_prog_type := BPF_PROG_TYPE_XDP,
      bt_flags := F_NEEDS_EFFICIENT_UNALIGNED_ACCESS\<rparr>,
      no_test\<lparr>
      bt_descr := (''XDP pkt read, pkt_end >= pkt_data'' @ [CHR 0x27] @ '', bad access 1''),
      bt_insns :=
        [BPF_LDX_MEM BPF_W BPF_REG_2 BPF_REG_1 xdp_md_data,
         BPF_LDX_MEM BPF_W BPF_REG_3 BPF_REG_1 xdp_md_data_end,
         BPF_MOV64_REG BPF_REG_1 BPF_REG_2,
         BPF_ALU64_IMM BPF_ADD BPF_REG_1 8,
         BPF_JMP_REG BPF_JGE BPF_REG_3 BPF_REG_1 1,
         BPF_JMP_IMM BPF_JA 0 0 1,
         BPF_LDX_MEM BPF_DW BPF_REG_0 BPF_REG_1 (-4),
         BPF_MOV64_IMM BPF_REG_0 0,
         BPF_EXIT_INSN],
      bt_errstr := Some ''R1 offset is outside of the packet'',
      bt_result := REJECT,
      bt_prog_type := BPF_PROG_TYPE_XDP,
      bt_flags := F_NEEDS_EFFICIENT_UNALIGNED_ACCESS\<rparr>,
      no_test\<lparr>
      bt_descr := (''XDP pkt read, pkt_end >= pkt_data'' @ [CHR 0x27] @ '', bad access 2''),
      bt_insns :=
        [BPF_LDX_MEM BPF_W BPF_REG_2 BPF_REG_1 xdp_md_data,
         BPF_LDX_MEM BPF_W BPF_REG_3 BPF_REG_1 xdp_md_data_end,
         BPF_MOV64_REG BPF_REG_1 BPF_REG_2,
         BPF_ALU64_IMM BPF_ADD BPF_REG_1 8,
         BPF_JMP_REG BPF_JGE BPF_REG_3 BPF_REG_1 1,
         BPF_LDX_MEM BPF_DW BPF_REG_0 BPF_REG_1 (-8),
         BPF_MOV64_IMM BPF_REG_0 0,
         BPF_EXIT_INSN],
      bt_errstr := Some ''R1 offset is outside of the packet'',
      bt_result := REJECT,
      bt_prog_type := BPF_PROG_TYPE_XDP,
      bt_flags := F_NEEDS_EFFICIENT_UNALIGNED_ACCESS\<rparr>,
      no_test\<lparr>
      bt_descr := (''XDP pkt read, pkt_end >= pkt_data'' @ [CHR 0x27] @ '', corner case +1, good access''),
      bt_insns :=
        [BPF_LDX_MEM BPF_W BPF_REG_2 BPF_REG_1 xdp_md_data,
         BPF_LDX_MEM BPF_W BPF_REG_3 BPF_REG_1 xdp_md_data_end,
         BPF_MOV64_REG BPF_REG_1 BPF_REG_2,
         BPF_ALU64_IMM BPF_ADD BPF_REG_1 9,
         BPF_JMP_REG BPF_JGE BPF_REG_3 BPF_REG_1 1,
         BPF_JMP_IMM BPF_JA 0 0 1,
         BPF_LDX_MEM BPF_DW BPF_REG_0 BPF_REG_1 (-9),
         BPF_MOV64_IMM BPF_REG_0 0,
         BPF_EXIT_INSN],
      bt_result := ACCEPT,
      bt_prog_type := BPF_PROG_TYPE_XDP,
      bt_flags := F_NEEDS_EFFICIENT_UNALIGNED_ACCESS\<rparr>,
      no_test\<lparr>
      bt_descr := (''XDP pkt read, pkt_end >= pkt_data'' @ [CHR 0x27] @ '', corner case -1, bad access''),
      bt_insns :=
        [BPF_LDX_MEM BPF_W BPF_REG_2 BPF_REG_1 xdp_md_data,
         BPF_LDX_MEM BPF_W BPF_REG_3 BPF_REG_1 xdp_md_data_end,
         BPF_MOV64_REG BPF_REG_1 BPF_REG_2,
         BPF_ALU64_IMM BPF_ADD BPF_REG_1 7,
         BPF_JMP_REG BPF_JGE BPF_REG_3 BPF_REG_1 1,
         BPF_JMP_IMM BPF_JA 0 0 1,
         BPF_LDX_MEM BPF_DW BPF_REG_0 BPF_REG_1 (-7),
         BPF_MOV64_IMM BPF_REG_0 0,
         BPF_EXIT_INSN],
      bt_errstr := Some ''R1 offset is outside of the packet'',
      bt_result := REJECT,
      bt_prog_type := BPF_PROG_TYPE_XDP,
      bt_flags := F_NEEDS_EFFICIENT_UNALIGNED_ACCESS\<rparr>]"

definition xdp_tests_5 :: "bpf_test list" where
  "xdp_tests_5 =
     [no_test\<lparr>
      bt_descr := (''XDP pkt read, pkt_data'' @ [CHR 0x27] @ '' <= pkt_end, corner case, good access''),
      bt_insns :=
        [BPF_LDX_MEM BPF_W BPF_REG_2 BPF_REG_1 xdp_md_data,
         BPF_LDX_MEM BPF_W BPF_REG_3 BPF_REG_1 xdp_md_data_end,
         BPF_MOV64_REG BPF_REG_1 BPF_REG_2,
         BPF_ALU64_IMM BPF_ADD BPF_REG_1 8,
         BPF_JMP_REG BPF_JLE BPF_REG_1 BPF_REG_3 1,
         BPF_JMP_IMM BPF_JA 0 0 1,
         BPF_LDX_MEM BPF_DW BPF_REG_0 BPF_REG_1 (-8),
         BPF_MOV64_IMM BPF_REG_0 0,
         BPF_EXIT_INSN],
      bt_result := ACCEPT,
      bt_prog_type := BPF_PROG_TYPE_XDP,
      bt_flags := F_NEEDS_EFFICIENT_UNALIGNED_ACCESS\<rparr>,
      no_test\<lparr>
      bt_descr := (''XDP pkt read, pkt_data'' @ [CHR 0x27] @ '' <= pkt_end, bad access 1''),
      bt_insns :=
        [BPF_LDX_MEM BPF_W BPF_REG_2 BPF_REG_1 xdp_md_data,
         BPF_LDX_MEM BPF_W BPF_REG_3 BPF_REG_1 xdp_md_data_end,
         BPF_MOV64_REG BPF_REG_1 BPF_REG_2,
         BPF_ALU64_IMM BPF_ADD BPF_REG_1 8,
         BPF_JMP_REG BPF_JLE BPF_REG_1 BPF_REG_3 1,
         BPF_JMP_IMM BPF_JA 0 0 1,
         BPF_LDX_MEM BPF_DW BPF_REG_0 BPF_REG_1 (-4),
         BPF_MOV64_IMM BPF_REG_0 0,
         BPF_EXIT_INSN],
      bt_errstr := Some ''R1 offset is outside of the packet'',
      bt_result := REJECT,
      bt_prog_type := BPF_PROG_TYPE_XDP,
      bt_flags := F_NEEDS_EFFICIENT_UNALIGNED_ACCESS\<rparr>,
      no_test\<lparr>
      bt_descr := (''XDP pkt read, pkt_data'' @ [CHR 0x27] @ '' <= pkt_end, bad access 2''),
      bt_insns :=
        [BPF_LDX_MEM BPF_W BPF_REG_2 BPF_REG_1 xdp_md_data,
         BPF_LDX_MEM BPF_W BPF_REG_3 BPF_REG_1 xdp_md_data_end,
         BPF_MOV64_REG BPF_REG_1 BPF_REG_2,
         BPF_ALU64_IMM BPF_ADD BPF_REG_1 8,
         BPF_JMP_REG BPF_JLE BPF_REG_1 BPF_REG_3 1,
         BPF_LDX_MEM BPF_DW BPF_REG_0 BPF_REG_1 (-8),
         BPF_MOV64_IMM BPF_REG_0 0,
         BPF_EXIT_INSN],
      bt_errstr := Some ''R1 offset is outside of the packet'',
      bt_result := REJECT,
      bt_prog_type := BPF_PROG_TYPE_XDP,
      bt_flags := F_NEEDS_EFFICIENT_UNALIGNED_ACCESS\<rparr>,
      no_test\<lparr>
      bt_descr := (''XDP pkt read, pkt_data'' @ [CHR 0x27] @ '' <= pkt_end, corner case +1, good access''),
      bt_insns :=
        [BPF_LDX_MEM BPF_W BPF_REG_2 BPF_REG_1 xdp_md_data,
         BPF_LDX_MEM BPF_W BPF_REG_3 BPF_REG_1 xdp_md_data_end,
         BPF_MOV64_REG BPF_REG_1 BPF_REG_2,
         BPF_ALU64_IMM BPF_ADD BPF_REG_1 9,
         BPF_JMP_REG BPF_JLE BPF_REG_1 BPF_REG_3 1,
         BPF_JMP_IMM BPF_JA 0 0 1,
         BPF_LDX_MEM BPF_DW BPF_REG_0 BPF_REG_1 (-9),
         BPF_MOV64_IMM BPF_REG_0 0,
         BPF_EXIT_INSN],
      bt_result := ACCEPT,
      bt_prog_type := BPF_PROG_TYPE_XDP,
      bt_flags := F_NEEDS_EFFICIENT_UNALIGNED_ACCESS\<rparr>,
      no_test\<lparr>
      bt_descr := (''XDP pkt read, pkt_data'' @ [CHR 0x27] @ '' <= pkt_end, corner case -1, bad access''),
      bt_insns :=
        [BPF_LDX_MEM BPF_W BPF_REG_2 BPF_REG_1 xdp_md_data,
         BPF_LDX_MEM BPF_W BPF_REG_3 BPF_REG_1 xdp_md_data_end,
         BPF_MOV64_REG BPF_REG_1 BPF_REG_2,
         BPF_ALU64_IMM BPF_ADD BPF_REG_1 7,
         BPF_JMP_REG BPF_JLE BPF_REG_1 BPF_REG_3 1,
         BPF_JMP_IMM BPF_JA 0 0 1,
         BPF_LDX_MEM BPF_DW BPF_REG_0 BPF_REG_1 (-7),
         BPF_MOV64_IMM BPF_REG_0 0,
         BPF_EXIT_INSN],
      bt_errstr := Some ''R1 offset is outside of the packet'',
      bt_result := REJECT,
      bt_prog_type := BPF_PROG_TYPE_XDP,
      bt_flags := F_NEEDS_EFFICIENT_UNALIGNED_ACCESS\<rparr>,
      no_test\<lparr>
      bt_descr := (''XDP pkt read, pkt_end <= pkt_data'' @ [CHR 0x27] @ '', good access''),
      bt_insns :=
        [BPF_LDX_MEM BPF_W BPF_REG_2 BPF_REG_1 xdp_md_data,
         BPF_LDX_MEM BPF_W BPF_REG_3 BPF_REG_1 xdp_md_data_end,
         BPF_MOV64_REG BPF_REG_1 BPF_REG_2,
         BPF_ALU64_IMM BPF_ADD BPF_REG_1 8,
         BPF_JMP_REG BPF_JLE BPF_REG_3 BPF_REG_1 1,
         BPF_LDX_MEM BPF_W BPF_REG_0 BPF_REG_1 (-5),
         BPF_MOV64_IMM BPF_REG_0 0,
         BPF_EXIT_INSN],
      bt_result := ACCEPT,
      bt_prog_type := BPF_PROG_TYPE_XDP,
      bt_flags := F_NEEDS_EFFICIENT_UNALIGNED_ACCESS\<rparr>,
      no_test\<lparr>
      bt_descr := (''XDP pkt read, pkt_end <= pkt_data'' @ [CHR 0x27] @ '', corner case -1, bad access''),
      bt_insns :=
        [BPF_LDX_MEM BPF_W BPF_REG_2 BPF_REG_1 xdp_md_data,
         BPF_LDX_MEM BPF_W BPF_REG_3 BPF_REG_1 xdp_md_data_end,
         BPF_MOV64_REG BPF_REG_1 BPF_REG_2,
         BPF_ALU64_IMM BPF_ADD BPF_REG_1 6,
         BPF_JMP_REG BPF_JLE BPF_REG_3 BPF_REG_1 1,
         BPF_LDX_MEM BPF_DW BPF_REG_0 BPF_REG_1 (-6),
         BPF_MOV64_IMM BPF_REG_0 0,
         BPF_EXIT_INSN],
      bt_errstr := Some ''R1 offset is outside of the packet'',
      bt_result := REJECT,
      bt_prog_type := BPF_PROG_TYPE_XDP,
      bt_flags := F_NEEDS_EFFICIENT_UNALIGNED_ACCESS\<rparr>,
      no_test\<lparr>
      bt_descr := (''XDP pkt read, pkt_end <= pkt_data'' @ [CHR 0x27] @ '', bad access 2''),
      bt_insns :=
        [BPF_LDX_MEM BPF_W BPF_REG_2 BPF_REG_1 xdp_md_data,
         BPF_LDX_MEM BPF_W BPF_REG_3 BPF_REG_1 xdp_md_data_end,
         BPF_MOV64_REG BPF_REG_1 BPF_REG_2,
         BPF_ALU64_IMM BPF_ADD BPF_REG_1 8,
         BPF_JMP_REG BPF_JLE BPF_REG_3 BPF_REG_1 0,
         BPF_LDX_MEM BPF_W BPF_REG_0 BPF_REG_1 (-5),
         BPF_MOV64_IMM BPF_REG_0 0,
         BPF_EXIT_INSN],
      bt_errstr := Some ''R1 offset is outside of the packet'',
      bt_result := REJECT,
      bt_prog_type := BPF_PROG_TYPE_XDP,
      bt_flags := F_NEEDS_EFFICIENT_UNALIGNED_ACCESS\<rparr>]"

definition xdp_tests_6 :: "bpf_test list" where
  "xdp_tests_6 =
     [no_test\<lparr>
      bt_descr := (''XDP pkt read, pkt_end <= pkt_data'' @ [CHR 0x27] @ '', corner case, good access''),
      bt_insns :=
        [BPF_LDX_MEM BPF_W BPF_REG_2 BPF_REG_1 xdp_md_data,
         BPF_LDX_MEM BPF_W BPF_REG_3 BPF_REG_1 xdp_md_data_end,
         BPF_MOV64_REG BPF_REG_1 BPF_REG_2,
         BPF_ALU64_IMM BPF_ADD BPF_REG_1 7,
         BPF_JMP_REG BPF_JLE BPF_REG_3 BPF_REG_1 1,
         BPF_LDX_MEM BPF_DW BPF_REG_0 BPF_REG_1 (-7),
         BPF_MOV64_IMM BPF_REG_0 0,
         BPF_EXIT_INSN],
      bt_result := ACCEPT,
      bt_prog_type := BPF_PROG_TYPE_XDP,
      bt_flags := F_NEEDS_EFFICIENT_UNALIGNED_ACCESS\<rparr>,
      no_test\<lparr>
      bt_descr := (''XDP pkt read, pkt_end <= pkt_data'' @ [CHR 0x27] @ '', corner case +1, good access''),
      bt_insns :=
        [BPF_LDX_MEM BPF_W BPF_REG_2 BPF_REG_1 xdp_md_data,
         BPF_LDX_MEM BPF_W BPF_REG_3 BPF_REG_1 xdp_md_data_end,
         BPF_MOV64_REG BPF_REG_1 BPF_REG_2,
         BPF_ALU64_IMM BPF_ADD BPF_REG_1 8,
         BPF_JMP_REG BPF_JLE BPF_REG_3 BPF_REG_1 1,
         BPF_LDX_MEM BPF_DW BPF_REG_0 BPF_REG_1 (-8),
         BPF_MOV64_IMM BPF_REG_0 0,
         BPF_EXIT_INSN],
      bt_result := ACCEPT,
      bt_prog_type := BPF_PROG_TYPE_XDP,
      bt_flags := F_NEEDS_EFFICIENT_UNALIGNED_ACCESS\<rparr>,
      no_test\<lparr>
      bt_descr := (''XDP pkt read, pkt_meta'' @ [CHR 0x27] @ '' > pkt_data, corner case, good access''),
      bt_insns :=
        [BPF_LDX_MEM BPF_W BPF_REG_2 BPF_REG_1 xdp_md_data_meta,
         BPF_LDX_MEM BPF_W BPF_REG_3 BPF_REG_1 xdp_md_data,
         BPF_MOV64_REG BPF_REG_1 BPF_REG_2,
         BPF_ALU64_IMM BPF_ADD BPF_REG_1 8,
         BPF_JMP_REG BPF_JGT BPF_REG_1 BPF_REG_3 1,
         BPF_LDX_MEM BPF_DW BPF_REG_0 BPF_REG_1 (-8),
         BPF_MOV64_IMM BPF_REG_0 0,
         BPF_EXIT_INSN],
      bt_result := ACCEPT,
      bt_prog_type := BPF_PROG_TYPE_XDP,
      bt_flags := F_NEEDS_EFFICIENT_UNALIGNED_ACCESS\<rparr>,
      no_test\<lparr>
      bt_descr := (''XDP pkt read, pkt_meta'' @ [CHR 0x27] @ '' > pkt_data, bad access 1''),
      bt_insns :=
        [BPF_LDX_MEM BPF_W BPF_REG_2 BPF_REG_1 xdp_md_data_meta,
         BPF_LDX_MEM BPF_W BPF_REG_3 BPF_REG_1 xdp_md_data,
         BPF_MOV64_REG BPF_REG_1 BPF_REG_2,
         BPF_ALU64_IMM BPF_ADD BPF_REG_1 8,
         BPF_JMP_REG BPF_JGT BPF_REG_1 BPF_REG_3 1,
         BPF_LDX_MEM BPF_DW BPF_REG_0 BPF_REG_1 (-4),
         BPF_MOV64_IMM BPF_REG_0 0,
         BPF_EXIT_INSN],
      bt_errstr := Some ''R1 offset is outside of the packet'',
      bt_result := REJECT,
      bt_prog_type := BPF_PROG_TYPE_XDP,
      bt_flags := F_NEEDS_EFFICIENT_UNALIGNED_ACCESS\<rparr>,
      no_test\<lparr>
      bt_descr := (''XDP pkt read, pkt_meta'' @ [CHR 0x27] @ '' > pkt_data, bad access 2''),
      bt_insns :=
        [BPF_LDX_MEM BPF_W BPF_REG_2 BPF_REG_1 xdp_md_data_meta,
         BPF_LDX_MEM BPF_W BPF_REG_3 BPF_REG_1 xdp_md_data,
         BPF_MOV64_REG BPF_REG_1 BPF_REG_2,
         BPF_ALU64_IMM BPF_ADD BPF_REG_1 8,
         BPF_JMP_REG BPF_JGT BPF_REG_1 BPF_REG_3 0,
         BPF_LDX_MEM BPF_DW BPF_REG_0 BPF_REG_1 (-8),
         BPF_MOV64_IMM BPF_REG_0 0,
         BPF_EXIT_INSN],
      bt_errstr := Some ''R1 offset is outside of the packet'',
      bt_result := REJECT,
      bt_prog_type := BPF_PROG_TYPE_XDP,
      bt_flags := F_NEEDS_EFFICIENT_UNALIGNED_ACCESS\<rparr>,
      no_test\<lparr>
      bt_descr := (''XDP pkt read, pkt_meta'' @ [CHR 0x27] @ '' > pkt_data, corner case +1, good access''),
      bt_insns :=
        [BPF_LDX_MEM BPF_W BPF_REG_2 BPF_REG_1 xdp_md_data_meta,
         BPF_LDX_MEM BPF_W BPF_REG_3 BPF_REG_1 xdp_md_data,
         BPF_MOV64_REG BPF_REG_1 BPF_REG_2,
         BPF_ALU64_IMM BPF_ADD BPF_REG_1 9,
         BPF_JMP_REG BPF_JGT BPF_REG_1 BPF_REG_3 1,
         BPF_LDX_MEM BPF_DW BPF_REG_0 BPF_REG_1 (-9),
         BPF_MOV64_IMM BPF_REG_0 0,
         BPF_EXIT_INSN],
      bt_result := ACCEPT,
      bt_prog_type := BPF_PROG_TYPE_XDP,
      bt_flags := F_NEEDS_EFFICIENT_UNALIGNED_ACCESS\<rparr>,
      no_test\<lparr>
      bt_descr := (''XDP pkt read, pkt_meta'' @ [CHR 0x27] @ '' > pkt_data, corner case -1, bad access''),
      bt_insns :=
        [BPF_LDX_MEM BPF_W BPF_REG_2 BPF_REG_1 xdp_md_data_meta,
         BPF_LDX_MEM BPF_W BPF_REG_3 BPF_REG_1 xdp_md_data,
         BPF_MOV64_REG BPF_REG_1 BPF_REG_2,
         BPF_ALU64_IMM BPF_ADD BPF_REG_1 7,
         BPF_JMP_REG BPF_JGT BPF_REG_1 BPF_REG_3 1,
         BPF_LDX_MEM BPF_DW BPF_REG_0 BPF_REG_1 (-7),
         BPF_MOV64_IMM BPF_REG_0 0,
         BPF_EXIT_INSN],
      bt_errstr := Some ''R1 offset is outside of the packet'',
      bt_result := REJECT,
      bt_prog_type := BPF_PROG_TYPE_XDP,
      bt_flags := F_NEEDS_EFFICIENT_UNALIGNED_ACCESS\<rparr>,
      no_test\<lparr>
      bt_descr := (''XDP pkt read, pkt_data > pkt_meta'' @ [CHR 0x27] @ '', good access''),
      bt_insns :=
        [BPF_LDX_MEM BPF_W BPF_REG_2 BPF_REG_1 xdp_md_data_meta,
         BPF_LDX_MEM BPF_W BPF_REG_3 BPF_REG_1 xdp_md_data,
         BPF_MOV64_REG BPF_REG_1 BPF_REG_2,
         BPF_ALU64_IMM BPF_ADD BPF_REG_1 8,
         BPF_JMP_REG BPF_JGT BPF_REG_3 BPF_REG_1 1,
         BPF_JMP_IMM BPF_JA 0 0 1,
         BPF_LDX_MEM BPF_W BPF_REG_0 BPF_REG_1 (-5),
         BPF_MOV64_IMM BPF_REG_0 0,
         BPF_EXIT_INSN],
      bt_result := ACCEPT,
      bt_prog_type := BPF_PROG_TYPE_XDP,
      bt_flags := F_NEEDS_EFFICIENT_UNALIGNED_ACCESS\<rparr>]"

definition xdp_tests_7 :: "bpf_test list" where
  "xdp_tests_7 =
     [no_test\<lparr>
      bt_descr := (''XDP pkt read, pkt_data > pkt_meta'' @ [CHR 0x27] @ '', corner case -1, bad access''),
      bt_insns :=
        [BPF_LDX_MEM BPF_W BPF_REG_2 BPF_REG_1 xdp_md_data_meta,
         BPF_LDX_MEM BPF_W BPF_REG_3 BPF_REG_1 xdp_md_data,
         BPF_MOV64_REG BPF_REG_1 BPF_REG_2,
         BPF_ALU64_IMM BPF_ADD BPF_REG_1 6,
         BPF_JMP_REG BPF_JGT BPF_REG_3 BPF_REG_1 1,
         BPF_JMP_IMM BPF_JA 0 0 1,
         BPF_LDX_MEM BPF_DW BPF_REG_0 BPF_REG_1 (-6),
         BPF_MOV64_IMM BPF_REG_0 0,
         BPF_EXIT_INSN],
      bt_errstr := Some ''R1 offset is outside of the packet'',
      bt_result := REJECT,
      bt_prog_type := BPF_PROG_TYPE_XDP,
      bt_flags := F_NEEDS_EFFICIENT_UNALIGNED_ACCESS\<rparr>,
      no_test\<lparr>
      bt_descr := (''XDP pkt read, pkt_data > pkt_meta'' @ [CHR 0x27] @ '', bad access 2''),
      bt_insns :=
        [BPF_LDX_MEM BPF_W BPF_REG_2 BPF_REG_1 xdp_md_data_meta,
         BPF_LDX_MEM BPF_W BPF_REG_3 BPF_REG_1 xdp_md_data,
         BPF_MOV64_REG BPF_REG_1 BPF_REG_2,
         BPF_ALU64_IMM BPF_ADD BPF_REG_1 8,
         BPF_JMP_REG BPF_JGT BPF_REG_3 BPF_REG_1 1,
         BPF_LDX_MEM BPF_DW BPF_REG_0 BPF_REG_1 (-8),
         BPF_MOV64_IMM BPF_REG_0 0,
         BPF_EXIT_INSN],
      bt_errstr := Some ''R1 offset is outside of the packet'',
      bt_result := REJECT,
      bt_prog_type := BPF_PROG_TYPE_XDP,
      bt_flags := F_NEEDS_EFFICIENT_UNALIGNED_ACCESS\<rparr>,
      no_test\<lparr>
      bt_descr := (''XDP pkt read, pkt_data > pkt_meta'' @ [CHR 0x27] @ '', corner case, good access''),
      bt_insns :=
        [BPF_LDX_MEM BPF_W BPF_REG_2 BPF_REG_1 xdp_md_data_meta,
         BPF_LDX_MEM BPF_W BPF_REG_3 BPF_REG_1 xdp_md_data,
         BPF_MOV64_REG BPF_REG_1 BPF_REG_2,
         BPF_ALU64_IMM BPF_ADD BPF_REG_1 7,
         BPF_JMP_REG BPF_JGT BPF_REG_3 BPF_REG_1 1,
         BPF_JMP_IMM BPF_JA 0 0 1,
         BPF_LDX_MEM BPF_DW BPF_REG_0 BPF_REG_1 (-7),
         BPF_MOV64_IMM BPF_REG_0 0,
         BPF_EXIT_INSN],
      bt_result := ACCEPT,
      bt_prog_type := BPF_PROG_TYPE_XDP,
      bt_flags := F_NEEDS_EFFICIENT_UNALIGNED_ACCESS\<rparr>,
      no_test\<lparr>
      bt_descr := (''XDP pkt read, pkt_data > pkt_meta'' @ [CHR 0x27] @ '', corner case +1, good access''),
      bt_insns :=
        [BPF_LDX_MEM BPF_W BPF_REG_2 BPF_REG_1 xdp_md_data_meta,
         BPF_LDX_MEM BPF_W BPF_REG_3 BPF_REG_1 xdp_md_data,
         BPF_MOV64_REG BPF_REG_1 BPF_REG_2,
         BPF_ALU64_IMM BPF_ADD BPF_REG_1 8,
         BPF_JMP_REG BPF_JGT BPF_REG_3 BPF_REG_1 1,
         BPF_JMP_IMM BPF_JA 0 0 1,
         BPF_LDX_MEM BPF_DW BPF_REG_0 BPF_REG_1 (-8),
         BPF_MOV64_IMM BPF_REG_0 0,
         BPF_EXIT_INSN],
      bt_result := ACCEPT,
      bt_prog_type := BPF_PROG_TYPE_XDP,
      bt_flags := F_NEEDS_EFFICIENT_UNALIGNED_ACCESS\<rparr>,
      no_test\<lparr>
      bt_descr := (''XDP pkt read, pkt_meta'' @ [CHR 0x27] @ '' < pkt_data, good access''),
      bt_insns :=
        [BPF_LDX_MEM BPF_W BPF_REG_2 BPF_REG_1 xdp_md_data_meta,
         BPF_LDX_MEM BPF_W BPF_REG_3 BPF_REG_1 xdp_md_data,
         BPF_MOV64_REG BPF_REG_1 BPF_REG_2,
         BPF_ALU64_IMM BPF_ADD BPF_REG_1 8,
         BPF_JMP_REG BPF_JLT BPF_REG_1 BPF_REG_3 1,
         BPF_JMP_IMM BPF_JA 0 0 1,
         BPF_LDX_MEM BPF_W BPF_REG_0 BPF_REG_1 (-5),
         BPF_MOV64_IMM BPF_REG_0 0,
         BPF_EXIT_INSN],
      bt_result := ACCEPT,
      bt_prog_type := BPF_PROG_TYPE_XDP,
      bt_flags := F_NEEDS_EFFICIENT_UNALIGNED_ACCESS\<rparr>,
      no_test\<lparr>
      bt_descr := (''XDP pkt read, pkt_meta'' @ [CHR 0x27] @ '' < pkt_data, corner case -1, bad access''),
      bt_insns :=
        [BPF_LDX_MEM BPF_W BPF_REG_2 BPF_REG_1 xdp_md_data_meta,
         BPF_LDX_MEM BPF_W BPF_REG_3 BPF_REG_1 xdp_md_data,
         BPF_MOV64_REG BPF_REG_1 BPF_REG_2,
         BPF_ALU64_IMM BPF_ADD BPF_REG_1 6,
         BPF_JMP_REG BPF_JLT BPF_REG_1 BPF_REG_3 1,
         BPF_JMP_IMM BPF_JA 0 0 1,
         BPF_LDX_MEM BPF_DW BPF_REG_0 BPF_REG_1 (-6),
         BPF_MOV64_IMM BPF_REG_0 0,
         BPF_EXIT_INSN],
      bt_errstr := Some ''R1 offset is outside of the packet'',
      bt_result := REJECT,
      bt_prog_type := BPF_PROG_TYPE_XDP,
      bt_flags := F_NEEDS_EFFICIENT_UNALIGNED_ACCESS\<rparr>,
      no_test\<lparr>
      bt_descr := (''XDP pkt read, pkt_meta'' @ [CHR 0x27] @ '' < pkt_data, bad access 2''),
      bt_insns :=
        [BPF_LDX_MEM BPF_W BPF_REG_2 BPF_REG_1 xdp_md_data_meta,
         BPF_LDX_MEM BPF_W BPF_REG_3 BPF_REG_1 xdp_md_data,
         BPF_MOV64_REG BPF_REG_1 BPF_REG_2,
         BPF_ALU64_IMM BPF_ADD BPF_REG_1 8,
         BPF_JMP_REG BPF_JLT BPF_REG_1 BPF_REG_3 1,
         BPF_LDX_MEM BPF_DW BPF_REG_0 BPF_REG_1 (-8),
         BPF_MOV64_IMM BPF_REG_0 0,
         BPF_EXIT_INSN],
      bt_errstr := Some ''R1 offset is outside of the packet'',
      bt_result := REJECT,
      bt_prog_type := BPF_PROG_TYPE_XDP,
      bt_flags := F_NEEDS_EFFICIENT_UNALIGNED_ACCESS\<rparr>,
      no_test\<lparr>
      bt_descr := (''XDP pkt read, pkt_meta'' @ [CHR 0x27] @ '' < pkt_data, corner case, good access''),
      bt_insns :=
        [BPF_LDX_MEM BPF_W BPF_REG_2 BPF_REG_1 xdp_md_data_meta,
         BPF_LDX_MEM BPF_W BPF_REG_3 BPF_REG_1 xdp_md_data,
         BPF_MOV64_REG BPF_REG_1 BPF_REG_2,
         BPF_ALU64_IMM BPF_ADD BPF_REG_1 7,
         BPF_JMP_REG BPF_JLT BPF_REG_1 BPF_REG_3 1,
         BPF_JMP_IMM BPF_JA 0 0 1,
         BPF_LDX_MEM BPF_DW BPF_REG_0 BPF_REG_1 (-7),
         BPF_MOV64_IMM BPF_REG_0 0,
         BPF_EXIT_INSN],
      bt_result := ACCEPT,
      bt_prog_type := BPF_PROG_TYPE_XDP,
      bt_flags := F_NEEDS_EFFICIENT_UNALIGNED_ACCESS\<rparr>]"

definition xdp_tests_8 :: "bpf_test list" where
  "xdp_tests_8 =
     [no_test\<lparr>
      bt_descr := (''XDP pkt read, pkt_meta'' @ [CHR 0x27] @ '' < pkt_data, corner case +1, good access''),
      bt_insns :=
        [BPF_LDX_MEM BPF_W BPF_REG_2 BPF_REG_1 xdp_md_data_meta,
         BPF_LDX_MEM BPF_W BPF_REG_3 BPF_REG_1 xdp_md_data,
         BPF_MOV64_REG BPF_REG_1 BPF_REG_2,
         BPF_ALU64_IMM BPF_ADD BPF_REG_1 8,
         BPF_JMP_REG BPF_JLT BPF_REG_1 BPF_REG_3 1,
         BPF_JMP_IMM BPF_JA 0 0 1,
         BPF_LDX_MEM BPF_DW BPF_REG_0 BPF_REG_1 (-8),
         BPF_MOV64_IMM BPF_REG_0 0,
         BPF_EXIT_INSN],
      bt_result := ACCEPT,
      bt_prog_type := BPF_PROG_TYPE_XDP,
      bt_flags := F_NEEDS_EFFICIENT_UNALIGNED_ACCESS\<rparr>,
      no_test\<lparr>
      bt_descr := (''XDP pkt read, pkt_data < pkt_meta'' @ [CHR 0x27] @ '', corner case, good access''),
      bt_insns :=
        [BPF_LDX_MEM BPF_W BPF_REG_2 BPF_REG_1 xdp_md_data_meta,
         BPF_LDX_MEM BPF_W BPF_REG_3 BPF_REG_1 xdp_md_data,
         BPF_MOV64_REG BPF_REG_1 BPF_REG_2,
         BPF_ALU64_IMM BPF_ADD BPF_REG_1 8,
         BPF_JMP_REG BPF_JLT BPF_REG_3 BPF_REG_1 1,
         BPF_LDX_MEM BPF_DW BPF_REG_0 BPF_REG_1 (-8),
         BPF_MOV64_IMM BPF_REG_0 0,
         BPF_EXIT_INSN],
      bt_result := ACCEPT,
      bt_prog_type := BPF_PROG_TYPE_XDP,
      bt_flags := F_NEEDS_EFFICIENT_UNALIGNED_ACCESS\<rparr>,
      no_test\<lparr>
      bt_descr := (''XDP pkt read, pkt_data < pkt_meta'' @ [CHR 0x27] @ '', bad access 1''),
      bt_insns :=
        [BPF_LDX_MEM BPF_W BPF_REG_2 BPF_REG_1 xdp_md_data_meta,
         BPF_LDX_MEM BPF_W BPF_REG_3 BPF_REG_1 xdp_md_data,
         BPF_MOV64_REG BPF_REG_1 BPF_REG_2,
         BPF_ALU64_IMM BPF_ADD BPF_REG_1 8,
         BPF_JMP_REG BPF_JLT BPF_REG_3 BPF_REG_1 1,
         BPF_LDX_MEM BPF_DW BPF_REG_0 BPF_REG_1 (-4),
         BPF_MOV64_IMM BPF_REG_0 0,
         BPF_EXIT_INSN],
      bt_errstr := Some ''R1 offset is outside of the packet'',
      bt_result := REJECT,
      bt_prog_type := BPF_PROG_TYPE_XDP,
      bt_flags := F_NEEDS_EFFICIENT_UNALIGNED_ACCESS\<rparr>,
      no_test\<lparr>
      bt_descr := (''XDP pkt read, pkt_data < pkt_meta'' @ [CHR 0x27] @ '', bad access 2''),
      bt_insns :=
        [BPF_LDX_MEM BPF_W BPF_REG_2 BPF_REG_1 xdp_md_data_meta,
         BPF_LDX_MEM BPF_W BPF_REG_3 BPF_REG_1 xdp_md_data,
         BPF_MOV64_REG BPF_REG_1 BPF_REG_2,
         BPF_ALU64_IMM BPF_ADD BPF_REG_1 8,
         BPF_JMP_REG BPF_JLT BPF_REG_3 BPF_REG_1 0,
         BPF_LDX_MEM BPF_DW BPF_REG_0 BPF_REG_1 (-8),
         BPF_MOV64_IMM BPF_REG_0 0,
         BPF_EXIT_INSN],
      bt_errstr := Some ''R1 offset is outside of the packet'',
      bt_result := REJECT,
      bt_prog_type := BPF_PROG_TYPE_XDP,
      bt_flags := F_NEEDS_EFFICIENT_UNALIGNED_ACCESS\<rparr>,
      no_test\<lparr>
      bt_descr := (''XDP pkt read, pkt_data < pkt_meta'' @ [CHR 0x27] @ '', corner case +1, good access''),
      bt_insns :=
        [BPF_LDX_MEM BPF_W BPF_REG_2 BPF_REG_1 xdp_md_data_meta,
         BPF_LDX_MEM BPF_W BPF_REG_3 BPF_REG_1 xdp_md_data,
         BPF_MOV64_REG BPF_REG_1 BPF_REG_2,
         BPF_ALU64_IMM BPF_ADD BPF_REG_1 9,
         BPF_JMP_REG BPF_JLT BPF_REG_3 BPF_REG_1 1,
         BPF_LDX_MEM BPF_DW BPF_REG_0 BPF_REG_1 (-9),
         BPF_MOV64_IMM BPF_REG_0 0,
         BPF_EXIT_INSN],
      bt_result := ACCEPT,
      bt_prog_type := BPF_PROG_TYPE_XDP,
      bt_flags := F_NEEDS_EFFICIENT_UNALIGNED_ACCESS\<rparr>,
      no_test\<lparr>
      bt_descr := (''XDP pkt read, pkt_data < pkt_meta'' @ [CHR 0x27] @ '', corner case -1, bad access''),
      bt_insns :=
        [BPF_LDX_MEM BPF_W BPF_REG_2 BPF_REG_1 xdp_md_data_meta,
         BPF_LDX_MEM BPF_W BPF_REG_3 BPF_REG_1 xdp_md_data,
         BPF_MOV64_REG BPF_REG_1 BPF_REG_2,
         BPF_ALU64_IMM BPF_ADD BPF_REG_1 7,
         BPF_JMP_REG BPF_JLT BPF_REG_3 BPF_REG_1 1,
         BPF_LDX_MEM BPF_DW BPF_REG_0 BPF_REG_1 (-7),
         BPF_MOV64_IMM BPF_REG_0 0,
         BPF_EXIT_INSN],
      bt_errstr := Some ''R1 offset is outside of the packet'',
      bt_result := REJECT,
      bt_prog_type := BPF_PROG_TYPE_XDP,
      bt_flags := F_NEEDS_EFFICIENT_UNALIGNED_ACCESS\<rparr>,
      no_test\<lparr>
      bt_descr := (''XDP pkt read, pkt_meta'' @ [CHR 0x27] @ '' >= pkt_data, good access''),
      bt_insns :=
        [BPF_LDX_MEM BPF_W BPF_REG_2 BPF_REG_1 xdp_md_data_meta,
         BPF_LDX_MEM BPF_W BPF_REG_3 BPF_REG_1 xdp_md_data,
         BPF_MOV64_REG BPF_REG_1 BPF_REG_2,
         BPF_ALU64_IMM BPF_ADD BPF_REG_1 8,
         BPF_JMP_REG BPF_JGE BPF_REG_1 BPF_REG_3 1,
         BPF_LDX_MEM BPF_W BPF_REG_0 BPF_REG_1 (-5),
         BPF_MOV64_IMM BPF_REG_0 0,
         BPF_EXIT_INSN],
      bt_result := ACCEPT,
      bt_prog_type := BPF_PROG_TYPE_XDP,
      bt_flags := F_NEEDS_EFFICIENT_UNALIGNED_ACCESS\<rparr>,
      no_test\<lparr>
      bt_descr := (''XDP pkt read, pkt_meta'' @ [CHR 0x27] @ '' >= pkt_data, corner case -1, bad access''),
      bt_insns :=
        [BPF_LDX_MEM BPF_W BPF_REG_2 BPF_REG_1 xdp_md_data_meta,
         BPF_LDX_MEM BPF_W BPF_REG_3 BPF_REG_1 xdp_md_data,
         BPF_MOV64_REG BPF_REG_1 BPF_REG_2,
         BPF_ALU64_IMM BPF_ADD BPF_REG_1 6,
         BPF_JMP_REG BPF_JGE BPF_REG_1 BPF_REG_3 1,
         BPF_LDX_MEM BPF_DW BPF_REG_0 BPF_REG_1 (-6),
         BPF_MOV64_IMM BPF_REG_0 0,
         BPF_EXIT_INSN],
      bt_errstr := Some ''R1 offset is outside of the packet'',
      bt_result := REJECT,
      bt_prog_type := BPF_PROG_TYPE_XDP,
      bt_flags := F_NEEDS_EFFICIENT_UNALIGNED_ACCESS\<rparr>]"

definition xdp_tests_9 :: "bpf_test list" where
  "xdp_tests_9 =
     [no_test\<lparr>
      bt_descr := (''XDP pkt read, pkt_meta'' @ [CHR 0x27] @ '' >= pkt_data, bad access 2''),
      bt_insns :=
        [BPF_LDX_MEM BPF_W BPF_REG_2 BPF_REG_1 xdp_md_data_meta,
         BPF_LDX_MEM BPF_W BPF_REG_3 BPF_REG_1 xdp_md_data,
         BPF_MOV64_REG BPF_REG_1 BPF_REG_2,
         BPF_ALU64_IMM BPF_ADD BPF_REG_1 8,
         BPF_JMP_REG BPF_JGE BPF_REG_1 BPF_REG_3 0,
         BPF_LDX_MEM BPF_W BPF_REG_0 BPF_REG_1 (-5),
         BPF_MOV64_IMM BPF_REG_0 0,
         BPF_EXIT_INSN],
      bt_errstr := Some ''R1 offset is outside of the packet'',
      bt_result := REJECT,
      bt_prog_type := BPF_PROG_TYPE_XDP,
      bt_flags := F_NEEDS_EFFICIENT_UNALIGNED_ACCESS\<rparr>,
      no_test\<lparr>
      bt_descr := (''XDP pkt read, pkt_meta'' @ [CHR 0x27] @ '' >= pkt_data, corner case, good access''),
      bt_insns :=
        [BPF_LDX_MEM BPF_W BPF_REG_2 BPF_REG_1 xdp_md_data_meta,
         BPF_LDX_MEM BPF_W BPF_REG_3 BPF_REG_1 xdp_md_data,
         BPF_MOV64_REG BPF_REG_1 BPF_REG_2,
         BPF_ALU64_IMM BPF_ADD BPF_REG_1 7,
         BPF_JMP_REG BPF_JGE BPF_REG_1 BPF_REG_3 1,
         BPF_LDX_MEM BPF_DW BPF_REG_0 BPF_REG_1 (-7),
         BPF_MOV64_IMM BPF_REG_0 0,
         BPF_EXIT_INSN],
      bt_result := ACCEPT,
      bt_prog_type := BPF_PROG_TYPE_XDP,
      bt_flags := F_NEEDS_EFFICIENT_UNALIGNED_ACCESS\<rparr>,
      no_test\<lparr>
      bt_descr := (''XDP pkt read, pkt_meta'' @ [CHR 0x27] @ '' >= pkt_data, corner case +1, good access''),
      bt_insns :=
        [BPF_LDX_MEM BPF_W BPF_REG_2 BPF_REG_1 xdp_md_data_meta,
         BPF_LDX_MEM BPF_W BPF_REG_3 BPF_REG_1 xdp_md_data,
         BPF_MOV64_REG BPF_REG_1 BPF_REG_2,
         BPF_ALU64_IMM BPF_ADD BPF_REG_1 8,
         BPF_JMP_REG BPF_JGE BPF_REG_1 BPF_REG_3 1,
         BPF_LDX_MEM BPF_DW BPF_REG_0 BPF_REG_1 (-8),
         BPF_MOV64_IMM BPF_REG_0 0,
         BPF_EXIT_INSN],
      bt_result := ACCEPT,
      bt_prog_type := BPF_PROG_TYPE_XDP,
      bt_flags := F_NEEDS_EFFICIENT_UNALIGNED_ACCESS\<rparr>,
      no_test\<lparr>
      bt_descr := (''XDP pkt read, pkt_data >= pkt_meta'' @ [CHR 0x27] @ '', corner case, good access''),
      bt_insns :=
        [BPF_LDX_MEM BPF_W BPF_REG_2 BPF_REG_1 xdp_md_data_meta,
         BPF_LDX_MEM BPF_W BPF_REG_3 BPF_REG_1 xdp_md_data,
         BPF_MOV64_REG BPF_REG_1 BPF_REG_2,
         BPF_ALU64_IMM BPF_ADD BPF_REG_1 8,
         BPF_JMP_REG BPF_JGE BPF_REG_3 BPF_REG_1 1,
         BPF_JMP_IMM BPF_JA 0 0 1,
         BPF_LDX_MEM BPF_DW BPF_REG_0 BPF_REG_1 (-8),
         BPF_MOV64_IMM BPF_REG_0 0,
         BPF_EXIT_INSN],
      bt_result := ACCEPT,
      bt_prog_type := BPF_PROG_TYPE_XDP,
      bt_flags := F_NEEDS_EFFICIENT_UNALIGNED_ACCESS\<rparr>,
      no_test\<lparr>
      bt_descr := (''XDP pkt read, pkt_data >= pkt_meta'' @ [CHR 0x27] @ '', bad access 1''),
      bt_insns :=
        [BPF_LDX_MEM BPF_W BPF_REG_2 BPF_REG_1 xdp_md_data_meta,
         BPF_LDX_MEM BPF_W BPF_REG_3 BPF_REG_1 xdp_md_data,
         BPF_MOV64_REG BPF_REG_1 BPF_REG_2,
         BPF_ALU64_IMM BPF_ADD BPF_REG_1 8,
         BPF_JMP_REG BPF_JGE BPF_REG_3 BPF_REG_1 1,
         BPF_JMP_IMM BPF_JA 0 0 1,
         BPF_LDX_MEM BPF_DW BPF_REG_0 BPF_REG_1 (-4),
         BPF_MOV64_IMM BPF_REG_0 0,
         BPF_EXIT_INSN],
      bt_errstr := Some ''R1 offset is outside of the packet'',
      bt_result := REJECT,
      bt_prog_type := BPF_PROG_TYPE_XDP,
      bt_flags := F_NEEDS_EFFICIENT_UNALIGNED_ACCESS\<rparr>,
      no_test\<lparr>
      bt_descr := (''XDP pkt read, pkt_data >= pkt_meta'' @ [CHR 0x27] @ '', bad access 2''),
      bt_insns :=
        [BPF_LDX_MEM BPF_W BPF_REG_2 BPF_REG_1 xdp_md_data_meta,
         BPF_LDX_MEM BPF_W BPF_REG_3 BPF_REG_1 xdp_md_data,
         BPF_MOV64_REG BPF_REG_1 BPF_REG_2,
         BPF_ALU64_IMM BPF_ADD BPF_REG_1 8,
         BPF_JMP_REG BPF_JGE BPF_REG_3 BPF_REG_1 1,
         BPF_LDX_MEM BPF_DW BPF_REG_0 BPF_REG_1 (-8),
         BPF_MOV64_IMM BPF_REG_0 0,
         BPF_EXIT_INSN],
      bt_errstr := Some ''R1 offset is outside of the packet'',
      bt_result := REJECT,
      bt_prog_type := BPF_PROG_TYPE_XDP,
      bt_flags := F_NEEDS_EFFICIENT_UNALIGNED_ACCESS\<rparr>,
      no_test\<lparr>
      bt_descr := (''XDP pkt read, pkt_data >= pkt_meta'' @ [CHR 0x27] @ '', corner case +1, good access''),
      bt_insns :=
        [BPF_LDX_MEM BPF_W BPF_REG_2 BPF_REG_1 xdp_md_data_meta,
         BPF_LDX_MEM BPF_W BPF_REG_3 BPF_REG_1 xdp_md_data,
         BPF_MOV64_REG BPF_REG_1 BPF_REG_2,
         BPF_ALU64_IMM BPF_ADD BPF_REG_1 9,
         BPF_JMP_REG BPF_JGE BPF_REG_3 BPF_REG_1 1,
         BPF_JMP_IMM BPF_JA 0 0 1,
         BPF_LDX_MEM BPF_DW BPF_REG_0 BPF_REG_1 (-9),
         BPF_MOV64_IMM BPF_REG_0 0,
         BPF_EXIT_INSN],
      bt_result := ACCEPT,
      bt_prog_type := BPF_PROG_TYPE_XDP,
      bt_flags := F_NEEDS_EFFICIENT_UNALIGNED_ACCESS\<rparr>,
      no_test\<lparr>
      bt_descr := (''XDP pkt read, pkt_data >= pkt_meta'' @ [CHR 0x27] @ '', corner case -1, bad access''),
      bt_insns :=
        [BPF_LDX_MEM BPF_W BPF_REG_2 BPF_REG_1 xdp_md_data_meta,
         BPF_LDX_MEM BPF_W BPF_REG_3 BPF_REG_1 xdp_md_data,
         BPF_MOV64_REG BPF_REG_1 BPF_REG_2,
         BPF_ALU64_IMM BPF_ADD BPF_REG_1 7,
         BPF_JMP_REG BPF_JGE BPF_REG_3 BPF_REG_1 1,
         BPF_JMP_IMM BPF_JA 0 0 1,
         BPF_LDX_MEM BPF_DW BPF_REG_0 BPF_REG_1 (-7),
         BPF_MOV64_IMM BPF_REG_0 0,
         BPF_EXIT_INSN],
      bt_errstr := Some ''R1 offset is outside of the packet'',
      bt_result := REJECT,
      bt_prog_type := BPF_PROG_TYPE_XDP,
      bt_flags := F_NEEDS_EFFICIENT_UNALIGNED_ACCESS\<rparr>]"

definition xdp_tests_10 :: "bpf_test list" where
  "xdp_tests_10 =
     [no_test\<lparr>
      bt_descr := (''XDP pkt read, pkt_meta'' @ [CHR 0x27] @ '' <= pkt_data, corner case, good access''),
      bt_insns :=
        [BPF_LDX_MEM BPF_W BPF_REG_2 BPF_REG_1 xdp_md_data_meta,
         BPF_LDX_MEM BPF_W BPF_REG_3 BPF_REG_1 xdp_md_data,
         BPF_MOV64_REG BPF_REG_1 BPF_REG_2,
         BPF_ALU64_IMM BPF_ADD BPF_REG_1 8,
         BPF_JMP_REG BPF_JLE BPF_REG_1 BPF_REG_3 1,
         BPF_JMP_IMM BPF_JA 0 0 1,
         BPF_LDX_MEM BPF_DW BPF_REG_0 BPF_REG_1 (-8),
         BPF_MOV64_IMM BPF_REG_0 0,
         BPF_EXIT_INSN],
      bt_result := ACCEPT,
      bt_prog_type := BPF_PROG_TYPE_XDP,
      bt_flags := F_NEEDS_EFFICIENT_UNALIGNED_ACCESS\<rparr>,
      no_test\<lparr>
      bt_descr := (''XDP pkt read, pkt_meta'' @ [CHR 0x27] @ '' <= pkt_data, bad access 1''),
      bt_insns :=
        [BPF_LDX_MEM BPF_W BPF_REG_2 BPF_REG_1 xdp_md_data_meta,
         BPF_LDX_MEM BPF_W BPF_REG_3 BPF_REG_1 xdp_md_data,
         BPF_MOV64_REG BPF_REG_1 BPF_REG_2,
         BPF_ALU64_IMM BPF_ADD BPF_REG_1 8,
         BPF_JMP_REG BPF_JLE BPF_REG_1 BPF_REG_3 1,
         BPF_JMP_IMM BPF_JA 0 0 1,
         BPF_LDX_MEM BPF_DW BPF_REG_0 BPF_REG_1 (-4),
         BPF_MOV64_IMM BPF_REG_0 0,
         BPF_EXIT_INSN],
      bt_errstr := Some ''R1 offset is outside of the packet'',
      bt_result := REJECT,
      bt_prog_type := BPF_PROG_TYPE_XDP,
      bt_flags := F_NEEDS_EFFICIENT_UNALIGNED_ACCESS\<rparr>,
      no_test\<lparr>
      bt_descr := (''XDP pkt read, pkt_meta'' @ [CHR 0x27] @ '' <= pkt_data, bad access 2''),
      bt_insns :=
        [BPF_LDX_MEM BPF_W BPF_REG_2 BPF_REG_1 xdp_md_data_meta,
         BPF_LDX_MEM BPF_W BPF_REG_3 BPF_REG_1 xdp_md_data,
         BPF_MOV64_REG BPF_REG_1 BPF_REG_2,
         BPF_ALU64_IMM BPF_ADD BPF_REG_1 8,
         BPF_JMP_REG BPF_JLE BPF_REG_1 BPF_REG_3 1,
         BPF_LDX_MEM BPF_DW BPF_REG_0 BPF_REG_1 (-8),
         BPF_MOV64_IMM BPF_REG_0 0,
         BPF_EXIT_INSN],
      bt_errstr := Some ''R1 offset is outside of the packet'',
      bt_result := REJECT,
      bt_prog_type := BPF_PROG_TYPE_XDP,
      bt_flags := F_NEEDS_EFFICIENT_UNALIGNED_ACCESS\<rparr>,
      no_test\<lparr>
      bt_descr := (''XDP pkt read, pkt_meta'' @ [CHR 0x27] @ '' <= pkt_data, corner case +1, good access''),
      bt_insns :=
        [BPF_LDX_MEM BPF_W BPF_REG_2 BPF_REG_1 xdp_md_data_meta,
         BPF_LDX_MEM BPF_W BPF_REG_3 BPF_REG_1 xdp_md_data,
         BPF_MOV64_REG BPF_REG_1 BPF_REG_2,
         BPF_ALU64_IMM BPF_ADD BPF_REG_1 9,
         BPF_JMP_REG BPF_JLE BPF_REG_1 BPF_REG_3 1,
         BPF_JMP_IMM BPF_JA 0 0 1,
         BPF_LDX_MEM BPF_DW BPF_REG_0 BPF_REG_1 (-9),
         BPF_MOV64_IMM BPF_REG_0 0,
         BPF_EXIT_INSN],
      bt_result := ACCEPT,
      bt_prog_type := BPF_PROG_TYPE_XDP,
      bt_flags := F_NEEDS_EFFICIENT_UNALIGNED_ACCESS\<rparr>,
      no_test\<lparr>
      bt_descr := (''XDP pkt read, pkt_meta'' @ [CHR 0x27] @ '' <= pkt_data, corner case -1, bad access''),
      bt_insns :=
        [BPF_LDX_MEM BPF_W BPF_REG_2 BPF_REG_1 xdp_md_data_meta,
         BPF_LDX_MEM BPF_W BPF_REG_3 BPF_REG_1 xdp_md_data,
         BPF_MOV64_REG BPF_REG_1 BPF_REG_2,
         BPF_ALU64_IMM BPF_ADD BPF_REG_1 7,
         BPF_JMP_REG BPF_JLE BPF_REG_1 BPF_REG_3 1,
         BPF_JMP_IMM BPF_JA 0 0 1,
         BPF_LDX_MEM BPF_DW BPF_REG_0 BPF_REG_1 (-7),
         BPF_MOV64_IMM BPF_REG_0 0,
         BPF_EXIT_INSN],
      bt_errstr := Some ''R1 offset is outside of the packet'',
      bt_result := REJECT,
      bt_prog_type := BPF_PROG_TYPE_XDP,
      bt_flags := F_NEEDS_EFFICIENT_UNALIGNED_ACCESS\<rparr>,
      no_test\<lparr>
      bt_descr := (''XDP pkt read, pkt_data <= pkt_meta'' @ [CHR 0x27] @ '', good access''),
      bt_insns :=
        [BPF_LDX_MEM BPF_W BPF_REG_2 BPF_REG_1 xdp_md_data_meta,
         BPF_LDX_MEM BPF_W BPF_REG_3 BPF_REG_1 xdp_md_data,
         BPF_MOV64_REG BPF_REG_1 BPF_REG_2,
         BPF_ALU64_IMM BPF_ADD BPF_REG_1 8,
         BPF_JMP_REG BPF_JLE BPF_REG_3 BPF_REG_1 1,
         BPF_LDX_MEM BPF_W BPF_REG_0 BPF_REG_1 (-5),
         BPF_MOV64_IMM BPF_REG_0 0,
         BPF_EXIT_INSN],
      bt_result := ACCEPT,
      bt_prog_type := BPF_PROG_TYPE_XDP,
      bt_flags := F_NEEDS_EFFICIENT_UNALIGNED_ACCESS\<rparr>,
      no_test\<lparr>
      bt_descr := (''XDP pkt read, pkt_data <= pkt_meta'' @ [CHR 0x27] @ '', corner case -1, bad access''),
      bt_insns :=
        [BPF_LDX_MEM BPF_W BPF_REG_2 BPF_REG_1 xdp_md_data_meta,
         BPF_LDX_MEM BPF_W BPF_REG_3 BPF_REG_1 xdp_md_data,
         BPF_MOV64_REG BPF_REG_1 BPF_REG_2,
         BPF_ALU64_IMM BPF_ADD BPF_REG_1 6,
         BPF_JMP_REG BPF_JLE BPF_REG_3 BPF_REG_1 1,
         BPF_LDX_MEM BPF_DW BPF_REG_0 BPF_REG_1 (-6),
         BPF_MOV64_IMM BPF_REG_0 0,
         BPF_EXIT_INSN],
      bt_errstr := Some ''R1 offset is outside of the packet'',
      bt_result := REJECT,
      bt_prog_type := BPF_PROG_TYPE_XDP,
      bt_flags := F_NEEDS_EFFICIENT_UNALIGNED_ACCESS\<rparr>,
      no_test\<lparr>
      bt_descr := (''XDP pkt read, pkt_data <= pkt_meta'' @ [CHR 0x27] @ '', bad access 2''),
      bt_insns :=
        [BPF_LDX_MEM BPF_W BPF_REG_2 BPF_REG_1 xdp_md_data_meta,
         BPF_LDX_MEM BPF_W BPF_REG_3 BPF_REG_1 xdp_md_data,
         BPF_MOV64_REG BPF_REG_1 BPF_REG_2,
         BPF_ALU64_IMM BPF_ADD BPF_REG_1 8,
         BPF_JMP_REG BPF_JLE BPF_REG_3 BPF_REG_1 0,
         BPF_LDX_MEM BPF_W BPF_REG_0 BPF_REG_1 (-5),
         BPF_MOV64_IMM BPF_REG_0 0,
         BPF_EXIT_INSN],
      bt_errstr := Some ''R1 offset is outside of the packet'',
      bt_result := REJECT,
      bt_prog_type := BPF_PROG_TYPE_XDP,
      bt_flags := F_NEEDS_EFFICIENT_UNALIGNED_ACCESS\<rparr>]"

definition xdp_tests_11 :: "bpf_test list" where
  "xdp_tests_11 =
     [no_test\<lparr>
      bt_descr := (''XDP pkt read, pkt_data <= pkt_meta'' @ [CHR 0x27] @ '', corner case, good access''),
      bt_insns :=
        [BPF_LDX_MEM BPF_W BPF_REG_2 BPF_REG_1 xdp_md_data_meta,
         BPF_LDX_MEM BPF_W BPF_REG_3 BPF_REG_1 xdp_md_data,
         BPF_MOV64_REG BPF_REG_1 BPF_REG_2,
         BPF_ALU64_IMM BPF_ADD BPF_REG_1 7,
         BPF_JMP_REG BPF_JLE BPF_REG_3 BPF_REG_1 1,
         BPF_LDX_MEM BPF_DW BPF_REG_0 BPF_REG_1 (-7),
         BPF_MOV64_IMM BPF_REG_0 0,
         BPF_EXIT_INSN],
      bt_result := ACCEPT,
      bt_prog_type := BPF_PROG_TYPE_XDP,
      bt_flags := F_NEEDS_EFFICIENT_UNALIGNED_ACCESS\<rparr>,
      no_test\<lparr>
      bt_descr := (''XDP pkt read, pkt_data <= pkt_meta'' @ [CHR 0x27] @ '', corner case +1, good access''),
      bt_insns :=
        [BPF_LDX_MEM BPF_W BPF_REG_2 BPF_REG_1 xdp_md_data_meta,
         BPF_LDX_MEM BPF_W BPF_REG_3 BPF_REG_1 xdp_md_data,
         BPF_MOV64_REG BPF_REG_1 BPF_REG_2,
         BPF_ALU64_IMM BPF_ADD BPF_REG_1 8,
         BPF_JMP_REG BPF_JLE BPF_REG_3 BPF_REG_1 1,
         BPF_LDX_MEM BPF_DW BPF_REG_0 BPF_REG_1 (-8),
         BPF_MOV64_IMM BPF_REG_0 0,
         BPF_EXIT_INSN],
      bt_result := ACCEPT,
      bt_prog_type := BPF_PROG_TYPE_XDP,
      bt_flags := F_NEEDS_EFFICIENT_UNALIGNED_ACCESS\<rparr>]"

definition xdp_direct_packet_access :: "bpf_test list" where
  "xdp_direct_packet_access =
     xdp_tests_1 @ xdp_tests_2 @ xdp_tests_3 @ xdp_tests_4 @ xdp_tests_5 @ xdp_tests_6 @
     xdp_tests_7 @ xdp_tests_8 @ xdp_tests_9 @ xdp_tests_10 @ xdp_tests_11"

section \<open>What they do\<close>

text \<open>The packets on which the rejected programs fail: no bytes, or one less than is read, or as many,
  of packet or of metadata. One rejected program is safe.\<close>

definition short_packets :: "inputs list" where
  "short_packets = [zeros 0 0, zeros 7 0, zeros 8 0, zeros 0 7, zeros 0 8]"

definition mangled_end :: string where
  "mangled_end = ''XDP pkt read, pkt_end mangling, bad access 2''"

definition judged_right :: "bpf_test list \<Rightarrow> bool" where
  "judged_right ts \<longleftrightarrow> (\<forall>t \<in> set ts.
     if bt_result t = ACCEPT \<or> bt_descr t = mangled_end then \<forall>i. returns (exec_test t i) (bt_retval t)
     else list_ex (\<lambda>i. exec_test t i = Some (Fault OutOfBounds)) short_packets)"

lemma judged_right_simps:
  "judged_right []"
  "judged_right (t # ts) \<longleftrightarrow>
     (if bt_result t = ACCEPT \<or> bt_descr t = mangled_end then \<forall>i. returns (exec_test t i) (bt_retval t)
      else list_ex (\<lambda>i. exec_test t i = Some (Fault OutOfBounds)) short_packets) \<and> judged_right ts"
  "judged_right (ts @ us) \<longleftrightarrow> judged_right ts \<and> judged_right us"
  by (auto simp: judged_right_def)

lemmas judge = judged_right_simps short_packets_def mangled_end_def

lemma xdp_tests_1_right: "judged_right xdp_tests_1"
  by (simp add: xdp_tests_1_def judge test_eval, simp add: run_eval zeros_def)

lemma xdp_tests_2_right: "judged_right xdp_tests_2"
  by (simp add: xdp_tests_2_def judge test_eval, simp add: run_eval zeros_def)

lemma xdp_tests_3_right: "judged_right xdp_tests_3"
  by (simp add: xdp_tests_3_def judge test_eval, simp add: run_eval zeros_def)

lemma xdp_tests_4_right: "judged_right xdp_tests_4"
  by (simp add: xdp_tests_4_def judge test_eval, simp add: run_eval zeros_def)

lemma xdp_tests_5_right: "judged_right xdp_tests_5"
  by (simp add: xdp_tests_5_def judge test_eval, simp add: run_eval zeros_def)

lemma xdp_tests_6_right: "judged_right xdp_tests_6"
  by (simp add: xdp_tests_6_def judge test_eval, simp add: run_eval zeros_def)

lemma xdp_tests_7_right: "judged_right xdp_tests_7"
  by (simp add: xdp_tests_7_def judge test_eval, simp add: run_eval zeros_def)

lemma xdp_tests_8_right: "judged_right xdp_tests_8"
  by (simp add: xdp_tests_8_def judge test_eval, simp add: run_eval zeros_def)

lemma xdp_tests_9_right: "judged_right xdp_tests_9"
  by (simp add: xdp_tests_9_def judge test_eval, simp add: run_eval zeros_def)

lemma xdp_tests_10_right: "judged_right xdp_tests_10"
  by (simp add: xdp_tests_10_def judge test_eval, simp add: run_eval zeros_def)

lemma xdp_tests_11_right: "judged_right xdp_tests_11"
  by (simp add: xdp_tests_11_def judge test_eval, simp add: run_eval zeros_def)

lemma xdp_right: "judged_right xdp_direct_packet_access"
  by (simp add: xdp_direct_packet_access_def judged_right_simps
      xdp_tests_1_right xdp_tests_2_right xdp_tests_3_right xdp_tests_4_right xdp_tests_5_right xdp_tests_6_right
      xdp_tests_7_right xdp_tests_8_right xdp_tests_9_right xdp_tests_10_right xdp_tests_11_right)

section \<open>Properties\<close>

text \<open>C21. Every program of the file that is to be accepted returns 0 on every packet, with any amount of
  metadata in front of it, and never reads outside the packet.\<close>

theorem xdp_accepted_safe:
  "\<forall>t \<in> set xdp_direct_packet_access. bt_result t = ACCEPT \<longrightarrow> (\<forall>i. returns (exec_test t i) (bt_retval t))"
  using xdp_right by (auto simp: judged_right_def)

theorem xdp_accepted_safe_witness: "returns (exec_test (xdp_tests_1 ! 2) (zeros 8 0)) 0"
proof -
  have "xdp_tests_1 ! 2 \<in> set xdp_direct_packet_access" "bt_result (xdp_tests_1 ! 2) = ACCEPT" "bt_retval (xdp_tests_1 ! 2) = 0"
    by (simp_all add: xdp_direct_packet_access_def xdp_tests_1_def no_test_def)
  then show ?thesis using xdp_accepted_safe by (metis (no_types))
qed

text \<open>C22. The file rejects no program for nothing, but one: every program that is to be rejected reads
  outside the packet for some packet, except \<open>pkt_end mangling, bad access 2\<close>, which moves \<open>data_end\<close>
  towards the start and is safe; it is rejected because arithmetic on \<open>data_end\<close> is.\<close>

theorem xdp_rejected_faults:
  "(\<forall>t \<in> set xdp_direct_packet_access. bt_result t = REJECT \<longrightarrow>
      (if bt_descr t = mangled_end then \<forall>i. returns (exec_test t i) (bt_retval t)
       else \<exists>i. exec_test t i = Some (Fault OutOfBounds)))"
  using xdp_right by (auto simp: judged_right_def list_ex_iff dest!: bspec)

theorem xdp_rejected_faults_witness:
  "returns (exec_test (xdp_tests_1 ! 1) (zeros 8 0)) 0 \<and> (\<exists>i. exec_test (xdp_tests_1 ! 0) i = Some (Fault OutOfBounds))"
proof -
  have "xdp_tests_1 ! 1 \<in> set xdp_direct_packet_access" "bt_result (xdp_tests_1 ! 1) = REJECT"
      "bt_descr (xdp_tests_1 ! 1) = mangled_end" "bt_retval (xdp_tests_1 ! 1) = 0"
    by (simp_all add: xdp_direct_packet_access_def xdp_tests_1_def no_test_def mangled_end_def)
  then have "returns (exec_test (xdp_tests_1 ! 1) (zeros 8 0)) 0" using xdp_rejected_faults by (metis (no_types))
  moreover have "xdp_tests_1 ! 0 \<in> set xdp_direct_packet_access" "bt_result (xdp_tests_1 ! 0) = REJECT"
      "bt_descr (xdp_tests_1 ! 0) \<noteq> mangled_end"
    by (simp_all add: xdp_direct_packet_access_def xdp_tests_1_def no_test_def mangled_end_def)
  then have "\<exists>i. exec_test (xdp_tests_1 ! 0) i = Some (Fault OutOfBounds)" using xdp_rejected_faults by (metis (no_types))
  ultimately show ?thesis by simp
qed

end
