(* ===== verification/Scalar_Tests.thy ===== *)
theory Scalar_Tests
  imports Legacy_Tests
begin

text \<open>
  The programs of five files under \<open>selftests/legacy/verifier\<close> that compute with numbers only:
  \<open>subreg.c\<close> (a 32-bit operation clears the upper half of its result), \<open>masking.c\<close> (the branch-free bounds
  mask), \<open>div0.c\<close> and \<open>div_overflow.c\<close> (division by zero and of the smallest number by -1) and
  \<open>basic_instr.c\<close> (shifts, multiplication by shift amounts, conversions of byte order). The one test of \<open>basic_instr.c\<close>
  whose instruction is written as a struct is left out.

  Shown here: lowered and run, each of them returns what its file says, whatever the random numbers
  it starts from.
\<close>

unbundle bit_operations_syntax

section \<open>The programs\<close>

subsection \<open>\<open>subreg.c\<close>\<close>

definition subreg_tests_1 :: "bpf_test list" where
  "subreg_tests_1 =
     [no_test\<lparr>
      bt_descr := ''add32 reg zero extend check'',
      bt_insns :=
        [BPF_RAW_INSN (BPF_JMP OR BPF_CALL) 0 0 0 BPF_FUNC_get_prandom_u32,
         BPF_MOV64_REG BPF_REG_1 BPF_REG_0] @
        BPF_LD_IMM64 BPF_REG_0 4294967296 @
        [BPF_ALU32_REG BPF_ADD BPF_REG_0 BPF_REG_1,
         BPF_ALU64_IMM BPF_RSH BPF_REG_0 32,
         BPF_EXIT_INSN],
      bt_result := ACCEPT,
      bt_retval := 0\<rparr>,
      no_test\<lparr>
      bt_descr := ''add32 imm zero extend check'',
      bt_insns :=
        [BPF_RAW_INSN (BPF_JMP OR BPF_CALL) 0 0 0 BPF_FUNC_get_prandom_u32] @
        BPF_LD_IMM64 BPF_REG_1 68719476736 @
        [BPF_ALU64_REG BPF_OR BPF_REG_0 BPF_REG_1,
         BPF_ALU32_IMM BPF_ADD BPF_REG_0 0,
         BPF_ALU64_IMM BPF_RSH BPF_REG_0 32,
         BPF_MOV64_REG BPF_REG_6 BPF_REG_0,
         BPF_RAW_INSN (BPF_JMP OR BPF_CALL) 0 0 0 BPF_FUNC_get_prandom_u32] @
        BPF_LD_IMM64 BPF_REG_1 68719476736 @
        [BPF_ALU64_REG BPF_OR BPF_REG_0 BPF_REG_1,
         BPF_ALU32_IMM BPF_ADD BPF_REG_0 (-2),
         BPF_ALU64_IMM BPF_RSH BPF_REG_0 32,
         BPF_ALU64_REG BPF_OR BPF_REG_0 BPF_REG_6,
         BPF_EXIT_INSN],
      bt_result := ACCEPT,
      bt_retval := 0\<rparr>,
      no_test\<lparr>
      bt_descr := ''sub32 reg zero extend check'',
      bt_insns :=
        [BPF_RAW_INSN (BPF_JMP OR BPF_CALL) 0 0 0 BPF_FUNC_get_prandom_u32,
         BPF_MOV64_REG BPF_REG_1 BPF_REG_0] @
        BPF_LD_IMM64 BPF_REG_0 8589934591 @
        [BPF_ALU32_REG BPF_SUB BPF_REG_0 BPF_REG_1,
         BPF_ALU64_IMM BPF_RSH BPF_REG_0 32,
         BPF_EXIT_INSN],
      bt_result := ACCEPT,
      bt_retval := 0\<rparr>,
      no_test\<lparr>
      bt_descr := ''sub32 imm zero extend check'',
      bt_insns :=
        [BPF_RAW_INSN (BPF_JMP OR BPF_CALL) 0 0 0 BPF_FUNC_get_prandom_u32] @
        BPF_LD_IMM64 BPF_REG_1 68719476736 @
        [BPF_ALU64_REG BPF_OR BPF_REG_0 BPF_REG_1,
         BPF_ALU32_IMM BPF_SUB BPF_REG_0 0,
         BPF_ALU64_IMM BPF_RSH BPF_REG_0 32,
         BPF_MOV64_REG BPF_REG_6 BPF_REG_0,
         BPF_RAW_INSN (BPF_JMP OR BPF_CALL) 0 0 0 BPF_FUNC_get_prandom_u32] @
        BPF_LD_IMM64 BPF_REG_1 68719476736 @
        [BPF_ALU64_REG BPF_OR BPF_REG_0 BPF_REG_1,
         BPF_ALU32_IMM BPF_SUB BPF_REG_0 1,
         BPF_ALU64_IMM BPF_RSH BPF_REG_0 32,
         BPF_ALU64_REG BPF_OR BPF_REG_0 BPF_REG_6,
         BPF_EXIT_INSN],
      bt_result := ACCEPT,
      bt_retval := 0\<rparr>,
      no_test\<lparr>
      bt_descr := ''mul32 reg zero extend check'',
      bt_insns :=
        [BPF_RAW_INSN (BPF_JMP OR BPF_CALL) 0 0 0 BPF_FUNC_get_prandom_u32,
         BPF_MOV64_REG BPF_REG_1 BPF_REG_0] @
        BPF_LD_IMM64 BPF_REG_0 4294967297 @
        [BPF_ALU32_REG BPF_MUL BPF_REG_0 BPF_REG_1,
         BPF_ALU64_IMM BPF_RSH BPF_REG_0 32,
         BPF_EXIT_INSN],
      bt_result := ACCEPT,
      bt_retval := 0\<rparr>,
      no_test\<lparr>
      bt_descr := ''mul32 imm zero extend check'',
      bt_insns :=
        [BPF_RAW_INSN (BPF_JMP OR BPF_CALL) 0 0 0 BPF_FUNC_get_prandom_u32] @
        BPF_LD_IMM64 BPF_REG_1 68719476736 @
        [BPF_ALU64_REG BPF_OR BPF_REG_0 BPF_REG_1,
         BPF_ALU32_IMM BPF_MUL BPF_REG_0 1,
         BPF_ALU64_IMM BPF_RSH BPF_REG_0 32,
         BPF_MOV64_REG BPF_REG_6 BPF_REG_0,
         BPF_RAW_INSN (BPF_JMP OR BPF_CALL) 0 0 0 BPF_FUNC_get_prandom_u32] @
        BPF_LD_IMM64 BPF_REG_1 68719476736 @
        [BPF_ALU64_REG BPF_OR BPF_REG_0 BPF_REG_1,
         BPF_ALU32_IMM BPF_MUL BPF_REG_0 (-1),
         BPF_ALU64_IMM BPF_RSH BPF_REG_0 32,
         BPF_ALU64_REG BPF_OR BPF_REG_0 BPF_REG_6,
         BPF_EXIT_INSN],
      bt_result := ACCEPT,
      bt_retval := 0\<rparr>,
      no_test\<lparr>
      bt_descr := ''div32 reg zero extend check'',
      bt_insns :=
        [BPF_RAW_INSN (BPF_JMP OR BPF_CALL) 0 0 0 BPF_FUNC_get_prandom_u32,
         BPF_MOV64_REG BPF_REG_1 BPF_REG_0,
         BPF_MOV64_IMM BPF_REG_0 (-1),
         BPF_ALU32_REG BPF_DIV BPF_REG_0 BPF_REG_1,
         BPF_ALU64_IMM BPF_RSH BPF_REG_0 32,
         BPF_EXIT_INSN],
      bt_result := ACCEPT,
      bt_retval := 0\<rparr>,
      no_test\<lparr>
      bt_descr := ''div32 imm zero extend check'',
      bt_insns :=
        [BPF_RAW_INSN (BPF_JMP OR BPF_CALL) 0 0 0 BPF_FUNC_get_prandom_u32] @
        BPF_LD_IMM64 BPF_REG_1 68719476736 @
        [BPF_ALU64_REG BPF_OR BPF_REG_0 BPF_REG_1,
         BPF_ALU32_IMM BPF_DIV BPF_REG_0 1,
         BPF_ALU64_IMM BPF_RSH BPF_REG_0 32,
         BPF_MOV64_REG BPF_REG_6 BPF_REG_0,
         BPF_RAW_INSN (BPF_JMP OR BPF_CALL) 0 0 0 BPF_FUNC_get_prandom_u32] @
        BPF_LD_IMM64 BPF_REG_1 68719476736 @
        [BPF_ALU64_REG BPF_OR BPF_REG_0 BPF_REG_1,
         BPF_ALU32_IMM BPF_DIV BPF_REG_0 2,
         BPF_ALU64_IMM BPF_RSH BPF_REG_0 32,
         BPF_ALU64_REG BPF_OR BPF_REG_0 BPF_REG_6,
         BPF_EXIT_INSN],
      bt_result := ACCEPT,
      bt_retval := 0\<rparr>]"

definition subreg_tests_2 :: "bpf_test list" where
  "subreg_tests_2 =
     [no_test\<lparr>
      bt_descr := ''or32 reg zero extend check'',
      bt_insns :=
        [BPF_RAW_INSN (BPF_JMP OR BPF_CALL) 0 0 0 BPF_FUNC_get_prandom_u32,
         BPF_MOV64_REG BPF_REG_1 BPF_REG_0] @
        BPF_LD_IMM64 BPF_REG_0 4294967297 @
        [BPF_ALU32_REG BPF_OR BPF_REG_0 BPF_REG_1,
         BPF_ALU64_IMM BPF_RSH BPF_REG_0 32,
         BPF_EXIT_INSN],
      bt_result := ACCEPT,
      bt_retval := 0\<rparr>,
      no_test\<lparr>
      bt_descr := ''or32 imm zero extend check'',
      bt_insns :=
        [BPF_RAW_INSN (BPF_JMP OR BPF_CALL) 0 0 0 BPF_FUNC_get_prandom_u32] @
        BPF_LD_IMM64 BPF_REG_1 68719476736 @
        [BPF_ALU64_REG BPF_OR BPF_REG_0 BPF_REG_1,
         BPF_ALU32_IMM BPF_OR BPF_REG_0 0,
         BPF_ALU64_IMM BPF_RSH BPF_REG_0 32,
         BPF_MOV64_REG BPF_REG_6 BPF_REG_0,
         BPF_RAW_INSN (BPF_JMP OR BPF_CALL) 0 0 0 BPF_FUNC_get_prandom_u32] @
        BPF_LD_IMM64 BPF_REG_1 68719476736 @
        [BPF_ALU64_REG BPF_OR BPF_REG_0 BPF_REG_1,
         BPF_ALU32_IMM BPF_OR BPF_REG_0 1,
         BPF_ALU64_IMM BPF_RSH BPF_REG_0 32,
         BPF_ALU64_REG BPF_OR BPF_REG_0 BPF_REG_6,
         BPF_EXIT_INSN],
      bt_result := ACCEPT,
      bt_retval := 0\<rparr>,
      no_test\<lparr>
      bt_descr := ''and32 reg zero extend check'',
      bt_insns :=
        [BPF_RAW_INSN (BPF_JMP OR BPF_CALL) 0 0 0 BPF_FUNC_get_prandom_u32] @
        BPF_LD_IMM64 BPF_REG_1 4294967296 @
        [BPF_ALU64_REG BPF_OR BPF_REG_1 BPF_REG_0] @
        BPF_LD_IMM64 BPF_REG_0 8589934591 @
        [BPF_ALU32_REG BPF_AND BPF_REG_0 BPF_REG_1,
         BPF_ALU64_IMM BPF_RSH BPF_REG_0 32,
         BPF_EXIT_INSN],
      bt_result := ACCEPT,
      bt_retval := 0\<rparr>,
      no_test\<lparr>
      bt_descr := ''and32 imm zero extend check'',
      bt_insns :=
        [BPF_RAW_INSN (BPF_JMP OR BPF_CALL) 0 0 0 BPF_FUNC_get_prandom_u32] @
        BPF_LD_IMM64 BPF_REG_1 68719476736 @
        [BPF_ALU64_REG BPF_OR BPF_REG_0 BPF_REG_1,
         BPF_ALU32_IMM BPF_AND BPF_REG_0 (-1),
         BPF_ALU64_IMM BPF_RSH BPF_REG_0 32,
         BPF_MOV64_REG BPF_REG_6 BPF_REG_0,
         BPF_RAW_INSN (BPF_JMP OR BPF_CALL) 0 0 0 BPF_FUNC_get_prandom_u32] @
        BPF_LD_IMM64 BPF_REG_1 68719476736 @
        [BPF_ALU64_REG BPF_OR BPF_REG_0 BPF_REG_1,
         BPF_ALU32_IMM BPF_AND BPF_REG_0 (-2),
         BPF_ALU64_IMM BPF_RSH BPF_REG_0 32,
         BPF_ALU64_REG BPF_OR BPF_REG_0 BPF_REG_6,
         BPF_EXIT_INSN],
      bt_result := ACCEPT,
      bt_retval := 0\<rparr>,
      no_test\<lparr>
      bt_descr := ''lsh32 reg zero extend check'',
      bt_insns :=
        [BPF_RAW_INSN (BPF_JMP OR BPF_CALL) 0 0 0 BPF_FUNC_get_prandom_u32] @
        BPF_LD_IMM64 BPF_REG_1 4294967296 @
        [BPF_ALU64_REG BPF_OR BPF_REG_0 BPF_REG_1,
         BPF_MOV64_IMM BPF_REG_1 1,
         BPF_ALU32_REG BPF_LSH BPF_REG_0 BPF_REG_1,
         BPF_ALU64_IMM BPF_RSH BPF_REG_0 32,
         BPF_EXIT_INSN],
      bt_result := ACCEPT,
      bt_retval := 0\<rparr>,
      no_test\<lparr>
      bt_descr := ''lsh32 imm zero extend check'',
      bt_insns :=
        [BPF_RAW_INSN (BPF_JMP OR BPF_CALL) 0 0 0 BPF_FUNC_get_prandom_u32] @
        BPF_LD_IMM64 BPF_REG_1 68719476736 @
        [BPF_ALU64_REG BPF_OR BPF_REG_0 BPF_REG_1,
         BPF_ALU32_IMM BPF_LSH BPF_REG_0 0,
         BPF_ALU64_IMM BPF_RSH BPF_REG_0 32,
         BPF_MOV64_REG BPF_REG_6 BPF_REG_0,
         BPF_RAW_INSN (BPF_JMP OR BPF_CALL) 0 0 0 BPF_FUNC_get_prandom_u32] @
        BPF_LD_IMM64 BPF_REG_1 68719476736 @
        [BPF_ALU64_REG BPF_OR BPF_REG_0 BPF_REG_1,
         BPF_ALU32_IMM BPF_LSH BPF_REG_0 1,
         BPF_ALU64_IMM BPF_RSH BPF_REG_0 32,
         BPF_ALU64_REG BPF_OR BPF_REG_0 BPF_REG_6,
         BPF_EXIT_INSN],
      bt_result := ACCEPT,
      bt_retval := 0\<rparr>,
      no_test\<lparr>
      bt_descr := ''rsh32 reg zero extend check'',
      bt_insns :=
        [BPF_RAW_INSN (BPF_JMP OR BPF_CALL) 0 0 0 BPF_FUNC_get_prandom_u32] @
        BPF_LD_IMM64 BPF_REG_1 68719476736 @
        [BPF_ALU64_REG BPF_OR BPF_REG_0 BPF_REG_1,
         BPF_MOV64_IMM BPF_REG_1 1,
         BPF_ALU32_REG BPF_RSH BPF_REG_0 BPF_REG_1,
         BPF_ALU64_IMM BPF_RSH BPF_REG_0 32,
         BPF_EXIT_INSN],
      bt_result := ACCEPT,
      bt_retval := 0\<rparr>,
      no_test\<lparr>
      bt_descr := ''rsh32 imm zero extend check'',
      bt_insns :=
        [BPF_RAW_INSN (BPF_JMP OR BPF_CALL) 0 0 0 BPF_FUNC_get_prandom_u32] @
        BPF_LD_IMM64 BPF_REG_1 68719476736 @
        [BPF_ALU64_REG BPF_OR BPF_REG_0 BPF_REG_1,
         BPF_ALU32_IMM BPF_RSH BPF_REG_0 0,
         BPF_ALU64_IMM BPF_RSH BPF_REG_0 32,
         BPF_MOV64_REG BPF_REG_6 BPF_REG_0,
         BPF_RAW_INSN (BPF_JMP OR BPF_CALL) 0 0 0 BPF_FUNC_get_prandom_u32] @
        BPF_LD_IMM64 BPF_REG_1 68719476736 @
        [BPF_ALU64_REG BPF_OR BPF_REG_0 BPF_REG_1,
         BPF_ALU32_IMM BPF_RSH BPF_REG_0 1,
         BPF_ALU64_IMM BPF_RSH BPF_REG_0 32,
         BPF_ALU64_REG BPF_OR BPF_REG_0 BPF_REG_6,
         BPF_EXIT_INSN],
      bt_result := ACCEPT,
      bt_retval := 0\<rparr>,
      no_test\<lparr>
      bt_descr := ''neg32 reg zero extend check'',
      bt_insns :=
        [BPF_RAW_INSN (BPF_JMP OR BPF_CALL) 0 0 0 BPF_FUNC_get_prandom_u32] @
        BPF_LD_IMM64 BPF_REG_1 68719476736 @
        [BPF_ALU64_REG BPF_OR BPF_REG_0 BPF_REG_1,
         BPF_ALU32_IMM BPF_NEG BPF_REG_0 0,
         BPF_ALU64_IMM BPF_RSH BPF_REG_0 32,
         BPF_EXIT_INSN],
      bt_result := ACCEPT,
      bt_retval := 0\<rparr>]"

definition subreg_tests_3 :: "bpf_test list" where
  "subreg_tests_3 =
     [no_test\<lparr>
      bt_descr := ''mod32 reg zero extend check'',
      bt_insns :=
        [BPF_RAW_INSN (BPF_JMP OR BPF_CALL) 0 0 0 BPF_FUNC_get_prandom_u32,
         BPF_MOV64_REG BPF_REG_1 BPF_REG_0,
         BPF_MOV64_IMM BPF_REG_0 (-1),
         BPF_ALU32_REG BPF_MOD BPF_REG_0 BPF_REG_1,
         BPF_ALU64_IMM BPF_RSH BPF_REG_0 32,
         BPF_EXIT_INSN],
      bt_result := ACCEPT,
      bt_retval := 0\<rparr>,
      no_test\<lparr>
      bt_descr := ''mod32 imm zero extend check'',
      bt_insns :=
        [BPF_RAW_INSN (BPF_JMP OR BPF_CALL) 0 0 0 BPF_FUNC_get_prandom_u32] @
        BPF_LD_IMM64 BPF_REG_1 68719476736 @
        [BPF_ALU64_REG BPF_OR BPF_REG_0 BPF_REG_1,
         BPF_ALU32_IMM BPF_MOD BPF_REG_0 1,
         BPF_ALU64_IMM BPF_RSH BPF_REG_0 32,
         BPF_MOV64_REG BPF_REG_6 BPF_REG_0,
         BPF_RAW_INSN (BPF_JMP OR BPF_CALL) 0 0 0 BPF_FUNC_get_prandom_u32] @
        BPF_LD_IMM64 BPF_REG_1 68719476736 @
        [BPF_ALU64_REG BPF_OR BPF_REG_0 BPF_REG_1,
         BPF_ALU32_IMM BPF_MOD BPF_REG_0 2,
         BPF_ALU64_IMM BPF_RSH BPF_REG_0 32,
         BPF_ALU64_REG BPF_OR BPF_REG_0 BPF_REG_6,
         BPF_EXIT_INSN],
      bt_result := ACCEPT,
      bt_retval := 0\<rparr>,
      no_test\<lparr>
      bt_descr := ''xor32 reg zero extend check'',
      bt_insns :=
        [BPF_RAW_INSN (BPF_JMP OR BPF_CALL) 0 0 0 BPF_FUNC_get_prandom_u32,
         BPF_MOV64_REG BPF_REG_1 BPF_REG_0] @
        BPF_LD_IMM64 BPF_REG_0 4294967296 @
        [BPF_ALU32_REG BPF_XOR BPF_REG_0 BPF_REG_1,
         BPF_ALU64_IMM BPF_RSH BPF_REG_0 32,
         BPF_EXIT_INSN],
      bt_result := ACCEPT,
      bt_retval := 0\<rparr>,
      no_test\<lparr>
      bt_descr := ''xor32 imm zero extend check'',
      bt_insns :=
        [BPF_RAW_INSN (BPF_JMP OR BPF_CALL) 0 0 0 BPF_FUNC_get_prandom_u32] @
        BPF_LD_IMM64 BPF_REG_1 68719476736 @
        [BPF_ALU64_REG BPF_OR BPF_REG_0 BPF_REG_1,
         BPF_ALU32_IMM BPF_XOR BPF_REG_0 1,
         BPF_ALU64_IMM BPF_RSH BPF_REG_0 32,
         BPF_EXIT_INSN],
      bt_result := ACCEPT,
      bt_retval := 0\<rparr>,
      no_test\<lparr>
      bt_descr := ''mov32 reg zero extend check'',
      bt_insns :=
        [BPF_RAW_INSN (BPF_JMP OR BPF_CALL) 0 0 0 BPF_FUNC_get_prandom_u32] @
        BPF_LD_IMM64 BPF_REG_1 4294967296 @
        [BPF_ALU64_REG BPF_OR BPF_REG_1 BPF_REG_0] @
        BPF_LD_IMM64 BPF_REG_0 4294967296 @
        [BPF_MOV32_REG BPF_REG_0 BPF_REG_1,
         BPF_ALU64_IMM BPF_RSH BPF_REG_0 32,
         BPF_EXIT_INSN],
      bt_result := ACCEPT,
      bt_retval := 0\<rparr>,
      no_test\<lparr>
      bt_descr := ''mov32 imm zero extend check'',
      bt_insns :=
        [BPF_RAW_INSN (BPF_JMP OR BPF_CALL) 0 0 0 BPF_FUNC_get_prandom_u32] @
        BPF_LD_IMM64 BPF_REG_1 68719476736 @
        [BPF_ALU64_REG BPF_OR BPF_REG_0 BPF_REG_1,
         BPF_MOV32_IMM BPF_REG_0 0,
         BPF_ALU64_IMM BPF_RSH BPF_REG_0 32,
         BPF_MOV64_REG BPF_REG_6 BPF_REG_0,
         BPF_RAW_INSN (BPF_JMP OR BPF_CALL) 0 0 0 BPF_FUNC_get_prandom_u32] @
        BPF_LD_IMM64 BPF_REG_1 68719476736 @
        [BPF_ALU64_REG BPF_OR BPF_REG_0 BPF_REG_1,
         BPF_MOV32_IMM BPF_REG_0 1,
         BPF_ALU64_IMM BPF_RSH BPF_REG_0 32,
         BPF_ALU64_REG BPF_OR BPF_REG_0 BPF_REG_6,
         BPF_EXIT_INSN],
      bt_result := ACCEPT,
      bt_retval := 0\<rparr>,
      no_test\<lparr>
      bt_descr := ''arsh32 reg zero extend check'',
      bt_insns :=
        [BPF_RAW_INSN (BPF_JMP OR BPF_CALL) 0 0 0 BPF_FUNC_get_prandom_u32] @
        BPF_LD_IMM64 BPF_REG_1 68719476736 @
        [BPF_ALU64_REG BPF_OR BPF_REG_0 BPF_REG_1,
         BPF_MOV64_IMM BPF_REG_1 1,
         BPF_ALU32_REG BPF_ARSH BPF_REG_0 BPF_REG_1,
         BPF_ALU64_IMM BPF_RSH BPF_REG_0 32,
         BPF_EXIT_INSN],
      bt_result := ACCEPT,
      bt_retval := 0\<rparr>,
      no_test\<lparr>
      bt_descr := ''arsh32 imm zero extend check'',
      bt_insns :=
        [BPF_RAW_INSN (BPF_JMP OR BPF_CALL) 0 0 0 BPF_FUNC_get_prandom_u32] @
        BPF_LD_IMM64 BPF_REG_1 68719476736 @
        [BPF_ALU64_REG BPF_OR BPF_REG_0 BPF_REG_1,
         BPF_ALU32_IMM BPF_ARSH BPF_REG_0 0,
         BPF_ALU64_IMM BPF_RSH BPF_REG_0 32,
         BPF_MOV64_REG BPF_REG_6 BPF_REG_0,
         BPF_RAW_INSN (BPF_JMP OR BPF_CALL) 0 0 0 BPF_FUNC_get_prandom_u32] @
        BPF_LD_IMM64 BPF_REG_1 68719476736 @
        [BPF_ALU64_REG BPF_OR BPF_REG_0 BPF_REG_1,
         BPF_ALU32_IMM BPF_ARSH BPF_REG_0 1,
         BPF_ALU64_IMM BPF_RSH BPF_REG_0 32,
         BPF_ALU64_REG BPF_OR BPF_REG_0 BPF_REG_6,
         BPF_EXIT_INSN],
      bt_result := ACCEPT,
      bt_retval := 0\<rparr>,
      no_test\<lparr>
      bt_descr := ''end16 (to_le) reg zero extend check'',
      bt_insns :=
        [BPF_RAW_INSN (BPF_JMP OR BPF_CALL) 0 0 0 BPF_FUNC_get_prandom_u32,
         BPF_MOV64_REG BPF_REG_6 BPF_REG_0,
         BPF_ALU64_IMM BPF_LSH BPF_REG_6 32,
         BPF_RAW_INSN (BPF_JMP OR BPF_CALL) 0 0 0 BPF_FUNC_get_prandom_u32,
         BPF_ALU64_REG BPF_OR BPF_REG_0 BPF_REG_6,
         BPF_ENDIAN BPF_TO_LE BPF_REG_0 16,
         BPF_ALU64_IMM BPF_RSH BPF_REG_0 32,
         BPF_EXIT_INSN],
      bt_result := ACCEPT,
      bt_retval := 0\<rparr>]"

definition subreg_tests_4 :: "bpf_test list" where
  "subreg_tests_4 =
     [no_test\<lparr>
      bt_descr := ''end32 (to_le) reg zero extend check'',
      bt_insns :=
        [BPF_RAW_INSN (BPF_JMP OR BPF_CALL) 0 0 0 BPF_FUNC_get_prandom_u32,
         BPF_MOV64_REG BPF_REG_6 BPF_REG_0,
         BPF_ALU64_IMM BPF_LSH BPF_REG_6 32,
         BPF_RAW_INSN (BPF_JMP OR BPF_CALL) 0 0 0 BPF_FUNC_get_prandom_u32,
         BPF_ALU64_REG BPF_OR BPF_REG_0 BPF_REG_6,
         BPF_ENDIAN BPF_TO_LE BPF_REG_0 32,
         BPF_ALU64_IMM BPF_RSH BPF_REG_0 32,
         BPF_EXIT_INSN],
      bt_result := ACCEPT,
      bt_retval := 0\<rparr>,
      no_test\<lparr>
      bt_descr := ''end16 (to_be) reg zero extend check'',
      bt_insns :=
        [BPF_RAW_INSN (BPF_JMP OR BPF_CALL) 0 0 0 BPF_FUNC_get_prandom_u32,
         BPF_MOV64_REG BPF_REG_6 BPF_REG_0,
         BPF_ALU64_IMM BPF_LSH BPF_REG_6 32,
         BPF_RAW_INSN (BPF_JMP OR BPF_CALL) 0 0 0 BPF_FUNC_get_prandom_u32,
         BPF_ALU64_REG BPF_OR BPF_REG_0 BPF_REG_6,
         BPF_ENDIAN BPF_TO_BE BPF_REG_0 16,
         BPF_ALU64_IMM BPF_RSH BPF_REG_0 32,
         BPF_EXIT_INSN],
      bt_result := ACCEPT,
      bt_retval := 0\<rparr>,
      no_test\<lparr>
      bt_descr := ''end32 (to_be) reg zero extend check'',
      bt_insns :=
        [BPF_RAW_INSN (BPF_JMP OR BPF_CALL) 0 0 0 BPF_FUNC_get_prandom_u32,
         BPF_MOV64_REG BPF_REG_6 BPF_REG_0,
         BPF_ALU64_IMM BPF_LSH BPF_REG_6 32,
         BPF_RAW_INSN (BPF_JMP OR BPF_CALL) 0 0 0 BPF_FUNC_get_prandom_u32,
         BPF_ALU64_REG BPF_OR BPF_REG_0 BPF_REG_6,
         BPF_ENDIAN BPF_TO_BE BPF_REG_0 32,
         BPF_ALU64_IMM BPF_RSH BPF_REG_0 32,
         BPF_EXIT_INSN],
      bt_result := ACCEPT,
      bt_retval := 0\<rparr>,
      no_test\<lparr>
      bt_descr := ''ldx_b zero extend check'',
      bt_insns :=
        [BPF_MOV64_REG BPF_REG_6 BPF_REG_10,
         BPF_ALU64_IMM BPF_ADD BPF_REG_6 (-4),
         BPF_ST_MEM BPF_W BPF_REG_6 0 0xfaceb00c,
         BPF_RAW_INSN (BPF_JMP OR BPF_CALL) 0 0 0 BPF_FUNC_get_prandom_u32] @
        BPF_LD_IMM64 BPF_REG_1 68719476736 @
        [BPF_ALU64_REG BPF_OR BPF_REG_0 BPF_REG_1,
         BPF_LDX_MEM BPF_B BPF_REG_0 BPF_REG_6 0,
         BPF_ALU64_IMM BPF_RSH BPF_REG_0 32,
         BPF_EXIT_INSN],
      bt_result := ACCEPT,
      bt_retval := 0\<rparr>,
      no_test\<lparr>
      bt_descr := ''ldx_h zero extend check'',
      bt_insns :=
        [BPF_MOV64_REG BPF_REG_6 BPF_REG_10,
         BPF_ALU64_IMM BPF_ADD BPF_REG_6 (-4),
         BPF_ST_MEM BPF_W BPF_REG_6 0 0xfaceb00c,
         BPF_RAW_INSN (BPF_JMP OR BPF_CALL) 0 0 0 BPF_FUNC_get_prandom_u32] @
        BPF_LD_IMM64 BPF_REG_1 68719476736 @
        [BPF_ALU64_REG BPF_OR BPF_REG_0 BPF_REG_1,
         BPF_LDX_MEM BPF_H BPF_REG_0 BPF_REG_6 0,
         BPF_ALU64_IMM BPF_RSH BPF_REG_0 32,
         BPF_EXIT_INSN],
      bt_result := ACCEPT,
      bt_retval := 0\<rparr>,
      no_test\<lparr>
      bt_descr := ''ldx_w zero extend check'',
      bt_insns :=
        [BPF_MOV64_REG BPF_REG_6 BPF_REG_10,
         BPF_ALU64_IMM BPF_ADD BPF_REG_6 (-4),
         BPF_ST_MEM BPF_W BPF_REG_6 0 0xfaceb00c,
         BPF_RAW_INSN (BPF_JMP OR BPF_CALL) 0 0 0 BPF_FUNC_get_prandom_u32] @
        BPF_LD_IMM64 BPF_REG_1 68719476736 @
        [BPF_ALU64_REG BPF_OR BPF_REG_0 BPF_REG_1,
         BPF_LDX_MEM BPF_W BPF_REG_0 BPF_REG_6 0,
         BPF_ALU64_IMM BPF_RSH BPF_REG_0 32,
         BPF_EXIT_INSN],
      bt_result := ACCEPT,
      bt_retval := 0\<rparr>]"

subsection \<open>\<open>masking.c\<close>\<close>

definition masking_tests_1 :: "bpf_test list" where
  "masking_tests_1 =
     [no_test\<lparr>
      bt_descr := ''masking, test out of bounds 1'',
      bt_insns :=
        [BPF_MOV32_IMM BPF_REG_1 5,
         BPF_MOV32_IMM BPF_REG_2 4,
         BPF_ALU64_REG BPF_SUB BPF_REG_2 BPF_REG_1,
         BPF_ALU64_REG BPF_OR BPF_REG_2 BPF_REG_1,
         BPF_ALU64_IMM BPF_NEG BPF_REG_2 0,
         BPF_ALU64_IMM BPF_ARSH BPF_REG_2 63,
         BPF_ALU64_REG BPF_AND BPF_REG_1 BPF_REG_2,
         BPF_MOV64_REG BPF_REG_0 BPF_REG_1,
         BPF_EXIT_INSN],
      bt_result := ACCEPT,
      bt_retval := 0\<rparr>,
      no_test\<lparr>
      bt_descr := ''masking, test out of bounds 2'',
      bt_insns :=
        [BPF_MOV32_IMM BPF_REG_1 1,
         BPF_MOV32_IMM BPF_REG_2 0,
         BPF_ALU64_REG BPF_SUB BPF_REG_2 BPF_REG_1,
         BPF_ALU64_REG BPF_OR BPF_REG_2 BPF_REG_1,
         BPF_ALU64_IMM BPF_NEG BPF_REG_2 0,
         BPF_ALU64_IMM BPF_ARSH BPF_REG_2 63,
         BPF_ALU64_REG BPF_AND BPF_REG_1 BPF_REG_2,
         BPF_MOV64_REG BPF_REG_0 BPF_REG_1,
         BPF_EXIT_INSN],
      bt_result := ACCEPT,
      bt_retval := 0\<rparr>,
      no_test\<lparr>
      bt_descr := ''masking, test out of bounds 3'',
      bt_insns :=
        [BPF_MOV32_IMM BPF_REG_1 0xffffffff,
         BPF_MOV32_IMM BPF_REG_2 4294967294,
         BPF_ALU64_REG BPF_SUB BPF_REG_2 BPF_REG_1,
         BPF_ALU64_REG BPF_OR BPF_REG_2 BPF_REG_1,
         BPF_ALU64_IMM BPF_NEG BPF_REG_2 0,
         BPF_ALU64_IMM BPF_ARSH BPF_REG_2 63,
         BPF_ALU64_REG BPF_AND BPF_REG_1 BPF_REG_2,
         BPF_MOV64_REG BPF_REG_0 BPF_REG_1,
         BPF_EXIT_INSN],
      bt_result := ACCEPT,
      bt_retval := 0\<rparr>,
      no_test\<lparr>
      bt_descr := ''masking, test out of bounds 4'',
      bt_insns :=
        [BPF_MOV32_IMM BPF_REG_1 0xffffffff,
         BPF_MOV32_IMM BPF_REG_2 0,
         BPF_ALU64_REG BPF_SUB BPF_REG_2 BPF_REG_1,
         BPF_ALU64_REG BPF_OR BPF_REG_2 BPF_REG_1,
         BPF_ALU64_IMM BPF_NEG BPF_REG_2 0,
         BPF_ALU64_IMM BPF_ARSH BPF_REG_2 63,
         BPF_ALU64_REG BPF_AND BPF_REG_1 BPF_REG_2,
         BPF_MOV64_REG BPF_REG_0 BPF_REG_1,
         BPF_EXIT_INSN],
      bt_result := ACCEPT,
      bt_retval := 0\<rparr>,
      no_test\<lparr>
      bt_descr := ''masking, test out of bounds 5'',
      bt_insns :=
        [BPF_MOV32_IMM BPF_REG_1 (-1),
         BPF_MOV32_IMM BPF_REG_2 0,
         BPF_ALU64_REG BPF_SUB BPF_REG_2 BPF_REG_1,
         BPF_ALU64_REG BPF_OR BPF_REG_2 BPF_REG_1,
         BPF_ALU64_IMM BPF_NEG BPF_REG_2 0,
         BPF_ALU64_IMM BPF_ARSH BPF_REG_2 63,
         BPF_ALU64_REG BPF_AND BPF_REG_1 BPF_REG_2,
         BPF_MOV64_REG BPF_REG_0 BPF_REG_1,
         BPF_EXIT_INSN],
      bt_result := ACCEPT,
      bt_retval := 0\<rparr>,
      no_test\<lparr>
      bt_descr := ''masking, test out of bounds 6'',
      bt_insns :=
        [BPF_MOV32_IMM BPF_REG_1 (-1),
         BPF_MOV32_IMM BPF_REG_2 4294967294,
         BPF_ALU64_REG BPF_SUB BPF_REG_2 BPF_REG_1,
         BPF_ALU64_REG BPF_OR BPF_REG_2 BPF_REG_1,
         BPF_ALU64_IMM BPF_NEG BPF_REG_2 0,
         BPF_ALU64_IMM BPF_ARSH BPF_REG_2 63,
         BPF_ALU64_REG BPF_AND BPF_REG_1 BPF_REG_2,
         BPF_MOV64_REG BPF_REG_0 BPF_REG_1,
         BPF_EXIT_INSN],
      bt_result := ACCEPT,
      bt_retval := 0\<rparr>,
      no_test\<lparr>
      bt_descr := ''masking, test out of bounds 7'',
      bt_insns :=
        [BPF_MOV64_IMM BPF_REG_1 5,
         BPF_MOV32_IMM BPF_REG_2 4,
         BPF_ALU64_REG BPF_SUB BPF_REG_2 BPF_REG_1,
         BPF_ALU64_REG BPF_OR BPF_REG_2 BPF_REG_1,
         BPF_ALU64_IMM BPF_NEG BPF_REG_2 0,
         BPF_ALU64_IMM BPF_ARSH BPF_REG_2 63,
         BPF_ALU64_REG BPF_AND BPF_REG_1 BPF_REG_2,
         BPF_MOV64_REG BPF_REG_0 BPF_REG_1,
         BPF_EXIT_INSN],
      bt_result := ACCEPT,
      bt_retval := 0\<rparr>,
      no_test\<lparr>
      bt_descr := ''masking, test out of bounds 8'',
      bt_insns :=
        [BPF_MOV64_IMM BPF_REG_1 1,
         BPF_MOV32_IMM BPF_REG_2 0,
         BPF_ALU64_REG BPF_SUB BPF_REG_2 BPF_REG_1,
         BPF_ALU64_REG BPF_OR BPF_REG_2 BPF_REG_1,
         BPF_ALU64_IMM BPF_NEG BPF_REG_2 0,
         BPF_ALU64_IMM BPF_ARSH BPF_REG_2 63,
         BPF_ALU64_REG BPF_AND BPF_REG_1 BPF_REG_2,
         BPF_MOV64_REG BPF_REG_0 BPF_REG_1,
         BPF_EXIT_INSN],
      bt_result := ACCEPT,
      bt_retval := 0\<rparr>,
      no_test\<lparr>
      bt_descr := ''masking, test out of bounds 9'',
      bt_insns :=
        [BPF_MOV64_IMM BPF_REG_1 0xffffffff,
         BPF_MOV32_IMM BPF_REG_2 4294967294,
         BPF_ALU64_REG BPF_SUB BPF_REG_2 BPF_REG_1,
         BPF_ALU64_REG BPF_OR BPF_REG_2 BPF_REG_1,
         BPF_ALU64_IMM BPF_NEG BPF_REG_2 0,
         BPF_ALU64_IMM BPF_ARSH BPF_REG_2 63,
         BPF_ALU64_REG BPF_AND BPF_REG_1 BPF_REG_2,
         BPF_MOV64_REG BPF_REG_0 BPF_REG_1,
         BPF_EXIT_INSN],
      bt_result := ACCEPT,
      bt_retval := 0\<rparr>]"

definition masking_tests_2 :: "bpf_test list" where
  "masking_tests_2 =
     [no_test\<lparr>
      bt_descr := ''masking, test out of bounds 10'',
      bt_insns :=
        [BPF_MOV64_IMM BPF_REG_1 0xffffffff,
         BPF_MOV32_IMM BPF_REG_2 0,
         BPF_ALU64_REG BPF_SUB BPF_REG_2 BPF_REG_1,
         BPF_ALU64_REG BPF_OR BPF_REG_2 BPF_REG_1,
         BPF_ALU64_IMM BPF_NEG BPF_REG_2 0,
         BPF_ALU64_IMM BPF_ARSH BPF_REG_2 63,
         BPF_ALU64_REG BPF_AND BPF_REG_1 BPF_REG_2,
         BPF_MOV64_REG BPF_REG_0 BPF_REG_1,
         BPF_EXIT_INSN],
      bt_result := ACCEPT,
      bt_retval := 0\<rparr>,
      no_test\<lparr>
      bt_descr := ''masking, test out of bounds 11'',
      bt_insns :=
        [BPF_MOV64_IMM BPF_REG_1 (-1),
         BPF_MOV32_IMM BPF_REG_2 0,
         BPF_ALU64_REG BPF_SUB BPF_REG_2 BPF_REG_1,
         BPF_ALU64_REG BPF_OR BPF_REG_2 BPF_REG_1,
         BPF_ALU64_IMM BPF_NEG BPF_REG_2 0,
         BPF_ALU64_IMM BPF_ARSH BPF_REG_2 63,
         BPF_ALU64_REG BPF_AND BPF_REG_1 BPF_REG_2,
         BPF_MOV64_REG BPF_REG_0 BPF_REG_1,
         BPF_EXIT_INSN],
      bt_result := ACCEPT,
      bt_retval := 0\<rparr>,
      no_test\<lparr>
      bt_descr := ''masking, test out of bounds 12'',
      bt_insns :=
        [BPF_MOV64_IMM BPF_REG_1 (-1),
         BPF_MOV32_IMM BPF_REG_2 4294967294,
         BPF_ALU64_REG BPF_SUB BPF_REG_2 BPF_REG_1,
         BPF_ALU64_REG BPF_OR BPF_REG_2 BPF_REG_1,
         BPF_ALU64_IMM BPF_NEG BPF_REG_2 0,
         BPF_ALU64_IMM BPF_ARSH BPF_REG_2 63,
         BPF_ALU64_REG BPF_AND BPF_REG_1 BPF_REG_2,
         BPF_MOV64_REG BPF_REG_0 BPF_REG_1,
         BPF_EXIT_INSN],
      bt_result := ACCEPT,
      bt_retval := 0\<rparr>,
      no_test\<lparr>
      bt_descr := ''masking, test in bounds 1'',
      bt_insns :=
        [BPF_MOV32_IMM BPF_REG_1 4,
         BPF_MOV32_IMM BPF_REG_2 4,
         BPF_ALU64_REG BPF_SUB BPF_REG_2 BPF_REG_1,
         BPF_ALU64_REG BPF_OR BPF_REG_2 BPF_REG_1,
         BPF_ALU64_IMM BPF_NEG BPF_REG_2 0,
         BPF_ALU64_IMM BPF_ARSH BPF_REG_2 63,
         BPF_ALU64_REG BPF_AND BPF_REG_1 BPF_REG_2,
         BPF_MOV64_REG BPF_REG_0 BPF_REG_1,
         BPF_EXIT_INSN],
      bt_result := ACCEPT,
      bt_retval := 4\<rparr>,
      no_test\<lparr>
      bt_descr := ''masking, test in bounds 2'',
      bt_insns :=
        [BPF_MOV32_IMM BPF_REG_1 0,
         BPF_MOV32_IMM BPF_REG_2 4294967294,
         BPF_ALU64_REG BPF_SUB BPF_REG_2 BPF_REG_1,
         BPF_ALU64_REG BPF_OR BPF_REG_2 BPF_REG_1,
         BPF_ALU64_IMM BPF_NEG BPF_REG_2 0,
         BPF_ALU64_IMM BPF_ARSH BPF_REG_2 63,
         BPF_ALU64_REG BPF_AND BPF_REG_1 BPF_REG_2,
         BPF_MOV64_REG BPF_REG_0 BPF_REG_1,
         BPF_EXIT_INSN],
      bt_result := ACCEPT,
      bt_retval := 0\<rparr>,
      no_test\<lparr>
      bt_descr := ''masking, test in bounds 3'',
      bt_insns :=
        [BPF_MOV32_IMM BPF_REG_1 0xfffffffe,
         BPF_MOV32_IMM BPF_REG_2 4294967294,
         BPF_ALU64_REG BPF_SUB BPF_REG_2 BPF_REG_1,
         BPF_ALU64_REG BPF_OR BPF_REG_2 BPF_REG_1,
         BPF_ALU64_IMM BPF_NEG BPF_REG_2 0,
         BPF_ALU64_IMM BPF_ARSH BPF_REG_2 63,
         BPF_ALU64_REG BPF_AND BPF_REG_1 BPF_REG_2,
         BPF_MOV64_REG BPF_REG_0 BPF_REG_1,
         BPF_EXIT_INSN],
      bt_result := ACCEPT,
      bt_retval := 0xfffffffe\<rparr>,
      no_test\<lparr>
      bt_descr := ''masking, test in bounds 4'',
      bt_insns :=
        [BPF_MOV32_IMM BPF_REG_1 0xabcde,
         BPF_MOV32_IMM BPF_REG_2 11259374,
         BPF_ALU64_REG BPF_SUB BPF_REG_2 BPF_REG_1,
         BPF_ALU64_REG BPF_OR BPF_REG_2 BPF_REG_1,
         BPF_ALU64_IMM BPF_NEG BPF_REG_2 0,
         BPF_ALU64_IMM BPF_ARSH BPF_REG_2 63,
         BPF_ALU64_REG BPF_AND BPF_REG_1 BPF_REG_2,
         BPF_MOV64_REG BPF_REG_0 BPF_REG_1,
         BPF_EXIT_INSN],
      bt_result := ACCEPT,
      bt_retval := 0xabcde\<rparr>,
      no_test\<lparr>
      bt_descr := ''masking, test in bounds 5'',
      bt_insns :=
        [BPF_MOV32_IMM BPF_REG_1 0,
         BPF_MOV32_IMM BPF_REG_2 0,
         BPF_ALU64_REG BPF_SUB BPF_REG_2 BPF_REG_1,
         BPF_ALU64_REG BPF_OR BPF_REG_2 BPF_REG_1,
         BPF_ALU64_IMM BPF_NEG BPF_REG_2 0,
         BPF_ALU64_IMM BPF_ARSH BPF_REG_2 63,
         BPF_ALU64_REG BPF_AND BPF_REG_1 BPF_REG_2,
         BPF_MOV64_REG BPF_REG_0 BPF_REG_1,
         BPF_EXIT_INSN],
      bt_result := ACCEPT,
      bt_retval := 0\<rparr>,
      no_test\<lparr>
      bt_descr := ''masking, test in bounds 6'',
      bt_insns :=
        [BPF_MOV32_IMM BPF_REG_1 46,
         BPF_MOV32_IMM BPF_REG_2 46,
         BPF_ALU64_REG BPF_SUB BPF_REG_2 BPF_REG_1,
         BPF_ALU64_REG BPF_OR BPF_REG_2 BPF_REG_1,
         BPF_ALU64_IMM BPF_NEG BPF_REG_2 0,
         BPF_ALU64_IMM BPF_ARSH BPF_REG_2 63,
         BPF_ALU64_REG BPF_AND BPF_REG_1 BPF_REG_2,
         BPF_MOV64_REG BPF_REG_0 BPF_REG_1,
         BPF_EXIT_INSN],
      bt_result := ACCEPT,
      bt_retval := 46\<rparr>]"

definition masking_tests_3 :: "bpf_test list" where
  "masking_tests_3 =
     [no_test\<lparr>
      bt_descr := ''masking, test in bounds 7'',
      bt_insns :=
        [BPF_MOV64_IMM BPF_REG_3 (-46),
         BPF_ALU64_IMM BPF_MUL BPF_REG_3 (-1),
         BPF_MOV32_IMM BPF_REG_2 46,
         BPF_ALU64_REG BPF_SUB BPF_REG_2 BPF_REG_3,
         BPF_ALU64_REG BPF_OR BPF_REG_2 BPF_REG_3,
         BPF_ALU64_IMM BPF_NEG BPF_REG_2 0,
         BPF_ALU64_IMM BPF_ARSH BPF_REG_2 63,
         BPF_ALU64_REG BPF_AND BPF_REG_3 BPF_REG_2,
         BPF_MOV64_REG BPF_REG_0 BPF_REG_3,
         BPF_EXIT_INSN],
      bt_result := ACCEPT,
      bt_retval := 46\<rparr>,
      no_test\<lparr>
      bt_descr := ''masking, test in bounds 8'',
      bt_insns :=
        [BPF_MOV64_IMM BPF_REG_3 (-47),
         BPF_ALU64_IMM BPF_MUL BPF_REG_3 (-1),
         BPF_MOV32_IMM BPF_REG_2 46,
         BPF_ALU64_REG BPF_SUB BPF_REG_2 BPF_REG_3,
         BPF_ALU64_REG BPF_OR BPF_REG_2 BPF_REG_3,
         BPF_ALU64_IMM BPF_NEG BPF_REG_2 0,
         BPF_ALU64_IMM BPF_ARSH BPF_REG_2 63,
         BPF_ALU64_REG BPF_AND BPF_REG_3 BPF_REG_2,
         BPF_MOV64_REG BPF_REG_0 BPF_REG_3,
         BPF_EXIT_INSN],
      bt_result := ACCEPT,
      bt_retval := 0\<rparr>]"

subsection \<open>\<open>div0.c\<close>\<close>

definition div0_tests_1 :: "bpf_test list" where
  "div0_tests_1 =
     [no_test\<lparr>
      bt_descr := ''DIV32 by 0, zero check 1'',
      bt_insns :=
        [BPF_MOV32_IMM BPF_REG_0 42,
         BPF_MOV32_IMM BPF_REG_1 0,
         BPF_MOV32_IMM BPF_REG_2 1,
         BPF_ALU32_REG BPF_DIV BPF_REG_2 BPF_REG_1,
         BPF_EXIT_INSN],
      bt_result := ACCEPT,
      bt_retval := 42\<rparr>,
      no_test\<lparr>
      bt_descr := ''DIV32 by 0, zero check 2'',
      bt_insns :=
        [BPF_MOV32_IMM BPF_REG_0 42] @
        BPF_LD_IMM64 BPF_REG_1 18446744069414584320 @
        [BPF_MOV32_IMM BPF_REG_2 1,
         BPF_ALU32_REG BPF_DIV BPF_REG_2 BPF_REG_1,
         BPF_EXIT_INSN],
      bt_result := ACCEPT,
      bt_retval := 42\<rparr>,
      no_test\<lparr>
      bt_descr := ''DIV64 by 0, zero check'',
      bt_insns :=
        [BPF_MOV32_IMM BPF_REG_0 42,
         BPF_MOV32_IMM BPF_REG_1 0,
         BPF_MOV32_IMM BPF_REG_2 1,
         BPF_ALU64_REG BPF_DIV BPF_REG_2 BPF_REG_1,
         BPF_EXIT_INSN],
      bt_result := ACCEPT,
      bt_retval := 42\<rparr>,
      no_test\<lparr>
      bt_descr := ''MOD32 by 0, zero check 1'',
      bt_insns :=
        [BPF_MOV32_IMM BPF_REG_0 42,
         BPF_MOV32_IMM BPF_REG_1 0,
         BPF_MOV32_IMM BPF_REG_2 1,
         BPF_ALU32_REG BPF_MOD BPF_REG_2 BPF_REG_1,
         BPF_EXIT_INSN],
      bt_result := ACCEPT,
      bt_retval := 42\<rparr>,
      no_test\<lparr>
      bt_descr := ''MOD32 by 0, zero check 2'',
      bt_insns :=
        [BPF_MOV32_IMM BPF_REG_0 42] @
        BPF_LD_IMM64 BPF_REG_1 18446744069414584320 @
        [BPF_MOV32_IMM BPF_REG_2 1,
         BPF_ALU32_REG BPF_MOD BPF_REG_2 BPF_REG_1,
         BPF_EXIT_INSN],
      bt_result := ACCEPT,
      bt_retval := 42\<rparr>,
      no_test\<lparr>
      bt_descr := ''MOD64 by 0, zero check'',
      bt_insns :=
        [BPF_MOV32_IMM BPF_REG_0 42,
         BPF_MOV32_IMM BPF_REG_1 0,
         BPF_MOV32_IMM BPF_REG_2 1,
         BPF_ALU64_REG BPF_MOD BPF_REG_2 BPF_REG_1,
         BPF_EXIT_INSN],
      bt_result := ACCEPT,
      bt_retval := 42\<rparr>,
      no_test\<lparr>
      bt_descr := ''DIV32 by 0, zero check ok, cls'',
      bt_insns :=
        [BPF_MOV32_IMM BPF_REG_0 42,
         BPF_MOV32_IMM BPF_REG_1 2,
         BPF_MOV32_IMM BPF_REG_2 16,
         BPF_ALU32_REG BPF_DIV BPF_REG_2 BPF_REG_1,
         BPF_MOV64_REG BPF_REG_0 BPF_REG_2,
         BPF_EXIT_INSN],
      bt_result := ACCEPT,
      bt_prog_type := BPF_PROG_TYPE_SCHED_CLS,
      bt_retval := 8\<rparr>,
      no_test\<lparr>
      bt_descr := ''DIV32 by 0, zero check 1, cls'',
      bt_insns :=
        [BPF_MOV32_IMM BPF_REG_1 0,
         BPF_MOV32_IMM BPF_REG_0 1,
         BPF_ALU32_REG BPF_DIV BPF_REG_0 BPF_REG_1,
         BPF_EXIT_INSN],
      bt_result := ACCEPT,
      bt_prog_type := BPF_PROG_TYPE_SCHED_CLS,
      bt_retval := 0\<rparr>,
      no_test\<lparr>
      bt_descr := ''DIV32 by 0, zero check 2, cls'',
      bt_insns :=
        BPF_LD_IMM64 BPF_REG_1 18446744069414584320 @
        [BPF_MOV32_IMM BPF_REG_0 1,
         BPF_ALU32_REG BPF_DIV BPF_REG_0 BPF_REG_1,
         BPF_EXIT_INSN],
      bt_result := ACCEPT,
      bt_prog_type := BPF_PROG_TYPE_SCHED_CLS,
      bt_retval := 0\<rparr>,
      no_test\<lparr>
      bt_descr := ''DIV64 by 0, zero check, cls'',
      bt_insns :=
        [BPF_MOV32_IMM BPF_REG_1 0,
         BPF_MOV32_IMM BPF_REG_0 1,
         BPF_ALU64_REG BPF_DIV BPF_REG_0 BPF_REG_1,
         BPF_EXIT_INSN],
      bt_result := ACCEPT,
      bt_prog_type := BPF_PROG_TYPE_SCHED_CLS,
      bt_retval := 0\<rparr>,
      no_test\<lparr>
      bt_descr := ''MOD32 by 0, zero check ok, cls'',
      bt_insns :=
        [BPF_MOV32_IMM BPF_REG_0 42,
         BPF_MOV32_IMM BPF_REG_1 3,
         BPF_MOV32_IMM BPF_REG_2 5,
         BPF_ALU32_REG BPF_MOD BPF_REG_2 BPF_REG_1,
         BPF_MOV64_REG BPF_REG_0 BPF_REG_2,
         BPF_EXIT_INSN],
      bt_result := ACCEPT,
      bt_prog_type := BPF_PROG_TYPE_SCHED_CLS,
      bt_retval := 2\<rparr>,
      no_test\<lparr>
      bt_descr := ''MOD32 by 0, zero check 1, cls'',
      bt_insns :=
        [BPF_MOV32_IMM BPF_REG_1 0,
         BPF_MOV32_IMM BPF_REG_0 1,
         BPF_ALU32_REG BPF_MOD BPF_REG_0 BPF_REG_1,
         BPF_EXIT_INSN],
      bt_result := ACCEPT,
      bt_prog_type := BPF_PROG_TYPE_SCHED_CLS,
      bt_retval := 1\<rparr>]"

definition div0_tests_2 :: "bpf_test list" where
  "div0_tests_2 =
     [no_test\<lparr>
      bt_descr := ''MOD32 by 0, zero check 2, cls'',
      bt_insns :=
        BPF_LD_IMM64 BPF_REG_1 18446744069414584320 @
        [BPF_MOV32_IMM BPF_REG_0 1,
         BPF_ALU32_REG BPF_MOD BPF_REG_0 BPF_REG_1,
         BPF_EXIT_INSN],
      bt_result := ACCEPT,
      bt_prog_type := BPF_PROG_TYPE_SCHED_CLS,
      bt_retval := 1\<rparr>,
      no_test\<lparr>
      bt_descr := ''MOD64 by 0, zero check 1, cls'',
      bt_insns :=
        [BPF_MOV32_IMM BPF_REG_1 0,
         BPF_MOV32_IMM BPF_REG_0 2,
         BPF_ALU64_REG BPF_MOD BPF_REG_0 BPF_REG_1,
         BPF_EXIT_INSN],
      bt_result := ACCEPT,
      bt_prog_type := BPF_PROG_TYPE_SCHED_CLS,
      bt_retval := 2\<rparr>,
      no_test\<lparr>
      bt_descr := ''MOD64 by 0, zero check 2, cls'',
      bt_insns :=
        [BPF_MOV32_IMM BPF_REG_1 0,
         BPF_MOV32_IMM BPF_REG_0 (-1),
         BPF_ALU64_REG BPF_MOD BPF_REG_0 BPF_REG_1,
         BPF_EXIT_INSN],
      bt_result := ACCEPT,
      bt_prog_type := BPF_PROG_TYPE_SCHED_CLS,
      bt_retval := (-1)\<rparr>]"

subsection \<open>\<open>div_overflow.c\<close>\<close>

definition div_overflow_tests :: "bpf_test list" where
  "div_overflow_tests =
     [no_test\<lparr>
      bt_descr := ''DIV32 overflow, check 1'',
      bt_insns :=
        [BPF_MOV32_IMM BPF_REG_1 (-1),
         BPF_MOV32_IMM BPF_REG_0 (-2147483648),
         BPF_ALU32_REG BPF_DIV BPF_REG_0 BPF_REG_1,
         BPF_EXIT_INSN],
      bt_result := ACCEPT,
      bt_prog_type := BPF_PROG_TYPE_SCHED_CLS,
      bt_retval := 0\<rparr>,
      no_test\<lparr>
      bt_descr := ''DIV32 overflow, check 2'',
      bt_insns :=
        [BPF_MOV32_IMM BPF_REG_0 (-2147483648),
         BPF_ALU32_IMM BPF_DIV BPF_REG_0 (-1),
         BPF_EXIT_INSN],
      bt_result := ACCEPT,
      bt_prog_type := BPF_PROG_TYPE_SCHED_CLS,
      bt_retval := 0\<rparr>,
      no_test\<lparr>
      bt_descr := ''DIV64 overflow, check 1'',
      bt_insns :=
        [BPF_MOV64_IMM BPF_REG_1 (-1)] @
        BPF_LD_IMM64 BPF_REG_2 (-9223372036854775808) @
        [BPF_ALU64_REG BPF_DIV BPF_REG_2 BPF_REG_1,
         BPF_MOV32_IMM BPF_REG_0 0,
         BPF_JMP_REG BPF_JEQ BPF_REG_0 BPF_REG_2 1,
         BPF_MOV32_IMM BPF_REG_0 1,
         BPF_EXIT_INSN],
      bt_result := ACCEPT,
      bt_prog_type := BPF_PROG_TYPE_SCHED_CLS,
      bt_retval := 0\<rparr>,
      no_test\<lparr>
      bt_descr := ''DIV64 overflow, check 2'',
      bt_insns :=
        BPF_LD_IMM64 BPF_REG_1 (-9223372036854775808) @
        [BPF_ALU64_IMM BPF_DIV BPF_REG_1 (-1),
         BPF_MOV32_IMM BPF_REG_0 0,
         BPF_JMP_REG BPF_JEQ BPF_REG_0 BPF_REG_1 1,
         BPF_MOV32_IMM BPF_REG_0 1,
         BPF_EXIT_INSN],
      bt_result := ACCEPT,
      bt_prog_type := BPF_PROG_TYPE_SCHED_CLS,
      bt_retval := 0\<rparr>,
      no_test\<lparr>
      bt_descr := ''MOD32 overflow, check 1'',
      bt_insns :=
        [BPF_MOV32_IMM BPF_REG_1 (-1),
         BPF_MOV32_IMM BPF_REG_0 (-2147483648),
         BPF_ALU32_REG BPF_MOD BPF_REG_0 BPF_REG_1,
         BPF_EXIT_INSN],
      bt_result := ACCEPT,
      bt_prog_type := BPF_PROG_TYPE_SCHED_CLS,
      bt_retval := (-2147483648)\<rparr>,
      no_test\<lparr>
      bt_descr := ''MOD32 overflow, check 2'',
      bt_insns :=
        [BPF_MOV32_IMM BPF_REG_0 (-2147483648),
         BPF_ALU32_IMM BPF_MOD BPF_REG_0 (-1),
         BPF_EXIT_INSN],
      bt_result := ACCEPT,
      bt_prog_type := BPF_PROG_TYPE_SCHED_CLS,
      bt_retval := (-2147483648)\<rparr>,
      no_test\<lparr>
      bt_descr := ''MOD64 overflow, check 1'',
      bt_insns :=
        [BPF_MOV64_IMM BPF_REG_1 (-1)] @
        BPF_LD_IMM64 BPF_REG_2 (-9223372036854775808) @
        [BPF_MOV64_REG BPF_REG_3 BPF_REG_2,
         BPF_ALU64_REG BPF_MOD BPF_REG_2 BPF_REG_1,
         BPF_MOV32_IMM BPF_REG_0 0,
         BPF_JMP_REG BPF_JNE BPF_REG_3 BPF_REG_2 1,
         BPF_MOV32_IMM BPF_REG_0 1,
         BPF_EXIT_INSN],
      bt_result := ACCEPT,
      bt_prog_type := BPF_PROG_TYPE_SCHED_CLS,
      bt_retval := 1\<rparr>,
      no_test\<lparr>
      bt_descr := ''MOD64 overflow, check 2'',
      bt_insns :=
        BPF_LD_IMM64 BPF_REG_2 (-9223372036854775808) @
        [BPF_MOV64_REG BPF_REG_3 BPF_REG_2,
         BPF_ALU64_IMM BPF_MOD BPF_REG_2 (-1),
         BPF_MOV32_IMM BPF_REG_0 0,
         BPF_JMP_REG BPF_JNE BPF_REG_3 BPF_REG_2 1,
         BPF_MOV32_IMM BPF_REG_0 1,
         BPF_EXIT_INSN],
      bt_result := ACCEPT,
      bt_prog_type := BPF_PROG_TYPE_SCHED_CLS,
      bt_retval := 1\<rparr>]"

subsection \<open>\<open>basic_instr.c\<close>\<close>

definition basic_instr_tests_1 :: "bpf_test list" where
  "basic_instr_tests_1 =
     [no_test\<lparr>
      bt_descr := ''add+sub+mul'',
      bt_insns :=
        [BPF_MOV64_IMM BPF_REG_1 1,
         BPF_ALU64_IMM BPF_ADD BPF_REG_1 2,
         BPF_MOV64_IMM BPF_REG_2 3,
         BPF_ALU64_REG BPF_SUB BPF_REG_1 BPF_REG_2,
         BPF_ALU64_IMM BPF_ADD BPF_REG_1 (-1),
         BPF_ALU64_IMM BPF_MUL BPF_REG_1 3,
         BPF_MOV64_REG BPF_REG_0 BPF_REG_1,
         BPF_EXIT_INSN],
      bt_result := ACCEPT,
      bt_retval := (-3)\<rparr>,
      no_test\<lparr>
      bt_descr := ''xor32 zero extend check'',
      bt_insns :=
        [BPF_MOV32_IMM BPF_REG_2 (-1),
         BPF_ALU64_IMM BPF_LSH BPF_REG_2 32,
         BPF_ALU64_IMM BPF_OR BPF_REG_2 0xffff,
         BPF_ALU32_REG BPF_XOR BPF_REG_2 BPF_REG_2,
         BPF_MOV32_IMM BPF_REG_0 2,
         BPF_JMP_IMM BPF_JNE BPF_REG_2 0 1,
         BPF_MOV32_IMM BPF_REG_0 1,
         BPF_EXIT_INSN],
      bt_result := ACCEPT,
      bt_prog_type := BPF_PROG_TYPE_SCHED_CLS,
      bt_retval := 1\<rparr>,
      no_test\<lparr>
      bt_descr := ''arsh32 on imm'',
      bt_insns :=
        [BPF_MOV64_IMM BPF_REG_0 1,
         BPF_ALU32_IMM BPF_ARSH BPF_REG_0 5,
         BPF_EXIT_INSN],
      bt_result := ACCEPT,
      bt_retval := 0\<rparr>,
      no_test\<lparr>
      bt_descr := ''arsh32 on imm 2'',
      bt_insns :=
        BPF_LD_IMM64 BPF_REG_0 0x1122334485667788 @
        [BPF_ALU32_IMM BPF_ARSH BPF_REG_0 7,
         BPF_EXIT_INSN],
      bt_result := ACCEPT,
      bt_retval := (-16069393)\<rparr>,
      no_test\<lparr>
      bt_descr := ''arsh32 on reg'',
      bt_insns :=
        [BPF_MOV64_IMM BPF_REG_0 1,
         BPF_MOV64_IMM BPF_REG_1 5,
         BPF_ALU32_REG BPF_ARSH BPF_REG_0 BPF_REG_1,
         BPF_EXIT_INSN],
      bt_result := ACCEPT,
      bt_retval := 0\<rparr>,
      no_test\<lparr>
      bt_descr := ''arsh32 on reg 2'',
      bt_insns :=
        BPF_LD_IMM64 BPF_REG_0 0xffff55667788 @
        [BPF_MOV64_IMM BPF_REG_1 15,
         BPF_ALU32_REG BPF_ARSH BPF_REG_0 BPF_REG_1,
         BPF_EXIT_INSN],
      bt_result := ACCEPT,
      bt_retval := 43724\<rparr>,
      no_test\<lparr>
      bt_descr := ''arsh64 on imm'',
      bt_insns :=
        [BPF_MOV64_IMM BPF_REG_0 1,
         BPF_ALU64_IMM BPF_ARSH BPF_REG_0 5,
         BPF_EXIT_INSN],
      bt_result := ACCEPT\<rparr>,
      no_test\<lparr>
      bt_descr := ''arsh64 on reg'',
      bt_insns :=
        [BPF_MOV64_IMM BPF_REG_0 1,
         BPF_MOV64_IMM BPF_REG_1 5,
         BPF_ALU64_REG BPF_ARSH BPF_REG_0 BPF_REG_1,
         BPF_EXIT_INSN],
      bt_result := ACCEPT\<rparr>,
      no_test\<lparr>
      bt_descr := ''lsh64 by 0 imm'',
      bt_insns :=
        BPF_LD_IMM64 BPF_REG_0 1 @
        BPF_LD_IMM64 BPF_REG_1 1 @
        [BPF_ALU64_IMM BPF_LSH BPF_REG_1 0,
         BPF_JMP_IMM BPF_JEQ BPF_REG_1 1 1,
         BPF_MOV64_IMM BPF_REG_0 2,
         BPF_EXIT_INSN],
      bt_result := ACCEPT,
      bt_retval := 1\<rparr>,
      no_test\<lparr>
      bt_descr := ''rsh64 by 0 imm'',
      bt_insns :=
        BPF_LD_IMM64 BPF_REG_0 1 @
        BPF_LD_IMM64 BPF_REG_1 4294967296 @
        [BPF_ALU64_REG BPF_MOV BPF_REG_2 BPF_REG_1,
         BPF_ALU64_IMM BPF_RSH BPF_REG_1 0,
         BPF_JMP_REG BPF_JEQ BPF_REG_1 BPF_REG_2 1,
         BPF_MOV64_IMM BPF_REG_0 2,
         BPF_EXIT_INSN],
      bt_result := ACCEPT,
      bt_retval := 1\<rparr>,
      no_test\<lparr>
      bt_descr := ''arsh64 by 0 imm'',
      bt_insns :=
        BPF_LD_IMM64 BPF_REG_0 1 @
        BPF_LD_IMM64 BPF_REG_1 4294967296 @
        [BPF_ALU64_REG BPF_MOV BPF_REG_2 BPF_REG_1,
         BPF_ALU64_IMM BPF_ARSH BPF_REG_1 0,
         BPF_JMP_REG BPF_JEQ BPF_REG_1 BPF_REG_2 1,
         BPF_MOV64_IMM BPF_REG_0 2,
         BPF_EXIT_INSN],
      bt_result := ACCEPT,
      bt_retval := 1\<rparr>,
      no_test\<lparr>
      bt_descr := ''lsh64 by 0 reg'',
      bt_insns :=
        BPF_LD_IMM64 BPF_REG_0 1 @
        BPF_LD_IMM64 BPF_REG_1 1 @
        BPF_LD_IMM64 BPF_REG_2 0 @
        [BPF_ALU64_REG BPF_LSH BPF_REG_1 BPF_REG_2,
         BPF_JMP_IMM BPF_JEQ BPF_REG_1 1 1,
         BPF_MOV64_IMM BPF_REG_0 2,
         BPF_EXIT_INSN],
      bt_result := ACCEPT,
      bt_retval := 1\<rparr>]"

definition basic_instr_tests_2 :: "bpf_test list" where
  "basic_instr_tests_2 =
     [no_test\<lparr>
      bt_descr := ''rsh64 by 0 reg'',
      bt_insns :=
        BPF_LD_IMM64 BPF_REG_0 1 @
        BPF_LD_IMM64 BPF_REG_1 4294967296 @
        [BPF_ALU64_REG BPF_MOV BPF_REG_2 BPF_REG_1] @
        BPF_LD_IMM64 BPF_REG_3 0 @
        [BPF_ALU64_REG BPF_RSH BPF_REG_1 BPF_REG_3,
         BPF_JMP_REG BPF_JEQ BPF_REG_1 BPF_REG_2 1,
         BPF_MOV64_IMM BPF_REG_0 2,
         BPF_EXIT_INSN],
      bt_result := ACCEPT,
      bt_retval := 1\<rparr>,
      no_test\<lparr>
      bt_descr := ''arsh64 by 0 reg'',
      bt_insns :=
        BPF_LD_IMM64 BPF_REG_0 1 @
        BPF_LD_IMM64 BPF_REG_1 4294967296 @
        [BPF_ALU64_REG BPF_MOV BPF_REG_2 BPF_REG_1] @
        BPF_LD_IMM64 BPF_REG_3 0 @
        [BPF_ALU64_REG BPF_ARSH BPF_REG_1 BPF_REG_3,
         BPF_JMP_REG BPF_JEQ BPF_REG_1 BPF_REG_2 1,
         BPF_MOV64_IMM BPF_REG_0 2,
         BPF_EXIT_INSN],
      bt_result := ACCEPT,
      bt_retval := 1\<rparr>,
      no_test\<lparr>
      bt_descr := ''mov64 src == dst'',
      bt_insns :=
        [BPF_MOV64_IMM BPF_REG_2 0,
         BPF_MOV64_REG BPF_REG_2 BPF_REG_2,
         BPF_ALU64_REG BPF_ADD BPF_REG_1 BPF_REG_2,
         BPF_MOV64_IMM BPF_REG_0 0,
         BPF_EXIT_INSN],
      bt_result := ACCEPT,
      bt_prog_type := BPF_PROG_TYPE_SCHED_CLS\<rparr>,
      no_test\<lparr>
      bt_descr := ''mov64 src != dst'',
      bt_insns :=
        [BPF_MOV64_IMM BPF_REG_3 0,
         BPF_MOV64_REG BPF_REG_2 BPF_REG_3,
         BPF_ALU64_REG BPF_ADD BPF_REG_1 BPF_REG_2,
         BPF_MOV64_IMM BPF_REG_0 0,
         BPF_EXIT_INSN],
      bt_result := ACCEPT,
      bt_prog_type := BPF_PROG_TYPE_SCHED_CLS\<rparr>]"

definition scalar_tests :: "bpf_test list" where
  "scalar_tests = subreg_tests_1 @ subreg_tests_2 @ subreg_tests_3 @ subreg_tests_4 @ masking_tests_1 @
     masking_tests_2 @ masking_tests_3 @ div0_tests_1 @ div0_tests_2 @ div_overflow_tests @
     basic_instr_tests_1 @ basic_instr_tests_2"

section \<open>What they return\<close>

definition returns_retvals :: "bpf_test list \<Rightarrow> bool" where
  "returns_retvals ts \<longleftrightarrow> (\<forall>t \<in> set ts. \<forall>i. returns (exec_test t i) (bt_retval t))"

lemma returns_retvals_simps [simp]:
  "returns_retvals []"
  "returns_retvals (t # ts) \<longleftrightarrow> (\<forall>i. returns (exec_test t i) (bt_retval t)) \<and> returns_retvals ts"
  "returns_retvals (ts @ us) \<longleftrightarrow> returns_retvals ts \<and> returns_retvals us"
  by (auto simp: returns_retvals_def)

lemma subreg_tests_1_return: "returns_retvals subreg_tests_1"
  by (simp add: subreg_tests_1_def test_eval, simp add: run_eval)

lemma subreg_tests_2_return: "returns_retvals subreg_tests_2"
  by (simp add: subreg_tests_2_def test_eval, simp add: run_eval)

lemma subreg_tests_3_return: "returns_retvals subreg_tests_3"
  by (simp add: subreg_tests_3_def test_eval, simp add: run_eval)

lemma subreg_tests_4_return: "returns_retvals subreg_tests_4"
  by (simp add: subreg_tests_4_def test_eval, simp add: run_eval)

lemma masking_tests_1_return: "returns_retvals masking_tests_1"
  by (simp add: masking_tests_1_def test_eval, simp add: run_eval)

lemma masking_tests_2_return: "returns_retvals masking_tests_2"
  by (simp add: masking_tests_2_def test_eval, simp add: run_eval)

lemma masking_tests_3_return: "returns_retvals masking_tests_3"
  by (simp add: masking_tests_3_def test_eval, simp add: run_eval)

lemma div0_tests_1_return: "returns_retvals div0_tests_1"
  by (simp add: div0_tests_1_def test_eval, simp add: run_eval)

lemma div0_tests_2_return: "returns_retvals div0_tests_2"
  by (simp add: div0_tests_2_def test_eval, simp add: run_eval)

lemma div_overflow_tests_return: "returns_retvals div_overflow_tests"
  by (simp add: div_overflow_tests_def test_eval, simp add: run_eval)

lemma basic_instr_tests_1_return: "returns_retvals basic_instr_tests_1"
  by (simp add: basic_instr_tests_1_def test_eval, simp add: run_eval)

lemma basic_instr_tests_2_return: "returns_retvals basic_instr_tests_2"
  by (simp add: basic_instr_tests_2_def test_eval, simp add: run_eval)

section \<open>Properties\<close>

text \<open>C25. Every program of the five files, lowered and run on the machine, returns the value its file gives,
  whatever the packet, the context and the random numbers it reads.\<close>

theorem scalar_tests_return:
  "\<forall>t \<in> set scalar_tests. \<forall>i. returns (exec_test t i) (bt_retval t)"
proof -
  have "returns_retvals scalar_tests"
    by (simp add: scalar_tests_def
      subreg_tests_1_return subreg_tests_2_return subreg_tests_3_return subreg_tests_4_return masking_tests_1_return
      masking_tests_2_return masking_tests_3_return div0_tests_1_return div0_tests_2_return
      div_overflow_tests_return basic_instr_tests_1_return basic_instr_tests_2_return)
  then show ?thesis by (simp add: returns_retvals_def)
qed

theorem scalar_tests_return_witness: "returns (exec_test (hd div0_tests_1) (zeros 8 0)) 42"
proof -
  have "hd div0_tests_1 \<in> set scalar_tests" by (simp add: scalar_tests_def div0_tests_1_def)
  then have "returns (exec_test (hd div0_tests_1) (zeros 8 0)) (bt_retval (hd div0_tests_1))"
    using scalar_tests_return by blast
  then show ?thesis by (simp add: div0_tests_1_def no_test_def)
qed

end
