(* ===== verification/Jump_Tests.thy ===== *)
theory Jump_Tests
  imports Legacy_Tests
begin

text \<open>
  The programs of \<open>jset.c\<close> and \<open>jmp32.c\<close> under \<open>selftests/legacy/verifier\<close>: conditional jumps on bits and on
  the lower halves of registers. Most of them run on given packets; the others read a register that
  was never written, or a byte of a map value, on a branch that the conditions before it exclude.

  Shown here: the verdicts and the return values of the files are right.
\<close>

unbundle bit_operations_syntax

section \<open>The programs\<close>

subsection \<open>\<open>jset.c\<close>\<close>

definition jset_1 :: bpf_test where
  "jset_1 = no_test\<lparr>
     bt_descr := ''jset: functional'',
     bt_insns :=
       BPF_DIRECT_PKT_R2 @
       [BPF_LDX_MEM BPF_DW BPF_REG_7 BPF_REG_2 0] @
       BPF_LD_IMM64 BPF_REG_8 0x8000000000000001 @
       [BPF_JMP_REG BPF_JSET BPF_REG_7 BPF_REG_8 1,
        BPF_EXIT_INSN] @
       BPF_LD_IMM64 BPF_REG_8 0x4000000000000000 @
       [BPF_JMP_REG BPF_JSET BPF_REG_7 BPF_REG_8 1,
        BPF_JMP_IMM BPF_JA 0 0 1,
        BPF_EXIT_INSN,
        BPF_JMP_IMM BPF_JSET BPF_REG_7 (-1) 1,
        BPF_EXIT_INSN,
        BPF_JMP_IMM BPF_JSET BPF_REG_7 0x80000000 1,
        BPF_EXIT_INSN,
        BPF_MOV64_IMM BPF_REG_0 2,
        BPF_EXIT_INSN],
     bt_result := ACCEPT,
     bt_prog_type := BPF_PROG_TYPE_SCHED_CLS,
     bt_flags := F_NEEDS_EFFICIENT_UNALIGNED_ACCESS,
     bt_runs := 7,
     bt_retvals :=
       [\<lparr>tr_retval = 2, tr_data64 = [9223372039002259457]\<rparr>,
        \<lparr>tr_retval = 2, tr_data64 = [9223372039002259456]\<rparr>,
        \<lparr>tr_retval = 2, tr_data64 = [2147483649]\<rparr>,
        \<lparr>tr_retval = 2, tr_data64 = [4294967295]\<rparr>,
        \<lparr>tr_retval = 2, tr_data64 = [(-4611686018427387905)]\<rparr>,
        \<lparr>tr_retval = 0, tr_data64 = [0]\<rparr>,
        \<lparr>tr_retval = 0, tr_data64 = [(-1)]\<rparr>]\<rparr>"

definition jset_2 :: bpf_test where
  "jset_2 = no_test\<lparr>
     bt_descr := ''jset: sign-extend'',
     bt_insns :=
       BPF_DIRECT_PKT_R2 @
       [BPF_LDX_MEM BPF_DW BPF_REG_7 BPF_REG_2 0,
        BPF_JMP_IMM BPF_JSET BPF_REG_7 0x80000000 1,
        BPF_EXIT_INSN,
        BPF_MOV64_IMM BPF_REG_0 2,
        BPF_EXIT_INSN],
     bt_result := ACCEPT,
     bt_prog_type := BPF_PROG_TYPE_SCHED_CLS,
     bt_flags := F_NEEDS_EFFICIENT_UNALIGNED_ACCESS,
     bt_data := [1, 0, 0, 0, 0, 0, 0, 1],
     bt_retval := 2\<rparr>"

definition jset_3 :: bpf_test where
  "jset_3 = no_test\<lparr>
     bt_descr := ''jset: known const compare'',
     bt_insns :=
       [BPF_MOV64_IMM BPF_REG_0 1,
        BPF_JMP_IMM BPF_JSET BPF_REG_0 1 1,
        BPF_LDX_MEM BPF_B BPF_REG_8 BPF_REG_9 0,
        BPF_EXIT_INSN],
     bt_errstr_unpriv := Some ''R9 !read_ok'',
     bt_result := ACCEPT,
     bt_result_unpriv := REJECT,
     bt_prog_type := BPF_PROG_TYPE_SOCKET_FILTER,
     bt_retval := 1\<rparr>"

definition jset_4 :: bpf_test where
  "jset_4 = no_test\<lparr>
     bt_descr := ''jset: known const compare bad'',
     bt_insns :=
       [BPF_MOV64_IMM BPF_REG_0 0,
        BPF_JMP_IMM BPF_JSET BPF_REG_0 1 1,
        BPF_LDX_MEM BPF_B BPF_REG_8 BPF_REG_9 0,
        BPF_EXIT_INSN],
     bt_errstr := Some ''!read_ok'',
     bt_errstr_unpriv := Some ''!read_ok'',
     bt_result := REJECT,
     bt_result_unpriv := REJECT,
     bt_prog_type := BPF_PROG_TYPE_SOCKET_FILTER\<rparr>"

definition jset_5 :: bpf_test where
  "jset_5 = no_test\<lparr>
     bt_descr := ''jset: unknown const compare taken'',
     bt_insns :=
       [BPF_RAW_INSN (BPF_JMP OR BPF_CALL) 0 0 0 BPF_FUNC_get_prandom_u32,
        BPF_JMP_IMM BPF_JSET BPF_REG_0 1 1,
        BPF_JMP_IMM BPF_JA 0 0 1,
        BPF_LDX_MEM BPF_B BPF_REG_8 BPF_REG_9 0,
        BPF_EXIT_INSN],
     bt_errstr := Some ''!read_ok'',
     bt_errstr_unpriv := Some ''!read_ok'',
     bt_result := REJECT,
     bt_result_unpriv := REJECT,
     bt_prog_type := BPF_PROG_TYPE_SOCKET_FILTER\<rparr>"

definition jset_6 :: bpf_test where
  "jset_6 = no_test\<lparr>
     bt_descr := ''jset: unknown const compare not taken'',
     bt_insns :=
       [BPF_RAW_INSN (BPF_JMP OR BPF_CALL) 0 0 0 BPF_FUNC_get_prandom_u32,
        BPF_JMP_IMM BPF_JSET BPF_REG_0 1 1,
        BPF_LDX_MEM BPF_B BPF_REG_8 BPF_REG_9 0,
        BPF_EXIT_INSN],
     bt_errstr := Some ''!read_ok'',
     bt_errstr_unpriv := Some ''!read_ok'',
     bt_result := REJECT,
     bt_result_unpriv := REJECT,
     bt_prog_type := BPF_PROG_TYPE_SOCKET_FILTER\<rparr>"

definition jset_7 :: bpf_test where
  "jset_7 = no_test\<lparr>
     bt_descr := ''jset: half-known const compare'',
     bt_insns :=
       [BPF_RAW_INSN (BPF_JMP OR BPF_CALL) 0 0 0 BPF_FUNC_get_prandom_u32,
        BPF_ALU64_IMM BPF_OR BPF_REG_0 2,
        BPF_JMP_IMM BPF_JSET BPF_REG_0 3 1,
        BPF_LDX_MEM BPF_B BPF_REG_8 BPF_REG_9 0,
        BPF_MOV64_IMM BPF_REG_0 0,
        BPF_EXIT_INSN],
     bt_errstr_unpriv := Some ''R9 !read_ok'',
     bt_result := ACCEPT,
     bt_result_unpriv := REJECT,
     bt_prog_type := BPF_PROG_TYPE_SOCKET_FILTER\<rparr>"

definition jset_8 :: bpf_test where
  "jset_8 = no_test\<lparr>
     bt_descr := ''jset: range'',
     bt_insns :=
       [BPF_RAW_INSN (BPF_JMP OR BPF_CALL) 0 0 0 BPF_FUNC_get_prandom_u32,
        BPF_MOV64_REG BPF_REG_1 BPF_REG_0,
        BPF_MOV64_IMM BPF_REG_0 0,
        BPF_ALU64_IMM BPF_AND BPF_REG_1 0xff,
        BPF_JMP_IMM BPF_JSET BPF_REG_1 0xf0 3,
        BPF_JMP_IMM BPF_JLT BPF_REG_1 0x10 1,
        BPF_LDX_MEM BPF_B BPF_REG_8 BPF_REG_9 0,
        BPF_EXIT_INSN,
        BPF_JMP_IMM BPF_JSET BPF_REG_1 0x10 1,
        BPF_EXIT_INSN,
        BPF_JMP_IMM BPF_JGE BPF_REG_1 0x10 1,
        BPF_LDX_MEM BPF_B BPF_REG_8 BPF_REG_9 0,
        BPF_EXIT_INSN],
     bt_errstr_unpriv := Some ''R9 !read_ok'',
     bt_result := ACCEPT,
     bt_result_unpriv := REJECT,
     bt_prog_type := BPF_PROG_TYPE_SOCKET_FILTER\<rparr>"

definition jset_tests :: "bpf_test list" where
  "jset_tests =
     [jset_1, jset_2, jset_3, jset_4, jset_5, jset_6, jset_7, jset_8]"

subsection \<open>\<open>jmp32.c\<close>\<close>

definition jmp32_1 :: bpf_test where
  "jmp32_1 = no_test\<lparr>
     bt_descr := ''jset32: BPF_K'',
     bt_insns :=
       BPF_DIRECT_PKT_R2 @
       [BPF_LDX_MEM BPF_DW BPF_REG_7 BPF_REG_2 0,
        BPF_JMP32_IMM BPF_JSET BPF_REG_7 (-2) 1,
        BPF_JMP_IMM BPF_JA 0 0 1,
        BPF_EXIT_INSN,
        BPF_JMP32_IMM BPF_JSET BPF_REG_7 1 1,
        BPF_EXIT_INSN,
        BPF_MOV64_IMM BPF_REG_0 2,
        BPF_EXIT_INSN],
     bt_result := ACCEPT,
     bt_prog_type := BPF_PROG_TYPE_SCHED_CLS,
     bt_flags := F_NEEDS_EFFICIENT_UNALIGNED_ACCESS,
     bt_runs := 3,
     bt_retvals :=
       [\<lparr>tr_retval = 0, tr_data64 = [9223372036854775808]\<rparr>,
        \<lparr>tr_retval = 2, tr_data64 = [1]\<rparr>,
        \<lparr>tr_retval = 2, tr_data64 = [9223372036854775809]\<rparr>]\<rparr>"

definition jmp32_2 :: bpf_test where
  "jmp32_2 = no_test\<lparr>
     bt_descr := ''jset32: BPF_X'',
     bt_insns :=
       BPF_DIRECT_PKT_R2 @
       [BPF_LDX_MEM BPF_DW BPF_REG_7 BPF_REG_2 0] @
       BPF_LD_IMM64 BPF_REG_8 0x8000000000000000 @
       [BPF_JMP32_REG BPF_JSET BPF_REG_7 BPF_REG_8 1,
        BPF_JMP_IMM BPF_JA 0 0 1,
        BPF_EXIT_INSN] @
       BPF_LD_IMM64 BPF_REG_8 0x8000000000000001 @
       [BPF_JMP32_REG BPF_JSET BPF_REG_7 BPF_REG_8 1,
        BPF_EXIT_INSN,
        BPF_MOV64_IMM BPF_REG_0 2,
        BPF_EXIT_INSN],
     bt_result := ACCEPT,
     bt_prog_type := BPF_PROG_TYPE_SCHED_CLS,
     bt_flags := F_NEEDS_EFFICIENT_UNALIGNED_ACCESS,
     bt_runs := 3,
     bt_retvals :=
       [\<lparr>tr_retval = 0, tr_data64 = [9223372036854775808]\<rparr>,
        \<lparr>tr_retval = 2, tr_data64 = [1]\<rparr>,
        \<lparr>tr_retval = 2, tr_data64 = [9223372036854775809]\<rparr>]\<rparr>"

definition jmp32_3 :: bpf_test where
  "jmp32_3 = no_test\<lparr>
     bt_descr := ''jset32: ignores upper bits'',
     bt_insns :=
       [BPF_MOV64_IMM BPF_REG_0 0] @
       BPF_LD_IMM64 BPF_REG_7 0x8000000000000000 @
       BPF_LD_IMM64 BPF_REG_8 0x8000000000000000 @
       [BPF_JMP_REG BPF_JSET BPF_REG_7 BPF_REG_8 1,
        BPF_EXIT_INSN,
        BPF_JMP32_REG BPF_JSET BPF_REG_7 BPF_REG_8 1,
        BPF_MOV64_IMM BPF_REG_0 2,
        BPF_EXIT_INSN],
     bt_result := ACCEPT,
     bt_retval := 2\<rparr>"

definition jmp32_4 :: bpf_test where
  "jmp32_4 = no_test\<lparr>
     bt_descr := ''jset32: min/max deduction'',
     bt_insns :=
       BPF_RAND_UEXT_R7 @
       [BPF_MOV64_IMM BPF_REG_0 0,
        BPF_JMP32_IMM BPF_JSET BPF_REG_7 0x10 1,
        BPF_EXIT_INSN,
        BPF_JMP32_IMM BPF_JGE BPF_REG_7 0x10 1,
        BPF_LDX_MEM BPF_B BPF_REG_8 BPF_REG_9 0,
        BPF_EXIT_INSN],
     bt_errstr_unpriv := Some ''R9 !read_ok'',
     bt_result := ACCEPT,
     bt_result_unpriv := REJECT\<rparr>"

definition jmp32_5 :: bpf_test where
  "jmp32_5 = no_test\<lparr>
     bt_descr := ''jeq32: BPF_K'',
     bt_insns :=
       BPF_DIRECT_PKT_R2 @
       [BPF_LDX_MEM BPF_DW BPF_REG_7 BPF_REG_2 0,
        BPF_JMP32_IMM BPF_JEQ BPF_REG_7 (-1) 1,
        BPF_EXIT_INSN,
        BPF_MOV64_IMM BPF_REG_0 2,
        BPF_EXIT_INSN],
     bt_result := ACCEPT,
     bt_prog_type := BPF_PROG_TYPE_SCHED_CLS,
     bt_flags := F_NEEDS_EFFICIENT_UNALIGNED_ACCESS,
     bt_runs := 2,
     bt_retvals :=
       [\<lparr>tr_retval = 0, tr_data64 = [(-2)]\<rparr>,
        \<lparr>tr_retval = 2, tr_data64 = [(-1)]\<rparr>]\<rparr>"

definition jmp32_6 :: bpf_test where
  "jmp32_6 = no_test\<lparr>
     bt_descr := ''jeq32: BPF_X'',
     bt_insns :=
       BPF_DIRECT_PKT_R2 @
       [BPF_LDX_MEM BPF_DW BPF_REG_7 BPF_REG_2 0] @
       BPF_LD_IMM64 BPF_REG_8 0x7000000000000001 @
       [BPF_JMP32_REG BPF_JEQ BPF_REG_7 BPF_REG_8 1,
        BPF_EXIT_INSN,
        BPF_MOV64_IMM BPF_REG_0 2,
        BPF_EXIT_INSN],
     bt_result := ACCEPT,
     bt_prog_type := BPF_PROG_TYPE_SCHED_CLS,
     bt_flags := F_NEEDS_EFFICIENT_UNALIGNED_ACCESS,
     bt_runs := 3,
     bt_retvals :=
       [\<lparr>tr_retval = 0, tr_data64 = [2]\<rparr>,
        \<lparr>tr_retval = 2, tr_data64 = [1]\<rparr>,
        \<lparr>tr_retval = 2, tr_data64 = [9223372036854775809]\<rparr>]\<rparr>"

definition jmp32_7 :: bpf_test where
  "jmp32_7 = no_test\<lparr>
     bt_descr := ''jeq32: min/max deduction'',
     bt_insns :=
       BPF_RAND_UEXT_R7 @
       [BPF_MOV64_IMM BPF_REG_0 0,
        BPF_JMP32_IMM BPF_JEQ BPF_REG_7 0x10 1,
        BPF_EXIT_INSN,
        BPF_JMP32_IMM BPF_JSGE BPF_REG_7 0xf 1,
        BPF_LDX_MEM BPF_B BPF_REG_8 BPF_REG_9 0,
        BPF_EXIT_INSN],
     bt_errstr_unpriv := Some ''R9 !read_ok'',
     bt_result := ACCEPT,
     bt_result_unpriv := REJECT\<rparr>"

definition jmp32_8 :: bpf_test where
  "jmp32_8 = no_test\<lparr>
     bt_descr := ''jne32: BPF_K'',
     bt_insns :=
       BPF_DIRECT_PKT_R2 @
       [BPF_LDX_MEM BPF_DW BPF_REG_7 BPF_REG_2 0,
        BPF_JMP32_IMM BPF_JNE BPF_REG_7 (-1) 1,
        BPF_EXIT_INSN,
        BPF_MOV64_IMM BPF_REG_0 2,
        BPF_EXIT_INSN],
     bt_result := ACCEPT,
     bt_prog_type := BPF_PROG_TYPE_SCHED_CLS,
     bt_flags := F_NEEDS_EFFICIENT_UNALIGNED_ACCESS,
     bt_runs := 2,
     bt_retvals :=
       [\<lparr>tr_retval = 2, tr_data64 = [1]\<rparr>,
        \<lparr>tr_retval = 0, tr_data64 = [(-1)]\<rparr>]\<rparr>"

definition jmp32_9 :: bpf_test where
  "jmp32_9 = no_test\<lparr>
     bt_descr := ''jne32: BPF_X'',
     bt_insns :=
       BPF_DIRECT_PKT_R2 @
       [BPF_LDX_MEM BPF_DW BPF_REG_7 BPF_REG_2 0] @
       BPF_LD_IMM64 BPF_REG_8 0x8000000000000001 @
       [BPF_JMP32_REG BPF_JNE BPF_REG_7 BPF_REG_8 1,
        BPF_EXIT_INSN,
        BPF_MOV64_IMM BPF_REG_0 2,
        BPF_EXIT_INSN],
     bt_result := ACCEPT,
     bt_prog_type := BPF_PROG_TYPE_SCHED_CLS,
     bt_flags := F_NEEDS_EFFICIENT_UNALIGNED_ACCESS,
     bt_runs := 3,
     bt_retvals :=
       [\<lparr>tr_retval = 0, tr_data64 = [1]\<rparr>,
        \<lparr>tr_retval = 2, tr_data64 = [2]\<rparr>,
        \<lparr>tr_retval = 2, tr_data64 = [9223372036854775810]\<rparr>]\<rparr>"

definition jmp32_10 :: bpf_test where
  "jmp32_10 = no_test\<lparr>
     bt_descr := ''jne32: min/max deduction'',
     bt_insns :=
       BPF_RAND_UEXT_R7 @
       [BPF_MOV64_IMM BPF_REG_0 0,
        BPF_JMP32_IMM BPF_JNE BPF_REG_7 0x10 1,
        BPF_JMP_IMM BPF_JNE BPF_REG_7 0x10 1,
        BPF_EXIT_INSN,
        BPF_LDX_MEM BPF_B BPF_REG_8 BPF_REG_9 0,
        BPF_EXIT_INSN],
     bt_errstr_unpriv := Some ''R9 !read_ok'',
     bt_result := ACCEPT,
     bt_result_unpriv := REJECT\<rparr>"

definition jmp32_11 :: bpf_test where
  "jmp32_11 = no_test\<lparr>
     bt_descr := ''jge32: BPF_K'',
     bt_insns :=
       BPF_DIRECT_PKT_R2 @
       [BPF_LDX_MEM BPF_DW BPF_REG_7 BPF_REG_2 0,
        BPF_JMP32_IMM BPF_JGE BPF_REG_7 4294967294 1,
        BPF_EXIT_INSN,
        BPF_ALU32_IMM BPF_MOV BPF_REG_0 2,
        BPF_EXIT_INSN],
     bt_result := ACCEPT,
     bt_prog_type := BPF_PROG_TYPE_SCHED_CLS,
     bt_flags := F_NEEDS_EFFICIENT_UNALIGNED_ACCESS,
     bt_runs := 3,
     bt_retvals :=
       [\<lparr>tr_retval = 2, tr_data64 = [4294967295]\<rparr>,
        \<lparr>tr_retval = 2, tr_data64 = [4294967294]\<rparr>,
        \<lparr>tr_retval = 0, tr_data64 = [0]\<rparr>]\<rparr>"

definition jmp32_12 :: bpf_test where
  "jmp32_12 = no_test\<lparr>
     bt_descr := ''jge32: BPF_X'',
     bt_insns :=
       BPF_DIRECT_PKT_R2 @
       BPF_LD_IMM64 BPF_REG_8 8589934591 @
       [BPF_LDX_MEM BPF_DW BPF_REG_7 BPF_REG_2 0,
        BPF_JMP32_REG BPF_JGE BPF_REG_7 BPF_REG_8 1,
        BPF_EXIT_INSN,
        BPF_ALU32_IMM BPF_MOV BPF_REG_0 2,
        BPF_EXIT_INSN],
     bt_result := ACCEPT,
     bt_prog_type := BPF_PROG_TYPE_SCHED_CLS,
     bt_flags := F_NEEDS_EFFICIENT_UNALIGNED_ACCESS,
     bt_runs := 3,
     bt_retvals :=
       [\<lparr>tr_retval = 2, tr_data64 = [4294967295]\<rparr>,
        \<lparr>tr_retval = 0, tr_data64 = [2147483647]\<rparr>,
        \<lparr>tr_retval = 0, tr_data64 = [12884901886]\<rparr>]\<rparr>"

definition jmp32_13 :: bpf_test where
  "jmp32_13 = no_test\<lparr>
     bt_descr := ''jge32: min/max deduction'',
     bt_insns :=
       BPF_RAND_UEXT_R7 @
       [BPF_ALU32_IMM BPF_MOV BPF_REG_0 2] @
       BPF_LD_IMM64 BPF_REG_8 6442450928 @
       [BPF_JMP32_REG BPF_JGE BPF_REG_7 BPF_REG_8 1,
        BPF_EXIT_INSN,
        BPF_JMP32_IMM BPF_JGE BPF_REG_7 0x7ffffff0 1,
        BPF_LDX_MEM BPF_DW BPF_REG_0 BPF_REG_0 0,
        BPF_EXIT_INSN],
     bt_errstr_unpriv := Some (''R0 invalid mem access '' @ [CHR 0x27] @ ''inv'' @ [CHR 0x27]),
     bt_result := ACCEPT,
     bt_result_unpriv := REJECT,
     bt_retval := 2\<rparr>"

definition jmp32_14 :: bpf_test where
  "jmp32_14 = no_test\<lparr>
     bt_descr := ''jgt32: BPF_K'',
     bt_insns :=
       BPF_DIRECT_PKT_R2 @
       [BPF_LDX_MEM BPF_DW BPF_REG_7 BPF_REG_2 0,
        BPF_JMP32_IMM BPF_JGT BPF_REG_7 4294967294 1,
        BPF_EXIT_INSN,
        BPF_ALU32_IMM BPF_MOV BPF_REG_0 2,
        BPF_EXIT_INSN],
     bt_result := ACCEPT,
     bt_prog_type := BPF_PROG_TYPE_SCHED_CLS,
     bt_flags := F_NEEDS_EFFICIENT_UNALIGNED_ACCESS,
     bt_runs := 3,
     bt_retvals :=
       [\<lparr>tr_retval = 2, tr_data64 = [4294967295]\<rparr>,
        \<lparr>tr_retval = 0, tr_data64 = [4294967294]\<rparr>,
        \<lparr>tr_retval = 0, tr_data64 = [0]\<rparr>]\<rparr>"

definition jmp32_15 :: bpf_test where
  "jmp32_15 = no_test\<lparr>
     bt_descr := ''jgt32: BPF_X'',
     bt_insns :=
       BPF_DIRECT_PKT_R2 @
       BPF_LD_IMM64 BPF_REG_8 8589934590 @
       [BPF_LDX_MEM BPF_DW BPF_REG_7 BPF_REG_2 0,
        BPF_JMP32_REG BPF_JGT BPF_REG_7 BPF_REG_8 1,
        BPF_EXIT_INSN,
        BPF_ALU32_IMM BPF_MOV BPF_REG_0 2,
        BPF_EXIT_INSN],
     bt_result := ACCEPT,
     bt_prog_type := BPF_PROG_TYPE_SCHED_CLS,
     bt_flags := F_NEEDS_EFFICIENT_UNALIGNED_ACCESS,
     bt_runs := 3,
     bt_retvals :=
       [\<lparr>tr_retval = 2, tr_data64 = [4294967295]\<rparr>,
        \<lparr>tr_retval = 0, tr_data64 = [4294967294]\<rparr>,
        \<lparr>tr_retval = 0, tr_data64 = [12884901886]\<rparr>]\<rparr>"

definition jmp32_16 :: bpf_test where
  "jmp32_16 = no_test\<lparr>
     bt_descr := ''jgt32: min/max deduction'',
     bt_insns :=
       BPF_RAND_UEXT_R7 @
       [BPF_ALU32_IMM BPF_MOV BPF_REG_0 2] @
       BPF_LD_IMM64 BPF_REG_8 6442450928 @
       [BPF_JMP32_REG BPF_JGT BPF_REG_7 BPF_REG_8 1,
        BPF_EXIT_INSN,
        BPF_JMP_IMM BPF_JGT BPF_REG_7 0x7ffffff0 1,
        BPF_LDX_MEM BPF_DW BPF_REG_0 BPF_REG_0 0,
        BPF_EXIT_INSN],
     bt_errstr_unpriv := Some (''R0 invalid mem access '' @ [CHR 0x27] @ ''inv'' @ [CHR 0x27]),
     bt_result := ACCEPT,
     bt_result_unpriv := REJECT,
     bt_retval := 2\<rparr>"

definition jmp32_17 :: bpf_test where
  "jmp32_17 = no_test\<lparr>
     bt_descr := ''jle32: BPF_K'',
     bt_insns :=
       BPF_DIRECT_PKT_R2 @
       [BPF_LDX_MEM BPF_DW BPF_REG_7 BPF_REG_2 0,
        BPF_JMP32_IMM BPF_JLE BPF_REG_7 2147483647 1,
        BPF_EXIT_INSN,
        BPF_ALU32_IMM BPF_MOV BPF_REG_0 2,
        BPF_EXIT_INSN],
     bt_result := ACCEPT,
     bt_prog_type := BPF_PROG_TYPE_SCHED_CLS,
     bt_flags := F_NEEDS_EFFICIENT_UNALIGNED_ACCESS,
     bt_runs := 3,
     bt_retvals :=
       [\<lparr>tr_retval = 2, tr_data64 = [2147483646]\<rparr>,
        \<lparr>tr_retval = 0, tr_data64 = [4294967295]\<rparr>,
        \<lparr>tr_retval = 2, tr_data64 = [2147483647]\<rparr>]\<rparr>"

definition jmp32_18 :: bpf_test where
  "jmp32_18 = no_test\<lparr>
     bt_descr := ''jle32: BPF_X'',
     bt_insns :=
       BPF_DIRECT_PKT_R2 @
       BPF_LD_IMM64 BPF_REG_8 10737418238 @
       [BPF_LDX_MEM BPF_DW BPF_REG_7 BPF_REG_2 0,
        BPF_JMP32_REG BPF_JLE BPF_REG_7 BPF_REG_8 1,
        BPF_EXIT_INSN,
        BPF_ALU32_IMM BPF_MOV BPF_REG_0 2,
        BPF_EXIT_INSN],
     bt_result := ACCEPT,
     bt_prog_type := BPF_PROG_TYPE_SCHED_CLS,
     bt_flags := F_NEEDS_EFFICIENT_UNALIGNED_ACCESS,
     bt_runs := 3,
     bt_retvals :=
       [\<lparr>tr_retval = 0, tr_data64 = [6442450943]\<rparr>,
        \<lparr>tr_retval = 2, tr_data64 = [2147483645]\<rparr>,
        \<lparr>tr_retval = 0, tr_data64 = [4294967295]\<rparr>]\<rparr>"

definition jmp32_19 :: bpf_test where
  "jmp32_19 = no_test\<lparr>
     bt_descr := ''jle32: min/max deduction'',
     bt_insns :=
       BPF_RAND_UEXT_R7 @
       [BPF_ALU32_IMM BPF_MOV BPF_REG_0 2] @
       BPF_LD_IMM64 BPF_REG_8 6442450928 @
       [BPF_JMP32_REG BPF_JLE BPF_REG_7 BPF_REG_8 1,
        BPF_EXIT_INSN,
        BPF_JMP32_IMM BPF_JLE BPF_REG_7 0x7ffffff0 1,
        BPF_LDX_MEM BPF_DW BPF_REG_0 BPF_REG_0 0,
        BPF_EXIT_INSN],
     bt_errstr_unpriv := Some (''R0 invalid mem access '' @ [CHR 0x27] @ ''inv'' @ [CHR 0x27]),
     bt_result := ACCEPT,
     bt_result_unpriv := REJECT,
     bt_retval := 2\<rparr>"

definition jmp32_20 :: bpf_test where
  "jmp32_20 = no_test\<lparr>
     bt_descr := ''jlt32: BPF_K'',
     bt_insns :=
       BPF_DIRECT_PKT_R2 @
       [BPF_LDX_MEM BPF_DW BPF_REG_7 BPF_REG_2 0,
        BPF_JMP32_IMM BPF_JLT BPF_REG_7 2147483647 1,
        BPF_EXIT_INSN,
        BPF_ALU32_IMM BPF_MOV BPF_REG_0 2,
        BPF_EXIT_INSN],
     bt_result := ACCEPT,
     bt_prog_type := BPF_PROG_TYPE_SCHED_CLS,
     bt_flags := F_NEEDS_EFFICIENT_UNALIGNED_ACCESS,
     bt_runs := 3,
     bt_retvals :=
       [\<lparr>tr_retval = 0, tr_data64 = [2147483647]\<rparr>,
        \<lparr>tr_retval = 0, tr_data64 = [4294967295]\<rparr>,
        \<lparr>tr_retval = 2, tr_data64 = [2147483646]\<rparr>]\<rparr>"

definition jmp32_21 :: bpf_test where
  "jmp32_21 = no_test\<lparr>
     bt_descr := ''jlt32: BPF_X'',
     bt_insns :=
       BPF_DIRECT_PKT_R2 @
       BPF_LD_IMM64 BPF_REG_8 10737418239 @
       [BPF_LDX_MEM BPF_DW BPF_REG_7 BPF_REG_2 0,
        BPF_JMP32_REG BPF_JLT BPF_REG_7 BPF_REG_8 1,
        BPF_EXIT_INSN,
        BPF_ALU32_IMM BPF_MOV BPF_REG_0 2,
        BPF_EXIT_INSN],
     bt_result := ACCEPT,
     bt_prog_type := BPF_PROG_TYPE_SCHED_CLS,
     bt_flags := F_NEEDS_EFFICIENT_UNALIGNED_ACCESS,
     bt_runs := 3,
     bt_retvals :=
       [\<lparr>tr_retval = 0, tr_data64 = [6442450943]\<rparr>,
        \<lparr>tr_retval = 0, tr_data64 = [4294967295]\<rparr>,
        \<lparr>tr_retval = 2, tr_data64 = [15032385534]\<rparr>]\<rparr>"

definition jmp32_22 :: bpf_test where
  "jmp32_22 = no_test\<lparr>
     bt_descr := ''jlt32: min/max deduction'',
     bt_insns :=
       BPF_RAND_UEXT_R7 @
       [BPF_ALU32_IMM BPF_MOV BPF_REG_0 2] @
       BPF_LD_IMM64 BPF_REG_8 6442450928 @
       [BPF_JMP32_REG BPF_JLT BPF_REG_7 BPF_REG_8 1,
        BPF_EXIT_INSN,
        BPF_JMP_IMM BPF_JSLT BPF_REG_7 0x7ffffff0 1,
        BPF_LDX_MEM BPF_DW BPF_REG_0 BPF_REG_0 0,
        BPF_EXIT_INSN],
     bt_errstr_unpriv := Some (''R0 invalid mem access '' @ [CHR 0x27] @ ''inv'' @ [CHR 0x27]),
     bt_result := ACCEPT,
     bt_result_unpriv := REJECT,
     bt_retval := 2\<rparr>"

definition jmp32_23 :: bpf_test where
  "jmp32_23 = no_test\<lparr>
     bt_descr := ''jsge32: BPF_K'',
     bt_insns :=
       BPF_DIRECT_PKT_R2 @
       [BPF_LDX_MEM BPF_DW BPF_REG_7 BPF_REG_2 0,
        BPF_JMP32_IMM BPF_JSGE BPF_REG_7 (-1) 1,
        BPF_EXIT_INSN,
        BPF_ALU32_IMM BPF_MOV BPF_REG_0 2,
        BPF_EXIT_INSN],
     bt_result := ACCEPT,
     bt_prog_type := BPF_PROG_TYPE_SCHED_CLS,
     bt_flags := F_NEEDS_EFFICIENT_UNALIGNED_ACCESS,
     bt_runs := 3,
     bt_retvals :=
       [\<lparr>tr_retval = 2, tr_data64 = [0]\<rparr>,
        \<lparr>tr_retval = 2, tr_data64 = [(-1)]\<rparr>,
        \<lparr>tr_retval = 0, tr_data64 = [(-2)]\<rparr>]\<rparr>"

definition jmp32_24 :: bpf_test where
  "jmp32_24 = no_test\<lparr>
     bt_descr := ''jsge32: BPF_X'',
     bt_insns :=
       BPF_DIRECT_PKT_R2 @
       BPF_LD_IMM64 BPF_REG_8 12884901887 @
       [BPF_LDX_MEM BPF_DW BPF_REG_7 BPF_REG_2 0,
        BPF_JMP32_REG BPF_JSGE BPF_REG_7 BPF_REG_8 1,
        BPF_EXIT_INSN,
        BPF_ALU32_IMM BPF_MOV BPF_REG_0 2,
        BPF_EXIT_INSN],
     bt_result := ACCEPT,
     bt_prog_type := BPF_PROG_TYPE_SCHED_CLS,
     bt_flags := F_NEEDS_EFFICIENT_UNALIGNED_ACCESS,
     bt_runs := 3,
     bt_retvals :=
       [\<lparr>tr_retval = 2, tr_data64 = [(-1)]\<rparr>,
        \<lparr>tr_retval = 2, tr_data64 = [6442450943]\<rparr>,
        \<lparr>tr_retval = 0, tr_data64 = [(-2)]\<rparr>]\<rparr>"

definition jmp32_25 :: bpf_test where
  "jmp32_25 = no_test\<lparr>
     bt_descr := ''jsge32: min/max deduction'',
     bt_insns :=
       BPF_RAND_UEXT_R7 @
       [BPF_ALU32_IMM BPF_MOV BPF_REG_0 2] @
       BPF_LD_IMM64 BPF_REG_8 6442450928 @
       [BPF_JMP32_REG BPF_JSGE BPF_REG_7 BPF_REG_8 1,
        BPF_EXIT_INSN,
        BPF_JMP_IMM BPF_JSGE BPF_REG_7 0x7ffffff0 1,
        BPF_LDX_MEM BPF_DW BPF_REG_0 BPF_REG_0 0,
        BPF_EXIT_INSN],
     bt_errstr_unpriv := Some (''R0 invalid mem access '' @ [CHR 0x27] @ ''inv'' @ [CHR 0x27]),
     bt_result := ACCEPT,
     bt_result_unpriv := REJECT,
     bt_retval := 2\<rparr>"

definition jmp32_26 :: bpf_test where
  "jmp32_26 = no_test\<lparr>
     bt_descr := ''jsgt32: BPF_K'',
     bt_insns :=
       BPF_DIRECT_PKT_R2 @
       [BPF_LDX_MEM BPF_DW BPF_REG_7 BPF_REG_2 0,
        BPF_JMP32_IMM BPF_JSGT BPF_REG_7 (-1) 1,
        BPF_EXIT_INSN,
        BPF_ALU32_IMM BPF_MOV BPF_REG_0 2,
        BPF_EXIT_INSN],
     bt_result := ACCEPT,
     bt_prog_type := BPF_PROG_TYPE_SCHED_CLS,
     bt_flags := F_NEEDS_EFFICIENT_UNALIGNED_ACCESS,
     bt_runs := 3,
     bt_retvals :=
       [\<lparr>tr_retval = 0, tr_data64 = [4294967294]\<rparr>,
        \<lparr>tr_retval = 0, tr_data64 = [(-1)]\<rparr>,
        \<lparr>tr_retval = 2, tr_data64 = [1]\<rparr>]\<rparr>"

definition jmp32_27 :: bpf_test where
  "jmp32_27 = no_test\<lparr>
     bt_descr := ''jsgt32: BPF_X'',
     bt_insns :=
       BPF_DIRECT_PKT_R2 @
       BPF_LD_IMM64 BPF_REG_8 6442450942 @
       [BPF_LDX_MEM BPF_DW BPF_REG_7 BPF_REG_2 0,
        BPF_JMP32_REG BPF_JSGT BPF_REG_7 BPF_REG_8 1,
        BPF_EXIT_INSN,
        BPF_ALU32_IMM BPF_MOV BPF_REG_0 2,
        BPF_EXIT_INSN],
     bt_result := ACCEPT,
     bt_prog_type := BPF_PROG_TYPE_SCHED_CLS,
     bt_flags := F_NEEDS_EFFICIENT_UNALIGNED_ACCESS,
     bt_runs := 3,
     bt_retvals :=
       [\<lparr>tr_retval = 0, tr_data64 = [0x7ffffffe]\<rparr>,
        \<lparr>tr_retval = 0, tr_data64 = [8589934591]\<rparr>,
        \<lparr>tr_retval = 2, tr_data64 = [0x7fffffff]\<rparr>]\<rparr>"

definition jmp32_28 :: bpf_test where
  "jmp32_28 = no_test\<lparr>
     bt_descr := ''jsgt32: min/max deduction'',
     bt_insns :=
       BPF_RAND_SEXT_R7 @
       [BPF_ALU32_IMM BPF_MOV BPF_REG_0 2] @
       BPF_LD_IMM64 BPF_REG_8 8589934590 @
       [BPF_JMP32_REG BPF_JSGT BPF_REG_7 BPF_REG_8 1,
        BPF_EXIT_INSN,
        BPF_JMP_IMM BPF_JSGT BPF_REG_7 (-2) 1,
        BPF_LDX_MEM BPF_DW BPF_REG_0 BPF_REG_0 0,
        BPF_EXIT_INSN],
     bt_errstr_unpriv := Some (''R0 invalid mem access '' @ [CHR 0x27] @ ''inv'' @ [CHR 0x27]),
     bt_result := ACCEPT,
     bt_result_unpriv := REJECT,
     bt_retval := 2\<rparr>"

definition jmp32_29 :: bpf_test where
  "jmp32_29 = no_test\<lparr>
     bt_descr := ''jsle32: BPF_K'',
     bt_insns :=
       BPF_DIRECT_PKT_R2 @
       [BPF_LDX_MEM BPF_DW BPF_REG_7 BPF_REG_2 0,
        BPF_JMP32_IMM BPF_JSLE BPF_REG_7 (-1) 1,
        BPF_EXIT_INSN,
        BPF_ALU32_IMM BPF_MOV BPF_REG_0 2,
        BPF_EXIT_INSN],
     bt_result := ACCEPT,
     bt_prog_type := BPF_PROG_TYPE_SCHED_CLS,
     bt_flags := F_NEEDS_EFFICIENT_UNALIGNED_ACCESS,
     bt_runs := 3,
     bt_retvals :=
       [\<lparr>tr_retval = 2, tr_data64 = [4294967294]\<rparr>,
        \<lparr>tr_retval = 2, tr_data64 = [(-1)]\<rparr>,
        \<lparr>tr_retval = 0, tr_data64 = [1]\<rparr>]\<rparr>"

definition jmp32_30 :: bpf_test where
  "jmp32_30 = no_test\<lparr>
     bt_descr := ''jsle32: BPF_X'',
     bt_insns :=
       BPF_DIRECT_PKT_R2 @
       BPF_LD_IMM64 BPF_REG_8 6442450942 @
       [BPF_LDX_MEM BPF_DW BPF_REG_7 BPF_REG_2 0,
        BPF_JMP32_REG BPF_JSLE BPF_REG_7 BPF_REG_8 1,
        BPF_EXIT_INSN,
        BPF_ALU32_IMM BPF_MOV BPF_REG_0 2,
        BPF_EXIT_INSN],
     bt_result := ACCEPT,
     bt_prog_type := BPF_PROG_TYPE_SCHED_CLS,
     bt_flags := F_NEEDS_EFFICIENT_UNALIGNED_ACCESS,
     bt_runs := 3,
     bt_retvals :=
       [\<lparr>tr_retval = 2, tr_data64 = [0x7ffffffe]\<rparr>,
        \<lparr>tr_retval = 2, tr_data64 = [4294967295]\<rparr>,
        \<lparr>tr_retval = 0, tr_data64 = [10737418239]\<rparr>]\<rparr>"

definition jmp32_31 :: bpf_test where
  "jmp32_31 = no_test\<lparr>
     bt_descr := ''jsle32: min/max deduction'',
     bt_insns :=
       BPF_RAND_UEXT_R7 @
       [BPF_ALU32_IMM BPF_MOV BPF_REG_0 2] @
       BPF_LD_IMM64 BPF_REG_8 6442450928 @
       [BPF_JMP32_REG BPF_JSLE BPF_REG_7 BPF_REG_8 1,
        BPF_EXIT_INSN,
        BPF_JMP_IMM BPF_JSLE BPF_REG_7 0x7ffffff0 1,
        BPF_LDX_MEM BPF_DW BPF_REG_0 BPF_REG_0 0,
        BPF_EXIT_INSN],
     bt_errstr_unpriv := Some (''R0 invalid mem access '' @ [CHR 0x27] @ ''inv'' @ [CHR 0x27]),
     bt_result := ACCEPT,
     bt_result_unpriv := REJECT,
     bt_retval := 2\<rparr>"

definition jmp32_32 :: bpf_test where
  "jmp32_32 = no_test\<lparr>
     bt_descr := ''jslt32: BPF_K'',
     bt_insns :=
       BPF_DIRECT_PKT_R2 @
       [BPF_LDX_MEM BPF_DW BPF_REG_7 BPF_REG_2 0,
        BPF_JMP32_IMM BPF_JSLT BPF_REG_7 (-1) 1,
        BPF_EXIT_INSN,
        BPF_ALU32_IMM BPF_MOV BPF_REG_0 2,
        BPF_EXIT_INSN],
     bt_result := ACCEPT,
     bt_prog_type := BPF_PROG_TYPE_SCHED_CLS,
     bt_flags := F_NEEDS_EFFICIENT_UNALIGNED_ACCESS,
     bt_runs := 3,
     bt_retvals :=
       [\<lparr>tr_retval = 2, tr_data64 = [4294967294]\<rparr>,
        \<lparr>tr_retval = 0, tr_data64 = [(-1)]\<rparr>,
        \<lparr>tr_retval = 0, tr_data64 = [1]\<rparr>]\<rparr>"

definition jmp32_33 :: bpf_test where
  "jmp32_33 = no_test\<lparr>
     bt_descr := ''jslt32: BPF_X'',
     bt_insns :=
       BPF_DIRECT_PKT_R2 @
       BPF_LD_IMM64 BPF_REG_8 6442450943 @
       [BPF_LDX_MEM BPF_DW BPF_REG_7 BPF_REG_2 0,
        BPF_JMP32_REG BPF_JSLT BPF_REG_7 BPF_REG_8 1,
        BPF_EXIT_INSN,
        BPF_ALU32_IMM BPF_MOV BPF_REG_0 2,
        BPF_EXIT_INSN],
     bt_result := ACCEPT,
     bt_prog_type := BPF_PROG_TYPE_SCHED_CLS,
     bt_flags := F_NEEDS_EFFICIENT_UNALIGNED_ACCESS,
     bt_runs := 3,
     bt_retvals :=
       [\<lparr>tr_retval = 2, tr_data64 = [0x7ffffffe]\<rparr>,
        \<lparr>tr_retval = 2, tr_data64 = [0xffffffff]\<rparr>,
        \<lparr>tr_retval = 0, tr_data64 = [10737418239]\<rparr>]\<rparr>"

definition jmp32_34 :: bpf_test where
  "jmp32_34 = no_test\<lparr>
     bt_descr := ''jslt32: min/max deduction'',
     bt_insns :=
       BPF_RAND_SEXT_R7 @
       [BPF_ALU32_IMM BPF_MOV BPF_REG_0 2] @
       BPF_LD_IMM64 BPF_REG_8 8589934591 @
       [BPF_JMP32_REG BPF_JSLT BPF_REG_7 BPF_REG_8 1,
        BPF_EXIT_INSN,
        BPF_JMP32_IMM BPF_JSLT BPF_REG_7 (-1) 1,
        BPF_LDX_MEM BPF_DW BPF_REG_0 BPF_REG_0 0,
        BPF_EXIT_INSN],
     bt_errstr_unpriv := Some (''R0 invalid mem access '' @ [CHR 0x27] @ ''inv'' @ [CHR 0x27]),
     bt_result := ACCEPT,
     bt_result_unpriv := REJECT,
     bt_retval := 2\<rparr>"

definition jmp32_35 :: bpf_test where
  "jmp32_35 = no_test\<lparr>
     bt_descr := ''jgt32: range bound deduction, reg op imm'',
     bt_insns :=
       [BPF_ST_MEM BPF_DW BPF_REG_10 (-8) 0,
        BPF_MOV64_REG BPF_REG_8 BPF_REG_1,
        BPF_MOV64_REG BPF_REG_2 BPF_REG_10,
        BPF_ALU64_IMM BPF_ADD BPF_REG_2 (-8)] @
       BPF_LD_MAP_FD BPF_REG_1 0 @
       [BPF_RAW_INSN (BPF_JMP OR BPF_CALL) 0 0 0 BPF_FUNC_map_lookup_elem,
        BPF_JMP_IMM BPF_JEQ BPF_REG_0 0 9,
        BPF_MOV64_REG BPF_REG_1 BPF_REG_8,
        BPF_MOV64_REG BPF_REG_8 BPF_REG_0,
        BPF_EMIT_CALL BPF_FUNC_get_cgroup_classid,
        BPF_JMP32_IMM BPF_JGT BPF_REG_0 1 5,
        BPF_MOV32_REG BPF_REG_6 BPF_REG_0,
        BPF_ALU64_IMM BPF_LSH BPF_REG_6 32,
        BPF_ALU64_IMM BPF_RSH BPF_REG_6 32,
        BPF_ALU64_REG BPF_ADD BPF_REG_8 BPF_REG_6,
        BPF_ST_MEM BPF_B BPF_REG_8 0 0,
        BPF_MOV32_IMM BPF_REG_0 0,
        BPF_EXIT_INSN],
     bt_fixup_map_hash_48b := [4],
     bt_result := ACCEPT,
     bt_prog_type := BPF_PROG_TYPE_SCHED_CLS,
     bt_flags := F_NEEDS_EFFICIENT_UNALIGNED_ACCESS\<rparr>"

definition jmp32_36 :: bpf_test where
  "jmp32_36 = no_test\<lparr>
     bt_descr := ''jgt32: range bound deduction, reg1 op reg2, reg1 unknown'',
     bt_insns :=
       [BPF_ST_MEM BPF_DW BPF_REG_10 (-8) 0,
        BPF_MOV64_REG BPF_REG_8 BPF_REG_1,
        BPF_MOV64_REG BPF_REG_2 BPF_REG_10,
        BPF_ALU64_IMM BPF_ADD BPF_REG_2 (-8)] @
       BPF_LD_MAP_FD BPF_REG_1 0 @
       [BPF_RAW_INSN (BPF_JMP OR BPF_CALL) 0 0 0 BPF_FUNC_map_lookup_elem,
        BPF_JMP_IMM BPF_JEQ BPF_REG_0 0 10,
        BPF_MOV64_REG BPF_REG_1 BPF_REG_8,
        BPF_MOV64_REG BPF_REG_8 BPF_REG_0,
        BPF_EMIT_CALL BPF_FUNC_get_cgroup_classid,
        BPF_MOV32_IMM BPF_REG_2 1,
        BPF_JMP32_REG BPF_JGT BPF_REG_0 BPF_REG_2 5,
        BPF_MOV32_REG BPF_REG_6 BPF_REG_0,
        BPF_ALU64_IMM BPF_LSH BPF_REG_6 32,
        BPF_ALU64_IMM BPF_RSH BPF_REG_6 32,
        BPF_ALU64_REG BPF_ADD BPF_REG_8 BPF_REG_6,
        BPF_ST_MEM BPF_B BPF_REG_8 0 0,
        BPF_MOV32_IMM BPF_REG_0 0,
        BPF_EXIT_INSN],
     bt_fixup_map_hash_48b := [4],
     bt_result := ACCEPT,
     bt_prog_type := BPF_PROG_TYPE_SCHED_CLS,
     bt_flags := F_NEEDS_EFFICIENT_UNALIGNED_ACCESS\<rparr>"

definition jmp32_37 :: bpf_test where
  "jmp32_37 = no_test\<lparr>
     bt_descr := ''jle32: range bound deduction, reg1 op reg2, reg2 unknown'',
     bt_insns :=
       [BPF_ST_MEM BPF_DW BPF_REG_10 (-8) 0,
        BPF_MOV64_REG BPF_REG_8 BPF_REG_1,
        BPF_MOV64_REG BPF_REG_2 BPF_REG_10,
        BPF_ALU64_IMM BPF_ADD BPF_REG_2 (-8)] @
       BPF_LD_MAP_FD BPF_REG_1 0 @
       [BPF_RAW_INSN (BPF_JMP OR BPF_CALL) 0 0 0 BPF_FUNC_map_lookup_elem,
        BPF_JMP_IMM BPF_JEQ BPF_REG_0 0 10,
        BPF_MOV64_REG BPF_REG_1 BPF_REG_8,
        BPF_MOV64_REG BPF_REG_8 BPF_REG_0,
        BPF_EMIT_CALL BPF_FUNC_get_cgroup_classid,
        BPF_MOV32_IMM BPF_REG_2 1,
        BPF_JMP32_REG BPF_JLE BPF_REG_2 BPF_REG_0 5,
        BPF_MOV32_REG BPF_REG_6 BPF_REG_0,
        BPF_ALU64_IMM BPF_LSH BPF_REG_6 32,
        BPF_ALU64_IMM BPF_RSH BPF_REG_6 32,
        BPF_ALU64_REG BPF_ADD BPF_REG_8 BPF_REG_6,
        BPF_ST_MEM BPF_B BPF_REG_8 0 0,
        BPF_MOV32_IMM BPF_REG_0 0,
        BPF_EXIT_INSN],
     bt_fixup_map_hash_48b := [4],
     bt_result := ACCEPT,
     bt_prog_type := BPF_PROG_TYPE_SCHED_CLS,
     bt_flags := F_NEEDS_EFFICIENT_UNALIGNED_ACCESS\<rparr>"

definition jmp32_tests :: "bpf_test list" where
  "jmp32_tests =
     [jmp32_1, jmp32_2, jmp32_3, jmp32_4, jmp32_5, jmp32_6, jmp32_7, jmp32_8,
      jmp32_9, jmp32_10, jmp32_11, jmp32_12, jmp32_13, jmp32_14, jmp32_15, jmp32_16,
      jmp32_17, jmp32_18, jmp32_19, jmp32_20, jmp32_21, jmp32_22, jmp32_23, jmp32_24,
      jmp32_25, jmp32_26, jmp32_27, jmp32_28, jmp32_29, jmp32_30, jmp32_31, jmp32_32,
      jmp32_33, jmp32_34, jmp32_35, jmp32_36, jmp32_37]"

section \<open>Packets\<close>

lemma data_load:
  assumes "has_data i [b0, b1, b2, b3, b4, b5, b6, b7]"
  shows "of_bytes [in_pkt i 0, in_pkt i 1, in_pkt i 2, in_pkt i 3, in_pkt i 4, in_pkt i 5, in_pkt i 6, in_pkt i 7] =
      of_bytes [b0, b1, b2, b3, b4, b5, b6, b7]"
proof -
  have "in_pkt i (int k) = [b0, b1, b2, b3, b4, b5, b6, b7] ! k" if "k < 8" for k
    using assms that by (simp add: has_data_def TEST_DATA_LEN_def)
  from this [of 0] this [of 1] this [of 2] this [of 3] this [of 4] this [of 5] this [of 6] this [of 7]
  show ?thesis by simp
qed

lemma data_len: "has_data i bs \<Longrightarrow> in_len i = 64"
  by (simp add: has_data_def TEST_DATA_LEN_def)

section \<open>Conditions that exclude a branch\<close>

lemma or_2_and_3: "((x :: u64) OR 2) AND 3 \<noteq> 0"
proof
  assume "(x OR 2) AND 3 = 0"
  then have "\<not> bit ((x OR 2) AND 3) 1" by simp
  then show False by (simp add: bit_simps)
qed

lemma less_16_drop: "(y :: u64) < 16 \<longleftrightarrow> drop_bit 4 y = 0"
  by (simp add: word_less_nat_alt word_unat_eq_iff drop_bit_eq_div unat_div div_eq_0_iff)

lemma and_240_drop: "((x :: u64) AND 255) AND 240 = 0 \<longleftrightarrow> drop_bit 4 (x AND 255) = 0"
proof -
  have *: "(255 :: u64) = mask 8" "(240 :: u64) = push_bit 4 (mask 4)" by (simp_all add: mask_eq_exp_minus_1)
  have "((x AND 255) AND 240) = push_bit 4 (drop_bit 4 (x AND 255))"
    unfolding * by (rule bit_word_eqI) (auto simp: bit_simps)
  moreover have "drop_bit 4 (push_bit 4 (drop_bit 4 (x AND 255))) = drop_bit 4 (x AND 255)"
    unfolding * by (rule bit_word_eqI) (auto simp: bit_simps)
  ultimately show ?thesis by (metis drop_bit_of_0 push_bit_of_0)
qed

lemma uint_ucast_64: "uint (ucast (r :: u32) :: u64) = uint r"
  by (rule bit_eqI) (auto simp: bit_simps dest: bit_u32_less)

lemma less_16_and: "(x :: u32) < 16 \<Longrightarrow> x AND 16 = 0"
proof -
  assume "x < 16"
  then have "take_bit 4 x = x"
    by (simp add: word_less_def word_uint_eq_iff unsigned_take_bit_eq take_bit_int_eq_self)
  then have "\<not> bit x 4" by (metis bit_take_bit_iff less_irrefl)
  then show ?thesis by (simp add: and_exp_eq_0_iff_not_bit [of x 4, simplified])
qed

section \<open>What the programs do\<close>

lemma jset_1_exits: "exits (exec_test jset_1 i)"
  by (simp add: jset_1_def test_eval, simp add: run_eval)

lemma jset_1_run_1: "has_data64 i [9223372039002259457] \<Longrightarrow> returns (exec_test jset_1 i) 2"
  by (frule data64_load, frule data64_len, simp add: jset_1_def test_eval, simp add: run_eval data64_at_def)

lemma jset_1_run_2: "has_data64 i [9223372039002259456] \<Longrightarrow> returns (exec_test jset_1 i) 2"
  by (frule data64_load, frule data64_len, simp add: jset_1_def test_eval, simp add: run_eval data64_at_def)

lemma jset_1_run_3: "has_data64 i [2147483649] \<Longrightarrow> returns (exec_test jset_1 i) 2"
  by (frule data64_load, frule data64_len, simp add: jset_1_def test_eval, simp add: run_eval data64_at_def)

lemma jset_1_run_4: "has_data64 i [4294967295] \<Longrightarrow> returns (exec_test jset_1 i) 2"
  by (frule data64_load, frule data64_len, simp add: jset_1_def test_eval, simp add: run_eval data64_at_def)

lemma jset_1_run_5: "has_data64 i [(-4611686018427387905)] \<Longrightarrow> returns (exec_test jset_1 i) 2"
  by (frule data64_load, frule data64_len, simp add: jset_1_def test_eval, simp add: run_eval data64_at_def)

lemma jset_1_run_6: "has_data64 i [0] \<Longrightarrow> returns (exec_test jset_1 i) 0"
  by (frule data64_load, frule data64_len, simp add: jset_1_def test_eval, simp add: run_eval data64_at_def)

lemma jset_1_run_7: "has_data64 i [(-1)] \<Longrightarrow> returns (exec_test jset_1 i) 0"
  by (frule data64_load, frule data64_len, simp add: jset_1_def test_eval, simp add: run_eval data64_at_def)

lemma jset_1_retvals:
  "bt_result jset_1 = ACCEPT" "bt_runs jset_1 = 7"
  "bt_retvals jset_1 =
    [\<lparr>tr_retval = 2, tr_data64 = [9223372039002259457]\<rparr>,
     \<lparr>tr_retval = 2, tr_data64 = [9223372039002259456]\<rparr>,
     \<lparr>tr_retval = 2, tr_data64 = [2147483649]\<rparr>,
     \<lparr>tr_retval = 2, tr_data64 = [4294967295]\<rparr>,
     \<lparr>tr_retval = 2, tr_data64 = [(-4611686018427387905)]\<rparr>,
     \<lparr>tr_retval = 0, tr_data64 = [0]\<rparr>,
     \<lparr>tr_retval = 0, tr_data64 = [(-1)]\<rparr>]"
  by (simp_all add: jset_1_def no_test_def)

lemma jset_1_verdict: "verdict_right jset_1"
  by (simp add: verdict_right_def safe_def meets_retvals_def jset_1_retvals jset_1_exits
    jset_1_run_1 jset_1_run_2 jset_1_run_3 jset_1_run_4 jset_1_run_5 jset_1_run_6 jset_1_run_7)

lemma jset_2_exits: "exits (exec_test jset_2 i)"
  by (simp add: jset_2_def test_eval, simp add: run_eval)

lemma jset_2_run: "has_data i [1, 0, 0, 0, 0, 0, 0, 1] \<Longrightarrow> returns (exec_test jset_2 i) 2"
  by (frule data_load, frule data_len, simp add: jset_2_def test_eval, simp add: run_eval, simp add: of_bytes.simps)

lemma jset_2_retval: "bt_result jset_2 = ACCEPT" "bt_runs jset_2 = 0" "bt_retval jset_2 = 2" "bt_data jset_2 = [1, 0, 0, 0, 0, 0, 0, 1]"
  by (simp_all add: jset_2_def no_test_def)

lemma jset_2_verdict: "verdict_right jset_2"
  by (simp add: verdict_right_def safe_def meets_retvals_def jset_2_retval jset_2_exits jset_2_run)

lemma jset_3_returns: "returns (exec_test jset_3 i) 1"
  by (simp add: jset_3_def test_eval, simp add: run_eval)

lemma jset_3_retval: "bt_result jset_3 = ACCEPT" "bt_runs jset_3 = 0" "bt_retval jset_3 = 1"
  by (simp_all add: jset_3_def no_test_def)

lemma jset_3_verdict: "verdict_right jset_3"
  by (rule verdict_right_const) (simp_all add: jset_3_retval jset_3_returns)

lemma jset_4_verdict: "verdict_right jset_4"
  by (simp add: verdict_right_def jset_4_def no_test_def, rule exI [of _ "zeros 8 0"],
    simp add: test_eval, simp add: run_eval zeros_def)

lemma jset_5_verdict: "verdict_right jset_5"
  by (simp add: verdict_right_def jset_5_def no_test_def, rule exI [of _ "(zeros 8 0)\<lparr>in_rand := \<lambda>_. 1\<rparr>"],
    simp add: test_eval, simp add: run_eval zeros_def)

lemma jset_6_verdict: "verdict_right jset_6"
  by (simp add: verdict_right_def jset_6_def no_test_def, rule exI [of _ "zeros 8 0"],
    simp add: test_eval, simp add: run_eval zeros_def)

lemma jset_7_returns: "returns (exec_test jset_7 i) 0"
  by (simp add: jset_7_def test_eval, simp add: run_eval or_2_and_3)

lemma jset_7_retval: "bt_result jset_7 = ACCEPT" "bt_runs jset_7 = 0" "bt_retval jset_7 = 0"
  by (simp_all add: jset_7_def no_test_def)

lemma jset_7_verdict: "verdict_right jset_7"
  by (rule verdict_right_const) (simp_all add: jset_7_retval jset_7_returns)

lemma jset_8_returns: "returns (exec_test jset_8 i) 0"
  by (simp add: jset_8_def test_eval, simp add: run_eval, simp add: less_16_drop and_240_drop)

lemma jset_8_retval: "bt_result jset_8 = ACCEPT" "bt_runs jset_8 = 0" "bt_retval jset_8 = 0"
  by (simp_all add: jset_8_def no_test_def)

lemma jset_8_verdict: "verdict_right jset_8"
  by (rule verdict_right_const) (simp_all add: jset_8_retval jset_8_returns)

lemma jmp32_1_exits: "exits (exec_test jmp32_1 i)"
  by (simp add: jmp32_1_def test_eval, simp add: run_eval)

lemma jmp32_1_run_1: "has_data64 i [9223372036854775808] \<Longrightarrow> returns (exec_test jmp32_1 i) 0"
  by (frule data64_load, frule data64_len, simp add: jmp32_1_def test_eval, simp add: run_eval data64_at_def)

lemma jmp32_1_run_2: "has_data64 i [1] \<Longrightarrow> returns (exec_test jmp32_1 i) 2"
  by (frule data64_load, frule data64_len, simp add: jmp32_1_def test_eval, simp add: run_eval data64_at_def)

lemma jmp32_1_run_3: "has_data64 i [9223372036854775809] \<Longrightarrow> returns (exec_test jmp32_1 i) 2"
  by (frule data64_load, frule data64_len, simp add: jmp32_1_def test_eval, simp add: run_eval data64_at_def)

lemma jmp32_1_retvals:
  "bt_result jmp32_1 = ACCEPT" "bt_runs jmp32_1 = 3"
  "bt_retvals jmp32_1 =
    [\<lparr>tr_retval = 0, tr_data64 = [9223372036854775808]\<rparr>,
     \<lparr>tr_retval = 2, tr_data64 = [1]\<rparr>,
     \<lparr>tr_retval = 2, tr_data64 = [9223372036854775809]\<rparr>]"
  by (simp_all add: jmp32_1_def no_test_def)

lemma jmp32_1_verdict: "verdict_right jmp32_1"
  by (simp add: verdict_right_def safe_def meets_retvals_def jmp32_1_retvals jmp32_1_exits
    jmp32_1_run_1 jmp32_1_run_2 jmp32_1_run_3)

lemma jmp32_2_exits: "exits (exec_test jmp32_2 i)"
  by (simp add: jmp32_2_def test_eval, simp add: run_eval)

lemma jmp32_2_run_1: "has_data64 i [9223372036854775808] \<Longrightarrow> returns (exec_test jmp32_2 i) 0"
  by (frule data64_load, frule data64_len, simp add: jmp32_2_def test_eval, simp add: run_eval data64_at_def)

lemma jmp32_2_run_2: "has_data64 i [1] \<Longrightarrow> returns (exec_test jmp32_2 i) 2"
  by (frule data64_load, frule data64_len, simp add: jmp32_2_def test_eval, simp add: run_eval data64_at_def)

lemma jmp32_2_run_3: "has_data64 i [9223372036854775809] \<Longrightarrow> returns (exec_test jmp32_2 i) 2"
  by (frule data64_load, frule data64_len, simp add: jmp32_2_def test_eval, simp add: run_eval data64_at_def)

lemma jmp32_2_retvals:
  "bt_result jmp32_2 = ACCEPT" "bt_runs jmp32_2 = 3"
  "bt_retvals jmp32_2 =
    [\<lparr>tr_retval = 0, tr_data64 = [9223372036854775808]\<rparr>,
     \<lparr>tr_retval = 2, tr_data64 = [1]\<rparr>,
     \<lparr>tr_retval = 2, tr_data64 = [9223372036854775809]\<rparr>]"
  by (simp_all add: jmp32_2_def no_test_def)

lemma jmp32_2_verdict: "verdict_right jmp32_2"
  by (simp add: verdict_right_def safe_def meets_retvals_def jmp32_2_retvals jmp32_2_exits
    jmp32_2_run_1 jmp32_2_run_2 jmp32_2_run_3)

lemma jmp32_3_returns: "returns (exec_test jmp32_3 i) 2"
  by (simp add: jmp32_3_def test_eval, simp add: run_eval)

lemma jmp32_3_retval: "bt_result jmp32_3 = ACCEPT" "bt_runs jmp32_3 = 0" "bt_retval jmp32_3 = 2"
  by (simp_all add: jmp32_3_def no_test_def)

lemma jmp32_3_verdict: "verdict_right jmp32_3"
  by (rule verdict_right_const) (simp_all add: jmp32_3_retval jmp32_3_returns)

lemma jmp32_4_returns: "returns (exec_test jmp32_4 i) 0"
  by (simp add: jmp32_4_def test_eval, simp add: run_eval, simp add: not_le less_16_and)

lemma jmp32_4_retval: "bt_result jmp32_4 = ACCEPT" "bt_runs jmp32_4 = 0" "bt_retval jmp32_4 = 0"
  by (simp_all add: jmp32_4_def no_test_def)

lemma jmp32_4_verdict: "verdict_right jmp32_4"
  by (rule verdict_right_const) (simp_all add: jmp32_4_retval jmp32_4_returns)

lemma jmp32_5_exits: "exits (exec_test jmp32_5 i)"
  by (simp add: jmp32_5_def test_eval, simp add: run_eval)

lemma jmp32_5_run_1: "has_data64 i [(-2)] \<Longrightarrow> returns (exec_test jmp32_5 i) 0"
  by (frule data64_load, frule data64_len, simp add: jmp32_5_def test_eval, simp add: run_eval data64_at_def)

lemma jmp32_5_run_2: "has_data64 i [(-1)] \<Longrightarrow> returns (exec_test jmp32_5 i) 2"
  by (frule data64_load, frule data64_len, simp add: jmp32_5_def test_eval, simp add: run_eval data64_at_def)

lemma jmp32_5_retvals:
  "bt_result jmp32_5 = ACCEPT" "bt_runs jmp32_5 = 2"
  "bt_retvals jmp32_5 =
    [\<lparr>tr_retval = 0, tr_data64 = [(-2)]\<rparr>,
     \<lparr>tr_retval = 2, tr_data64 = [(-1)]\<rparr>]"
  by (simp_all add: jmp32_5_def no_test_def)

lemma jmp32_5_verdict: "verdict_right jmp32_5"
  by (simp add: verdict_right_def safe_def meets_retvals_def jmp32_5_retvals jmp32_5_exits
    jmp32_5_run_1 jmp32_5_run_2)

lemma jmp32_6_exits: "exits (exec_test jmp32_6 i)"
  by (simp add: jmp32_6_def test_eval, simp add: run_eval)

lemma jmp32_6_run_1: "has_data64 i [2] \<Longrightarrow> returns (exec_test jmp32_6 i) 0"
  by (frule data64_load, frule data64_len, simp add: jmp32_6_def test_eval, simp add: run_eval data64_at_def)

lemma jmp32_6_run_2: "has_data64 i [1] \<Longrightarrow> returns (exec_test jmp32_6 i) 2"
  by (frule data64_load, frule data64_len, simp add: jmp32_6_def test_eval, simp add: run_eval data64_at_def)

lemma jmp32_6_run_3: "has_data64 i [9223372036854775809] \<Longrightarrow> returns (exec_test jmp32_6 i) 2"
  by (frule data64_load, frule data64_len, simp add: jmp32_6_def test_eval, simp add: run_eval data64_at_def)

lemma jmp32_6_retvals:
  "bt_result jmp32_6 = ACCEPT" "bt_runs jmp32_6 = 3"
  "bt_retvals jmp32_6 =
    [\<lparr>tr_retval = 0, tr_data64 = [2]\<rparr>,
     \<lparr>tr_retval = 2, tr_data64 = [1]\<rparr>,
     \<lparr>tr_retval = 2, tr_data64 = [9223372036854775809]\<rparr>]"
  by (simp_all add: jmp32_6_def no_test_def)

lemma jmp32_6_verdict: "verdict_right jmp32_6"
  by (simp add: verdict_right_def safe_def meets_retvals_def jmp32_6_retvals jmp32_6_exits
    jmp32_6_run_1 jmp32_6_run_2 jmp32_6_run_3)

lemma jmp32_7_returns: "returns (exec_test jmp32_7 i) 0"
  by (simp add: jmp32_7_def test_eval, simp add: run_eval)

lemma jmp32_7_retval: "bt_result jmp32_7 = ACCEPT" "bt_runs jmp32_7 = 0" "bt_retval jmp32_7 = 0"
  by (simp_all add: jmp32_7_def no_test_def)

lemma jmp32_7_verdict: "verdict_right jmp32_7"
  by (rule verdict_right_const) (simp_all add: jmp32_7_retval jmp32_7_returns)

lemma jmp32_8_exits: "exits (exec_test jmp32_8 i)"
  by (simp add: jmp32_8_def test_eval, simp add: run_eval)

lemma jmp32_8_run_1: "has_data64 i [1] \<Longrightarrow> returns (exec_test jmp32_8 i) 2"
  by (frule data64_load, frule data64_len, simp add: jmp32_8_def test_eval, simp add: run_eval data64_at_def)

lemma jmp32_8_run_2: "has_data64 i [(-1)] \<Longrightarrow> returns (exec_test jmp32_8 i) 0"
  by (frule data64_load, frule data64_len, simp add: jmp32_8_def test_eval, simp add: run_eval data64_at_def)

lemma jmp32_8_retvals:
  "bt_result jmp32_8 = ACCEPT" "bt_runs jmp32_8 = 2"
  "bt_retvals jmp32_8 =
    [\<lparr>tr_retval = 2, tr_data64 = [1]\<rparr>,
     \<lparr>tr_retval = 0, tr_data64 = [(-1)]\<rparr>]"
  by (simp_all add: jmp32_8_def no_test_def)

lemma jmp32_8_verdict: "verdict_right jmp32_8"
  by (simp add: verdict_right_def safe_def meets_retvals_def jmp32_8_retvals jmp32_8_exits
    jmp32_8_run_1 jmp32_8_run_2)

lemma jmp32_9_exits: "exits (exec_test jmp32_9 i)"
  by (simp add: jmp32_9_def test_eval, simp add: run_eval)

lemma jmp32_9_run_1: "has_data64 i [1] \<Longrightarrow> returns (exec_test jmp32_9 i) 0"
  by (frule data64_load, frule data64_len, simp add: jmp32_9_def test_eval, simp add: run_eval data64_at_def)

lemma jmp32_9_run_2: "has_data64 i [2] \<Longrightarrow> returns (exec_test jmp32_9 i) 2"
  by (frule data64_load, frule data64_len, simp add: jmp32_9_def test_eval, simp add: run_eval data64_at_def)

lemma jmp32_9_run_3: "has_data64 i [9223372036854775810] \<Longrightarrow> returns (exec_test jmp32_9 i) 2"
  by (frule data64_load, frule data64_len, simp add: jmp32_9_def test_eval, simp add: run_eval data64_at_def)

lemma jmp32_9_retvals:
  "bt_result jmp32_9 = ACCEPT" "bt_runs jmp32_9 = 3"
  "bt_retvals jmp32_9 =
    [\<lparr>tr_retval = 0, tr_data64 = [1]\<rparr>,
     \<lparr>tr_retval = 2, tr_data64 = [2]\<rparr>,
     \<lparr>tr_retval = 2, tr_data64 = [9223372036854775810]\<rparr>]"
  by (simp_all add: jmp32_9_def no_test_def)

lemma jmp32_9_verdict: "verdict_right jmp32_9"
  by (simp add: verdict_right_def safe_def meets_retvals_def jmp32_9_retvals jmp32_9_exits
    jmp32_9_run_1 jmp32_9_run_2 jmp32_9_run_3)

lemma jmp32_10_returns: "returns (exec_test jmp32_10 i) 0"
  by (simp add: jmp32_10_def test_eval, simp add: run_eval)

lemma jmp32_10_retval: "bt_result jmp32_10 = ACCEPT" "bt_runs jmp32_10 = 0" "bt_retval jmp32_10 = 0"
  by (simp_all add: jmp32_10_def no_test_def)

lemma jmp32_10_verdict: "verdict_right jmp32_10"
  by (rule verdict_right_const) (simp_all add: jmp32_10_retval jmp32_10_returns)

lemma jmp32_11_exits: "exits (exec_test jmp32_11 i)"
  by (simp add: jmp32_11_def test_eval, simp add: run_eval)

lemma jmp32_11_run_1: "has_data64 i [4294967295] \<Longrightarrow> returns (exec_test jmp32_11 i) 2"
  by (frule data64_load, frule data64_len, simp add: jmp32_11_def test_eval, simp add: run_eval data64_at_def)

lemma jmp32_11_run_2: "has_data64 i [4294967294] \<Longrightarrow> returns (exec_test jmp32_11 i) 2"
  by (frule data64_load, frule data64_len, simp add: jmp32_11_def test_eval, simp add: run_eval data64_at_def)

lemma jmp32_11_run_3: "has_data64 i [0] \<Longrightarrow> returns (exec_test jmp32_11 i) 0"
  by (frule data64_load, frule data64_len, simp add: jmp32_11_def test_eval, simp add: run_eval data64_at_def)

lemma jmp32_11_retvals:
  "bt_result jmp32_11 = ACCEPT" "bt_runs jmp32_11 = 3"
  "bt_retvals jmp32_11 =
    [\<lparr>tr_retval = 2, tr_data64 = [4294967295]\<rparr>,
     \<lparr>tr_retval = 2, tr_data64 = [4294967294]\<rparr>,
     \<lparr>tr_retval = 0, tr_data64 = [0]\<rparr>]"
  by (simp_all add: jmp32_11_def no_test_def)

lemma jmp32_11_verdict: "verdict_right jmp32_11"
  by (simp add: verdict_right_def safe_def meets_retvals_def jmp32_11_retvals jmp32_11_exits
    jmp32_11_run_1 jmp32_11_run_2 jmp32_11_run_3)

lemma jmp32_12_exits: "exits (exec_test jmp32_12 i)"
  by (simp add: jmp32_12_def test_eval, simp add: run_eval)

lemma jmp32_12_run_1: "has_data64 i [4294967295] \<Longrightarrow> returns (exec_test jmp32_12 i) 2"
  by (frule data64_load, frule data64_len, simp add: jmp32_12_def test_eval, simp add: run_eval data64_at_def)

lemma jmp32_12_run_2: "has_data64 i [2147483647] \<Longrightarrow> returns (exec_test jmp32_12 i) 0"
  by (frule data64_load, frule data64_len, simp add: jmp32_12_def test_eval, simp add: run_eval data64_at_def)

lemma jmp32_12_run_3: "has_data64 i [12884901886] \<Longrightarrow> returns (exec_test jmp32_12 i) 0"
  by (frule data64_load, frule data64_len, simp add: jmp32_12_def test_eval, simp add: run_eval data64_at_def)

lemma jmp32_12_retvals:
  "bt_result jmp32_12 = ACCEPT" "bt_runs jmp32_12 = 3"
  "bt_retvals jmp32_12 =
    [\<lparr>tr_retval = 2, tr_data64 = [4294967295]\<rparr>,
     \<lparr>tr_retval = 0, tr_data64 = [2147483647]\<rparr>,
     \<lparr>tr_retval = 0, tr_data64 = [12884901886]\<rparr>]"
  by (simp_all add: jmp32_12_def no_test_def)

lemma jmp32_12_verdict: "verdict_right jmp32_12"
  by (simp add: verdict_right_def safe_def meets_retvals_def jmp32_12_retvals jmp32_12_exits
    jmp32_12_run_1 jmp32_12_run_2 jmp32_12_run_3)

lemma jmp32_13_returns: "returns (exec_test jmp32_13 i) 2"
  by (simp add: jmp32_13_def test_eval, simp add: run_eval, simp add: word_le_def word_less_def sint_take_bit_31 uint_ucast_64)

lemma jmp32_13_retval: "bt_result jmp32_13 = ACCEPT" "bt_runs jmp32_13 = 0" "bt_retval jmp32_13 = 2"
  by (simp_all add: jmp32_13_def no_test_def)

lemma jmp32_13_verdict: "verdict_right jmp32_13"
  by (rule verdict_right_const) (simp_all add: jmp32_13_retval jmp32_13_returns)

lemma jmp32_14_exits: "exits (exec_test jmp32_14 i)"
  by (simp add: jmp32_14_def test_eval, simp add: run_eval)

lemma jmp32_14_run_1: "has_data64 i [4294967295] \<Longrightarrow> returns (exec_test jmp32_14 i) 2"
  by (frule data64_load, frule data64_len, simp add: jmp32_14_def test_eval, simp add: run_eval data64_at_def)

lemma jmp32_14_run_2: "has_data64 i [4294967294] \<Longrightarrow> returns (exec_test jmp32_14 i) 0"
  by (frule data64_load, frule data64_len, simp add: jmp32_14_def test_eval, simp add: run_eval data64_at_def)

lemma jmp32_14_run_3: "has_data64 i [0] \<Longrightarrow> returns (exec_test jmp32_14 i) 0"
  by (frule data64_load, frule data64_len, simp add: jmp32_14_def test_eval, simp add: run_eval data64_at_def)

lemma jmp32_14_retvals:
  "bt_result jmp32_14 = ACCEPT" "bt_runs jmp32_14 = 3"
  "bt_retvals jmp32_14 =
    [\<lparr>tr_retval = 2, tr_data64 = [4294967295]\<rparr>,
     \<lparr>tr_retval = 0, tr_data64 = [4294967294]\<rparr>,
     \<lparr>tr_retval = 0, tr_data64 = [0]\<rparr>]"
  by (simp_all add: jmp32_14_def no_test_def)

lemma jmp32_14_verdict: "verdict_right jmp32_14"
  by (simp add: verdict_right_def safe_def meets_retvals_def jmp32_14_retvals jmp32_14_exits
    jmp32_14_run_1 jmp32_14_run_2 jmp32_14_run_3)

lemma jmp32_15_exits: "exits (exec_test jmp32_15 i)"
  by (simp add: jmp32_15_def test_eval, simp add: run_eval)

lemma jmp32_15_run_1: "has_data64 i [4294967295] \<Longrightarrow> returns (exec_test jmp32_15 i) 2"
  by (frule data64_load, frule data64_len, simp add: jmp32_15_def test_eval, simp add: run_eval data64_at_def)

lemma jmp32_15_run_2: "has_data64 i [4294967294] \<Longrightarrow> returns (exec_test jmp32_15 i) 0"
  by (frule data64_load, frule data64_len, simp add: jmp32_15_def test_eval, simp add: run_eval data64_at_def)

lemma jmp32_15_run_3: "has_data64 i [12884901886] \<Longrightarrow> returns (exec_test jmp32_15 i) 0"
  by (frule data64_load, frule data64_len, simp add: jmp32_15_def test_eval, simp add: run_eval data64_at_def)

lemma jmp32_15_retvals:
  "bt_result jmp32_15 = ACCEPT" "bt_runs jmp32_15 = 3"
  "bt_retvals jmp32_15 =
    [\<lparr>tr_retval = 2, tr_data64 = [4294967295]\<rparr>,
     \<lparr>tr_retval = 0, tr_data64 = [4294967294]\<rparr>,
     \<lparr>tr_retval = 0, tr_data64 = [12884901886]\<rparr>]"
  by (simp_all add: jmp32_15_def no_test_def)

lemma jmp32_15_verdict: "verdict_right jmp32_15"
  by (simp add: verdict_right_def safe_def meets_retvals_def jmp32_15_retvals jmp32_15_exits
    jmp32_15_run_1 jmp32_15_run_2 jmp32_15_run_3)

lemma jmp32_16_returns: "returns (exec_test jmp32_16 i) 2"
  by (simp add: jmp32_16_def test_eval, simp add: run_eval, simp add: word_le_def word_less_def sint_take_bit_31 uint_ucast_64)

lemma jmp32_16_retval: "bt_result jmp32_16 = ACCEPT" "bt_runs jmp32_16 = 0" "bt_retval jmp32_16 = 2"
  by (simp_all add: jmp32_16_def no_test_def)

lemma jmp32_16_verdict: "verdict_right jmp32_16"
  by (rule verdict_right_const) (simp_all add: jmp32_16_retval jmp32_16_returns)

lemma jmp32_17_exits: "exits (exec_test jmp32_17 i)"
  by (simp add: jmp32_17_def test_eval, simp add: run_eval)

lemma jmp32_17_run_1: "has_data64 i [2147483646] \<Longrightarrow> returns (exec_test jmp32_17 i) 2"
  by (frule data64_load, frule data64_len, simp add: jmp32_17_def test_eval, simp add: run_eval data64_at_def)

lemma jmp32_17_run_2: "has_data64 i [4294967295] \<Longrightarrow> returns (exec_test jmp32_17 i) 0"
  by (frule data64_load, frule data64_len, simp add: jmp32_17_def test_eval, simp add: run_eval data64_at_def)

lemma jmp32_17_run_3: "has_data64 i [2147483647] \<Longrightarrow> returns (exec_test jmp32_17 i) 2"
  by (frule data64_load, frule data64_len, simp add: jmp32_17_def test_eval, simp add: run_eval data64_at_def)

lemma jmp32_17_retvals:
  "bt_result jmp32_17 = ACCEPT" "bt_runs jmp32_17 = 3"
  "bt_retvals jmp32_17 =
    [\<lparr>tr_retval = 2, tr_data64 = [2147483646]\<rparr>,
     \<lparr>tr_retval = 0, tr_data64 = [4294967295]\<rparr>,
     \<lparr>tr_retval = 2, tr_data64 = [2147483647]\<rparr>]"
  by (simp_all add: jmp32_17_def no_test_def)

lemma jmp32_17_verdict: "verdict_right jmp32_17"
  by (simp add: verdict_right_def safe_def meets_retvals_def jmp32_17_retvals jmp32_17_exits
    jmp32_17_run_1 jmp32_17_run_2 jmp32_17_run_3)

lemma jmp32_18_exits: "exits (exec_test jmp32_18 i)"
  by (simp add: jmp32_18_def test_eval, simp add: run_eval)

lemma jmp32_18_run_1: "has_data64 i [6442450943] \<Longrightarrow> returns (exec_test jmp32_18 i) 0"
  by (frule data64_load, frule data64_len, simp add: jmp32_18_def test_eval, simp add: run_eval data64_at_def)

lemma jmp32_18_run_2: "has_data64 i [2147483645] \<Longrightarrow> returns (exec_test jmp32_18 i) 2"
  by (frule data64_load, frule data64_len, simp add: jmp32_18_def test_eval, simp add: run_eval data64_at_def)

lemma jmp32_18_run_3: "has_data64 i [4294967295] \<Longrightarrow> returns (exec_test jmp32_18 i) 0"
  by (frule data64_load, frule data64_len, simp add: jmp32_18_def test_eval, simp add: run_eval data64_at_def)

lemma jmp32_18_retvals:
  "bt_result jmp32_18 = ACCEPT" "bt_runs jmp32_18 = 3"
  "bt_retvals jmp32_18 =
    [\<lparr>tr_retval = 0, tr_data64 = [6442450943]\<rparr>,
     \<lparr>tr_retval = 2, tr_data64 = [2147483645]\<rparr>,
     \<lparr>tr_retval = 0, tr_data64 = [4294967295]\<rparr>]"
  by (simp_all add: jmp32_18_def no_test_def)

lemma jmp32_18_verdict: "verdict_right jmp32_18"
  by (simp add: verdict_right_def safe_def meets_retvals_def jmp32_18_retvals jmp32_18_exits
    jmp32_18_run_1 jmp32_18_run_2 jmp32_18_run_3)

lemma jmp32_19_returns: "returns (exec_test jmp32_19 i) 2"
  by (simp add: jmp32_19_def test_eval, simp add: run_eval, simp add: word_le_def word_less_def sint_take_bit_31 uint_ucast_64)

lemma jmp32_19_retval: "bt_result jmp32_19 = ACCEPT" "bt_runs jmp32_19 = 0" "bt_retval jmp32_19 = 2"
  by (simp_all add: jmp32_19_def no_test_def)

lemma jmp32_19_verdict: "verdict_right jmp32_19"
  by (rule verdict_right_const) (simp_all add: jmp32_19_retval jmp32_19_returns)

lemma jmp32_20_exits: "exits (exec_test jmp32_20 i)"
  by (simp add: jmp32_20_def test_eval, simp add: run_eval)

lemma jmp32_20_run_1: "has_data64 i [2147483647] \<Longrightarrow> returns (exec_test jmp32_20 i) 0"
  by (frule data64_load, frule data64_len, simp add: jmp32_20_def test_eval, simp add: run_eval data64_at_def)

lemma jmp32_20_run_2: "has_data64 i [4294967295] \<Longrightarrow> returns (exec_test jmp32_20 i) 0"
  by (frule data64_load, frule data64_len, simp add: jmp32_20_def test_eval, simp add: run_eval data64_at_def)

lemma jmp32_20_run_3: "has_data64 i [2147483646] \<Longrightarrow> returns (exec_test jmp32_20 i) 2"
  by (frule data64_load, frule data64_len, simp add: jmp32_20_def test_eval, simp add: run_eval data64_at_def)

lemma jmp32_20_retvals:
  "bt_result jmp32_20 = ACCEPT" "bt_runs jmp32_20 = 3"
  "bt_retvals jmp32_20 =
    [\<lparr>tr_retval = 0, tr_data64 = [2147483647]\<rparr>,
     \<lparr>tr_retval = 0, tr_data64 = [4294967295]\<rparr>,
     \<lparr>tr_retval = 2, tr_data64 = [2147483646]\<rparr>]"
  by (simp_all add: jmp32_20_def no_test_def)

lemma jmp32_20_verdict: "verdict_right jmp32_20"
  by (simp add: verdict_right_def safe_def meets_retvals_def jmp32_20_retvals jmp32_20_exits
    jmp32_20_run_1 jmp32_20_run_2 jmp32_20_run_3)

lemma jmp32_21_exits: "exits (exec_test jmp32_21 i)"
  by (simp add: jmp32_21_def test_eval, simp add: run_eval)

lemma jmp32_21_run_1: "has_data64 i [6442450943] \<Longrightarrow> returns (exec_test jmp32_21 i) 0"
  by (frule data64_load, frule data64_len, simp add: jmp32_21_def test_eval, simp add: run_eval data64_at_def)

lemma jmp32_21_run_2: "has_data64 i [4294967295] \<Longrightarrow> returns (exec_test jmp32_21 i) 0"
  by (frule data64_load, frule data64_len, simp add: jmp32_21_def test_eval, simp add: run_eval data64_at_def)

lemma jmp32_21_run_3: "has_data64 i [15032385534] \<Longrightarrow> returns (exec_test jmp32_21 i) 2"
  by (frule data64_load, frule data64_len, simp add: jmp32_21_def test_eval, simp add: run_eval data64_at_def)

lemma jmp32_21_retvals:
  "bt_result jmp32_21 = ACCEPT" "bt_runs jmp32_21 = 3"
  "bt_retvals jmp32_21 =
    [\<lparr>tr_retval = 0, tr_data64 = [6442450943]\<rparr>,
     \<lparr>tr_retval = 0, tr_data64 = [4294967295]\<rparr>,
     \<lparr>tr_retval = 2, tr_data64 = [15032385534]\<rparr>]"
  by (simp_all add: jmp32_21_def no_test_def)

lemma jmp32_21_verdict: "verdict_right jmp32_21"
  by (simp add: verdict_right_def safe_def meets_retvals_def jmp32_21_retvals jmp32_21_exits
    jmp32_21_run_1 jmp32_21_run_2 jmp32_21_run_3)

lemma jmp32_22_returns: "returns (exec_test jmp32_22 i) 2"
  by (simp add: jmp32_22_def test_eval, simp add: run_eval, simp add: word_le_def word_less_def sint_take_bit_31 uint_ucast_64)

lemma jmp32_22_retval: "bt_result jmp32_22 = ACCEPT" "bt_runs jmp32_22 = 0" "bt_retval jmp32_22 = 2"
  by (simp_all add: jmp32_22_def no_test_def)

lemma jmp32_22_verdict: "verdict_right jmp32_22"
  by (rule verdict_right_const) (simp_all add: jmp32_22_retval jmp32_22_returns)

lemma jmp32_23_exits: "exits (exec_test jmp32_23 i)"
  by (simp add: jmp32_23_def test_eval, simp add: run_eval)

lemma jmp32_23_run_1: "has_data64 i [0] \<Longrightarrow> returns (exec_test jmp32_23 i) 2"
  by (frule data64_load, frule data64_len, simp add: jmp32_23_def test_eval, simp add: run_eval data64_at_def)

lemma jmp32_23_run_2: "has_data64 i [(-1)] \<Longrightarrow> returns (exec_test jmp32_23 i) 2"
  by (frule data64_load, frule data64_len, simp add: jmp32_23_def test_eval, simp add: run_eval data64_at_def)

lemma jmp32_23_run_3: "has_data64 i [(-2)] \<Longrightarrow> returns (exec_test jmp32_23 i) 0"
  by (frule data64_load, frule data64_len, simp add: jmp32_23_def test_eval, simp add: run_eval data64_at_def)

lemma jmp32_23_retvals:
  "bt_result jmp32_23 = ACCEPT" "bt_runs jmp32_23 = 3"
  "bt_retvals jmp32_23 =
    [\<lparr>tr_retval = 2, tr_data64 = [0]\<rparr>,
     \<lparr>tr_retval = 2, tr_data64 = [(-1)]\<rparr>,
     \<lparr>tr_retval = 0, tr_data64 = [(-2)]\<rparr>]"
  by (simp_all add: jmp32_23_def no_test_def)

lemma jmp32_23_verdict: "verdict_right jmp32_23"
  by (simp add: verdict_right_def safe_def meets_retvals_def jmp32_23_retvals jmp32_23_exits
    jmp32_23_run_1 jmp32_23_run_2 jmp32_23_run_3)

lemma jmp32_24_exits: "exits (exec_test jmp32_24 i)"
  by (simp add: jmp32_24_def test_eval, simp add: run_eval)

lemma jmp32_24_run_1: "has_data64 i [(-1)] \<Longrightarrow> returns (exec_test jmp32_24 i) 2"
  by (frule data64_load, frule data64_len, simp add: jmp32_24_def test_eval, simp add: run_eval data64_at_def)

lemma jmp32_24_run_2: "has_data64 i [6442450943] \<Longrightarrow> returns (exec_test jmp32_24 i) 2"
  by (frule data64_load, frule data64_len, simp add: jmp32_24_def test_eval, simp add: run_eval data64_at_def)

lemma jmp32_24_run_3: "has_data64 i [(-2)] \<Longrightarrow> returns (exec_test jmp32_24 i) 0"
  by (frule data64_load, frule data64_len, simp add: jmp32_24_def test_eval, simp add: run_eval data64_at_def)

lemma jmp32_24_retvals:
  "bt_result jmp32_24 = ACCEPT" "bt_runs jmp32_24 = 3"
  "bt_retvals jmp32_24 =
    [\<lparr>tr_retval = 2, tr_data64 = [(-1)]\<rparr>,
     \<lparr>tr_retval = 2, tr_data64 = [6442450943]\<rparr>,
     \<lparr>tr_retval = 0, tr_data64 = [(-2)]\<rparr>]"
  by (simp_all add: jmp32_24_def no_test_def)

lemma jmp32_24_verdict: "verdict_right jmp32_24"
  by (simp add: verdict_right_def safe_def meets_retvals_def jmp32_24_retvals jmp32_24_exits
    jmp32_24_run_1 jmp32_24_run_2 jmp32_24_run_3)

lemma jmp32_25_returns: "returns (exec_test jmp32_25 i) 2"
  by (simp add: jmp32_25_def test_eval, simp add: run_eval, simp add: word_le_def word_less_def sint_take_bit_31 uint_ucast_64)

lemma jmp32_25_retval: "bt_result jmp32_25 = ACCEPT" "bt_runs jmp32_25 = 0" "bt_retval jmp32_25 = 2"
  by (simp_all add: jmp32_25_def no_test_def)

lemma jmp32_25_verdict: "verdict_right jmp32_25"
  by (rule verdict_right_const) (simp_all add: jmp32_25_retval jmp32_25_returns)

lemma jmp32_26_exits: "exits (exec_test jmp32_26 i)"
  by (simp add: jmp32_26_def test_eval, simp add: run_eval)

lemma jmp32_26_run_1: "has_data64 i [4294967294] \<Longrightarrow> returns (exec_test jmp32_26 i) 0"
  by (frule data64_load, frule data64_len, simp add: jmp32_26_def test_eval, simp add: run_eval data64_at_def)

lemma jmp32_26_run_2: "has_data64 i [(-1)] \<Longrightarrow> returns (exec_test jmp32_26 i) 0"
  by (frule data64_load, frule data64_len, simp add: jmp32_26_def test_eval, simp add: run_eval data64_at_def)

lemma jmp32_26_run_3: "has_data64 i [1] \<Longrightarrow> returns (exec_test jmp32_26 i) 2"
  by (frule data64_load, frule data64_len, simp add: jmp32_26_def test_eval, simp add: run_eval data64_at_def)

lemma jmp32_26_retvals:
  "bt_result jmp32_26 = ACCEPT" "bt_runs jmp32_26 = 3"
  "bt_retvals jmp32_26 =
    [\<lparr>tr_retval = 0, tr_data64 = [4294967294]\<rparr>,
     \<lparr>tr_retval = 0, tr_data64 = [(-1)]\<rparr>,
     \<lparr>tr_retval = 2, tr_data64 = [1]\<rparr>]"
  by (simp_all add: jmp32_26_def no_test_def)

lemma jmp32_26_verdict: "verdict_right jmp32_26"
  by (simp add: verdict_right_def safe_def meets_retvals_def jmp32_26_retvals jmp32_26_exits
    jmp32_26_run_1 jmp32_26_run_2 jmp32_26_run_3)

lemma jmp32_27_exits: "exits (exec_test jmp32_27 i)"
  by (simp add: jmp32_27_def test_eval, simp add: run_eval)

lemma jmp32_27_run_1: "has_data64 i [0x7ffffffe] \<Longrightarrow> returns (exec_test jmp32_27 i) 0"
  by (frule data64_load, frule data64_len, simp add: jmp32_27_def test_eval, simp add: run_eval data64_at_def)

lemma jmp32_27_run_2: "has_data64 i [8589934591] \<Longrightarrow> returns (exec_test jmp32_27 i) 0"
  by (frule data64_load, frule data64_len, simp add: jmp32_27_def test_eval, simp add: run_eval data64_at_def)

lemma jmp32_27_run_3: "has_data64 i [0x7fffffff] \<Longrightarrow> returns (exec_test jmp32_27 i) 2"
  by (frule data64_load, frule data64_len, simp add: jmp32_27_def test_eval, simp add: run_eval data64_at_def)

lemma jmp32_27_retvals:
  "bt_result jmp32_27 = ACCEPT" "bt_runs jmp32_27 = 3"
  "bt_retvals jmp32_27 =
    [\<lparr>tr_retval = 0, tr_data64 = [0x7ffffffe]\<rparr>,
     \<lparr>tr_retval = 0, tr_data64 = [8589934591]\<rparr>,
     \<lparr>tr_retval = 2, tr_data64 = [0x7fffffff]\<rparr>]"
  by (simp_all add: jmp32_27_def no_test_def)

lemma jmp32_27_verdict: "verdict_right jmp32_27"
  by (simp add: verdict_right_def safe_def meets_retvals_def jmp32_27_retvals jmp32_27_exits
    jmp32_27_run_1 jmp32_27_run_2 jmp32_27_run_3)

lemma jmp32_28_returns: "returns (exec_test jmp32_28 i) 2"
  by (simp add: jmp32_28_def test_eval, simp add: run_eval)

lemma jmp32_28_retval: "bt_result jmp32_28 = ACCEPT" "bt_runs jmp32_28 = 0" "bt_retval jmp32_28 = 2"
  by (simp_all add: jmp32_28_def no_test_def)

lemma jmp32_28_verdict: "verdict_right jmp32_28"
  by (rule verdict_right_const) (simp_all add: jmp32_28_retval jmp32_28_returns)

lemma jmp32_29_exits: "exits (exec_test jmp32_29 i)"
  by (simp add: jmp32_29_def test_eval, simp add: run_eval)

lemma jmp32_29_run_1: "has_data64 i [4294967294] \<Longrightarrow> returns (exec_test jmp32_29 i) 2"
  by (frule data64_load, frule data64_len, simp add: jmp32_29_def test_eval, simp add: run_eval data64_at_def)

lemma jmp32_29_run_2: "has_data64 i [(-1)] \<Longrightarrow> returns (exec_test jmp32_29 i) 2"
  by (frule data64_load, frule data64_len, simp add: jmp32_29_def test_eval, simp add: run_eval data64_at_def)

lemma jmp32_29_run_3: "has_data64 i [1] \<Longrightarrow> returns (exec_test jmp32_29 i) 0"
  by (frule data64_load, frule data64_len, simp add: jmp32_29_def test_eval, simp add: run_eval data64_at_def)

lemma jmp32_29_retvals:
  "bt_result jmp32_29 = ACCEPT" "bt_runs jmp32_29 = 3"
  "bt_retvals jmp32_29 =
    [\<lparr>tr_retval = 2, tr_data64 = [4294967294]\<rparr>,
     \<lparr>tr_retval = 2, tr_data64 = [(-1)]\<rparr>,
     \<lparr>tr_retval = 0, tr_data64 = [1]\<rparr>]"
  by (simp_all add: jmp32_29_def no_test_def)

lemma jmp32_29_verdict: "verdict_right jmp32_29"
  by (simp add: verdict_right_def safe_def meets_retvals_def jmp32_29_retvals jmp32_29_exits
    jmp32_29_run_1 jmp32_29_run_2 jmp32_29_run_3)

lemma jmp32_30_exits: "exits (exec_test jmp32_30 i)"
  by (simp add: jmp32_30_def test_eval, simp add: run_eval)

lemma jmp32_30_run_1: "has_data64 i [0x7ffffffe] \<Longrightarrow> returns (exec_test jmp32_30 i) 2"
  by (frule data64_load, frule data64_len, simp add: jmp32_30_def test_eval, simp add: run_eval data64_at_def)

lemma jmp32_30_run_2: "has_data64 i [4294967295] \<Longrightarrow> returns (exec_test jmp32_30 i) 2"
  by (frule data64_load, frule data64_len, simp add: jmp32_30_def test_eval, simp add: run_eval data64_at_def)

lemma jmp32_30_run_3: "has_data64 i [10737418239] \<Longrightarrow> returns (exec_test jmp32_30 i) 0"
  by (frule data64_load, frule data64_len, simp add: jmp32_30_def test_eval, simp add: run_eval data64_at_def)

lemma jmp32_30_retvals:
  "bt_result jmp32_30 = ACCEPT" "bt_runs jmp32_30 = 3"
  "bt_retvals jmp32_30 =
    [\<lparr>tr_retval = 2, tr_data64 = [0x7ffffffe]\<rparr>,
     \<lparr>tr_retval = 2, tr_data64 = [4294967295]\<rparr>,
     \<lparr>tr_retval = 0, tr_data64 = [10737418239]\<rparr>]"
  by (simp_all add: jmp32_30_def no_test_def)

lemma jmp32_30_verdict: "verdict_right jmp32_30"
  by (simp add: verdict_right_def safe_def meets_retvals_def jmp32_30_retvals jmp32_30_exits
    jmp32_30_run_1 jmp32_30_run_2 jmp32_30_run_3)

lemma jmp32_31_returns: "returns (exec_test jmp32_31 i) 2"
  by (simp add: jmp32_31_def test_eval, simp add: run_eval, simp add: word_le_def word_less_def sint_take_bit_31 uint_ucast_64)

lemma jmp32_31_retval: "bt_result jmp32_31 = ACCEPT" "bt_runs jmp32_31 = 0" "bt_retval jmp32_31 = 2"
  by (simp_all add: jmp32_31_def no_test_def)

lemma jmp32_31_verdict: "verdict_right jmp32_31"
  by (rule verdict_right_const) (simp_all add: jmp32_31_retval jmp32_31_returns)

lemma jmp32_32_exits: "exits (exec_test jmp32_32 i)"
  by (simp add: jmp32_32_def test_eval, simp add: run_eval)

lemma jmp32_32_run_1: "has_data64 i [4294967294] \<Longrightarrow> returns (exec_test jmp32_32 i) 2"
  by (frule data64_load, frule data64_len, simp add: jmp32_32_def test_eval, simp add: run_eval data64_at_def)

lemma jmp32_32_run_2: "has_data64 i [(-1)] \<Longrightarrow> returns (exec_test jmp32_32 i) 0"
  by (frule data64_load, frule data64_len, simp add: jmp32_32_def test_eval, simp add: run_eval data64_at_def)

lemma jmp32_32_run_3: "has_data64 i [1] \<Longrightarrow> returns (exec_test jmp32_32 i) 0"
  by (frule data64_load, frule data64_len, simp add: jmp32_32_def test_eval, simp add: run_eval data64_at_def)

lemma jmp32_32_retvals:
  "bt_result jmp32_32 = ACCEPT" "bt_runs jmp32_32 = 3"
  "bt_retvals jmp32_32 =
    [\<lparr>tr_retval = 2, tr_data64 = [4294967294]\<rparr>,
     \<lparr>tr_retval = 0, tr_data64 = [(-1)]\<rparr>,
     \<lparr>tr_retval = 0, tr_data64 = [1]\<rparr>]"
  by (simp_all add: jmp32_32_def no_test_def)

lemma jmp32_32_verdict: "verdict_right jmp32_32"
  by (simp add: verdict_right_def safe_def meets_retvals_def jmp32_32_retvals jmp32_32_exits
    jmp32_32_run_1 jmp32_32_run_2 jmp32_32_run_3)

lemma jmp32_33_exits: "exits (exec_test jmp32_33 i)"
  by (simp add: jmp32_33_def test_eval, simp add: run_eval)

lemma jmp32_33_run_1: "has_data64 i [0x7ffffffe] \<Longrightarrow> returns (exec_test jmp32_33 i) 2"
  by (frule data64_load, frule data64_len, simp add: jmp32_33_def test_eval, simp add: run_eval data64_at_def)

lemma jmp32_33_run_2: "has_data64 i [0xffffffff] \<Longrightarrow> returns (exec_test jmp32_33 i) 2"
  by (frule data64_load, frule data64_len, simp add: jmp32_33_def test_eval, simp add: run_eval data64_at_def)

lemma jmp32_33_run_3: "has_data64 i [10737418239] \<Longrightarrow> returns (exec_test jmp32_33 i) 0"
  by (frule data64_load, frule data64_len, simp add: jmp32_33_def test_eval, simp add: run_eval data64_at_def)

lemma jmp32_33_retvals:
  "bt_result jmp32_33 = ACCEPT" "bt_runs jmp32_33 = 3"
  "bt_retvals jmp32_33 =
    [\<lparr>tr_retval = 2, tr_data64 = [0x7ffffffe]\<rparr>,
     \<lparr>tr_retval = 2, tr_data64 = [0xffffffff]\<rparr>,
     \<lparr>tr_retval = 0, tr_data64 = [10737418239]\<rparr>]"
  by (simp_all add: jmp32_33_def no_test_def)

lemma jmp32_33_verdict: "verdict_right jmp32_33"
  by (simp add: verdict_right_def safe_def meets_retvals_def jmp32_33_retvals jmp32_33_exits
    jmp32_33_run_1 jmp32_33_run_2 jmp32_33_run_3)

lemma jmp32_34_returns: "returns (exec_test jmp32_34 i) 2"
  by (simp add: jmp32_34_def test_eval, simp add: run_eval)

lemma jmp32_34_retval: "bt_result jmp32_34 = ACCEPT" "bt_runs jmp32_34 = 0" "bt_retval jmp32_34 = 2"
  by (simp_all add: jmp32_34_def no_test_def)

lemma jmp32_34_verdict: "verdict_right jmp32_34"
  by (rule verdict_right_const) (simp_all add: jmp32_34_retval jmp32_34_returns)

lemma jmp32_35_returns: "returns (exec_test jmp32_35 i) 0"
  by (simp add: jmp32_35_def test_eval, simp add: run_eval, simp add: word_le_def word_less_def sint_take_bit_31 uint_ucast_64)

lemma jmp32_35_retval: "bt_result jmp32_35 = ACCEPT" "bt_runs jmp32_35 = 0" "bt_retval jmp32_35 = 0"
  by (simp_all add: jmp32_35_def no_test_def)

lemma jmp32_35_verdict: "verdict_right jmp32_35"
  by (rule verdict_right_const) (simp_all add: jmp32_35_retval jmp32_35_returns)

lemma jmp32_36_returns: "returns (exec_test jmp32_36 i) 0"
  by (simp add: jmp32_36_def test_eval, simp add: run_eval, simp add: word_le_def word_less_def sint_take_bit_31 uint_ucast_64)

lemma jmp32_36_retval: "bt_result jmp32_36 = ACCEPT" "bt_runs jmp32_36 = 0" "bt_retval jmp32_36 = 0"
  by (simp_all add: jmp32_36_def no_test_def)

lemma jmp32_36_verdict: "verdict_right jmp32_36"
  by (rule verdict_right_const) (simp_all add: jmp32_36_retval jmp32_36_returns)

lemma jmp32_37_returns: "returns (exec_test jmp32_37 i) 0"
  by (simp add: jmp32_37_def test_eval, simp add: run_eval, simp add: word_le_def word_less_def sint_take_bit_31 uint_ucast_64)

lemma jmp32_37_retval: "bt_result jmp32_37 = ACCEPT" "bt_runs jmp32_37 = 0" "bt_retval jmp32_37 = 0"
  by (simp_all add: jmp32_37_def no_test_def)

lemma jmp32_37_verdict: "verdict_right jmp32_37"
  by (rule verdict_right_const) (simp_all add: jmp32_37_retval jmp32_37_returns)

lemmas jump_verdicts =
  jset_1_verdict jset_2_verdict jset_3_verdict jset_4_verdict jset_5_verdict
  jset_6_verdict jset_7_verdict jset_8_verdict jmp32_1_verdict jmp32_2_verdict
  jmp32_3_verdict jmp32_4_verdict jmp32_5_verdict jmp32_6_verdict jmp32_7_verdict
  jmp32_8_verdict jmp32_9_verdict jmp32_10_verdict jmp32_11_verdict jmp32_12_verdict
  jmp32_13_verdict jmp32_14_verdict jmp32_15_verdict jmp32_16_verdict jmp32_17_verdict
  jmp32_18_verdict jmp32_19_verdict jmp32_20_verdict jmp32_21_verdict jmp32_22_verdict
  jmp32_23_verdict jmp32_24_verdict jmp32_25_verdict jmp32_26_verdict jmp32_27_verdict
  jmp32_28_verdict jmp32_29_verdict jmp32_30_verdict jmp32_31_verdict jmp32_32_verdict
  jmp32_33_verdict jmp32_34_verdict jmp32_35_verdict jmp32_36_verdict jmp32_37_verdict

section \<open>Properties\<close>

text \<open>C24. The verdicts of \<open>jset.c\<close> and \<open>jmp32.c\<close> are right: every program that is to be accepted ends without a
  fault on every input and returns the given value on the packet of each of its runs, and every
  program that is to be rejected reads an uninitialised register on some input.\<close>

theorem jump_verdicts_right:
  "\<forall>t \<in> set (jset_tests @ jmp32_tests). verdict_right t"
  by (simp add: jset_tests_def jmp32_tests_def jump_verdicts)

theorem jump_verdicts_right_witness: "verdict_right jmp32_1 \<and> bt_result jmp32_1 = ACCEPT \<and> bt_runs jmp32_1 = 3"
proof -
  have "jmp32_1 \<in> set (jset_tests @ jmp32_tests)" by (simp add: jmp32_tests_def)
  then show ?thesis using jump_verdicts_right by (simp add: jmp32_1_retvals)
qed

end
