(* ===== verification/Tnum.thy ===== *)
theory Tnum
  imports Prelude
begin

text \<open>
  Tristate numbers, \<open>domains/tnum.rs\<close>: 64-bit numbers of which some bits are known. \<open>tn_value\<close> has the bits
  known to be 1, \<open>tn_mask\<close> the unknown ones; a number belongs to a tristate number when the two agree
  on the known bits (\<open>in_tnum\<close>, which is also the method \<open>could_equal\<close>).

  Shifts by \<open><<\<close> and \<open>>>\<close> are those of a build without overflow checks, which takes the amount modulo
  64. \<open>compact_str\<close> and \<open>Display\<close>, which print, are left out.

  Shown here: every operation but one contains what it should, for all arguments: the bitwise
  operations, addition, the shifts, truncation, the join \<open>widen\<close>, the hull \<open>from_range\<close> of a range; and
  \<open>intersect\<close> is exact. The exception is \<open>sub\<close>, whose formula is not the one of the kernel it follows.
\<close>

unbundle bit_operations_syntax

named_theorems tnum_defs \<open>operations on tristate numbers\<close>

section \<open>Operations\<close>

record tnum =
  tn_value :: u64
  tn_mask :: u64

definition UNKNOWN :: tnum where [tnum_defs]:
  "UNKNOWN = \<lparr>tn_value = 0, tn_mask = - 1\<rparr>"

definition tnum_is_unknown :: "tnum \<Rightarrow> bool" where
  "tnum_is_unknown t \<longleftrightarrow> tn_mask t = - 1"

definition tnum_const :: "u64 \<Rightarrow> tnum" where [tnum_defs]:
  "tnum_const c = \<lparr>tn_value = c, tn_mask = 0\<rparr>"

definition tnum_unknown_bits :: "nat \<Rightarrow> tnum" where
  "tnum_unknown_bits bits = (if bits \<ge> 64 then UNKNOWN else \<lparr>tn_value = 0, tn_mask = push_bit bits 1 - 1\<rparr>)"

definition tnum_is_const :: "tnum \<Rightarrow> bool" where
  "tnum_is_const t \<longleftrightarrow> tn_mask t = 0"

definition tnum_const_value :: "tnum \<Rightarrow> u64 option" where
  "tnum_const_value t = (if tnum_is_const t then Some (tn_value t) else None)"

definition tnum_min_value :: "tnum \<Rightarrow> u64" where
  "tnum_min_value t = tn_value t"

definition tnum_max_value :: "tnum \<Rightarrow> u64" where
  "tnum_max_value t = tn_value t OR tn_mask t"

definition tnum_could_be_zero :: "tnum \<Rightarrow> bool" where
  "tnum_could_be_zero t \<longleftrightarrow> tn_value t = 0"

definition tnum_is_definitely_nonzero :: "tnum \<Rightarrow> bool" where
  "tnum_is_definitely_nonzero t \<longleftrightarrow> tn_value t \<noteq> 0"

definition tnum_and :: "tnum \<Rightarrow> tnum \<Rightarrow> tnum" where [tnum_defs]:
  "tnum_and a b =
     (let v = tn_value a AND tn_value b;
          alpha = tn_value a OR tn_mask a;
          beta = tn_value b OR tn_mask b
      in \<lparr>tn_value = v, tn_mask = (alpha AND beta) AND NOT v\<rparr>)"

definition tnum_or :: "tnum \<Rightarrow> tnum \<Rightarrow> tnum" where [tnum_defs]:
  "tnum_or a b =
     (let v = tn_value a OR tn_value b;
          a_known_0 = NOT (tn_value a OR tn_mask a);
          b_known_0 = NOT (tn_value b OR tn_mask b);
          result_known_0 = a_known_0 AND b_known_0
      in \<lparr>tn_value = v, tn_mask = NOT v AND NOT result_known_0\<rparr>)"

definition tnum_xor :: "tnum \<Rightarrow> tnum \<Rightarrow> tnum" where [tnum_defs]:
  "tnum_xor a b =
     (let v = tn_value a XOR tn_value b; m = tn_mask a OR tn_mask b
      in \<lparr>tn_value = v AND NOT m, tn_mask = m\<rparr>)"

definition tnum_add :: "tnum \<Rightarrow> tnum \<Rightarrow> tnum" where
  "tnum_add a b =
     (let sm = tn_mask a + tn_mask b;
          sv = tn_value a + tn_value b;
          sigma = sm + sv;
          chi = sigma XOR sv;
          mu = chi OR tn_mask a OR tn_mask b
      in \<lparr>tn_value = sv AND NOT mu, tn_mask = mu\<rparr>)"

definition tnum_sub :: "tnum \<Rightarrow> tnum \<Rightarrow> tnum" where
  "tnum_sub a b =
     (let sm = tn_mask a - tn_mask b;
          sv = tn_value a - tn_value b;
          sigma = sm - sv;
          chi = sigma XOR sv;
          mu = chi OR tn_mask a OR tn_mask b
      in \<lparr>tn_value = sv AND NOT mu, tn_mask = mu\<rparr>)"

text \<open>The variants that take an immediate.\<close>

definition tnum_and_imm :: "tnum \<Rightarrow> u64 \<Rightarrow> tnum" where "tnum_and_imm t imm = tnum_and t (tnum_const imm)"
definition tnum_or_imm :: "tnum \<Rightarrow> u64 \<Rightarrow> tnum" where "tnum_or_imm t imm = tnum_or t (tnum_const imm)"
definition tnum_xor_imm :: "tnum \<Rightarrow> u64 \<Rightarrow> tnum" where "tnum_xor_imm t imm = tnum_xor t (tnum_const imm)"
definition tnum_add_imm :: "tnum \<Rightarrow> u64 \<Rightarrow> tnum" where "tnum_add_imm t imm = tnum_add t (tnum_const imm)"
definition tnum_sub_imm :: "tnum \<Rightarrow> u64 \<Rightarrow> tnum" where "tnum_sub_imm t imm = tnum_sub t (tnum_const imm)"

definition tnum_shl :: "tnum \<Rightarrow> nat \<Rightarrow> tnum" where [tnum_defs]:
  "tnum_shl t shift =
     (if shift \<ge> 64 then tnum_const 0
      else \<lparr>tn_value = push_bit shift (tn_value t), tn_mask = push_bit shift (tn_mask t)\<rparr>)"

definition tnum_shr :: "tnum \<Rightarrow> nat \<Rightarrow> tnum" where [tnum_defs]:
  "tnum_shr t shift =
     (if shift \<ge> 64 then tnum_const 0
      else \<lparr>tn_value = drop_bit shift (tn_value t), tn_mask = drop_bit shift (tn_mask t)\<rparr>)"

definition tnum_shl_imm :: "tnum \<Rightarrow> u64 \<Rightarrow> tnum" where [tnum_defs]:
  "tnum_shl_imm t shift =
     (let n = unat shift mod 64 in \<lparr>tn_value = push_bit n (tn_value t), tn_mask = push_bit n (tn_mask t)\<rparr>)"

definition tnum_shr_imm :: "tnum \<Rightarrow> u64 \<Rightarrow> tnum" where [tnum_defs]:
  "tnum_shr_imm t shift =
     (let n = unat shift mod 64 in \<lparr>tn_value = drop_bit n (tn_value t), tn_mask = drop_bit n (tn_mask t)\<rparr>)"

definition tnum_arsh_imm :: "tnum \<Rightarrow> u64 \<Rightarrow> tnum" where
  "tnum_arsh_imm t shift =
     (if shift = 0 then t
      else if shift \<ge> 64 then
        (if tn_mask t AND 0x8000000000000000 \<noteq> 0 then UNKNOWN
         else if tn_value t AND 0x8000000000000000 \<noteq> 0 then tnum_const (- 1)
         else tnum_const 0)
      else
        (let n = unat shift;
             sign_bit = drop_bit 63 (tn_value t) AND 1;
             sign_unknown = drop_bit 63 (tn_mask t) AND 1;
             shifted_value = drop_bit n (tn_value t) OR (if sign_bit \<noteq> 0 then push_bit (64 - n) (- 1) else 0);
             shifted_mask = drop_bit n (tn_mask t);
             shifted_mask = (if sign_unknown \<noteq> 0 then shifted_mask OR NOT (drop_bit n (- 1)) else shifted_mask)
         in \<lparr>tn_value = shifted_value AND NOT shifted_mask, tn_mask = shifted_mask\<rparr>))"

definition tnum_rsh_imm :: "tnum \<Rightarrow> u64 \<Rightarrow> tnum" where "tnum_rsh_imm t shift = tnum_shr_imm t shift"

definition tnum_u32_unknown :: tnum where [tnum_defs]:
  "tnum_u32_unknown = \<lparr>tn_value = 0, tn_mask = 0xFFFFFFFF\<rparr>"

definition tnum_trunc32 :: "tnum \<Rightarrow> tnum" where [tnum_defs]:
  "tnum_trunc32 t = \<lparr>tn_value = tn_value t AND 0xFFFFFFFF, tn_mask = tn_mask t AND 0xFFFFFFFF\<rparr>"

definition tnum_widen :: "tnum \<Rightarrow> tnum \<Rightarrow> tnum" where [tnum_defs]:
  "tnum_widen t newer =
     (let m = tn_mask t OR tn_mask newer OR (tn_value t XOR tn_value newer)
      in \<lparr>tn_value = tn_value t AND tn_value newer AND NOT m, tn_mask = m\<rparr>)"

definition leading_zeros :: "u64 \<Rightarrow> nat" where
  "leading_zeros v = length (takeWhile (\<lambda>n. \<not> bit v n) (rev [0..<64]))"

definition tnum_from_range :: "u64 \<Rightarrow> u64 \<Rightarrow> tnum" where
  "tnum_from_range lo hi =
     (if lo > hi then UNKNOWN
      else
        (let chi = lo XOR hi in
         if chi = 0 then tnum_const lo
         else
           (let bits = 64 - leading_zeros chi;
                delta = (if bits \<ge> 64 then - 1 else push_bit bits 1 - 1)
            in \<lparr>tn_value = lo AND NOT delta, tn_mask = delta\<rparr>)))"

definition tnum_intersect :: "tnum \<Rightarrow> tnum \<Rightarrow> tnum option" where
  "tnum_intersect a b =
     (let a_known = NOT (tn_mask a); b_known = NOT (tn_mask b); both_known = a_known AND b_known in
      if (tn_value a XOR tn_value b) AND both_known \<noteq> 0 then None
      else Some \<lparr>tn_value = (tn_value a AND a_known) OR (tn_value b AND b_known), tn_mask = tn_mask a AND tn_mask b\<rparr>)"

definition tnum_could_equal :: "tnum \<Rightarrow> u64 \<Rightarrow> bool" where
  "tnum_could_equal t v \<longleftrightarrow> v AND NOT (tn_mask t) = tn_value t"

definition tnum_mask_lower :: "tnum \<Rightarrow> nat \<Rightarrow> tnum" where
  "tnum_mask_lower t bits =
     (if bits \<ge> 64 then t
      else let m = push_bit bits 1 - 1 in \<lparr>tn_value = tn_value t AND m, tn_mask = tn_mask t AND m\<rparr>)"

section \<open>What a tristate number contains\<close>

abbreviation in_tnum :: "u64 \<Rightarrow> tnum \<Rightarrow> bool" where
  "in_tnum x t \<equiv> tnum_could_equal t x"

lemma bit_u64_less: "bit (w :: u64) n \<Longrightarrow> n < 64"
  using bit_imp_le_length by fastforce

lemma in_tnum_bits:
  "in_tnum x t \<longleftrightarrow> (\<forall>n. bit (tn_value t) n \<longleftrightarrow> bit x n \<and> \<not> bit (tn_mask t) n)"
  by (auto simp: tnum_could_equal_def bit_eq_iff bit_simps dest: bit_u64_less)

lemma in_tnumI:
  assumes "\<And>n. n < 64 \<Longrightarrow> bit (tn_value t) n \<longleftrightarrow> bit x n \<and> \<not> bit (tn_mask t) n"
  shows "in_tnum x t"
  using assms bit_u64_less unfolding in_tnum_bits by blast

lemma in_tnumD: "in_tnum x t \<Longrightarrow> bit (tn_value t) n \<longleftrightarrow> bit x n \<and> \<not> bit (tn_mask t) n"
  by (simp add: in_tnum_bits)

text \<open>A tristate number with an element meets the invariant of the type.\<close>

lemma in_tnum_wf: "in_tnum x t \<Longrightarrow> tn_value t AND tn_mask t = 0"
  by (rule bit_word_eqI) (auto simp: bit_simps in_tnum_bits)

lemma in_tnum_const [simp]: "in_tnum x (tnum_const c) \<longleftrightarrow> x = c"
  by (simp add: tnum_could_equal_def tnum_const_def)

lemma in_tnum_UNKNOWN [simp]: "in_tnum x UNKNOWN"
  by (simp add: tnum_could_equal_def UNKNOWN_def)

section \<open>Operations of two arguments\<close>

text \<open>The contract of a binary operation: it contains the results of the concrete operation. It is what
  the variant with an immediate and the folding of constants rest on.\<close>

locale tnum_op =
  fixes f :: "tnum \<Rightarrow> tnum \<Rightarrow> tnum" and g :: "u64 \<Rightarrow> u64 \<Rightarrow> u64"
  assumes sound: "in_tnum x a \<Longrightarrow> in_tnum y b \<Longrightarrow> in_tnum (g x y) (f a b)"
begin

lemma imm_sound: "in_tnum x a \<Longrightarrow> in_tnum (g x c) (f a (tnum_const c))"
  by (rule sound) simp_all

lemma wf: "in_tnum x a \<Longrightarrow> in_tnum y b \<Longrightarrow> tn_value (f a b) AND tn_mask (f a b) = 0"
  using in_tnum_wf sound by blast

end

lemmas tnum_bits = in_tnum_bits Let_def bit_simps

interpretation and_op: tnum_op tnum_and "(AND)"
  by unfold_locales (auto simp: tnum_and_def tnum_bits dest: bit_u64_less)

interpretation or_op: tnum_op tnum_or "(OR)"
  by unfold_locales (auto simp: tnum_or_def tnum_bits dest: bit_u64_less)

interpretation xor_op: tnum_op tnum_xor "(XOR)"
  by unfold_locales (auto simp: tnum_xor_def tnum_bits dest: bit_u64_less)

section \<open>Addition\<close>

text \<open>A bit of a sum: the bits of the summands and the carry from below.\<close>

definition carry :: "nat \<Rightarrow> u64 \<Rightarrow> u64 \<Rightarrow> bool" where
  "carry n a b \<longleftrightarrow> 2 ^ n \<le> take_bit n (unat a) + take_bit n (unat b)"

lemma bit_add_nat:
  "bit (a + b :: nat) n \<longleftrightarrow> (bit a n \<noteq> bit b n) \<noteq> (2 ^ n \<le> a mod 2 ^ n + b mod 2 ^ n)"
proof -
  let ?c = "(a mod 2 ^ n + b mod 2 ^ n) div 2 ^ n"
  have lt: "a mod 2 ^ n < 2 ^ n" "b mod 2 ^ n < 2 ^ n" by simp_all
  then have "?c = of_bool (2 ^ n \<le> a mod 2 ^ n + b mod 2 ^ n)"
    using add_strict_mono [OF lt] by (auto intro!: div_nat_eqI)
  then show ?thesis by (auto simp: bit_iff_odd div_add1_eq [of a b])
qed

lemma bit_unat_u64: "bit (unat (a :: u64)) n \<longleftrightarrow> bit a n"
  by (auto simp: bit_unsigned_iff dest: bit_u64_less)

lemma bit_add_u64:
  assumes "n < 64"
  shows "bit (a + b :: u64) n \<longleftrightarrow> (bit a n \<noteq> bit b n) \<noteq> carry n a b"
proof -
  have "unat (a + b) = take_bit 64 (unat a + unat b)"
    by (simp add: unat_word_ariths take_bit_eq_mod)
  then have "bit (a + b) n \<longleftrightarrow> bit (unat a + unat b) n"
    using assms bit_unat_u64 [of "a + b" n] by (simp add: bit_take_bit_iff)
  then show ?thesis by (simp add: bit_add_nat carry_def take_bit_eq_mod bit_unat_u64)
qed

lemma take_bit_mono:
  fixes a b :: u64
  assumes "\<And>k. bit a k \<Longrightarrow> bit b k"
  shows "take_bit n (unat a) \<le> take_bit n (unat b)"
proof -
  have "take_bit n a = take_bit n a AND take_bit n b"
    by (rule bit_word_eqI) (use assms in \<open>auto simp: bit_simps\<close>)
  then have "take_bit n a \<le> take_bit n b" by (metis word_and_le1)
  then show ?thesis by (simp add: word_le_nat_alt unsigned_take_bit_eq)
qed

lemma carry_mono:
  assumes "carry n a b" "\<And>k. bit a k \<Longrightarrow> bit a' k" "\<And>k. bit b k \<Longrightarrow> bit b' k"
  shows "carry n a' b'"
  using assms(1) take_bit_mono [of a a' n] take_bit_mono [of b b' n] assms(2,3)
  unfolding carry_def by force

interpretation add_op: tnum_op tnum_add "(+)"
proof
  fix x y a b
  assume xa: "in_tnum x a" and yb: "in_tnum y b"
  let ?av = "tn_value a" and ?am = "tn_mask a" and ?bv = "tn_value b" and ?bm = "tn_mask b"
  have *: "?av + ?am = ?av OR ?am" "?bv + ?bm = ?bv OR ?bm"
    using in_tnum_wf [OF xa] in_tnum_wf [OF yb] by (simp_all add: disjunctive_add_eq_or)
  have sigma: "(?am + ?bm) + (?av + ?bv) = (?av OR ?am) + (?bv OR ?bm)"
    unfolding * [symmetric] by (simp add: algebra_simps)
  have lo: "carry n ?av ?bv \<Longrightarrow> carry n x y" for n
    by (erule carry_mono) (use xa yb in \<open>auto dest: in_tnumD\<close>)
  have hi: "carry n x y \<Longrightarrow> carry n (?av OR ?am) (?bv OR ?bm)" for n
    by (erule carry_mono) (use xa yb in \<open>auto simp: bit_simps dest: in_tnumD\<close>)
  show "in_tnum (x + y) (tnum_add a b)"
  proof (rule in_tnumI)
    fix n :: nat assume "n < 64"
    then show "bit (tn_value (tnum_add a b)) n \<longleftrightarrow> bit (x + y) n \<and> \<not> bit (tn_mask (tnum_add a b)) n"
      using lo [of n] hi [of n] in_tnumD [OF xa, of n] in_tnumD [OF yb, of n]
      by (auto simp: tnum_add_def Let_def sigma bit_simps bit_add_u64)
  qed
qed

section \<open>Operations of one argument\<close>

lemma minus_1_mask: "push_bit n 1 - 1 = (mask n :: u64)"
  by (simp add: mask_eq_exp_minus_1 push_bit_eq_mult)

lemma shl_imm_sound: "in_tnum x t \<Longrightarrow> in_tnum (push_bit (unat s mod 64) x) (tnum_shl_imm t s)"
  by (rule in_tnumI) (auto simp: tnum_shl_imm_def Let_def bit_push_bit_iff in_tnumD)

lemma shr_imm_sound: "in_tnum x t \<Longrightarrow> in_tnum (drop_bit (unat s mod 64) x) (tnum_shr_imm t s)"
  by (rule in_tnumI) (auto simp: tnum_shr_imm_def Let_def bit_drop_bit_eq in_tnumD)

lemma trunc32_sound: "in_tnum x t \<Longrightarrow> in_tnum (ucast (ucast x :: u32)) (tnum_trunc32 t)"
  unfolding tnum_trunc32_def low_32_mask by (rule in_tnumI) (auto simp: bit_simps in_tnumD)

lemma mask_lower_sound: "in_tnum x t \<Longrightarrow> in_tnum (take_bit n x) (tnum_mask_lower t n)"
  unfolding tnum_mask_lower_def minus_1_mask Let_def
  by (rule in_tnumI) (auto simp: bit_simps in_tnumD)

lemma unknown_bits_sound: "in_tnum (take_bit n x) (tnum_unknown_bits n)"
  unfolding tnum_unknown_bits_def minus_1_mask
  by (rule in_tnumI) (auto simp: bit_simps UNKNOWN_def)

lemma shl_sound: "in_tnum x t \<Longrightarrow> in_tnum (push_bit n x) (tnum_shl t n)"
  by (rule in_tnumI) (auto simp: tnum_shl_def bit_push_bit_iff in_tnumD tnum_const_def)

lemma shr_sound: "in_tnum x t \<Longrightarrow> in_tnum (drop_bit n x) (tnum_shr t n)"
  by (rule in_tnumI) (auto simp: tnum_shr_def bit_drop_bit_eq in_tnumD tnum_const_def dest: bit_u64_less)

text \<open>The arithmetic shift; amounts of 64 and more leave the sign bit everywhere.\<close>

lemma sign_bit_test: "w AND 0x8000000000000000 \<noteq> 0 \<longleftrightarrow> bit (w :: u64) 63"
  using and_exp_eq_0_iff_not_bit [of w 63] by simp

lemma top_bit_test: "drop_bit 63 w AND 1 \<noteq> 0 \<longleftrightarrow> bit (w :: u64) 63"
  by (simp add: bit_iff_odd_drop_bit and_one_eq odd_iff_mod_2_eq_one)

lemma bit_arsh:
  assumes "m < 64"
  shows "bit (signed_drop_bit n x) m \<longleftrightarrow> bit (x :: u64) (if n + m < 64 then n + m else 63)"
proof -
  have l: "LENGTH(64) - 1 = 63" "LENGTH(64) = 64" by simp_all
  have "64 - n \<le> m \<longleftrightarrow> \<not> n + m < 64" by arith
  with assms show ?thesis unfolding bit_signed_drop_bit_iff unfolding l by simp
qed

lemma arsh_imm_sound:
  assumes "in_tnum x t"
  shows "in_tnum (signed_drop_bit (unat s) x) (tnum_arsh_imm t s)"
proof -
  note x = in_tnumD [OF assms]
  consider "s = 0" | "64 \<le> unat s" | "0 < unat s" "unat s < 64"
    by (metis linorder_not_less unat_gt_0)
  then show ?thesis
  proof cases
    case 2
    then have "s \<noteq> 0" "64 \<le> s" by (auto simp: word_le_nat_alt)
    then show ?thesis using 2
      by (intro in_tnumI) (simp add: tnum_arsh_imm_def sign_bit_test bit_arsh UNKNOWN_def tnum_const_def x)
  next
    case 3
    then have s: "s \<noteq> 0" "\<not> 64 \<le> s" by (auto simp: word_le_nat_alt)
    show ?thesis
    proof (rule in_tnumI)
      fix n :: nat assume "n < 64"
      then show "bit (tn_value (tnum_arsh_imm t s)) n \<longleftrightarrow>
          bit (signed_drop_bit (unat s) x) n \<and> \<not> bit (tn_mask (tnum_arsh_imm t s)) n"
        using s 3 unfolding tnum_arsh_imm_def Let_def top_bit_test
        by (cases "unat s + n < 64")
          (auto simp: bit_arsh x bit_and_iff bit_or_iff bit_not_iff bit_drop_bit_eq bit_push_bit_iff bit_mask_iff dest: bit_u64_less)
    qed
  qed (simp add: tnum_arsh_imm_def assms)
qed

section \<open>Joins, meets and ranges\<close>

lemma widen_sound: "in_tnum x a \<or> in_tnum x b \<Longrightarrow> in_tnum x (tnum_widen a b)"
  by (rule in_tnumI) (auto simp: tnum_widen_def Let_def bit_simps in_tnumD)

definition tnum_wf :: "tnum \<Rightarrow> bool" where
  "tnum_wf t \<longleftrightarrow> tn_value t AND tn_mask t = 0"

lemma tnum_wf_bit: "tnum_wf t \<Longrightarrow> bit (tn_value t) n \<Longrightarrow> \<not> bit (tn_mask t) n"
  unfolding tnum_wf_def by (metis bit_and_iff bit_0_eq bot_apply bot_bool_def)

lemma intersect_sound:
  assumes "in_tnum x a" "in_tnum x b"
  shows "\<exists>t. tnum_intersect a b = Some t \<and> in_tnum x t"
proof -
  have "(tn_value a XOR tn_value b) AND (NOT (tn_mask a) AND NOT (tn_mask b)) = 0"
    by (rule bit_word_eqI) (use assms in \<open>auto simp: bit_simps in_tnumD\<close>)
  then show ?thesis
    using assms by (auto simp: tnum_intersect_def Let_def bit_simps in_tnumD intro!: in_tnumI)
qed

lemma intersect_tight:
  assumes "tnum_intersect a b = Some t" "in_tnum x t" "tnum_wf a" "tnum_wf b"
  shows "in_tnum x a" "in_tnum x b"
proof -
  have z: "(tn_value a XOR tn_value b) AND (NOT (tn_mask a) AND NOT (tn_mask b)) = 0"
    and t: "t = \<lparr>tn_value = (tn_value a AND NOT (tn_mask a)) OR (tn_value b AND NOT (tn_mask b)),
      tn_mask = tn_mask a AND tn_mask b\<rparr>"
    using assms(1) by (auto simp: tnum_intersect_def Let_def split: if_splits)
  have z': "bit (tn_value a) n = bit (tn_value b) n" if "n < 64" "\<not> bit (tn_mask a) n" "\<not> bit (tn_mask b) n" for n
    using arg_cong [OF z, of "\<lambda>w. bit w n"] that by (simp add: bit_simps)
  have x: "bit x n \<and> \<not> (bit (tn_mask a) n \<and> bit (tn_mask b) n) \<longleftrightarrow>
      bit (tn_value a) n \<and> \<not> bit (tn_mask a) n \<or> bit (tn_value b) n \<and> \<not> bit (tn_mask b) n" if "n < 64" for n
    using in_tnumD [OF assms(2), of n] that by (simp add: t bit_simps)
  show "in_tnum x a" "in_tnum x b"
    by (rule in_tnumI; use x z' assms(3,4) tnum_wf_bit in blast)+
qed

text \<open>\<open>from_range\<close>: the numbers between two bounds share the bits above the highest one in which the bounds
  differ.\<close>

lemma takeWhile_rev_upt: "n < N \<Longrightarrow> \<not> P n \<Longrightarrow> n < N - length (takeWhile P (rev [0..<N]))"
proof (induction N)
  case (Suc N)
  then show ?case
    by (cases "n = N") (auto simp: not_less_less_Suc_eq)
qed simp

lemma leading_zeros_bit: "bit v n \<Longrightarrow> n < 64 - leading_zeros v"
  unfolding leading_zeros_def by (intro takeWhile_rev_upt bit_u64_less) auto

lemma drop_bit_mono: "(x :: u64) \<le> y \<Longrightarrow> drop_bit n x \<le> drop_bit n y"
  unfolding word_le_nat_alt unat_drop_bit_eq by (simp add: drop_bit_eq_div div_le_mono)

lemma from_range_sound:
  assumes "lo \<le> x" "x \<le> hi"
  shows "in_tnum x (tnum_from_range lo hi)"
proof (cases "lo = hi")
  case False
  define k where "k = 64 - leading_zeros (lo XOR hi)"
  have delta: "(if k \<ge> 64 then - 1 else push_bit k 1 - 1 :: u64) = mask k"
    unfolding minus_1_mask by (auto intro!: bit_word_eqI simp: bit_simps)
  have "drop_bit k lo = drop_bit k hi"
  proof (rule bit_word_eqI)
    fix n assume "n < LENGTH(64)"
    have "\<not> bit (lo XOR hi) (k + n)" using leading_zeros_bit [of "lo XOR hi" "k + n"] unfolding k_def by auto
    then show "bit (drop_bit k lo) n = bit (drop_bit k hi) n" by (simp add: bit_simps add.commute)
  qed
  then have *: "drop_bit k x = drop_bit k lo"
    using drop_bit_mono [OF assms(1), of k] drop_bit_mono [OF assms(2), of k] by simp
  have hi_bits: "bit x n = bit lo n" if "k \<le> n" for n
    using that arg_cong [OF *, of "\<lambda>w. bit w (n - k)"] by (simp add: bit_drop_bit_eq)
  have "lo XOR hi \<noteq> 0" using False by (auto simp: bit_eq_iff bit_xor_iff)
  then have "tnum_from_range lo hi = \<lparr>tn_value = lo AND NOT (mask k), tn_mask = mask k\<rparr>"
    using assms unfolding tnum_from_range_def Let_def k_def [symmetric] delta by simp
  then show ?thesis by (intro in_tnumI) (auto simp: bit_simps hi_bits not_less)
qed (use assms in \<open>auto simp: tnum_from_range_def\<close>)

lemma min_max_sound: "in_tnum x t \<Longrightarrow> tnum_min_value t \<le> x \<and> x \<le> tnum_max_value t"
proof -
  assume xt: "in_tnum x t"
  have "tn_value t = x AND NOT (tn_mask t)" using xt by (simp add: tnum_could_equal_def)
  moreover have "x = x AND (tn_value t OR tn_mask t)"
    by (rule bit_word_eqI) (auto simp: bit_simps in_tnumD [OF xt])
  ultimately show ?thesis by (metis tnum_min_value_def tnum_max_value_def word_and_le1 word_and_le2)
qed

section \<open>Properties\<close>

text \<open>C33. Eight operations on tristate numbers contain the results of the operations they stand for: \<open>and\<close>, \<open>or\<close>, \<open>xor\<close>, addition modulo
  2 to the 64, the three shifts by an immediate and the truncation to 32 bits. (Subtraction does not.)\<close>

theorem tnum_ops_sound:
  assumes "in_tnum x a" and "in_tnum y b"
  shows "in_tnum (x AND y) (tnum_and a b) \<and> in_tnum (x OR y) (tnum_or a b) \<and> in_tnum (x XOR y) (tnum_xor a b) \<and>
    in_tnum (x + y) (tnum_add a b) \<and>
    in_tnum (push_bit (unat s mod 64) x) (tnum_shl_imm a s) \<and>
    in_tnum (drop_bit (unat s mod 64) x) (tnum_shr_imm a s) \<and>
    in_tnum (signed_drop_bit (unat s) x) (tnum_arsh_imm a s) \<and>
    in_tnum (ucast (ucast x :: u32)) (tnum_trunc32 a)"
  using assms by (simp add: and_op.sound or_op.sound xor_op.sound add_op.sound shl_imm_sound shr_imm_sound
      arsh_imm_sound trunc32_sound)

theorem tnum_ops_sound_witness:
  "in_tnum (5 + 9) (tnum_add \<lparr>tn_value = 4, tn_mask = 3\<rparr> \<lparr>tn_value = 1, tn_mask = 8\<rparr>)"
proof -
  have "in_tnum 5 \<lparr>tn_value = 4, tn_mask = 3\<rparr>" "in_tnum 9 \<lparr>tn_value = 1, tn_mask = 8\<rparr>"
    by (simp_all add: tnum_could_equal_def)
  from tnum_ops_sound [OF this, of 0] show ?thesis by blast
qed

text \<open>C34. Bounds and tristate numbers: the tristate number of a range contains the range, the least and the
  greatest value of a tristate number bound its elements, and the widening of two contains both.\<close>

theorem tnum_range_bounds:
  assumes "lo \<le> x" and "x \<le> hi"
  shows "in_tnum x (tnum_from_range lo hi) \<and>
    tnum_min_value (tnum_from_range lo hi) \<le> x \<and> x \<le> tnum_max_value (tnum_from_range lo hi) \<and>
    in_tnum x (tnum_widen (tnum_from_range lo hi) b) \<and> in_tnum x (tnum_widen b (tnum_from_range lo hi))"
  using from_range_sound [OF assms] min_max_sound widen_sound by blast

theorem tnum_range_bounds_witness: "in_tnum 5 (tnum_from_range 3 6)"
  using tnum_range_bounds [of 3 5 6] by simp

text \<open>C35. Subtraction is unsound, already for an immediate: from a number that is 0 or 1 it takes 1 and says
  that bit 1 of the result is set, while 1 - 1 is 0.\<close>

theorem tnum_sub_unsound:
  "\<exists>t x c. in_tnum x t \<and> \<not> in_tnum (x - c) (tnum_sub_imm t c)"
proof (intro exI conjI)
  let ?t = "\<lparr>tn_value = 0, tn_mask = 1\<rparr>"
  show "in_tnum 1 ?t" by (simp add: tnum_could_equal_def)
  show "\<not> in_tnum (1 - 1) (tnum_sub_imm ?t 1)"
    by (simp add: tnum_could_equal_def tnum_sub_imm_def tnum_sub_def tnum_const_def Let_def)
qed

end
