(* ===== verification/Scalar_Bounds.thy ===== *)
theory Scalar_Bounds
  imports Prelude
begin

text \<open>
  The numeric half of a register in the interval domain, \<open>ScalarBounds\<close> of \<open>domains/interval/state.rs\<close>: a
  signed and an unsigned range for the 64-bit value, and the same two for its low 32 bits. Signed
  fields (\<open>i64\<close>, \<open>i32\<close>) are words compared with \<open>\<le>s\<close>.

  \<open>in_bounds x b\<close> says that the concrete value \<open>x\<close> satisfies all eight bounds. Shown here: each of the six
  deductions of \<open>sync_bounds\<close> keeps every value, hence so do the operations that end in it;
  \<open>join\<close> and \<open>intersect\<close> contain what they should; an assumption keeps every value that meets it. The exception is
  \<open>assume_sle\<close>, which caps the unsigned range of a value that may be negative.
\<close>

unbundle bit_operations_syntax

named_theorems bounds_defs \<open>operations on scalar bounds\<close>

section \<open>Rust integers\<close>

abbreviation I64_MIN :: u64 where "I64_MIN \<equiv> 0x8000000000000000"
abbreviation I64_MAX :: u64 where "I64_MAX \<equiv> 0x7fffffffffffffff"
abbreviation U64_MAX :: u64 where "U64_MAX \<equiv> 0xffffffffffffffff"
abbreviation I32_MIN :: u32 where "I32_MIN \<equiv> 0x80000000"
abbreviation I32_MAX :: u32 where "I32_MAX \<equiv> 0x7fffffff"

text \<open>\<open>min\<close> and \<open>max\<close> of \<open>i64\<close> and \<open>i32\<close>; those of the unsigned types are HOL's.\<close>

definition smin_of :: "'a::len word \<Rightarrow> 'a word \<Rightarrow> 'a word" where
  "smin_of a b = (if a \<le>s b then a else b)"

definition smax_of :: "'a::len word \<Rightarrow> 'a word \<Rightarrow> 'a word" where
  "smax_of a b = (if a \<le>s b then b else a)"

section \<open>Operations\<close>

record scalar_bounds =
  smin :: u64
  smax :: u64
  umin :: u64
  umax :: u64
  s32_min :: u32
  s32_max :: u32
  u32_min :: u32
  u32_max :: u32
  scalar_id :: "u32 option"

definition bounds_unknown :: scalar_bounds where
  "bounds_unknown = \<lparr>smin = I64_MIN, smax = I64_MAX, umin = 0, umax = U64_MAX,
     s32_min = I32_MIN, s32_max = I32_MAX, u32_min = 0, u32_max = UINT32_MAX, scalar_id = None\<rparr>"

definition bounds_constant :: "u64 \<Rightarrow> scalar_bounds" where
  "bounds_constant val =
     (let low = ucast val in
      \<lparr>smin = val, smax = val, umin = val, umax = val,
       s32_min = low, s32_max = low, u32_min = low, u32_max = low, scalar_id = None\<rparr>)"

definition bounds_nonnegative :: "u64 \<Rightarrow> scalar_bounds" where
  "bounds_nonnegative mx =
     (let (s32_mn, s32_mx, u32_mn, u32_mx) =
        (if mx \<le> ucast UINT32_MAX then (0, ucast mx, 0, ucast mx) else (I32_MIN, I32_MAX, 0, UINT32_MAX))
      in \<lparr>smin = 0, smax = mx, umin = 0, umax = mx,
          s32_min = s32_mn, s32_max = s32_mx, u32_min = u32_mn, u32_max = u32_mx, scalar_id = None\<rparr>)"

definition is_constant :: "scalar_bounds \<Rightarrow> bool" where
  "is_constant b \<longleftrightarrow> smin b = smax b \<and> umin b = umax b"

definition get_constant :: "scalar_bounds \<Rightarrow> u64 option" where
  "get_constant b = (if is_constant b then Some (smin b) else None)"

definition is_nonnegative :: "scalar_bounds \<Rightarrow> bool" where
  "is_nonnegative b \<longleftrightarrow> 0 \<le>s smin b"

definition is_positive :: "scalar_bounds \<Rightarrow> bool" where
  "is_positive b \<longleftrightarrow> 0 <s smin b"

definition is_zero :: "scalar_bounds \<Rightarrow> bool" where
  "is_zero b \<longleftrightarrow> smin b = 0 \<and> smax b = 0"

definition is_u32 :: "scalar_bounds \<Rightarrow> bool" where
  "is_u32 b \<longleftrightarrow> 0 \<le>s smin b \<and> umax b \<le> ucast UINT32_MAX"

definition bounds_intersect :: "scalar_bounds \<Rightarrow> scalar_bounds \<Rightarrow> scalar_bounds" where
  "bounds_intersect a b =
     \<lparr>smin = smax_of (smin a) (smin b), smax = smin_of (smax a) (smax b),
      umin = max (umin a) (umin b), umax = min (umax a) (umax b),
      s32_min = smax_of (s32_min a) (s32_min b), s32_max = smin_of (s32_max a) (s32_max b),
      u32_min = max (u32_min a) (u32_min b), u32_max = min (u32_max a) (u32_max b),
      scalar_id = (if scalar_id a = scalar_id b then scalar_id a else None)\<rparr>"

definition bounds_join :: "scalar_bounds \<Rightarrow> scalar_bounds \<Rightarrow> scalar_bounds" where
  "bounds_join a b =
     \<lparr>smin = smin_of (smin a) (smin b), smax = smax_of (smax a) (smax b),
      umin = min (umin a) (umin b), umax = max (umax a) (umax b),
      s32_min = smin_of (s32_min a) (s32_min b), s32_max = smax_of (s32_max a) (s32_max b),
      u32_min = min (u32_min a) (u32_min b), u32_max = max (u32_max a) (u32_max b),
      scalar_id = (if scalar_id a = scalar_id b then scalar_id a else None)\<rparr>"

text \<open>The six deductions of \<open>sync_bounds\<close>, in its order.\<close>

abbreviation tighten_u32 :: "u32 \<Rightarrow> u32 \<Rightarrow> scalar_bounds \<Rightarrow> scalar_bounds" where
  "tighten_u32 lo hi b \<equiv> b\<lparr>u32_min := max (u32_min b) lo, u32_max := min (u32_max b) hi\<rparr>"

abbreviation tighten_s32 :: "u32 \<Rightarrow> u32 \<Rightarrow> scalar_bounds \<Rightarrow> scalar_bounds" where
  "tighten_s32 lo hi b \<equiv> b\<lparr>s32_min := smax_of (s32_min b) lo, s32_max := smin_of (s32_max b) hi\<rparr>"

definition sync_u64_32 :: "scalar_bounds \<Rightarrow> scalar_bounds" where
  "sync_u64_32 b =
     (if drop_bit 32 (umin b) = drop_bit 32 (umax b) then
        let lo = ucast (umin b); hi = ucast (umax b); b = tighten_u32 lo hi b in
        if lo \<le>s hi then tighten_s32 lo hi b else b
      else b)"

definition sync_s64_32 :: "scalar_bounds \<Rightarrow> scalar_bounds" where
  "sync_s64_32 b =
     (if signed_drop_bit 32 (smin b) = signed_drop_bit 32 (smax b) then
        let lo = ucast (smin b); hi = ucast (smax b);
            b = (if lo \<le> hi then tighten_u32 lo hi b else b) in
        if lo \<le>s hi then tighten_s32 lo hi b else b
      else b)"

definition sync_u32_s32 :: "scalar_bounds \<Rightarrow> scalar_bounds" where
  "sync_u32_s32 b = (if u32_min b \<le>s u32_max b then tighten_s32 (u32_min b) (u32_max b) b else b)"

definition sync_s32_u32 :: "scalar_bounds \<Rightarrow> scalar_bounds" where
  "sync_s32_u32 b = (if s32_min b \<le> s32_max b then tighten_u32 (s32_min b) (s32_max b) b else b)"

definition with_low :: "u64 \<Rightarrow> u32 \<Rightarrow> u64" where
  "with_low w lo = (w AND NOT 0xffffffff) OR ucast lo"

definition sync_32_64 :: "scalar_bounds \<Rightarrow> scalar_bounds" where
  "sync_32_64 b =
     b\<lparr>umin := max (umin b) (with_low (umin b) (u32_min b)),
       umax := min (umax b) (with_low (umax b) (u32_max b)),
       smin := smax_of (smin b) (with_low (smin b) (u32_min b)),
       smax := smin_of (smax b) (with_low (smax b) (u32_max b))\<rparr>"

definition sync_s64_u64 :: "scalar_bounds \<Rightarrow> scalar_bounds" where
  "sync_s64_u64 b =
     (if 0 \<le>s smin b then b\<lparr>umin := max (umin b) (smin b), umax := min (umax b) (smax b)\<rparr>
      else if smin b <s 0 \<and> 0 \<le>s smax b \<and> umax b < 0x8000000000000000 then b\<lparr>umax := U64_MAX\<rparr>
      else b)"

definition sync_bounds :: "scalar_bounds \<Rightarrow> scalar_bounds" where
  "sync_bounds b =
     sync_s64_u64 (sync_32_64 (sync_s32_u32 (sync_u32_s32 (sync_s64_32 (sync_u64_32 b)))))"

definition forget_32_then_sync :: "scalar_bounds \<Rightarrow> scalar_bounds" where
  "forget_32_then_sync b =
     sync_bounds (b\<lparr>s32_min := I32_MIN, s32_max := I32_MAX, u32_min := 0, u32_max := UINT32_MAX\<rparr>)"

definition assign_32_into_64 :: "scalar_bounds \<Rightarrow> scalar_bounds" where
  "assign_32_into_64 b =
     (let b = b\<lparr>umin := ucast (u32_min b), umax := ucast (u32_max b)\<rparr>;
          b = (if 0 \<le>s s32_min b \<and> 0 \<le>s s32_max b
               then b\<lparr>smin := scast (s32_min b), smax := scast (s32_max b)\<rparr>
               else b\<lparr>smin := 0, smax := ucast UINT32_MAX\<rparr>)
      in sync_bounds b)"

definition assume_sle :: "u64 \<Rightarrow> scalar_bounds \<Rightarrow> scalar_bounds" where
  "assume_sle c b =
     (let b = b\<lparr>smax := smin_of (smax b) c\<rparr>;
          b = (if 0 \<le>s c then b\<lparr>umax := min (umax b) c\<rparr> else b)
      in sync_bounds b)"

definition assume_sge :: "u64 \<Rightarrow> scalar_bounds \<Rightarrow> scalar_bounds" where
  "assume_sge c b =
     (let b = b\<lparr>smin := smax_of (smin b) c\<rparr>;
          b = (if 0 \<le>s c then b\<lparr>umin := max (umin b) c\<rparr> else b)
      in sync_bounds b)"

definition assume_ule :: "u64 \<Rightarrow> scalar_bounds \<Rightarrow> scalar_bounds" where
  "assume_ule c b =
     (let b = b\<lparr>umax := min (umax b) c\<rparr>;
          b = (if c \<le> I64_MAX then b\<lparr>smax := smin_of (smax b) c\<rparr> else b)
      in sync_bounds b)"

definition assume_uge :: "u64 \<Rightarrow> scalar_bounds \<Rightarrow> scalar_bounds" where
  "assume_uge c b =
     (let b = b\<lparr>umin := max (umin b) c\<rparr>;
          b = (if c \<le> I64_MAX \<and> 0 \<le>s smin b then b\<lparr>smin := smax_of (smin b) c\<rparr> else b)
      in sync_bounds b)"

section \<open>The values a register may have\<close>

definition in_bounds :: "u64 \<Rightarrow> scalar_bounds \<Rightarrow> bool" where
  "in_bounds x b \<longleftrightarrow>
     smin b \<le>s x \<and> x \<le>s smax b \<and> umin b \<le> x \<and> x \<le> umax b \<and>
     s32_min b \<le>s ucast x \<and> ucast x \<le>s s32_max b \<and> u32_min b \<le> ucast x \<and> ucast x \<le> u32_max b"

lemma smax_of_le_iff [simp]: "smax_of a b \<le>s x \<longleftrightarrow> a \<le>s x \<and> b \<le>s x"
  by (auto simp: smax_of_def word_sle_eq)

lemma smin_of_ge_iff [simp]: "x \<le>s smin_of a b \<longleftrightarrow> x \<le>s a \<and> x \<le>s b"
  by (auto simp: smin_of_def word_sle_eq)

lemma smin_of_le_iff [simp]: "smin_of a b \<le>s x \<longleftrightarrow> a \<le>s x \<or> b \<le>s x"
  by (auto simp: smin_of_def word_sle_eq)

lemma smax_of_ge_iff [simp]: "x \<le>s smax_of a b \<longleftrightarrow> x \<le>s a \<or> x \<le>s b"
  by (auto simp: smax_of_def word_sle_eq)

text \<open>Words as integers: the halves of a 64-bit word, and the signed reading from the unsigned one.\<close>

lemma uint_low: "uint (ucast (x :: u64) :: u32) = uint x mod 2 ^ 32"
  by (simp add: unsigned_ucast_eq take_bit_eq_mod)

lemma uint_high: "uint (drop_bit 32 (x :: u64)) = uint x div 2 ^ 32"
  unfolding drop_bit_eq_div uint_div by simp

lemma sint_split: "sint (w :: 'a::len word) = uint w - 2 ^ LENGTH('a) * of_bool (2 ^ (LENGTH('a) - 1) \<le> uint w)"
proof -
  have u: "take_bit LENGTH('a) (uint w) = uint w"
    by (rule take_bit_int_eq_self) simp_all
  have *: "sint w = uint w - 2 ^ LENGTH('a) * of_bool (sint w < 0)"
    using signed_take_bit_eq_take_bit_minus [of "LENGTH('a) - 1" "uint w"] u
    by (simp add: sint_uint bit_unsigned_iff flip: bit_last_iff)
  moreover have "sint w < 0 \<longleftrightarrow> 2 ^ (LENGTH('a) - 1) \<le> uint w"
    using * sint_ge [of w] sint_lt [of w] power_Suc [of "2 :: int" "LENGTH('a) - 1"] by (cases "sint w < 0") simp_all
  ultimately show ?thesis by simp
qed

lemma sint_u64: "sint (x :: u64) = (if uint x < 2 ^ 63 then uint x else uint x - 2 ^ 64)"
  by (simp add: sint_split)

lemma sint_u32: "sint (x :: u32) = (if uint x < 2 ^ 31 then uint x else uint x - 2 ^ 32)"
  by (simp add: sint_split)

lemma sint_high: "sint (signed_drop_bit 32 (x :: u64)) = sint x div 2 ^ 32"
  by (simp add: sint_signed_drop_bit_eq drop_bit_eq_div)

lemma uint_from_sint: "uint (x :: u64) mod 2 ^ 32 = sint x mod 2 ^ 32"
proof -
  have "(uint x - 2 ^ 64 * of_bool b) mod 2 ^ 32 = uint x mod (2 ^ 32 :: int)" for b
    by (simp add: mod_eq_dvd_iff)
  then show ?thesis by (simp add: sint_split)
qed

lemma uint_with_low: "uint (with_low w lo) = 2 ^ 32 * (uint w div 2 ^ 32) + uint lo"
proof -
  have bits: "with_low w lo = push_bit 32 (drop_bit 32 w) OR ucast lo"
    unfolding with_low_def low_32_mask by (rule bit_word_eqI) (auto simp: bit_simps)
  have "uint (push_bit 32 (drop_bit 32 w)) = push_bit 32 (drop_bit 32 (uint w))"
    by (rule bit_eqI) (auto simp: bit_simps dest: bit_imp_le_length)
  moreover have "uint (ucast lo :: u64) = uint lo" 
    by (rule bit_eqI) (auto simp: bit_simps dest: bit_imp_le_length)
  ultimately have "uint (with_low w lo) = push_bit 32 (drop_bit 32 (uint w)) OR uint lo"
    by (simp add: bits unsigned_or_eq)
  also have "\<dots> = push_bit 32 (drop_bit 32 (uint w)) + uint lo"
    by (rule disjunctive_add_eq_or [symmetric], rule bit_eqI) (auto simp: bit_simps dest: bit_imp_le_length)
  finally show ?thesis by (simp add: push_bit_eq_mult drop_bit_eq_div)
qed

text \<open>With the high halves equal, the low halves are ordered as the words are.\<close>

lemma low_mono:
  fixes a x b n :: int
  assumes "0 < n" "a \<le> x" "x \<le> b" "a div n = b div n"
  shows "a mod n \<le> x mod n \<and> x mod n \<le> b mod n"
proof -
  have "x div n = a div n" "x div n = b div n"
    using assms zdiv_mono1 [of a x n] zdiv_mono1 [of x b n] by simp_all
  then show ?thesis using assms by (simp add: minus_div_mult_eq_mod [symmetric])
qed

text \<open>Two unsigned bounds that are also ordered as signed numbers have the same sign bit.\<close>

lemma sign_order:
  fixes l y h :: int
  assumes "0 \<le> l" "0 \<le> y" "0 \<le> h" "l < 2 ^ 32" "y < 2 ^ 32" "h < 2 ^ 32"
    "s = (\<lambda>z. if z < 2 ^ 31 then z else z - 2 ^ 32)"
  shows "l \<le> y \<Longrightarrow> y \<le> h \<Longrightarrow> s l \<le> s h \<Longrightarrow> s l \<le> s y \<and> s y \<le> s h"
    and "s l \<le> s y \<Longrightarrow> s y \<le> s h \<Longrightarrow> l \<le> h \<Longrightarrow> l \<le> y \<and> y \<le> h"
  using assms by (auto split: if_splits)

lemma uint_u32: "0 \<le> uint (w :: u32)" "uint w < 2 ^ 32"
  using uint_lt2p [of w] by simp_all

lemma unsigned_to_signed:
  "(lo :: u32) \<le> y \<Longrightarrow> y \<le> hi \<Longrightarrow> lo \<le>s hi \<Longrightarrow> lo \<le>s y \<and> y \<le>s hi"
  unfolding word_le_def word_sle_eq sint_u32
  by (rule sign_order(1) [OF uint_u32(1) uint_u32(1) uint_u32(1) uint_u32(2) uint_u32(2) uint_u32(2) refl])

lemma signed_to_unsigned:
  "(lo :: u32) \<le>s y \<Longrightarrow> y \<le>s hi \<Longrightarrow> lo \<le> hi \<Longrightarrow> lo \<le> y \<and> y \<le> hi"
  unfolding word_le_def word_sle_eq sint_u32
  by (rule sign_order(2) [OF uint_u32(1) uint_u32(1) uint_u32(1) uint_u32(2) uint_u32(2) uint_u32(2) refl])

lemma low_le:
  fixes x :: u64
  assumes "a \<le> x" "x \<le> b" "drop_bit 32 a = drop_bit 32 b"
  shows "ucast a \<le> (ucast x :: u32) \<and> ucast x \<le> (ucast b :: u32)"
  using low_mono [of "2 ^ 32" "uint a" "uint x" "uint b"] assms(1,2) arg_cong [OF assms(3), of uint]
  unfolding word_le_def uint_low uint_high by simp

lemma low_sle:
  fixes x :: u64
  assumes "a \<le>s x" "x \<le>s b" "signed_drop_bit 32 a = signed_drop_bit 32 b"
  shows "ucast a \<le> (ucast x :: u32) \<and> ucast x \<le> (ucast b :: u32)"
  using low_mono [of "2 ^ 32" "sint a" "sint x" "sint b"] assms(1,2) arg_cong [OF assms(3), of sint]
  unfolding word_le_def word_sle_eq uint_low uint_from_sint sint_high by simp

text \<open>Putting known low bits into a bound keeps it a bound.\<close>

lemma hi_lo_mono:
  fixes a x l n :: int
  assumes "0 < n"
  shows "a \<le> x \<Longrightarrow> l \<le> x mod n \<Longrightarrow> n * (a div n) + l \<le> x"
    and "x \<le> a \<Longrightarrow> x mod n \<le> l \<Longrightarrow> x \<le> n * (a div n) + l"
  using zdiv_mono1 [of a x n] zdiv_mono1 [of x a n] assms mult_left_mono [of "a div n" "x div n" n]
    mult_left_mono [of "x div n" "a div n" n] mult_div_mod_eq [of n x] by linarith+

lemma sign_of_high:
  fixes u l :: int
  assumes "0 \<le> l" "l < 2 ^ 32"
  shows "2 ^ 63 \<le> 2 ^ 32 * (u div 2 ^ 32) + l \<longleftrightarrow> 2 ^ 63 \<le> u"
proof -
  have "2 ^ 63 \<le> 2 ^ 32 * q + r \<longleftrightarrow> 2 ^ 31 \<le> q" if "0 \<le> r" "r < 2 ^ 32" for q r :: int
    using that by auto
  from this [OF assms, of "u div 2 ^ 32"] this [of "u mod 2 ^ 32" "u div 2 ^ 32"] show ?thesis by simp
qed

lemma sint_with_low: "sint (with_low w lo) = 2 ^ 32 * (sint w div 2 ^ 32) + uint lo"
proof -
  have "(uint w - 2 ^ 64 * c) div 2 ^ 32 = uint w div 2 ^ 32 - 2 ^ 32 * c" for c
    using div_mult_self1 [of "2 ^ 32" "uint w" "- (2 ^ 32 * c)"] by (simp add: algebra_simps)
  from this [of 1] show ?thesis
    using sign_of_high [OF uint_u32, of "uint w" lo] by (simp add: sint_split uint_with_low)
qed

lemma with_low_le: "a \<le> x \<Longrightarrow> lo \<le> ucast x \<Longrightarrow> with_low a lo \<le> x"
  and with_low_ge: "x \<le> a \<Longrightarrow> ucast x \<le> lo \<Longrightarrow> x \<le> with_low a lo"
  unfolding word_le_def uint_with_low uint_low by (simp_all add: hi_lo_mono)

lemma with_low_sle: "a \<le>s x \<Longrightarrow> lo \<le> ucast x \<Longrightarrow> with_low a lo \<le>s x"
  and with_low_sge: "x \<le>s a \<Longrightarrow> ucast x \<le> lo \<Longrightarrow> x \<le>s with_low a lo"
  unfolding word_le_def word_sle_eq sint_with_low uint_low uint_from_sint by (simp_all add: hi_lo_mono)

lemma sint_nonneg: "0 \<le>s (x :: u64) \<Longrightarrow> sint x = uint x"
  using uint_lt2p [of x] by (auto simp: word_sle_eq sint_u64 split: if_splits)

lemma sle_iff_le: "0 \<le>s x \<Longrightarrow> 0 \<le>s y \<Longrightarrow> x \<le>s y \<longleftrightarrow> x \<le> (y :: u64)"
  by (simp add: word_sle_eq word_le_def sint_nonneg)

lemma nonneg_iff: "0 \<le>s x \<longleftrightarrow> x \<le> I64_MAX"
  using uint_lt2p [of x] by (auto simp: word_sle_eq word_le_def sint_u64)

text \<open>Zero extension.\<close>

lemma uint_zext: "uint (ucast (y :: u32) :: u64) = uint y"
  by (rule bit_eqI) (auto simp: bit_simps dest: bit_imp_le_length)

lemma sint_zext: "sint (ucast (y :: u32) :: u64) = uint y"
  using uint_u32 [of y] by (simp add: sint_u64 uint_zext)

lemma zext_back [simp]: "ucast (ucast (y :: u32) :: u64) = y"
  by (rule bit_word_eqI) (simp add: bit_simps)

lemma sint_nonneg_32: "0 \<le>s (y :: u32) \<Longrightarrow> sint y = uint y"
  using uint_u32 [of y] by (auto simp: word_sle_eq sint_u32 split: if_splits)

lemma sint_sext: "sint (scast (y :: u32) :: u64) = sint y"
proof -
  have "- (2 ^ 63) \<le> sint y" "sint y < 2 ^ 63" using sint_ge [of y] sint_lt [of y] by simp_all
  then show ?thesis by (simp add: signed_scast_eq signed_take_bit_int_eq_self)
qed

section \<open>Synchronisation keeps every value\<close>

lemma sync_u64_32_sound: "in_bounds x b \<Longrightarrow> in_bounds x (sync_u64_32 b)"
  using low_le [of "umin b" x "umax b"] unsigned_to_signed [of "ucast (umin b)" "ucast x" "ucast (umax b)"]
  by (simp add: in_bounds_def sync_u64_32_def Let_def)

lemma sync_s64_32_sound: "in_bounds x b \<Longrightarrow> in_bounds x (sync_s64_32 b)"
  using low_sle [of "smin b" x "smax b"] unsigned_to_signed [of "ucast (smin b)" "ucast x" "ucast (smax b)"]
  by (simp add: in_bounds_def sync_s64_32_def Let_def)

lemma sync_u32_s32_sound: "in_bounds x b \<Longrightarrow> in_bounds x (sync_u32_s32 b)"
  using unsigned_to_signed [of "u32_min b" "ucast x" "u32_max b"]
  by (simp add: in_bounds_def sync_u32_s32_def)

lemma sync_s32_u32_sound: "in_bounds x b \<Longrightarrow> in_bounds x (sync_s32_u32 b)"
  using signed_to_unsigned [of "s32_min b" "ucast x" "s32_max b"]
  by (simp add: in_bounds_def sync_s32_u32_def)

lemma sync_32_64_sound: "in_bounds x b \<Longrightarrow> in_bounds x (sync_32_64 b)"
  by (simp add: in_bounds_def sync_32_64_def with_low_le with_low_ge with_low_sle with_low_sge)

lemma le_U64_MAX [simp]: "x \<le> U64_MAX"
proof -
  have "(- 1 :: u64) = U64_MAX" by simp
  then show ?thesis using word_order.extremum [of x] by metis
qed

lemma le_U32_MAX [simp]: "x \<le> UINT32_MAX"
proof -
  have "(- 1 :: u32) = UINT32_MAX" by simp
  then show ?thesis using word_order.extremum [of x] by metis
qed

lemma I64_range [simp]: "I64_MIN \<le>s x" "x \<le>s I64_MAX"
  using sint_ge [of x] sint_lt [of x] by (simp_all add: word_sle_eq)

lemma I32_range [simp]: "I32_MIN \<le>s x" "x \<le>s I32_MAX"
  using sint_ge [of x] sint_lt [of x] by (simp_all add: word_sle_eq)

lemma sync_s64_u64_sound: "in_bounds x b \<Longrightarrow> in_bounds x (sync_s64_u64 b)"
  using sle_iff_le [of "smin b" x] sle_iff_le [of x "smax b"]
  by (auto simp: in_bounds_def sync_s64_u64_def word_sle_eq)

lemma sync_bounds_keeps: "in_bounds x b \<Longrightarrow> in_bounds x (sync_bounds b)"
  unfolding sync_bounds_def
  by (intro sync_u64_32_sound sync_s64_32_sound sync_u32_s32_sound sync_s32_u32_sound
      sync_32_64_sound sync_s64_u64_sound)

lemma in_bounds_unknown [simp]: "in_bounds x bounds_unknown"
  by (simp add: in_bounds_def bounds_unknown_def)

lemma in_bounds_constant [simp]: "in_bounds x (bounds_constant c) \<longleftrightarrow> x = c"
  by (auto simp: in_bounds_def bounds_constant_def Let_def word_sle_eq)

lemma intersect_exact: "in_bounds x (bounds_intersect a b) \<longleftrightarrow> in_bounds x a \<and> in_bounds x b"
  by (auto simp: in_bounds_def bounds_intersect_def)

lemma join_keeps: "in_bounds x a \<or> in_bounds x b \<Longrightarrow> in_bounds x (bounds_join a b)"
  by (auto simp: in_bounds_def bounds_join_def min_le_iff_disj le_max_iff_disj)

lemma forget_32_keeps:
  "smin b \<le>s x \<Longrightarrow> x \<le>s smax b \<Longrightarrow> umin b \<le> x \<Longrightarrow> x \<le> umax b \<Longrightarrow> in_bounds x (forget_32_then_sync b)"
  unfolding forget_32_then_sync_def by (rule sync_bounds_keeps) (simp add: in_bounds_def)

lemma assume_sge_keeps:
  assumes "in_bounds x b" "c \<le>s x"
  shows "in_bounds x (assume_sge c b)"
proof -
  have "c \<le> x" if "0 \<le>s c"
    using that assms sle_iff_le [of c x] by (auto simp: word_sle_eq)
  then show ?thesis
    unfolding assume_sge_def Let_def
    by (intro sync_bounds_keeps) (use assms in \<open>simp add: in_bounds_def\<close>)
qed

lemma assume_ule_keeps: "in_bounds x b \<Longrightarrow> x \<le> c \<Longrightarrow> in_bounds x (assume_ule c b)"
  unfolding assume_ule_def Let_def
  by (rule sync_bounds_keeps) (auto simp: in_bounds_def sle_iff_le nonneg_iff)

lemma assume_uge_keeps:
  assumes "in_bounds x b" "c \<le> x"
  shows "in_bounds x (assume_uge c b)"
proof -
  have "c \<le>s x" if "c \<le> I64_MAX" "0 \<le>s smin b"
    using that assms by (subst sle_iff_le) (auto simp: in_bounds_def nonneg_iff word_sle_eq simp flip: nonneg_iff)
  then show ?thesis
    unfolding assume_uge_def Let_def
    by (intro sync_bounds_keeps) (use assms in \<open>simp add: in_bounds_def\<close>)
qed

lemma assume_sle_keeps:
  "in_bounds x b \<Longrightarrow> x \<le>s c \<Longrightarrow> \<not> 0 \<le>s c \<or> 0 \<le>s x \<Longrightarrow> in_bounds x (assume_sle c b)"
  unfolding assume_sle_def Let_def
  by (rule sync_bounds_keeps) (auto simp: in_bounds_def sle_iff_le)

lemma assign_32_keeps:
  assumes "s32_min b \<le>s y" "y \<le>s s32_max b" "u32_min b \<le> y" "y \<le> u32_max b"
  shows "in_bounds (ucast y) (assign_32_into_64 b)"
proof -
  have "sint y = uint y" if "0 \<le> sint (s32_min b)"
    using that assms(1) by (intro sint_nonneg_32) (simp add: word_sle_eq)
  then show ?thesis
    unfolding assign_32_into_64_def Let_def
    by (intro sync_bounds_keeps)
      (use assms uint_u32 [of y] in
        \<open>auto simp: in_bounds_def word_sle_eq word_le_def uint_zext sint_zext sint_sext\<close>)
qed

section \<open>Properties\<close>

text \<open>C32. Synchronising the eight bounds (\<open>sync_bounds\<close>) loses no value, nor does an assumption that the value meets:
  \<open>>=\<close> on signed values, \<open><=\<close> on signed values when the bound is negative or the value is not, and both assumptions on
  unsigned ones. \<open>intersect\<close> holds exactly the common values, \<open>join\<close> at
  least those of both sides, and after a 32-bit operation \<open>assign_32_into_64\<close> holds the zero extension of every 32-bit result.\<close>

theorem scalar_bounds_sound:
  assumes "in_bounds x b"
  shows "in_bounds x (sync_bounds b) \<and>
    (c \<le>s x \<longrightarrow> in_bounds x (assume_sge c b)) \<and>
    (x \<le>s c \<and> (c <s 0 \<or> 0 \<le>s x) \<longrightarrow> in_bounds x (assume_sle c b)) \<and>
    (x \<le> c \<longrightarrow> in_bounds x (assume_ule c b)) \<and>
    (c \<le> x \<longrightarrow> in_bounds x (assume_uge c b)) \<and>
    in_bounds x (bounds_intersect b b') = in_bounds x b' \<and>
    in_bounds x (bounds_join b b') \<and> in_bounds x (bounds_join b' b) \<and>
    in_bounds (ucast (ucast x :: u32)) (assign_32_into_64 b)"
proof -
  have "in_bounds (ucast (ucast x :: u32)) (assign_32_into_64 b)"
    by (rule assign_32_keeps) (use assms in \<open>simp_all add: in_bounds_def\<close>)
  moreover have "in_bounds x (assume_sle c b)" if "x \<le>s c" "c <s 0 \<or> 0 \<le>s x"
    using assms that by (intro assume_sle_keeps) (auto simp: word_sle_eq word_sless_alt)
  ultimately show ?thesis using assms
    by (simp add: sync_bounds_keeps assume_sge_keeps assume_ule_keeps assume_uge_keeps intersect_exact join_keeps)
qed

theorem scalar_bounds_sound_witness:
  "in_bounds 7 (assume_sge 3 (bounds_unknown\<lparr>umax := 9\<rparr>)) \<and> in_bounds 7 (assume_ule 8 (bounds_unknown\<lparr>umax := 9\<rparr>)) \<and>
   in_bounds 7 (assume_uge 3 (bounds_unknown\<lparr>umax := 9\<rparr>))"
proof -
  have "in_bounds 7 (bounds_unknown\<lparr>umax := 9\<rparr>)" by (simp add: in_bounds_def bounds_unknown_def)
  from scalar_bounds_sound [OF this, of 3] scalar_bounds_sound [OF this, of 8] show ?thesis by simp
qed

text \<open>\<open>assume_sle\<close> with a bound that is not negative is not sound for a value that may be negative: told only that
  a register is at most 5, it concludes that the low 32 bits lie between 0 and 5, which \<open>-1\<close> contradicts.\<close>

theorem assume_sle_unsound:
  "in_bounds (- 1) bounds_unknown \<and> - 1 \<le>s (5 :: u64) \<and> \<not> in_bounds (- 1) (assume_sle 5 bounds_unknown)"
proof -
  have "\<not> in_bounds (- 1) (assume_sle 5 bounds_unknown)" by code_simp
  then show ?thesis by (simp add: word_sle_eq)
qed

end
