(* ===== verification/Interval_Domain.thy ===== *)
theory Interval_Domain
  imports Scalar_Bounds Bpf_Ast "HOL-Library.Signed_Division"
begin

text \<open>
  The interval domain, \<open>domains/interval/state.rs\<close> and \<open>ops.rs\<close>: for every register its scalar bounds and,
  when it holds a tracked pointer, the pointer's offset from an anchor. The array \<open>regs\<close> of the source,
  indexed by \<open>Reg::idx\<close>, is a function on registers.

  \<open>new_ptr_id\<close> reads and increments a process-wide counter; the operations that call it take its value and
  return the next one.

  \<open>state_holds v s\<close>: the registers' values \<open>v\<close> satisfy the bounds of \<open>s\<close>. Shown here for the scalar half:
  which transfer functions keep that true of the values the instruction computes, and which do not
  (the additions, subtractions and multiplications that saturate where the machine wraps, and \<open>assume_gt\<close>).
\<close>

unbundle bit_operations_syntax

section \<open>Saturating and overflowing arithmetic\<close>

text \<open>\<open>saturating_add\<close>, \<open>saturating_sub\<close>, \<open>saturating_mul\<close> of \<open>i64\<close> and \<open>i32\<close>: the result clamped to the type.\<close>

definition s_clamp :: "int \<Rightarrow> 'a::len word" where
  "s_clamp k = (let m = 2 ^ (LENGTH('a) - 1) in word_of_int (max (- m) (min (m - 1) k)))"

definition sat_adds :: "'a::len word \<Rightarrow> 'a word \<Rightarrow> 'a word" where "sat_adds a b = s_clamp (sint a + sint b)"
definition sat_subs :: "'a::len word \<Rightarrow> 'a word \<Rightarrow> 'a word" where "sat_subs a b = s_clamp (sint a - sint b)"
definition sat_muls :: "'a::len word \<Rightarrow> 'a word \<Rightarrow> 'a word" where "sat_muls a b = s_clamp (sint a * sint b)"

text \<open>Those of \<open>u64\<close> and \<open>u32\<close>.\<close>

definition u_clamp :: "int \<Rightarrow> 'a::len word" where
  "u_clamp k = word_of_int (max 0 (min (2 ^ LENGTH('a) - 1) k))"

definition sat_addu :: "'a::len word \<Rightarrow> 'a word \<Rightarrow> 'a word" where "sat_addu a b = u_clamp (uint a + uint b)"
definition sat_subu :: "'a::len word \<Rightarrow> 'a word \<Rightarrow> 'a word" where "sat_subu a b = u_clamp (uint a - uint b)"
definition sat_mulu :: "'a::len word \<Rightarrow> 'a word \<Rightarrow> 'a word" where "sat_mulu a b = u_clamp (uint a * uint b)"

text \<open>The overflow flag of \<open>overflowing_add\<close>; the value is the sum of words.\<close>

definition ovf_addu :: "'a::len word \<Rightarrow> 'a word \<Rightarrow> bool" where
  "ovf_addu a b \<longleftrightarrow> uint a + uint b \<noteq> uint (a + b)"

definition ovf_adds :: "'a::len word \<Rightarrow> 'a word \<Rightarrow> bool" where
  "ovf_adds a b \<longleftrightarrow> sint a + sint b \<noteq> sint (a + b)"

text \<open>\<open>/\<close> on \<open>i64\<close>.\<close>

definition div_i64 :: "u64 \<Rightarrow> u64 \<Rightarrow> u64" where
  "div_i64 a b = word_of_int (sint a sdiv sint b)"

section \<open>State\<close>

datatype pkt_end_rel = AtEnd | Beyond

record ptr_offset =
  po_anchor :: reg
  po_off :: u64
  po_var_off :: u64
  po_range :: "u64 option"
  po_id :: "u32 option"
  po_pkt_end :: "pkt_end_rel option"

definition kernel_range :: "ptr_offset \<Rightarrow> u64" where
  "kernel_range po =
     (case po_pkt_end po of
        Some Beyond \<Rightarrow> - 2
      | Some AtEnd \<Rightarrow> - 1
      | None \<Rightarrow> (case po_range po of Some r \<Rightarrow> r | None \<Rightarrow> 0))"

definition at_fixed :: "reg \<Rightarrow> u64 \<Rightarrow> ptr_offset" where
  "at_fixed a k = \<lparr>po_anchor = a, po_off = k, po_var_off = 0, po_range = None, po_id = None, po_pkt_end = None\<rparr>"

definition at_anchor :: "reg \<Rightarrow> ptr_offset" where
  "at_anchor a = \<lparr>po_anchor = a, po_off = 0, po_var_off = 0, po_range = None, po_id = None, po_pkt_end = None\<rparr>"

definition with_var_off :: "reg \<Rightarrow> u64 \<Rightarrow> u64 \<Rightarrow> ptr_offset" where
  "with_var_off a k w = \<lparr>po_anchor = a, po_off = k, po_var_off = w, po_range = None, po_id = None, po_pkt_end = None\<rparr>"

definition min_offset :: "ptr_offset \<Rightarrow> u64" where "min_offset po = po_off po"

definition max_offset :: "ptr_offset \<Rightarrow> u64" where "max_offset po = sat_adds (po_off po) (po_var_off po)"

record reg_interval =
  iv_bounds :: scalar_bounds
  iv_ptr :: "ptr_offset option"

definition reg_unknown :: reg_interval where
  "reg_unknown = \<lparr>iv_bounds = bounds_unknown, iv_ptr = None\<rparr>"

definition reg_constant :: "u64 \<Rightarrow> reg_interval" where
  "reg_constant val = \<lparr>iv_bounds = bounds_constant val, iv_ptr = None\<rparr>"

definition with_ptr_offset :: "scalar_bounds \<Rightarrow> ptr_offset \<Rightarrow> reg_interval" where
  "with_ptr_offset b po = \<lparr>iv_bounds = b, iv_ptr = Some po\<rparr>"

record interval_state =
  iv_regs :: "reg \<Rightarrow> reg_interval"
  packet_size_lower_bound :: "u64 option"
  packet_size_upper_bound :: "u64 option"
  meta_size_lower_bound :: "u64 option"
  meta_size_upper_bound :: "u64 option"

definition is_anchor :: "reg \<Rightarrow> bool" where
  "is_anchor r \<longleftrightarrow> r \<in> {AnchorDataMeta, AnchorData, AnchorDataEnd}"

definition new_state :: interval_state where
  "new_state =
     \<lparr>iv_regs = (\<lambda>r. if r = RZero then reg_constant 0
                 else if is_anchor r \<or> r = R10 then with_ptr_offset bounds_unknown (at_anchor r)
                 else reg_unknown),
      packet_size_lower_bound = None, packet_size_upper_bound = None,
      meta_size_lower_bound = None, meta_size_upper_bound = None\<rparr>"

abbreviation upd_reg :: "interval_state \<Rightarrow> reg \<Rightarrow> reg_interval \<Rightarrow> interval_state" where
  "upd_reg s r i \<equiv> s\<lparr>iv_regs := (iv_regs s)(r := i)\<rparr>"

text \<open>\<open>get_mut\<close>, \<open>get_bounds_mut\<close>: an update in place.\<close>

definition upd_bounds :: "(scalar_bounds \<Rightarrow> scalar_bounds) \<Rightarrow> reg \<Rightarrow> interval_state \<Rightarrow> interval_state" where
  "upd_bounds f r s = upd_reg s r ((iv_regs s r)\<lparr>iv_bounds := f (iv_bounds (iv_regs s r))\<rparr>)"

definition upd_ptr :: "(ptr_offset \<Rightarrow> ptr_offset) \<Rightarrow> reg \<Rightarrow> interval_state \<Rightarrow> interval_state" where
  "upd_ptr f r s = upd_reg s r ((iv_regs s r)\<lparr>iv_ptr := map_option f (iv_ptr (iv_regs s r))\<rparr>)"

definition clear_ptr :: "reg \<Rightarrow> interval_state \<Rightarrow> interval_state" where
  "clear_ptr r s = upd_reg s r ((iv_regs s r)\<lparr>iv_ptr := None\<rparr>)"

definition set_reg_interval :: "reg \<Rightarrow> reg_interval \<Rightarrow> interval_state \<Rightarrow> interval_state" where
  "set_reg_interval r i s = (if r \<noteq> RZero then upd_reg s r i else s)"

definition get_bounds :: "interval_state \<Rightarrow> reg \<Rightarrow> scalar_bounds" where
  "get_bounds s r = iv_bounds (iv_regs s r)"

definition get_ptr_offset :: "interval_state \<Rightarrow> reg \<Rightarrow> ptr_offset option" where
  "get_ptr_offset s r = iv_ptr (iv_regs s r)"

definition get_interval :: "interval_state \<Rightarrow> reg \<Rightarrow> u64 \<times> u64" where
  "get_interval s r = (smin (get_bounds s r), smax (get_bounds s r))"

definition get_fixed_value :: "interval_state \<Rightarrow> reg \<Rightarrow> u64 option" where
  "get_fixed_value s r = get_constant (get_bounds s r)"

definition forget :: "reg \<Rightarrow> interval_state \<Rightarrow> interval_state" where
  "forget r s = (if r \<noteq> RZero \<and> \<not> is_anchor r then upd_reg s r reg_unknown else s)"

definition clear_packet_size_bounds :: "interval_state \<Rightarrow> interval_state" where
  "clear_packet_size_bounds s =
     s\<lparr>packet_size_lower_bound := None, packet_size_upper_bound := None,
       meta_size_lower_bound := None, meta_size_upper_bound := None\<rparr>"

definition dom_regs :: "reg list" where
  "dom_regs = [RZero, R0, R1, R2, R3, R4, R5, R6, R7, R8, R9, R10, AnchorDataMeta, AnchorData, AnchorDataEnd]"

definition is_inconsistent :: "interval_state \<Rightarrow> bool" where
  "is_inconsistent s \<longleftrightarrow>
     (\<exists>r \<in> set dom_regs. smax (get_bounds s r) <s smin (get_bounds s r) \<or> umax (get_bounds s r) < umin (get_bounds s r)) \<or>
     (case (packet_size_lower_bound s, packet_size_upper_bound s) of (Some l, Some u) \<Rightarrow> u \<le> l | _ \<Rightarrow> False) \<or>
     (case (meta_size_lower_bound s, meta_size_upper_bound s) of (Some l, Some u) \<Rightarrow> u \<le> l | _ \<Rightarrow> False)"

section \<open>Queries\<close>

definition get_distance_interval :: "interval_state \<Rightarrow> reg \<Rightarrow> reg \<Rightarrow> u64 \<times> u64" where
  "get_distance_interval s x y =
     (if x = y then (0, 0)
      else
        (let fallback =
           (let (x_min, x_max) = get_interval s x; (y_min, y_max) = get_interval s y in
            if x_min \<noteq> I64_MIN \<and> x_max \<noteq> I64_MAX \<and> y_min \<noteq> I64_MIN \<and> y_max \<noteq> I64_MAX
            then (sat_subs x_min y_max, sat_subs x_max y_min)
            else (I64_MIN, I64_MAX))
         in
         (case (get_ptr_offset s x, get_ptr_offset s y) of
            (Some xo, Some yo) \<Rightarrow>
              (if po_anchor xo = po_anchor yo
               then (sat_subs (po_off xo) (max_offset yo), sat_subs (max_offset xo) (po_off yo))
               else fallback)
          | _ \<Rightarrow> fallback)))"

definition get_distance_fixed :: "interval_state \<Rightarrow> reg \<Rightarrow> reg \<Rightarrow> u64 option" where
  "get_distance_fixed s x y =
     (let (lo, hi) = get_distance_interval s x y in
      if lo = hi \<and> lo \<noteq> I64_MIN \<and> lo \<noteq> I64_MAX then Some lo else None)"

definition proven_zero :: "interval_state \<Rightarrow> reg \<Rightarrow> bool" where "proven_zero s x = is_zero (get_bounds s x)"
definition proven_nonnegative :: "interval_state \<Rightarrow> reg \<Rightarrow> bool" where "proven_nonnegative s x = is_nonnegative (get_bounds s x)"
definition proven_positive :: "interval_state \<Rightarrow> reg \<Rightarrow> bool" where "proven_positive s x = is_positive (get_bounds s x)"
definition proven_u32_range :: "interval_state \<Rightarrow> reg \<Rightarrow> bool" where "proven_u32_range s x = is_u32 (get_bounds s x)"

section \<open>Assignments\<close>

abbreviation fixed_reg :: "reg \<Rightarrow> bool" where
  "fixed_reg r \<equiv> r = RZero \<or> is_anchor r"

definition assign_imm :: "reg \<Rightarrow> u64 \<Rightarrow> interval_state \<Rightarrow> interval_state" where
  "assign_imm x imm s = (if x \<noteq> RZero \<and> \<not> is_anchor x then set_reg_interval x (reg_constant imm) s else s)"

definition assign_reg :: "reg \<Rightarrow> reg \<Rightarrow> interval_state \<Rightarrow> interval_state" where
  "assign_reg x y s = (if x \<noteq> RZero \<and> \<not> is_anchor x then set_reg_interval x (iv_regs s y) s else s)"

definition intersect_eq_reg :: "reg \<Rightarrow> reg \<Rightarrow> interval_state \<Rightarrow> interval_state" where
  "intersect_eq_reg x y s =
     (if fixed_reg x then s
      else
        (let yb = get_bounds s y in
         upd_bounds (\<lambda>xb. sync_bounds (xb\<lparr>
             smin := smax_of (smin xb) (smin yb), smax := smin_of (smax xb) (smax yb),
             umin := max (umin xb) (umin yb), umax := min (umax xb) (umax yb),
             s32_min := smax_of (s32_min xb) (s32_min yb), s32_max := smin_of (s32_max xb) (s32_max yb),
             u32_min := max (u32_min xb) (u32_min yb), u32_max := min (u32_max xb) (u32_max yb)\<rparr>)) x s))"

definition assign_reg_offset :: "reg \<Rightarrow> reg \<Rightarrow> u64 \<Rightarrow> interval_state \<Rightarrow> interval_state" where
  "assign_reg_offset dst src imm s =
     (if fixed_reg dst then s
      else
        (let sb = get_bounds s src;
             nb = forget_32_then_sync (bounds_unknown\<lparr>
                    smin := sat_adds (smin sb) imm, smax := sat_adds (smax sb) imm,
                    umin := sat_addu (umin sb) imm, umax := sat_addu (umax sb) imm, scalar_id := None\<rparr>);
             np = map_option (\<lambda>po. \<lparr>po_anchor = po_anchor po, po_off = sat_adds (po_off po) imm, po_var_off = po_var_off po,
                    po_range = map_option (\<lambda>r. sat_subs r imm) (po_range po), po_id = po_id po, po_pkt_end = None\<rparr>)
                  (get_ptr_offset s src)
         in set_reg_interval dst \<lparr>iv_bounds = nb, iv_ptr = np\<rparr> s))"

definition init_map_value_ptr_at :: "reg \<Rightarrow> u64 \<Rightarrow> interval_state \<Rightarrow> interval_state" where
  "init_map_value_ptr_at r k s =
     (if fixed_reg r then s
      else set_reg_interval r \<lparr>iv_bounds = bounds_constant k, iv_ptr = Some (at_fixed RZero k)\<rparr> s)"

definition init_map_value_ptr :: "reg \<Rightarrow> interval_state \<Rightarrow> interval_state" where
  "init_map_value_ptr r s =
     (if fixed_reg r then s
      else set_reg_interval r \<lparr>iv_bounds = bounds_constant 0, iv_ptr = Some (at_fixed RZero 0)\<rparr> s)"

definition assign_interval :: "reg \<Rightarrow> u64 \<Rightarrow> u64 \<Rightarrow> interval_state \<Rightarrow> interval_state" where
  "assign_interval r mn mx s =
     (if r \<noteq> RZero \<and> \<not> is_anchor r then
        set_reg_interval r
          \<lparr>iv_bounds = forget_32_then_sync (bounds_unknown\<lparr>smin := mn, smax := mx,
              umin := (if 0 \<le>s mn then mn else 0), umax := (if 0 \<le>s mx then mx else U64_MAX), scalar_id := None\<rparr>),
           iv_ptr = None\<rparr> s
      else s)"

section \<open>Arithmetic\<close>

definition add_imm_bounds :: "u64 \<Rightarrow> scalar_bounds \<Rightarrow> scalar_bounds" where
  "add_imm_bounds imm b =
     (let imm32 = ucast imm;
          b = (if ovf_addu (umin b) imm = ovf_addu (umax b) imm
               then b\<lparr>umin := umin b + imm, umax := umax b + imm\<rparr>
               else b\<lparr>umin := 0, umax := U64_MAX\<rparr>);
          b = (if ovf_adds (smin b) imm = ovf_adds (smax b) imm
               then b\<lparr>smin := smin b + imm, smax := smax b + imm\<rparr>
               else b\<lparr>smin := I64_MIN, smax := I64_MAX\<rparr>);
          b = b\<lparr>scalar_id := None\<rparr>;
          b = (if ovf_addu (u32_min b) imm32 = ovf_addu (u32_max b) imm32
               then b\<lparr>u32_min := u32_min b + imm32, u32_max := u32_max b + imm32\<rparr>
               else b\<lparr>u32_min := 0, u32_max := UINT32_MAX\<rparr>);
          b = (if ovf_adds (s32_min b) imm32 = ovf_adds (s32_max b) imm32
               then b\<lparr>s32_min := s32_min b + imm32, s32_max := s32_max b + imm32\<rparr>
               else b\<lparr>s32_min := I32_MIN, s32_max := I32_MAX\<rparr>)
      in sync_bounds b)"

text \<open>A pointer moved by a known constant.\<close>

definition shift_ptr :: "u64 \<Rightarrow> ptr_offset \<Rightarrow> ptr_offset" where
  "shift_ptr c po =
     po\<lparr>po_off := sat_adds (po_off po) c, po_range := map_option (\<lambda>r. sat_subs r c) (po_range po), po_pkt_end := None\<rparr>"

definition apply_add_imm :: "reg \<Rightarrow> u64 \<Rightarrow> interval_state \<Rightarrow> interval_state" where
  "apply_add_imm dst imm s =
     (if fixed_reg dst then s else upd_ptr (shift_ptr imm) dst (upd_bounds (add_imm_bounds imm) dst s))"

definition add_reg_bounds :: "scalar_bounds \<Rightarrow> scalar_bounds \<Rightarrow> scalar_bounds" where
  "add_reg_bounds sb db =
     sync_bounds (db\<lparr>
       smin := sat_adds (smin db) (smin sb), smax := sat_adds (smax db) (smax sb),
       umin := sat_addu (umin db) (umin sb), umax := sat_addu (umax db) (umax sb), scalar_id := None,
       u32_min := sat_addu (u32_min db) (u32_min sb), u32_max := sat_addu (u32_max db) (u32_max sb),
       s32_min := sat_adds (s32_min db) (s32_min sb), s32_max := sat_adds (s32_max db) (s32_max sb)\<rparr>)"

text \<open>A pointer moved by a scalar that is not a constant; \<open>nid\<close> is the next pointer id.\<close>

definition vary_ptr :: "u32 \<Rightarrow> scalar_bounds \<Rightarrow> ptr_offset \<Rightarrow> ptr_offset" where
  "vary_ptr nid sb po =
     (let signed_range = sat_subs (smax sb) (smin sb) in
      po\<lparr>po_off := sat_adds (po_off po) (smin sb),
         po_var_off := (if 0 \<le>s signed_range then sat_addu (po_var_off po) signed_range else po_var_off po),
         po_range := None, po_pkt_end := None,
         po_id := (if po_id po = None then Some nid else po_id po)\<rparr>)"

definition apply_add_reg :: "reg \<Rightarrow> reg \<Rightarrow> u32 \<times> interval_state \<Rightarrow> u32 \<times> interval_state" where
  "apply_add_reg dst src = (\<lambda>(nid, s).
     if fixed_reg dst then (nid, s)
     else
       (let sb = get_bounds s src; s = upd_bounds (add_reg_bounds sb) dst s in
        case get_constant sb of
          Some c \<Rightarrow> (nid, upd_ptr (shift_ptr c) dst s)
        | None \<Rightarrow>
            (case get_ptr_offset s dst of
               Some po \<Rightarrow> (if po_id po = None then nid + 1 else nid, upd_ptr (vary_ptr nid sb) dst s)
             | None \<Rightarrow> (nid, s))))"

definition apply_scalar_add_ptr :: "reg \<Rightarrow> reg \<Rightarrow> u64 \<Rightarrow> u64 \<Rightarrow> u32 \<times> interval_state \<Rightarrow> u32 \<times> interval_state" where
  "apply_scalar_add_ptr dst ptr_src scalar_lo scalar_hi = (\<lambda>(nid, s).
     if fixed_reg dst then (nid, s)
     else
       (let p = get_ptr_offset s ptr_src; s = forget dst s in
        case p of
          None \<Rightarrow> (nid, s)
        | Some po \<Rightarrow>
            (let scalar_range = (if scalar_lo \<le>s scalar_hi then scalar_hi - scalar_lo else 0);
                 (new_id, nid) =
                   (if po_id po \<noteq> None then (po_id po, nid)
                    else if 0 < scalar_range then (Some nid, nid + 1) else (None, nid))
             in (nid, set_reg_interval dst
                   \<lparr>iv_bounds = bounds_unknown,
                    iv_ptr = Some \<lparr>po_anchor = po_anchor po, po_off = sat_adds (po_off po) scalar_lo,
                      po_var_off = sat_addu (po_var_off po) scalar_range, po_range = None, po_id = new_id,
                      po_pkt_end = None\<rparr>\<rparr> s))))"

definition sub_reg_bounds :: "scalar_bounds \<Rightarrow> scalar_bounds \<Rightarrow> scalar_bounds" where
  "sub_reg_bounds sb db =
     sync_bounds (db\<lparr>
       smin := sat_subs (smin db) (smax sb), smax := sat_subs (smax db) (smin sb),
       umin := sat_subu (umin db) (umax sb), umax := sat_subu (umax db) (umin sb), scalar_id := None,
       u32_min := sat_subu (u32_min db) (u32_max sb), u32_max := sat_subu (u32_max db) (u32_min sb),
       s32_min := sat_subs (s32_min db) (s32_max sb), s32_max := sat_subs (s32_max db) (s32_min sb)\<rparr>)"

definition apply_sub_reg :: "reg \<Rightarrow> reg \<Rightarrow> interval_state \<Rightarrow> interval_state" where
  "apply_sub_reg dst src s =
     (if fixed_reg dst then s
      else
        (let sb = get_bounds s src; signed_range = sat_subs (smax sb) (smin sb) in
         upd_ptr (\<lambda>po. po\<lparr>po_off := sat_subs (po_off po) (smax sb),
             po_var_off := (if 0 \<le>s signed_range then sat_addu (po_var_off po) signed_range else po_var_off po),
             po_range := None, po_pkt_end := None\<rparr>) dst
           (upd_bounds (sub_reg_bounds sb) dst s)))"

definition and_imm_bounds :: "u64 \<Rightarrow> scalar_bounds \<Rightarrow> scalar_bounds" where
  "and_imm_bounds mk b =
     (if 0 \<le>s mk
      then forget_32_then_sync (b\<lparr>smin := 0, smax := mk, umin := 0, umax := mk, scalar_id := None\<rparr>)
      else bounds_unknown)"

definition apply_and_imm :: "reg \<Rightarrow> u64 \<Rightarrow> interval_state \<Rightarrow> interval_state" where
  "apply_and_imm dst mk s =
     (if fixed_reg dst then s else clear_ptr dst (upd_bounds (and_imm_bounds mk) dst s))"

definition mul_imm_bounds :: "u64 \<Rightarrow> scalar_bounds \<Rightarrow> scalar_bounds" where
  "mul_imm_bounds imm b =
     forget_32_then_sync (bounds_unknown\<lparr>
       smin := sat_muls (smin b) imm, smax := sat_muls (smax b) imm,
       umin := sat_mulu (umin b) imm, umax := sat_mulu (umax b) imm, scalar_id := None\<rparr>)"

definition apply_mul_imm :: "reg \<Rightarrow> u64 \<Rightarrow> interval_state \<Rightarrow> interval_state" where
  "apply_mul_imm dst imm s =
     (if fixed_reg dst then s
      else if imm = 0 then assign_imm dst 0 s
      else if imm = 1 then s
      else if 0 <s imm then clear_ptr dst (upd_bounds (mul_imm_bounds imm) dst s)
      else forget dst s)"

definition div_imm_bounds :: "u64 \<Rightarrow> scalar_bounds \<Rightarrow> scalar_bounds" where
  "div_imm_bounds imm b =
     forget_32_then_sync (bounds_unknown\<lparr>
       smin := div_i64 (smin b) imm, smax := div_i64 (smax b) imm,
       umin := umin b div imm, umax := umax b div imm, scalar_id := None\<rparr>)"

definition apply_div_imm :: "reg \<Rightarrow> u64 \<Rightarrow> interval_state \<Rightarrow> interval_state" where
  "apply_div_imm r imm s =
     (if fixed_reg r \<or> imm = 0 then s
      else if 0 <s imm \<and> 0 \<le>s smin (get_bounds s r) then clear_ptr r (upd_bounds (div_imm_bounds imm) r s)
      else forget r s)"

definition apply_div_reg :: "reg \<Rightarrow> interval_state \<Rightarrow> interval_state" where
  "apply_div_reg dst s = forget dst s"

definition neg_bounds :: "scalar_bounds \<Rightarrow> scalar_bounds" where
  "neg_bounds b =
     forget_32_then_sync (bounds_unknown\<lparr>smin := - smax b, smax := - smin b, umin := 0, umax := U64_MAX, scalar_id := None\<rparr>)"

definition apply_neg :: "reg \<Rightarrow> interval_state \<Rightarrow> interval_state" where
  "apply_neg r s =
     (if fixed_reg r then s
      else
        (let b = get_bounds s r in
         if smin b = I64_MIN \<or> smax b = I64_MIN then forget r s
         else if - smin b <s - smax b then forget r s
         else clear_ptr r (upd_bounds neg_bounds r s)))"

section \<open>Assumptions from branches\<close>

definition assume_le :: "reg \<Rightarrow> reg \<Rightarrow> interval_state \<Rightarrow> interval_state" where
  "assume_le x y s =
     (let y_max = smax (get_bounds s y); x_min = smin (get_bounds s x);
          s' = (if x_min \<le>s y_max then upd_bounds (assume_sle y_max) x s else s)
      in if x_min \<le>s y_max then upd_bounds (assume_sge x_min) y s' else s')"

definition assume_ge :: "reg \<Rightarrow> reg \<Rightarrow> interval_state \<Rightarrow> interval_state" where
  "assume_ge x y s = assume_le y x s"

definition assume_gt :: "reg \<Rightarrow> reg \<Rightarrow> interval_state \<Rightarrow> interval_state" where
  "assume_gt x y s =
     (let y_max = smax (get_bounds s y); x_min = smin (get_bounds s x);
          x_max = smax (get_bounds s x); y_min = smin (get_bounds s y);
          s = (if y_max \<noteq> I64_MAX \<and> sat_adds y_max 1 \<le>s x_max then upd_bounds (assume_sge (sat_adds y_max 1)) x s else s)
      in if x_min \<noteq> I64_MIN \<and> y_min \<le>s sat_subs x_min 1 then upd_bounds (assume_sle (sat_subs x_min 1)) y s else s)"

definition assume_le_offset :: "reg \<Rightarrow> reg \<Rightarrow> u64 \<Rightarrow> interval_state \<Rightarrow> interval_state" where
  "assume_le_offset x y c s =
     (let y_max = smax (get_bounds s y) in
      if y_max \<noteq> I64_MAX then upd_bounds (assume_sle (sat_adds y_max c)) x s else s)"

definition assume_le_imm :: "reg \<Rightarrow> u64 \<Rightarrow> interval_state \<Rightarrow> interval_state" where
  "assume_le_imm x c s = upd_bounds (assume_sle c) x s"

definition assume_ge_imm :: "reg \<Rightarrow> u64 \<Rightarrow> interval_state \<Rightarrow> interval_state" where
  "assume_ge_imm x c s = upd_bounds (assume_sge c) x s"

definition assume_range :: "reg \<Rightarrow> u64 \<Rightarrow> u64 \<Rightarrow> interval_state \<Rightarrow> interval_state" where
  "assume_range x mn mx s = assume_le_imm x mx (assume_ge_imm x mn s)"

definition assume_eq_imm :: "reg \<Rightarrow> u64 \<Rightarrow> interval_state \<Rightarrow> interval_state" where
  "assume_eq_imm x c s =
     (if x \<noteq> RZero \<and> \<not> is_anchor x
      then set_reg_interval x \<lparr>iv_bounds = bounds_constant c, iv_ptr = get_ptr_offset s x\<rparr> s else s)"

definition assume_lt_imm :: "reg \<Rightarrow> u64 \<Rightarrow> interval_state \<Rightarrow> interval_state" where
  "assume_lt_imm x c s = (if c \<noteq> I64_MIN then upd_bounds (assume_sle (c - 1)) x s else s)"

section \<open>Packet geometry\<close>

definition init_packet_anchors :: "interval_state \<Rightarrow> interval_state" where
  "init_packet_anchors s =
     fold (\<lambda>a. set_reg_interval a (with_ptr_offset bounds_unknown (at_anchor a))) [AnchorDataMeta, AnchorData, AnchorDataEnd] s"

definition bind_to_anchor :: "reg \<Rightarrow> reg \<Rightarrow> interval_state \<Rightarrow> interval_state" where
  "bind_to_anchor r a s =
     (if \<not> is_anchor a then s else set_reg_interval r (with_ptr_offset bounds_unknown (at_anchor a)) s)"

definition check_region_access :: "interval_state \<Rightarrow> reg \<Rightarrow> u64 \<Rightarrow> u64 \<Rightarrow> reg \<Rightarrow> reg \<Rightarrow> bool \<times> bool" where
  "check_region_access s base k sz anchor_start anchor_end =
     (case get_ptr_offset s base of
        Some po \<Rightarrow>
          (if po_anchor po = anchor_start then
             (0 \<le>s sat_adds (min_offset po) k,
              (case po_range po of Some r \<Rightarrow> sat_adds k sz \<le>s r | None \<Rightarrow> False))
           else (False, False))
      | None \<Rightarrow> (False, False))"

definition verify_packet_meta_bounds :: "interval_state \<Rightarrow> reg \<Rightarrow> u64 \<Rightarrow> u64 \<Rightarrow> bool \<times> bool" where
  "verify_packet_meta_bounds s base k sz = check_region_access s base k sz AnchorDataMeta AnchorData"

definition verify_packet_bounds :: "interval_state \<Rightarrow> reg \<Rightarrow> u64 \<Rightarrow> u64 \<Rightarrow> bool \<times> bool" where
  "verify_packet_bounds s base k sz = check_region_access s base k sz AnchorData AnchorDataEnd"

definition reset_packet_anchors :: "interval_state \<Rightarrow> interval_state" where
  "reset_packet_anchors s = init_packet_anchors s"

definition preserve_anchor_constraints :: "interval_state \<Rightarrow> interval_state \<Rightarrow> interval_state" where
  "preserve_anchor_constraints caller callee = caller"

section \<open>Soundness of the scalar half\<close>

definition state_holds :: "(reg \<Rightarrow> u64) \<Rightarrow> interval_state \<Rightarrow> bool" where
  "state_holds v s \<longleftrightarrow> (\<forall>r. in_bounds (v r) (get_bounds s r))"

text \<open>Bounds after each kind of update.\<close>

lemma get_bounds_upd [simp]:
  "get_bounds (upd_bounds f r s) r' = (if r' = r then f (get_bounds s r) else get_bounds s r')"
  "get_bounds (upd_ptr g r s) r' = get_bounds s r'"
  "get_bounds (clear_ptr r s) r' = get_bounds s r'"
  "get_bounds (set_reg_interval r i s) r' = (if r' = r \<and> r \<noteq> RZero then iv_bounds i else get_bounds s r')"
  "get_bounds (forget r s) r' = (if r' = r \<and> \<not> fixed_reg r then bounds_unknown else get_bounds s r')"
  by (auto simp: get_bounds_def upd_bounds_def upd_ptr_def clear_ptr_def set_reg_interval_def forget_def reg_unknown_def)

lemma sint_add_cases:
  fixes x c :: "'a::len word"
  defines "N \<equiv> 2 ^ (LENGTH('a) - 1)"
  shows "sint (x + c) = sint x + sint c -
    (if N \<le> sint x + sint c then 2 * N else if sint x + sint c < - N then - 2 * N else 0)"
proof -
  define t where "t = sint x + sint c - (if N \<le> sint x + sint c then 2 * N else if sint x + sint c < - N then - 2 * N else 0)"
  have N: "2 * N = 2 ^ LENGTH('a)" unfolding N_def by (simp flip: power_Suc)
  have "- N \<le> sint x" "sint x < N" "- N \<le> sint c" "sint c < N"
    unfolding N_def using sint_ge sint_lt by blast+
  then have t: "- N \<le> t" "t < N" unfolding t_def by (auto split: if_splits)
  have "(of_int (2 * N) :: 'a word) = 0" unfolding N by simp
  then have "of_int t = x + c" unfolding t_def by simp
  moreover have "sint (of_int t :: 'a word) = t"
    using t unfolding N_def by (simp add: signed_of_int signed_take_bit_int_eq_self)
  ultimately show ?thesis unfolding t_def by simp
qed

lemma add_mono_u:
  fixes a x b c :: "'a::len word"
  assumes "a \<le> x" "x \<le> b" "ovf_addu a c = ovf_addu b c"
  shows "a + c \<le> x + c \<and> x + c \<le> b + c"
  using assms unfolding ovf_addu_def word_le_def uint_plus_if' by (auto split: if_splits)

lemma add_mono_s:
  fixes a x b c :: "'a::len word"
  assumes "a \<le>s x" "x \<le>s b" "ovf_adds a c = ovf_adds b c"
  shows "a + c \<le>s x + c \<and> x + c \<le>s b + c"
proof -
  define N :: int where "N = 2 ^ (LENGTH('a) - 1)"
  have r: "- N \<le> sint z" "sint z < N" for z :: "'a word"
    unfolding N_def using sint_ge sint_lt by blast+
  from assms show ?thesis
    unfolding ovf_adds_def word_sle_eq sint_add_cases N_def [symmetric]
    using r [of a] r [of x] r [of b] r [of c] by (auto split: if_splits)
qed

lemma ucast_plus: "ucast (x + c) = ucast x + (ucast c :: u32)" for x c :: u64
proof (rule word_uint_eqI)
  have "(uint x + uint c) mod 2 ^ 64 mod 2 ^ 32 = (uint x + uint c) mod (2 ^ 32 :: int)"
    by (rule mod_mod_cancel) simp
  then show "uint (ucast (x + c) :: u32) = uint (ucast x + (ucast c :: u32))"
    by (simp add: uint_low uint_word_ariths mod_simps)
qed

lemma add_imm_sound:
  assumes "in_bounds x b"
  shows "in_bounds (x + c) (add_imm_bounds c b)"
  unfolding add_imm_bounds_def Let_def
  by (rule sync_bounds_keeps)
    (use assms add_mono_u [of "umin b" x "umax b" c] add_mono_s [of "smin b" x "smax b" c]
      add_mono_u [of "u32_min b" "ucast x" "u32_max b" "ucast c"]
      add_mono_s [of "s32_min b" "ucast x" "s32_max b" "ucast c"]
      in \<open>simp add: in_bounds_def ucast_plus\<close>)

lemma and_imm_sound: "in_bounds (x AND c) (and_imm_bounds c b)"
proof (cases "0 \<le>s c")
  case True
  have "x AND c \<le> c" by (rule word_and_le1)
  with True have "0 \<le>s x AND c" "x AND c \<le>s c" by (auto simp: nonneg_iff sle_iff_le intro: order.trans)
  with True show ?thesis
    by (simp add: and_imm_bounds_def forget_32_keeps word_and_le1)
qed (simp add: and_imm_bounds_def)

lemma uint_pos_iff: "0 < uint c \<longleftrightarrow> c \<noteq> 0"
  by (auto simp: less_le uint_0_iff)

lemma div_i64_nonneg: "0 \<le>s a \<Longrightarrow> 0 \<le>s c \<Longrightarrow> div_i64 a c = a div c"
  by (simp add: div_i64_def sint_nonneg signed_divide_int_def sgn_if word_div_def uint_pos_iff uint_0_iff)

lemma div_word_mono: "(a :: u64) \<le> b \<Longrightarrow> a div c \<le> b div c"
  by (cases "c = 0") (auto simp: word_le_def uint_div uint_pos_iff intro!: zdiv_mono1)

lemma div_word_le: "(a :: u64) div c \<le> a"
  by (simp add: word_le_nat_alt unat_div)

lemma div_imm_sound:
  assumes "in_bounds x b" "0 <s c" "0 \<le>s smin b"
  shows "in_bounds (x div c) (div_imm_bounds c b)"
proof -
  have nonneg: "0 \<le>s x" "0 \<le>s smax b" "0 \<le>s c"
    using assms by (auto simp: in_bounds_def word_sle_eq word_sless_alt)
  have d: "0 \<le>s a div c" if "0 \<le>s a" for a
    using that div_word_le [of a c] unfolding nonneg_iff by (rule order.trans [rotated])
  have "smin b \<le> x" "x \<le> smax b" "umin b \<le> x" "x \<le> umax b"
    using assms(1,3) nonneg sle_iff_le [of "smin b" x] sle_iff_le [of x "smax b"] by (simp_all add: in_bounds_def)
  note m = this [THEN div_word_mono, of c]
  have "smin b div c \<le>s x div c" "x div c \<le>s smax b div c"
    using m(1,2) sle_iff_le [OF d d] nonneg assms(3) by blast+
  with m(3,4) show ?thesis
    unfolding div_imm_bounds_def by (intro forget_32_keeps) (simp_all add: div_i64_nonneg nonneg assms)
qed

lemma sint_minus: "(x :: u64) \<noteq> I64_MIN \<Longrightarrow> sint (- x) = - sint x"
proof -
  assume "x \<noteq> I64_MIN"
  then have "sint x \<noteq> - (2 ^ 63)" using signed_word_eqI [of x I64_MIN] by auto
  then have "- (2 ^ 63) \<le> - sint x" "- sint x < 2 ^ 63" using sint_ge [of x] sint_lt [of x] by simp_all
  then have "sint (of_int (- sint x) :: u64) = - sint x"
    unfolding signed_of_int by (simp add: signed_take_bit_int_eq_self)
  moreover have "of_int (- sint x) = - x" by simp
  ultimately show ?thesis by metis
qed

lemma neg_sound:
  assumes "in_bounds x b" "smin b \<noteq> I64_MIN"
  shows "in_bounds (- x) (neg_bounds b)"
proof -
  have "- (2 ^ 63) \<le> sint (smin b)" using sint_ge [of "smin b"] by simp
  moreover have "sint (smin b) \<noteq> - (2 ^ 63)"
    using assms(2) signed_word_eqI [of "smin b" I64_MIN] by auto
  ultimately have "- (2 ^ 63) < sint (smin b)" by simp
  then have "x \<noteq> I64_MIN" "smax b \<noteq> I64_MIN"
    using assms(1) by (auto simp: in_bounds_def word_sle_eq)
  with assms show ?thesis
    unfolding neg_bounds_def
    by (intro forget_32_keeps) (simp_all add: in_bounds_def word_sle_eq sint_minus)
qed

lemma holds_consistent:
  assumes "state_holds v s" "packet_size_upper_bound s = None" "meta_size_upper_bound s = None"
  shows "\<not> is_inconsistent s"
proof -
  have "\<not> smax (get_bounds s r) <s smin (get_bounds s r)" "\<not> umax (get_bounds s r) < umin (get_bounds s r)" for r
    using assms(1) order.trans [of "umin (get_bounds s r)" "v r" "umax (get_bounds s r)"]
      order.trans [of "sint (smin (get_bounds s r))" "sint (v r)" "sint (smax (get_bounds s r))"]
    by (simp_all add: state_holds_def in_bounds_def word_sle_eq word_sless_alt not_less)
  with assms(2,3) show ?thesis by (simp add: is_inconsistent_def split: option.splits)
qed

text \<open>The contract of a transfer function \<open>f\<close>: a concrete step that takes the values \<open>v\<close> to \<open>v'\<close> keeps them within the bounds.
  For an instruction the step computes; for a branch it leaves the values and restricts them.\<close>

locale transfer_fn =
  fixes f :: "interval_state \<Rightarrow> interval_state" and step :: "(reg \<Rightarrow> u64) \<Rightarrow> (reg \<Rightarrow> u64) \<Rightarrow> bool"
  assumes keeps: "state_holds v s \<Longrightarrow> step v v' \<Longrightarrow> state_holds v' (f s)"
begin

text \<open>A path is cut only when no execution takes it.\<close>

lemma dead_path:
  assumes "is_inconsistent (f s)" "packet_size_upper_bound (f s) = None" "meta_size_upper_bound (f s) = None"
  shows "\<not> (state_holds v s \<and> step v v')"
  using assms keeps holds_consistent by blast

end

text \<open>A step that writes one register, and one that writes none.\<close>

abbreviation writes :: "reg \<Rightarrow> ((reg \<Rightarrow> u64) \<Rightarrow> u64) \<Rightarrow> (reg \<Rightarrow> u64) \<Rightarrow> (reg \<Rightarrow> u64) \<Rightarrow> bool" where
  "writes d g v v' \<equiv> \<not> fixed_reg d \<and> v' = v(d := g v)"

abbreviation branch :: "((reg \<Rightarrow> u64) \<Rightarrow> bool) \<Rightarrow> (reg \<Rightarrow> u64) \<Rightarrow> (reg \<Rightarrow> u64) \<Rightarrow> bool" where
  "branch P v v' \<equiv> v' = v \<and> P v"

interpretation assign_imm: transfer_fn "assign_imm d c" "writes d (\<lambda>_. c)" for d c
  by unfold_locales (auto simp: state_holds_def assign_imm_def reg_constant_def)

interpretation assign_reg: transfer_fn "assign_reg d r" "writes d (\<lambda>v. v r)" for d r
  by unfold_locales (auto simp: state_holds_def assign_reg_def simp flip: get_bounds_def)

interpretation add_imm: transfer_fn "apply_add_imm d c" "writes d (\<lambda>v. v d + c)" for d c
  by unfold_locales (auto simp: state_holds_def apply_add_imm_def add_imm_sound)

interpretation and_imm: transfer_fn "apply_and_imm d c" "writes d (\<lambda>v. v d AND c)" for d c
  by unfold_locales (auto simp: state_holds_def apply_and_imm_def and_imm_sound)

interpretation div_imm: transfer_fn "apply_div_imm d c" "writes d (\<lambda>v. if c = 0 then v d else v d div c)" for d c
  by unfold_locales (auto simp: state_holds_def apply_div_imm_def div_imm_sound)

interpretation neg: transfer_fn "apply_neg d" "writes d (\<lambda>v. - v d)" for d
  by unfold_locales (auto simp: state_holds_def apply_neg_def Let_def neg_sound)

interpretation ge_imm: transfer_fn "assume_ge_imm d c" "branch (\<lambda>v. c \<le>s v d)" for d c
  by unfold_locales (auto simp: state_holds_def assume_ge_imm_def assume_sge_keeps)

interpretation eq_imm: transfer_fn "assume_eq_imm d c" "branch (\<lambda>v. v d = c)" for d c
  by unfold_locales (auto simp: state_holds_def assume_eq_imm_def)

interpretation eq_reg: transfer_fn "intersect_eq_reg x y" "branch (\<lambda>v. v x = v y)" for x y
proof
  fix v s v'
  assume h: "state_holds v s" and st: "branch (\<lambda>v. v x = v y) v v'"
  then have "in_bounds (v x) (get_bounds s x)" "in_bounds (v x) (get_bounds s y)" by (metis state_holds_def)+
  then have "in_bounds (v x) (get_bounds (intersect_eq_reg x y s) x)"
    by (auto simp: intersect_eq_reg_def Let_def in_bounds_def intro!: sync_bounds_keeps [unfolded in_bounds_def])
  with h st show "state_holds v' (intersect_eq_reg x y s)"
    by (auto simp: state_holds_def intersect_eq_reg_def Let_def)
qed

section \<open>Properties\<close>

text \<open>C30. The transfer functions of the interval domain for moves, addition of a constant (modulo 2 to the 64), masking,
  unsigned division by a constant, negation, and the branches \<open>x >= c\<close>, \<open>x == c\<close>, \<open>x == y\<close> are sound: if the registers' values
  satisfy the bounds before the instruction, the new values satisfy the new bounds. And a state that is found inconsistent
  afterwards, so that the path is dropped, is one that no execution reaches.\<close>

theorem interval_transfer_sound:
  assumes "state_holds v s" and "\<not> fixed_reg d"
  shows "state_holds (v(d := c)) (assign_imm d c s) \<and>
    state_holds (v(d := v r)) (assign_reg d r s) \<and>
    state_holds (v(d := v d + c)) (apply_add_imm d c s) \<and>
    state_holds (v(d := v d AND c)) (apply_and_imm d c s) \<and>
    state_holds (v(d := if c = 0 then v d else v d div c)) (apply_div_imm d c s) \<and>
    state_holds (v(d := - v d)) (apply_neg d s) \<and>
    (c \<le>s v d \<longrightarrow> state_holds v (assume_ge_imm d c s)) \<and>
    (v d = c \<longrightarrow> state_holds v (assume_eq_imm d c s)) \<and>
    (v d = v r \<longrightarrow> state_holds v (intersect_eq_reg d r s)) \<and>
    (packet_size_upper_bound s = None \<and> meta_size_upper_bound s = None \<longrightarrow> \<not> is_inconsistent s)"
  using assms assign_imm.keeps assign_reg.keeps add_imm.keeps and_imm.keeps div_imm.keeps neg.keeps
    ge_imm.keeps eq_imm.keeps [of v s v d c] eq_reg.keeps holds_consistent
  by simp

lemma new_state_holds: "v RZero = 0 \<Longrightarrow> state_holds v new_state"
  by (auto simp: state_holds_def new_state_def get_bounds_def reg_constant_def reg_unknown_def with_ptr_offset_def)

theorem interval_transfer_sound_witness:
  "let v = (\<lambda>_. 0) in state_holds (v(R1 := v R1 + 7)) (apply_add_imm R1 7 new_state) \<and> \<not> is_inconsistent new_state"
proof -
  have "state_holds (\<lambda>_. 0) new_state" "\<not> fixed_reg R1" "packet_size_upper_bound new_state = None"
    "meta_size_upper_bound new_state = None"
    by (simp_all add: new_state_holds is_anchor_def) (simp_all add: new_state_def)
  with interval_transfer_sound [OF this(1,2), of 7 R1] show ?thesis by (simp add: Let_def)
qed

lemma not_holdsI: "\<not> in_bounds (v r) (get_bounds s r) \<Longrightarrow> \<not> state_holds v s"
  by (auto simp: state_holds_def)

lemma get_bounds_new: "get_bounds new_state r = (if r = RZero then bounds_constant 0 else bounds_unknown)"
  by (simp add: get_bounds_def new_state_def reg_constant_def reg_unknown_def with_ptr_offset_def)

text \<open>The counterexamples, on bounds.\<close>

lemma not_sound:
  "\<not> in_bounds 0 (add_reg_bounds (bounds_constant 1) bounds_unknown)"
  "\<not> in_bounds (- 1) (sub_reg_bounds (bounds_constant 1) bounds_unknown)"
  "\<not> in_bounds 0x8000000000000000 (mul_imm_bounds 2 (assume_sge 1 bounds_unknown))"
  "\<not> in_bounds (- 1) (assume_sle 5 bounds_unknown)"
  "\<not> in_bounds (- 1) (get_bounds (assign_interval R1 (- 1) 5 new_state) R1)"
  by code_simp+

lemmas eval_state = get_bounds_new is_anchor_def assign_imm_def reg_constant_def apply_and_imm_def assume_ge_imm_def Let_def

lemma add_reg_unsound:
  "\<exists>v s. state_holds v s \<and> \<not> state_holds (v(R2 := v R2 + v R1)) (snd (apply_add_reg R2 R1 (1, s)))"
proof (intro exI conjI)
  let ?v = "(\<lambda>_. 0 :: u64)(R1 := 1, R2 := - 1)" and ?s = "assign_imm R1 1 new_state"
  show "state_holds ?v ?s" by (auto simp: state_holds_def eval_state)
  show "\<not> state_holds (?v(R2 := ?v R2 + ?v R1)) (snd (apply_add_reg R2 R1 (1, ?s)))"
    by (rule not_holdsI [of _ R2]) (simp add: apply_add_reg_def eval_state not_sound(1) split: option.split)
qed

lemma sub_reg_unsound:
  "\<exists>v s. state_holds v s \<and> \<not> state_holds (v(R2 := v R2 - v R1)) (apply_sub_reg R2 R1 s)"
proof (intro exI conjI)
  let ?v = "(\<lambda>_. 0 :: u64)(R1 := 1)" and ?s = "assign_imm R1 1 new_state"
  show "state_holds ?v ?s" by (auto simp: state_holds_def eval_state)
  show "\<not> state_holds (?v(R2 := ?v R2 - ?v R1)) (apply_sub_reg R2 R1 ?s)"
    by (rule not_holdsI [of _ R2]) (simp add: apply_sub_reg_def eval_state not_sound(2))
qed

lemma mul_imm_unsound:
  "\<exists>v s. state_holds v s \<and> \<not> state_holds (v(R2 := v R2 * 2)) (apply_mul_imm R2 2 s)"
proof (intro exI conjI)
  let ?v = "(\<lambda>_. 0 :: u64)(R2 := 0x4000000000000000)" and ?s = "assume_ge_imm R2 1 new_state"
  show "state_holds ?v ?s" by (rule ge_imm.keeps) (auto simp: new_state_holds word_sle_eq)
  show "\<not> state_holds (?v(R2 := ?v R2 * 2)) (apply_mul_imm R2 2 ?s)"
    by (rule not_holdsI [of _ R2]) (simp add: apply_mul_imm_def eval_state word_sless_alt not_sound(3))
qed

lemma gt_unsound: "\<exists>v s. state_holds v s \<and> v R2 <s v R1 \<and> \<not> state_holds v (assume_gt R1 R2 s)"
proof (intro exI conjI)
  let ?v = "(\<lambda>_. 0 :: u64)(R1 := 1)" and ?s = "apply_and_imm R1 15 (apply_and_imm R2 7 new_state)"
  show "state_holds ?v ?s"
    using and_imm_sound [of 0 7 bounds_unknown] and_imm_sound [of 1 15 bounds_unknown]
    by (auto simp: state_holds_def eval_state)
  show "?v R2 <s ?v R1" by (simp add: word_sless_alt)
  show "\<not> state_holds ?v (assume_gt R1 R2 ?s)" by (rule not_holdsI [of _ R1], code_simp)
qed

lemma le_imm_unsound: "\<exists>v s. state_holds v s \<and> v R1 \<le>s 5 \<and> \<not> state_holds v (assume_le_imm R1 5 s)"
proof (intro exI conjI)
  let ?v = "(\<lambda>_. 0 :: u64)(R1 := - 1)"
  show "state_holds ?v new_state" "?v R1 \<le>s 5" by (simp_all add: new_state_holds word_sle_eq)
  show "\<not> state_holds ?v (assume_le_imm R1 5 new_state)"
    by (rule not_holdsI [of _ R1]) (simp add: assume_le_imm_def eval_state not_sound(4))
qed

lemma assign_interval_unsound:
  "\<exists>v s x. state_holds v s \<and> - 1 \<le>s x \<and> x \<le>s 5 \<and> \<not> state_holds (v(R1 := x)) (assign_interval R1 (- 1) 5 s)"
proof (intro exI conjI)
  show "state_holds (\<lambda>_. 0) new_state" "- 1 \<le>s (- 1 :: u64)" "- 1 \<le>s (5 :: u64)"
    by (simp_all add: new_state_holds word_sle_eq)
  show "\<not> state_holds ((\<lambda>_. 0)(R1 := - 1)) (assign_interval R1 (- 1) 5 new_state)"
    by (rule not_holdsI [of _ R1]) (simp add: not_sound(5))
qed

text \<open>C31. Six transfer functions are not sound. Adding a register or subtracting one saturates the bounds where the machine wraps:
  with a register known to be 1, \<open>unknown + 1\<close> is said to be at least 1 (it is 0 for \<open>-1\<close>), and \<open>unknown - 1\<close> to be below \<open>2^64 - 1\<close>
  (it is not for 0); so does multiplication by a constant. \<open>assume_gt\<close> compares with the greatest value of the smaller side instead of the
  least: from \<open>r1\<close> in 0..15 greater than \<open>r2\<close> in 0..7 it concludes \<open>r1 >= 8\<close>. \<open>assume_le_imm\<close> and \<open>assign_interval\<close> bound the low half of
  a register that may be negative by a bound that is not.\<close>

theorem interval_transfer_unsound:
  "(\<exists>v s. state_holds v s \<and> \<not> state_holds (v(R2 := v R2 + v R1)) (snd (apply_add_reg R2 R1 (1, s)))) \<and>
   (\<exists>v s. state_holds v s \<and> \<not> state_holds (v(R2 := v R2 - v R1)) (apply_sub_reg R2 R1 s)) \<and>
   (\<exists>v s. state_holds v s \<and> \<not> state_holds (v(R2 := v R2 * 2)) (apply_mul_imm R2 2 s)) \<and>
   (\<exists>v s. state_holds v s \<and> v R2 <s v R1 \<and> \<not> state_holds v (assume_gt R1 R2 s)) \<and>
   (\<exists>v s. state_holds v s \<and> v R1 \<le>s 5 \<and> \<not> state_holds v (assume_le_imm R1 5 s)) \<and>
   (\<exists>v s x. state_holds v s \<and> - 1 \<le>s x \<and> x \<le>s 5 \<and> \<not> state_holds (v(R1 := x)) (assign_interval R1 (- 1) 5 s))"
  using add_reg_unsound sub_reg_unsound mul_imm_unsound gt_unsound le_imm_unsound assign_interval_unsound by blast

end
