(* ===== verification/Packet_Range.thy ===== *)
theory Packet_Range
  imports Interval_Domain Ebpf_Machine
begin

text \<open>
  How the interval domain proves packet accesses safe: \<open>analysis/transfer/branch/interval_packet.rs\<close> with the
  pointer half of \<open>domains/interval/ops.rs\<close> and the spilling of pointers in \<open>analysis/machine/stack_ops.rs\<close>.

  A comparison of a packet pointer with the end of the packet proves a number of bytes readable (\<open>po_range\<close>) from every pointer of the
  same family: registers and stack slots that share the variable part of their offset, told by their \<open>po_id\<close>. An access is
  accepted when it ends within that range.

  \<open>offsets_ok k n s\<close> relates an abstract state to an execution: \<open>k\<close> gives the offset in the region that each pointer
  really has, \<open>n\<close> the size of the region. Shown here: an accepted access lies in the region; a comparison keeps the relation on
  the branch it goes to; so do moves, constant and variable additions, spills and fills, hence every run
  of such steps accepts only accesses that lie in the packet, provided a pointer that already has a variable part takes no second
  one. Without that proviso it fails: the second addition keeps the old family.
\<close>

section \<open>State\<close>

text \<open>The register types this code tells apart, without the fields it does not read; \<open>OtherType\<close> stands for all others.\<close>

datatype reg_type =
    PtrToPacket | PtrToPacketEnd | PtrToPacketMeta | PtrToStack | PtrToMapValue | PtrToMapValueOrNull | OtherType

datatype pointer_bounds =
    PB_Zone "reg option" "u64 option" "u64 option" "reg option" "u64 option" "u64 option"
  | PB_Interval "u64 option" "u64 option" "u64 option" "u32 option"

record spilled_reg =
  sp_type :: reg_type
  sp_ptr :: "pointer_bounds option"

text \<open>The part of \<open>State\<close> the refinement reads and writes; the domain is in interval mode. \<open>ps_frames\<close> are the stacks of the
  call frames, each a list of its slots.\<close>

record pkt_state =
  ps_types :: "reg \<Rightarrow> reg_type"
  ps_dom :: interval_state
  ps_frames :: "spilled_reg list list"

section \<open>Reading a comparison\<close>

record packet_comparison =
  pc_offset :: u64
  pc_var_off :: u64
  pc_is_fixed :: bool

definition get_region_offset :: "reg_type \<Rightarrow> reg \<Rightarrow> pkt_state \<Rightarrow> reg \<Rightarrow> packet_comparison option" where
  "get_region_offset ty anc s r =
     (if ps_types s r \<noteq> ty then None
      else
        (case get_ptr_offset (ps_dom s) r of
           Some po \<Rightarrow>
             (if po_anchor po = anc
              then Some \<lparr>pc_offset = po_off po, pc_var_off = po_var_off po, pc_is_fixed = (po_var_off po = 0)\<rparr>
              else None)
         | None \<Rightarrow> None))"

definition get_packet_data_offset :: "pkt_state \<Rightarrow> reg \<Rightarrow> packet_comparison option" where
  "get_packet_data_offset = get_region_offset PtrToPacket AnchorData"

definition get_packet_meta_offset :: "pkt_state \<Rightarrow> reg \<Rightarrow> packet_comparison option" where
  "get_packet_meta_offset = get_region_offset PtrToPacketMeta AnchorDataMeta"

definition is_packet_end :: "pkt_state \<Rightarrow> reg \<Rightarrow> bool" where
  "is_packet_end s r \<longleftrightarrow> ps_types s r = PtrToPacketEnd"

definition is_packet_data :: "pkt_state \<Rightarrow> reg \<Rightarrow> bool" where
  "is_packet_data s r \<longleftrightarrow>
     ps_types s r = PtrToPacket \<and>
     (case get_ptr_offset (ps_dom s) r of
        Some po \<Rightarrow> po_anchor po = AnchorData \<and> po_off po = 0 \<and> po_var_off po = 0
      | None \<Rightarrow> False)"

text \<open>\<open>(proves_lower, lower_strict, proves_upper, upper_strict)\<close> of the two tables; the first argument says whether the pointer is on
  the left.\<close>

fun comparison_proves :: "bool \<Rightarrow> cmp_op \<Rightarrow> bool \<Rightarrow> bool \<times> bool \<times> bool \<times> bool" where
  "comparison_proves True ULe True = (True, False, False, False)"
| "comparison_proves True SLe True = (True, False, False, False)"
| "comparison_proves True ULt True = (True, True, False, False)"
| "comparison_proves True SLt True = (True, True, False, False)"
| "comparison_proves True UGt False = (True, False, False, False)"
| "comparison_proves True SGt False = (True, False, False, False)"
| "comparison_proves True UGe False = (True, True, False, False)"
| "comparison_proves True SGe False = (True, True, False, False)"
| "comparison_proves True UGt True = (False, False, True, False)"
| "comparison_proves True SGt True = (False, False, True, False)"
| "comparison_proves True UGe True = (False, False, True, True)"
| "comparison_proves True SGe True = (False, False, True, True)"
| "comparison_proves True ULe False = (False, False, True, False)"
| "comparison_proves True SLe False = (False, False, True, False)"
| "comparison_proves True ULt False = (False, False, True, True)"
| "comparison_proves True SLt False = (False, False, True, True)"
| "comparison_proves False UGe True = (True, False, False, False)"
| "comparison_proves False SGe True = (True, False, False, False)"
| "comparison_proves False UGt True = (True, True, False, False)"
| "comparison_proves False SGt True = (True, True, False, False)"
| "comparison_proves False ULe False = (True, True, False, False)"
| "comparison_proves False SLe False = (True, True, False, False)"
| "comparison_proves False ULt False = (True, False, False, False)"
| "comparison_proves False SLt False = (True, False, False, False)"
| "comparison_proves False ULt True = (False, False, True, False)"
| "comparison_proves False SLt True = (False, False, True, False)"
| "comparison_proves False ULe True = (False, False, True, True)"
| "comparison_proves False SLe True = (False, False, True, True)"
| "comparison_proves False UGe False = (False, False, True, False)"
| "comparison_proves False SGe False = (False, False, True, False)"
| "comparison_proves False UGt False = (False, False, True, True)"
| "comparison_proves False SGt False = (False, False, True, True)"
| "comparison_proves _ _ _ = (False, False, False, False)"

section \<open>Propagating a range\<close>

definition reg_all :: "reg list" where
  "reg_all = [RZero, R0, R1, R2, R3, R4, R5, R6, R7, R8, R9, R10]"

text \<open>The new range of a pointer at offset \<open>o\<close> of which \<open>proven\<close> bytes of the region are known, if it is in the family.\<close>

definition family_range :: "u32 option \<Rightarrow> u64 \<Rightarrow> u32 option \<Rightarrow> u64 \<Rightarrow> u64 option" where
  "family_range checked_id proven i k =
     (if checked_id = i then (let r = sat_subs proven k in if 0 \<le>s r then Some r else None) else None)"

definition wider :: "u64 \<Rightarrow> u64 option \<Rightarrow> bool" where
  "wider r current \<longleftrightarrow> (case current of Some c \<Rightarrow> c | None \<Rightarrow> - 1) <s r"

definition reg_updates :: "reg_type \<Rightarrow> reg \<Rightarrow> pkt_state \<Rightarrow> u32 option \<Rightarrow> u64 \<Rightarrow> (reg \<times> u64) list" where
  "reg_updates ty anc s checked_id proven =
     List.map_filter (\<lambda>r.
       if ps_types s r \<noteq> ty then None
       else
         (case get_ptr_offset (ps_dom s) r of
            Some po \<Rightarrow>
              (if po_anchor po \<noteq> anc then None
               else map_option (Pair r) (family_range checked_id proven (po_id po) (po_off po)))
          | None \<Rightarrow> None)) reg_all"

definition widen_reg :: "reg \<times> u64 \<Rightarrow> interval_state \<Rightarrow> interval_state" where
  "widen_reg = (\<lambda>(r, rng).
     upd_ptr (\<lambda>po. if wider rng (po_range po) then po\<lparr>po_range := Some rng\<rparr> else po) r)"

definition widen_slot :: "reg_type \<Rightarrow> u32 option \<Rightarrow> u64 \<Rightarrow> spilled_reg \<Rightarrow> spilled_reg" where
  "widen_slot ty checked_id proven sl =
     (if sp_type sl \<noteq> ty then sl
      else
        (case sp_ptr sl of
           Some (PB_Interval (Some o1) w rng i) \<Rightarrow>
             (case family_range checked_id proven i o1 of
                Some r \<Rightarrow> (if wider r rng then sl\<lparr>sp_ptr := Some (PB_Interval (Some o1) w (Some r) i)\<rparr> else sl)
              | None \<Rightarrow> sl)
         | _ \<Rightarrow> sl))"

definition propagate_range :: "reg_type \<Rightarrow> reg \<Rightarrow> pkt_state \<Rightarrow> reg \<Rightarrow> u64 \<Rightarrow> pkt_state" where
  "propagate_range ty anc s checked proven =
     (let checked_id = Option.bind (get_ptr_offset (ps_dom s) checked) po_id in
      s\<lparr>ps_dom := fold widen_reg (reg_updates ty anc s checked_id proven) (ps_dom s),
        ps_frames := map (map (widen_slot ty checked_id proven)) (ps_frames s)\<rparr>)"

definition propagate_packet_range :: "pkt_state \<Rightarrow> reg \<Rightarrow> u64 \<Rightarrow> pkt_state" where
  "propagate_packet_range = propagate_range PtrToPacket AnchorData"

definition propagate_meta_range :: "pkt_state \<Rightarrow> reg \<Rightarrow> u64 \<Rightarrow> pkt_state" where
  "propagate_meta_range = propagate_range PtrToPacketMeta AnchorDataMeta"

section \<open>Refinement\<close>

text \<open>The recording of packet and meta sizes is switched off in this domain.\<close>

definition set_packet_size_bound :: "u64 \<Rightarrow> interval_state \<Rightarrow> interval_state" where "set_packet_size_bound _ s = s"
definition set_packet_size_upper_bound :: "u64 \<Rightarrow> interval_state \<Rightarrow> interval_state" where "set_packet_size_upper_bound _ s = s"
definition set_meta_size_bound :: "u64 \<Rightarrow> interval_state \<Rightarrow> interval_state" where "set_meta_size_bound _ s = s"
definition set_meta_size_upper_bound :: "u64 \<Rightarrow> interval_state \<Rightarrow> interval_state" where "set_meta_size_upper_bound _ s = s"

definition mark_pkt_end :: "pkt_end_rel \<Rightarrow> reg \<Rightarrow> interval_state \<Rightarrow> interval_state" where
  "mark_pkt_end m r s = upd_ptr (\<lambda>po. po\<lparr>po_pkt_end := Some m\<rparr>) r s"

abbreviation plus1_if :: "bool \<Rightarrow> u64 \<Rightarrow> u64" where
  "plus1_if b k \<equiv> (if b then sat_adds k 1 else k)"

definition refine_data_by :: "packet_comparison \<Rightarrow> bool \<Rightarrow> reg \<Rightarrow> cmp_op \<Rightarrow> bool \<Rightarrow> pkt_state \<Rightarrow> pkt_state" where
  "refine_data_by info on_left checked op taken s =
     (let (proves_lower, lower_strict, proves_upper, upper_strict) = comparison_proves on_left op taken;
          s = (if proves_lower then
                 let proven = plus1_if lower_strict (pc_offset info);
                     s = (if pc_is_fixed info \<and> 0 <s proven
                             \<and> (case packet_size_lower_bound (ps_dom s) of Some c \<Rightarrow> c | None \<Rightarrow> 0) < proven
                          then s\<lparr>ps_dom := set_packet_size_bound proven (ps_dom s)\<rparr> else s)
                 in if 0 <s proven then propagate_packet_range s checked proven else s
               else s)
      in if proves_upper then
           let upper = plus1_if upper_strict (pc_offset info);
               s = (if pc_is_fixed info \<and> 0 <s upper
                    then s\<lparr>ps_dom := set_packet_size_upper_bound upper (ps_dom s)\<rparr> else s)
           in s\<lparr>ps_dom := mark_pkt_end (if upper_strict then AtEnd else Beyond) checked (ps_dom s)\<rparr>
         else s)"

definition refine_data_region_bounds :: "reg \<Rightarrow> reg \<Rightarrow> cmp_op \<Rightarrow> bool \<Rightarrow> pkt_state \<Rightarrow> pkt_state" where
  "refine_data_region_bounds left right op taken s =
     (case get_packet_data_offset s left of
        Some info \<Rightarrow> (if is_packet_end s right then refine_data_by info True left op taken s else s)
      | None \<Rightarrow>
          (case get_packet_data_offset s right of
             Some info \<Rightarrow> (if is_packet_end s left then refine_data_by info False right op taken s else s)
           | None \<Rightarrow> s))"

definition refine_meta_by :: "packet_comparison \<Rightarrow> bool \<Rightarrow> reg \<Rightarrow> cmp_op \<Rightarrow> bool \<Rightarrow> pkt_state \<Rightarrow> pkt_state" where
  "refine_meta_by info on_left meta_reg op taken s =
     (let (proves_lower, lower_strict, proves_upper, upper_strict) = comparison_proves on_left op taken;
          max_offset = sat_adds (pc_offset info) (pc_var_off info);
          s = (if proves_lower then
                 let proven = plus1_if lower_strict (pc_offset info) in
                 if 0 <s proven then
                   let s = (if (case meta_size_lower_bound (ps_dom s) of Some c \<Rightarrow> c | None \<Rightarrow> 0) < proven
                            then s\<lparr>ps_dom := set_meta_size_bound proven (ps_dom s)\<rparr> else s)
                   in propagate_meta_range s meta_reg proven
                 else s
               else s)
      in if proves_upper then
           let upper = plus1_if upper_strict max_offset in
           if 0 <s upper then s\<lparr>ps_dom := set_meta_size_upper_bound upper (ps_dom s)\<rparr> else s
         else s)"

definition refine_meta_region_bounds :: "reg \<Rightarrow> reg \<Rightarrow> cmp_op \<Rightarrow> bool \<Rightarrow> pkt_state \<Rightarrow> pkt_state" where
  "refine_meta_region_bounds left right op taken s =
     (case get_packet_meta_offset s left of
        Some info \<Rightarrow> (if is_packet_data s right then refine_meta_by info True left op taken s else s)
      | None \<Rightarrow>
          (case get_packet_meta_offset s right of
             Some info \<Rightarrow> (if is_packet_data s left then refine_meta_by info False right op taken s else s)
           | None \<Rightarrow> s))"

definition refine_packet_bounds :: "reg \<Rightarrow> reg \<Rightarrow> cmp_op \<Rightarrow> bool \<Rightarrow> pkt_state \<Rightarrow> pkt_state" where
  "refine_packet_bounds left right op taken s =
     refine_meta_region_bounds left right op taken (refine_data_region_bounds left right op taken s)"

definition refine_packet_bounds_on_branch :: "reg \<Rightarrow> reg \<Rightarrow> cmp_op \<Rightarrow> pkt_state \<times> pkt_state \<Rightarrow> pkt_state \<times> pkt_state" where
  "refine_packet_bounds_on_branch left right op = (\<lambda>(then_state, else_state).
     (refine_packet_bounds left right op True then_state, refine_packet_bounds left right op False else_state))"

section \<open>Spilling a pointer and filling it back\<close>

definition save_interval_ptr_offset :: "interval_state \<Rightarrow> reg \<Rightarrow> u64 option \<times> u64 option \<times> u64 option \<times> u32 option" where
  "save_interval_ptr_offset s r =
     (case get_ptr_offset s r of
        Some po \<Rightarrow> (Some (po_off po), Some (po_var_off po), po_range po, po_id po)
      | None \<Rightarrow> (None, None, None, None))"

text \<open>What an aligned 8-byte store of a register leaves in its slot; \<open>zone\<close> is what the zone domain would save.\<close>

definition spill_ptr_bounds :: "pointer_bounds option \<Rightarrow> interval_state \<Rightarrow> reg \<Rightarrow> pointer_bounds option" where
  "spill_ptr_bounds zone s r =
     (let (o1, w, rng, i) = save_interval_ptr_offset s r in
      if o1 \<noteq> None \<or> w \<noteq> None \<or> rng \<noteq> None then Some (PB_Interval o1 w rng i) else zone)"

definition interval_add_constraint :: "reg \<Rightarrow> reg \<Rightarrow> u64 \<Rightarrow> interval_state \<Rightarrow> interval_state" where
  "interval_add_constraint i j c s =
     (if j = RZero then assume_le_imm i c s else if i = RZero then assume_ge_imm j (- c) s else s)"

fun anchor_of_type :: "reg_type \<Rightarrow> reg option" where
  "anchor_of_type PtrToPacket = Some AnchorData"
| "anchor_of_type PtrToPacketMeta = Some AnchorDataMeta"
| "anchor_of_type PtrToPacketEnd = Some AnchorDataEnd"
| "anchor_of_type PtrToStack = Some R10"
| "anchor_of_type PtrToMapValue = Some RZero"
| "anchor_of_type PtrToMapValueOrNull = Some RZero"
| "anchor_of_type OtherType = None"

text \<open>The two constraints of one anchor, when they were saved.\<close>

definition restore_zone :: "reg \<Rightarrow> reg option \<Rightarrow> u64 option \<Rightarrow> u64 option \<Rightarrow> interval_state \<Rightarrow> interval_state" where
  "restore_zone r a lo hi s =
     (case a of
        None \<Rightarrow> s
      | Some a \<Rightarrow>
          (let s = (case hi of Some h \<Rightarrow> interval_add_constraint r a h s | None \<Rightarrow> s) in
           case lo of Some l \<Rightarrow> interval_add_constraint a r l s | None \<Rightarrow> s))"

definition restore_anchor_info :: "reg \<Rightarrow> spilled_reg \<Rightarrow> interval_state \<Rightarrow> interval_state" where
  "restore_anchor_info r sl s =
     (let s = (if sp_type sl \<in> {PtrToMapValue, PtrToMapValueOrNull} then init_map_value_ptr r s else s) in
      case sp_ptr sl of
        None \<Rightarrow> s
      | Some (PB_Zone a lo hi e elo ehi) \<Rightarrow> restore_zone r e elo ehi (restore_zone r a lo hi s)
      | Some (PB_Interval o1 w rng i) \<Rightarrow>
          (case (anchor_of_type (sp_type sl), o1) of
             (Some a, Some k) \<Rightarrow>
               upd_reg s r ((iv_regs s r)\<lparr>iv_ptr :=
                 Some \<lparr>po_anchor = a, po_off = k, po_var_off = (case w of Some v \<Rightarrow> v | None \<Rightarrow> 0),
                   po_range = rng, po_id = i, po_pkt_end = None\<rparr>\<rparr>)
           | _ \<Rightarrow> s))"

section \<open>The pointers of an execution\<close>

datatype ploc = InReg reg | InSlot nat nat

text \<open>What the state knows of a pointer into the region of type \<open>ty\<close> that starts at \<open>anc\<close>: least offset, width, range, family.\<close>

fun tracked :: "reg_type \<Rightarrow> reg \<Rightarrow> pkt_state \<Rightarrow> ploc \<Rightarrow> (u64 \<times> u64 \<times> u64 option \<times> u32 option) option" where
  "tracked ty anc s (InReg r) =
     (if ps_types s r \<noteq> ty then None
      else
        (case get_ptr_offset (ps_dom s) r of
           Some po \<Rightarrow> (if po_anchor po = anc then Some (po_off po, po_var_off po, po_range po, po_id po) else None)
         | None \<Rightarrow> None))"
| "tracked ty anc s (InSlot f i) =
     (if f < length (ps_frames s) \<and> i < length (ps_frames s ! f) then
        let sl = ps_frames s ! f ! i in
        if sp_type sl \<noteq> ty then None
        else
          (case sp_ptr sl of
             Some (PB_Interval (Some k) w rng j) \<Rightarrow> Some (k, (case w of Some v \<Rightarrow> v | None \<Rightarrow> 0), rng, j)
           | _ \<Rightarrow> None)
      else None)"

definition offset_ok :: "int \<Rightarrow> int \<Rightarrow> u64 \<times> u64 \<times> u64 option \<times> u32 option \<Rightarrow> bool" where
  "offset_ok n x = (\<lambda>(lo, w, rng, i).
     sint lo \<le> x \<and> x \<le> sint lo + uint w \<and> (i = None \<longrightarrow> x = sint lo) \<and>
     (case rng of Some r \<Rightarrow> x + sint r \<le> n | None \<Rightarrow> True))"

definition same_part :: "int \<Rightarrow> u64 \<times> u64 \<times> u64 option \<times> u32 option \<Rightarrow> int \<Rightarrow> u64 \<times> u64 \<times> u64 option \<times> u32 option \<Rightarrow> bool" where
  "same_part x = (\<lambda>(lo, w, rng, i) x' (lo', w', rng', i'). i = i' \<longrightarrow> x - sint lo = x' - sint lo')"

text \<open>\<open>k\<close>: the offset each pointer has, \<open>n\<close>: the size of the region.\<close>

definition offsets_ok :: "reg_type \<Rightarrow> reg \<Rightarrow> (ploc \<Rightarrow> int) \<Rightarrow> int \<Rightarrow> pkt_state \<Rightarrow> bool" where
  "offsets_ok ty anc k n s \<longleftrightarrow>
     (\<forall>l t. tracked ty anc s l = Some t \<longrightarrow> offset_ok n (k l) t) \<and>
     (\<forall>l t l' t'. tracked ty anc s l = Some t \<longrightarrow> tracked ty anc s l' = Some t' \<longrightarrow> same_part (k l) t (k l') t')"

lemma offsets_okI:
  assumes "\<And>l t. tracked ty anc s l = Some t \<Longrightarrow> offset_ok n (k l) t"
    and "\<And>l t l' t'. tracked ty anc s l = Some t \<Longrightarrow> tracked ty anc s l' = Some t' \<Longrightarrow> same_part (k l) t (k l') t'"
  shows "offsets_ok ty anc k n s"
  using assms unfolding offsets_ok_def by blast

lemma offsets_okD:
  assumes "offsets_ok ty anc k n s" "tracked ty anc s l = Some t"
  shows "offset_ok n (k l) t" and "tracked ty anc s l' = Some t' \<Longrightarrow> same_part (k l) t (k l') t'"
  using assms unfolding offsets_ok_def by blast+

lemma same_part_sym: "same_part x t x' t' \<longleftrightarrow> same_part x' t' x t"
  by (auto simp: same_part_def split: prod.splits)

lemma same_part_refl [simp]: "same_part x t x t"
  by (auto simp: same_part_def split: prod.splits)

text \<open>A step that changes one pointer.\<close>

lemma offsets_ok_change:
  assumes ok: "offsets_ok ty anc k n s"
    and others: "\<And>l. l \<noteq> p \<Longrightarrow> tracked ty anc s' l = tracked ty anc s l" "\<And>l. l \<noteq> p \<Longrightarrow> k' l = k l"
    and new: "\<And>t. tracked ty anc s' p = Some t \<Longrightarrow> offset_ok n (k' p) t"
      "\<And>t l' t'. tracked ty anc s' p = Some t \<Longrightarrow> l' \<noteq> p \<Longrightarrow> tracked ty anc s l' = Some t' \<Longrightarrow> same_part (k' p) t (k l') t'"
  shows "offsets_ok ty anc k' n s'"
proof (rule offsets_okI)
  fix l t assume "tracked ty anc s' l = Some t"
  then show "offset_ok n (k' l) t" using others new(1) offsets_okD(1) [OF ok] by (cases "l = p") auto
next
  fix l t l' t' assume t: "tracked ty anc s' l = Some t" "tracked ty anc s' l' = Some t'"
  show "same_part (k' l) t (k' l') t'"
  proof (cases "l = p"; cases "l' = p")
    assume "l = p" "l' = p" then show ?thesis using t by simp
  next
    assume "l = p" "l' \<noteq> p" then show ?thesis using t others new(2) by simp
  next
    assume "l \<noteq> p" "l' = p" then show ?thesis using t others new(2) [of t' l t] by (simp add: same_part_sym)
  next
    assume "l \<noteq> p" "l' \<noteq> p" then show ?thesis using t others offsets_okD(2) [OF ok] by simp
  qed
qed

section \<open>A range is propagated to its family\<close>

lemma get_ptr_upd [simp]:
  "get_ptr_offset (upd_ptr f r s) r' = (if r' = r then map_option f (get_ptr_offset s r) else get_ptr_offset s r')"
  "get_ptr_offset (upd_bounds g r s) r' = get_ptr_offset s r'"
  "get_ptr_offset (set_reg_interval r v s) r' = (if r' = r \<and> r \<noteq> RZero then iv_ptr v else get_ptr_offset s r')"
  by (auto simp: get_ptr_offset_def upd_ptr_def upd_bounds_def set_reg_interval_def)

lemma get_ptr_widen:
  "get_ptr_offset (fold widen_reg us d) r = Some po' \<Longrightarrow>
     \<exists>po rng'. get_ptr_offset d r = Some po \<and> po' = po\<lparr>po_range := rng'\<rparr> \<and>
       (rng' = po_range po \<or> (\<exists>x. (r, x) \<in> set us \<and> rng' = Some x))"
proof (induction us arbitrary: d)
  case Nil
  then show ?case by (intro exI [of _ po'] exI [of _ "po_range po'"]) simp
next
  case (Cons u us)
  obtain r1 x1 where u: "u = (r1, x1)" by force
  from Cons.prems Cons.IH [of "widen_reg u d"] obtain po rng' where
    po: "get_ptr_offset (widen_reg u d) r = Some po" "po' = po\<lparr>po_range := rng'\<rparr>"
      "rng' = po_range po \<or> (\<exists>x. (r, x) \<in> set us \<and> rng' = Some x)" by auto
  from po(1) obtain po0 where po0: "get_ptr_offset d r = Some po0"
    "po = (if r1 = r \<and> wider x1 (po_range po0) then po0\<lparr>po_range := Some x1\<rparr> else po0)"
    by (cases "r1 = r") (auto simp: u widen_reg_def)
  then show ?case using po(2,3)
    by (intro exI [of _ po0] exI [of _ rng']) (auto simp: u split: if_splits)
qed

lemma get_ptr_widen_other:
  "r \<notin> fst ` set us \<Longrightarrow> get_ptr_offset (fold widen_reg us d) r = get_ptr_offset d r"
  by (induction us arbitrary: d) (auto simp: widen_reg_def)

lemma reg_updates_iff:
  "(r, x) \<in> set (reg_updates ty anc s cid proven) \<longleftrightarrow>
     r \<in> set reg_all \<and> ps_types s r = ty \<and>
     (\<exists>po. get_ptr_offset (ps_dom s) r = Some po \<and> po_anchor po = anc \<and>
       family_range cid proven (po_id po) (po_off po) = Some x)"
  by (force simp: reg_updates_def map_filter_def split: option.splits if_splits)

lemma tracked_propagate:
  assumes "tracked ty anc (propagate_range ty anc s c proven) l = Some t"
  obtains lo w rng i rng' where "tracked ty anc s l = Some (lo, w, rng, i)" "t = (lo, w, rng', i)"
    "rng' = rng \<or> (\<exists>r. rng' = Some r \<and>
       family_range (Option.bind (get_ptr_offset (ps_dom s) c) po_id) proven i lo = Some r)"
proof (cases l)
  case (InReg r)
  then show ?thesis
    using assms that
    by (auto simp: propagate_range_def Let_def reg_updates_iff split: if_splits option.splits dest!: get_ptr_widen)
next
  case (InSlot f i)
  then show ?thesis
    using assms that
    by (auto simp: propagate_range_def Let_def widen_slot_def split: if_splits option.splits pointer_bounds.splits)
qed

lemma tracked_propagate_other:
  "ty' \<noteq> ty \<Longrightarrow> tracked ty' anc' (propagate_range ty anc s c proven) l = tracked ty' anc' s l"
proof (cases l)
  case (InReg r)
  assume "ty' \<noteq> ty"
  moreover have "r \<notin> fst ` set (reg_updates ty anc s cid proven)" if "ps_types s r = ty'" for cid
    using that \<open>ty' \<noteq> ty\<close> by (auto simp: reg_updates_iff)
  ultimately show ?thesis by (simp add: InReg propagate_range_def Let_def get_ptr_widen_other)
next
  case (InSlot f i)
  assume "ty' \<noteq> ty"
  then show ?thesis
    by (auto simp: InSlot propagate_range_def Let_def widen_slot_def split: option.splits pointer_bounds.splits)
qed

lemma sint_clamp: "sint (s_clamp x :: u64) = max (- (2 ^ 63)) (min (2 ^ 63 - 1) x)"
proof -
  let ?c = "max (- (2 ^ 63)) (min (2 ^ 63 - 1) x)"
  have "(s_clamp x :: u64) = of_int ?c" by (simp add: s_clamp_def Let_def)
  moreover have "- (2 ^ 63) \<le> ?c" "?c < 2 ^ 63" by auto
  ultimately show ?thesis
    by (simp only: signed_of_int) (simp add: signed_take_bit_int_eq_self)
qed

lemma family_range_le:
  assumes "family_range cid proven i lo = Some r"
  shows "cid = i" "sint r \<le> sint proven - sint lo"
  using assms by (auto simp: family_range_def Let_def sat_subs_def word_sle_eq sint_clamp split: if_splits)

lemma propagate_range_ok:
  assumes ok: "offsets_ok ty anc k n s"
    and c: "tracked ty anc s (InReg c) = Some (lo, w, rng, i)" "k (InReg c) - sint lo + sint proven \<le> n"
  shows "offsets_ok ty anc k n (propagate_range ty anc s c proven)"
proof (rule offsets_okI)
  have cid: "Option.bind (get_ptr_offset (ps_dom s) c) po_id = i"
    using c(1) by (auto split: if_splits option.splits)
  fix l t assume "tracked ty anc (propagate_range ty anc s c proven) l = Some t"
  then obtain lo1 w1 rng1 i1 rng1' where t: "tracked ty anc s l = Some (lo1, w1, rng1, i1)" "t = (lo1, w1, rng1', i1)"
    "rng1' = rng1 \<or> (\<exists>r. rng1' = Some r \<and> family_range i proven i1 lo1 = Some r)"
    by (rule tracked_propagate) (simp add: cid)
  from t(3) show "offset_ok n (k l) t"
  proof
    assume "rng1' = rng1" with t show ?thesis using offsets_okD(1) [OF ok] by simp
  next
    assume "\<exists>r. rng1' = Some r \<and> family_range i proven i1 lo1 = Some r"
    then obtain r where r: "rng1' = Some r" "i = i1" "sint r \<le> sint proven - sint lo1"
      using family_range_le by blast
    from offsets_okD(2) [OF ok t(1) c(1)] r(2) have "k l - sint lo1 = k (InReg c) - sint lo"
      by (simp add: same_part_def)
    with r c(2) have "k l + sint r \<le> n" by simp
    with r t offsets_okD(1) [OF ok t(1)] show ?thesis by (simp add: offset_ok_def)
  qed
next
  fix l t l' t'
  assume "tracked ty anc (propagate_range ty anc s c proven) l = Some t"
    "tracked ty anc (propagate_range ty anc s c proven) l' = Some t'"
  then show "same_part (k l) t (k l') t'"
    by (elim tracked_propagate) (use offsets_okD(2) [OF ok] in \<open>fastforce simp: same_part_def\<close>)
qed

section \<open>A comparison is read right\<close>

text \<open>Addresses in the same half of the address space are ordered as integers, whether read as signed or unsigned.\<close>

definition same_half :: "int \<Rightarrow> int \<Rightarrow> bool" where
  "same_half a b \<longleftrightarrow> 0 \<le> a \<and> a < 2 ^ 64 \<and> 0 \<le> b \<and> b < 2 ^ 64 \<and> (a < 2 ^ 63 \<longleftrightarrow> b < 2 ^ 63)"

lemma comparison_proves_lower:
  assumes "comparison_proves on_left op taken = (True, strict, u)"
    and "same_half a e"
    and "(if on_left then cmp_word op (word_of_int a :: u64) (word_of_int e) else cmp_word op (word_of_int e :: u64) (word_of_int a)) = taken"
  shows "a + of_bool strict \<le> e"
proof -
  have u: "uint (word_of_int a :: u64) = a" "uint (word_of_int e :: u64) = e"
    using assms(2) by (simp_all add: same_half_def uint_word_of_int)
  with assms show ?thesis
    by (cases "(on_left, op, taken)" rule: comparison_proves.cases)
      (auto simp: word_le_def word_less_def sint_u64 u same_half_def split: if_splits)
qed

text \<open>An execution: the offset of each pointer in its region, the address of the packet, the sizes of the packet and of the
  region of meta data before it.\<close>

record pkt_exec =
  ex_off :: "ploc \<Rightarrow> int"
  ex_data :: int
  ex_psize :: int
  ex_msize :: int

definition ptr_addr :: "pkt_exec \<Rightarrow> pkt_state \<Rightarrow> reg \<Rightarrow> int" where
  "ptr_addr e s r =
     (case ps_types s r of
        PtrToPacketEnd \<Rightarrow> ex_data e + ex_psize e
      | PtrToPacketMeta \<Rightarrow> ex_data e - ex_msize e + ex_off e (InReg r)
      | _ \<Rightarrow> ex_data e + ex_off e (InReg r))"

abbreviation data_ok :: "pkt_exec \<Rightarrow> pkt_state \<Rightarrow> bool" where
  "data_ok e s \<equiv> offsets_ok PtrToPacket AnchorData (ex_off e) (ex_psize e) s"

abbreviation meta_ok :: "pkt_exec \<Rightarrow> pkt_state \<Rightarrow> bool" where
  "meta_ok e s \<equiv> offsets_ok PtrToPacketMeta AnchorDataMeta (ex_off e) (ex_msize e) s"

text \<open>The branch \<open>if left op right\<close> goes the way \<open>taken\<close> says, on addresses that are comparable.\<close>

definition goes :: "pkt_exec \<Rightarrow> pkt_state \<Rightarrow> reg \<Rightarrow> reg \<Rightarrow> cmp_op \<Rightarrow> bool \<Rightarrow> bool" where
  "goes e s left right op taken \<longleftrightarrow>
     same_half (ptr_addr e s left) (ptr_addr e s right) \<and>
     cmp_word op (word_of_int (ptr_addr e s left) :: u64) (word_of_int (ptr_addr e s right)) = taken"

lemma same_half_sym: "same_half a b \<longleftrightarrow> same_half b a"
  by (auto simp: same_half_def)

lemma offsets_ok_cong:
  assumes "offsets_ok ty anc k n s" "\<And>l. tracked ty anc s' l = tracked ty anc s l"
  shows "offsets_ok ty anc k n s'"
  using assms unfolding offsets_ok_def by simp

lemma tracked_mark [simp]:
  "tracked ty anc (s\<lparr>ps_dom := mark_pkt_end m r (ps_dom s)\<rparr>) l = tracked ty anc s l"
  by (cases l) (auto simp: mark_pkt_end_def split: option.splits)

lemma get_region_offset_tracked:
  "get_region_offset ty anc s r = Some info \<Longrightarrow>
     \<exists>rng i. tracked ty anc s (InReg r) = Some (pc_offset info, pc_var_off info, rng, i)"
  by (auto simp: get_region_offset_def split: if_splits option.splits)

lemma plus1_if_le: "sint (plus1_if b x) \<le> sint x + of_bool b"
  using sint_ge [of x] by (simp add: sat_adds_def sint_clamp)

lemmas size_bounds_off = set_packet_size_bound_def set_packet_size_upper_bound_def set_meta_size_bound_def
  set_meta_size_upper_bound_def

lemma refine_data_by_ok:
  assumes ok: "data_ok e s"
    and info: "get_packet_data_offset s checked = Some info"
    and lower: "\<And>strict u. comparison_proves on_left op taken = (True, strict, u) \<Longrightarrow>
      ex_off e (InReg checked) + of_bool strict \<le> ex_psize e"
  shows "data_ok e (refine_data_by info on_left checked op taken s)"
proof -
  obtain pl st u where c: "comparison_proves on_left op taken = (pl, st, u)" by (metis prod_cases3)
  obtain rng i where t: "tracked PtrToPacket AnchorData s (InReg checked) = Some (pc_offset info, pc_var_off info, rng, i)"
    using info get_region_offset_tracked unfolding get_packet_data_offset_def by blast
  have "data_ok e (propagate_packet_range s checked (plus1_if st (pc_offset info)))" if pl
    unfolding propagate_packet_range_def
    by (rule propagate_range_ok [OF ok t]) (use that lower c plus1_if_le [of st "pc_offset info"] in force)
  then show ?thesis using ok c
    by (cases u) (auto simp: refine_data_by_def Let_def size_bounds_off intro!: offsets_ok_cong [OF _ tracked_mark])
qed

lemma refine_data_ok:
  assumes ok: "data_ok e s" and br: "goes e s left right op taken"
  shows "data_ok e (refine_data_region_bounds left right op taken s)"
proof -
  have a: "ptr_addr e s r = ex_data e + ex_off e (InReg r)" if "get_packet_data_offset s r \<noteq> None" for r
    using that by (auto simp: ptr_addr_def get_packet_data_offset_def get_region_offset_def split: if_splits)
  have b: "ptr_addr e s r = ex_data e + ex_psize e" if "is_packet_end s r" for r
    using that by (simp add: ptr_addr_def is_packet_end_def)
  have l: "data_ok e (refine_data_by info True left op taken s)"
    if "get_packet_data_offset s left = Some info" "is_packet_end s right" for info
    using br comparison_proves_lower [of True op taken _ _ "ptr_addr e s left" "ptr_addr e s right"] that
    by (intro refine_data_by_ok [OF ok that(1)]) (force simp: goes_def a b)
  have r: "data_ok e (refine_data_by info False right op taken s)"
    if "get_packet_data_offset s right = Some info" "is_packet_end s left" for info
    using br comparison_proves_lower [of False op taken _ _ "ptr_addr e s right" "ptr_addr e s left"] that
    by (intro refine_data_by_ok [OF ok that(1)]) (force simp: goes_def a b same_half_sym)
  from l r ok show ?thesis by (auto simp: refine_data_region_bounds_def split: option.splits)
qed

lemma refine_meta_by_ok:
  assumes ok: "meta_ok e s"
    and info: "get_packet_meta_offset s checked = Some info"
    and lower: "\<And>strict u. comparison_proves on_left op taken = (True, strict, u) \<Longrightarrow>
      ex_off e (InReg checked) + of_bool strict \<le> ex_msize e"
  shows "meta_ok e (refine_meta_by info on_left checked op taken s)"
proof -
  obtain pl st u where c: "comparison_proves on_left op taken = (pl, st, u)" by (metis prod_cases3)
  obtain rng i where t: "tracked PtrToPacketMeta AnchorDataMeta s (InReg checked) = Some (pc_offset info, pc_var_off info, rng, i)"
    using info get_region_offset_tracked unfolding get_packet_meta_offset_def by blast
  have "meta_ok e (propagate_meta_range s checked (plus1_if st (pc_offset info)))" if pl
    unfolding propagate_meta_range_def
    by (rule propagate_range_ok [OF ok t]) (use that lower c plus1_if_le [of st "pc_offset info"] in force)
  then show ?thesis using ok c
    by (cases u) (auto simp: refine_meta_by_def Let_def size_bounds_off)
qed

text \<open>A register that is the start of the packet is at the end of the meta data.\<close>

lemma refine_meta_ok:
  assumes ok: "data_ok e s" "meta_ok e s" and br: "goes e s left right op taken"
  shows "meta_ok e (refine_meta_region_bounds left right op taken s)"
proof -
  have a: "ptr_addr e s r = ex_data e - ex_msize e + ex_off e (InReg r)" if "get_packet_meta_offset s r \<noteq> None" for r
    using that by (auto simp: ptr_addr_def get_packet_meta_offset_def get_region_offset_def split: if_splits)
  have b: "ptr_addr e s r = ex_data e" if d: "is_packet_data s r" for r
  proof -
    obtain rng i where "tracked PtrToPacket AnchorData s (InReg r) = Some (0, 0, rng, i)"
      using d by (auto simp: is_packet_data_def split: option.splits)
    from offsets_okD(1) [OF ok(1) this] d show ?thesis
      by (simp add: offset_ok_def ptr_addr_def is_packet_data_def)
  qed
  have l: "meta_ok e (refine_meta_by info True left op taken s)"
    if "get_packet_meta_offset s left = Some info" "is_packet_data s right" for info
    using br comparison_proves_lower [of True op taken _ _ "ptr_addr e s left" "ptr_addr e s right"] that
    by (intro refine_meta_by_ok [OF ok(2) that(1)]) (force simp: goes_def a b)
  have r: "meta_ok e (refine_meta_by info False right op taken s)"
    if "get_packet_meta_offset s right = Some info" "is_packet_data s left" for info
    using br comparison_proves_lower [of False op taken _ _ "ptr_addr e s right" "ptr_addr e s left"] that
    by (intro refine_meta_by_ok [OF ok(2) that(1)]) (force simp: goes_def a b same_half_sym)
  from l r ok show ?thesis by (auto simp: refine_meta_region_bounds_def split: option.splits)
qed

text \<open>Each refinement leaves the types and the pointers of the other region alone.\<close>

lemma types_propagate [simp]: "ps_types (propagate_range ty anc s c proven) = ps_types s"
  by (simp add: propagate_range_def Let_def)

lemma refine_data_by_frame:
  "ps_types (refine_data_by info b c op taken s) = ps_types s"
  "tracked PtrToPacketMeta anc (refine_data_by info b c op taken s) l = tracked PtrToPacketMeta anc s l"
  by (cases "comparison_proves b op taken",
      simp add: refine_data_by_def Let_def size_bounds_off propagate_packet_range_def tracked_propagate_other)+

lemma refine_meta_by_frame:
  "ps_types (refine_meta_by info b c op taken s) = ps_types s"
  "tracked PtrToPacket anc (refine_meta_by info b c op taken s) l = tracked PtrToPacket anc s l"
  by (cases "comparison_proves b op taken",
      simp add: refine_meta_by_def Let_def size_bounds_off propagate_meta_range_def tracked_propagate_other)+

lemma refine_frame:
  "ps_types (refine_data_region_bounds left right op taken s) = ps_types s"
  "tracked PtrToPacketMeta anc (refine_data_region_bounds left right op taken s) l = tracked PtrToPacketMeta anc s l"
  "ps_types (refine_meta_region_bounds left right op taken s) = ps_types s"
  "tracked PtrToPacket anc (refine_meta_region_bounds left right op taken s) l = tracked PtrToPacket anc s l"
  unfolding refine_data_region_bounds_def refine_meta_region_bounds_def
  by (simp_all add: refine_data_by_frame refine_meta_by_frame split: option.split)

lemma refine_packet_bounds_ok:
  assumes "data_ok e s" "meta_ok e s" "goes e s left right op taken"
  shows "data_ok e (refine_packet_bounds left right op taken s) \<and> meta_ok e (refine_packet_bounds left right op taken s)"
proof -
  let ?s = "refine_data_region_bounds left right op taken s"
  have d: "data_ok e ?s" by (rule refine_data_ok [OF assms(1,3)])
  have m: "meta_ok e ?s" by (rule offsets_ok_cong [OF assms(2)]) (simp add: refine_frame)
  have g: "goes e ?s left right op taken" using assms(3) by (simp add: goes_def ptr_addr_def refine_frame)
  show ?thesis
    unfolding refine_packet_bounds_def
    using refine_meta_ok [OF d m g] offsets_ok_cong [OF d refine_frame(4)] by blast
qed

section \<open>Runs\<close>

definition fits_i64 :: "int \<Rightarrow> bool" where
  "fits_i64 x \<longleftrightarrow> - (2 ^ 63) \<le> x \<and> x < 2 ^ 63"

abbreviation set_off :: "ploc \<Rightarrow> int \<Rightarrow> pkt_exec \<Rightarrow> pkt_exec" where
  "set_off l x e \<equiv> e\<lparr>ex_off := (ex_off e)(l := x)\<rparr>"

abbreviation set_ptr :: "reg \<Rightarrow> reg_type \<Rightarrow> interval_state \<Rightarrow> pkt_state \<Rightarrow> pkt_state" where
  "set_ptr r ty d s \<equiv> s\<lparr>ps_types := (ps_types s)(r := ty), ps_dom := d\<rparr>"

text \<open>One step of an execution and of the analysis that follows it: the next pointer id, the state, the execution.\<close>

inductive pkt_step :: "u32 \<times> pkt_state \<times> pkt_exec \<Rightarrow> u32 \<times> pkt_state \<times> pkt_exec \<Rightarrow> bool" where
  bind: "\<not> fixed_reg r \<Longrightarrow> ty \<in> {PtrToPacket, PtrToPacketMeta, PtrToPacketEnd} \<Longrightarrow>
    pkt_step (m, s, e)
      (m, set_ptr r ty (bind_to_anchor r (the (anchor_of_type ty)) (ps_dom s)) s, set_off (InReg r) 0 e)"
| mov: "\<not> fixed_reg d \<Longrightarrow>
    pkt_step (m, s, e)
      (m, set_ptr d (ps_types s r) (assign_reg d r (ps_dom s)) s, set_off (InReg d) (ex_off e (InReg r)) e)"
| scalar: "ty \<notin> {PtrToPacket, PtrToPacketMeta} \<Longrightarrow>
    (\<And>r. r \<noteq> d \<Longrightarrow> get_ptr_offset dm r = get_ptr_offset (ps_dom s) r) \<Longrightarrow>
    pkt_step (m, s, e) (m, set_ptr d ty dm s, e)"
| add_imm: "\<not> fixed_reg d \<Longrightarrow> get_ptr_offset (ps_dom s) d = Some po \<Longrightarrow> fits_i64 (sint (po_off po) + sint c) \<Longrightarrow>
    (\<And>r. po_range po = Some r \<Longrightarrow> fits_i64 (sint r - sint c)) \<Longrightarrow>
    pkt_step (m, s, e)
      (m, s\<lparr>ps_dom := apply_add_imm d c (ps_dom s)\<rparr>, set_off (InReg d) (ex_off e (InReg d) + sint c) e)"
| add_var: "\<not> fixed_reg d \<Longrightarrow> get_ptr_offset (ps_dom s) d = Some po \<Longrightarrow> po_id po = None \<Longrightarrow>
    b = get_bounds (ps_dom s) r \<Longrightarrow> get_constant b = None \<Longrightarrow> sint (smin b) \<le> x \<Longrightarrow> x \<le> sint (smax b) \<Longrightarrow>
    fits_i64 (sint (po_off po) + sint (smin b)) \<Longrightarrow> fits_i64 (sint (smax b) - sint (smin b)) \<Longrightarrow>
    uint (po_var_off po) + (sint (smax b) - sint (smin b)) < 2 ^ 64 \<Longrightarrow>
    m \<noteq> UINT32_MAX \<Longrightarrow> apply_add_reg d r (m, ps_dom s) = (m', dm) \<Longrightarrow>
    pkt_step (m, s, e) (m', s\<lparr>ps_dom := dm\<rparr>, set_off (InReg d) (ex_off e (InReg d) + x) e)"
| spill: "f < length (ps_frames s) \<Longrightarrow> i < length (ps_frames s ! f) \<Longrightarrow>
    (\<And>k w rng j. zone \<noteq> Some (PB_Interval k w rng j)) \<Longrightarrow>
    pkt_step (m, s, e)
      (m, s\<lparr>ps_frames := (ps_frames s)[f := (ps_frames s ! f)[i :=
            \<lparr>sp_type = ps_types s r, sp_ptr = spill_ptr_bounds zone (ps_dom s) r\<rparr>]]\<rparr>,
       set_off (InSlot f i) (ex_off e (InReg r)) e)"
| fill: "\<not> fixed_reg d \<Longrightarrow> f < length (ps_frames s) \<Longrightarrow> i < length (ps_frames s ! f) \<Longrightarrow> sl = ps_frames s ! f ! i \<Longrightarrow>
    pkt_step (m, s, e)
      (m, set_ptr d (sp_type sl) (restore_anchor_info d sl (assign_interval d lo hi (ps_dom s))) s,
       set_off (InReg d) (ex_off e (InSlot f i)) e)"
| branch: "goes e s left right op taken \<Longrightarrow>
    pkt_step (m, s, e) (m, refine_packet_bounds left right op taken s, e)"

inductive_cases pkt_step_elim: "pkt_step (m, s, e) c'"

text \<open>The ids given out so far, and the anchors of packet pointers.\<close>

definition region :: "reg_type \<Rightarrow> reg \<Rightarrow> bool" where
  "region ty anc \<longleftrightarrow> ty = PtrToPacket \<and> anc = AnchorData \<or> ty = PtrToPacketMeta \<and> anc = AnchorDataMeta"

definition ids_below :: "u32 \<Rightarrow> pkt_state \<Rightarrow> bool" where
  "ids_below m s \<longleftrightarrow>
     (\<forall>ty anc l lo w rng i. region ty anc \<longrightarrow> tracked ty anc s l = Some (lo, w, rng, Some i) \<longrightarrow> i < m)"

definition anchored :: "pkt_state \<Rightarrow> bool" where
  "anchored s \<longleftrightarrow>
     (\<forall>r po. get_ptr_offset (ps_dom s) r = Some po \<longrightarrow>
       (ps_types s r = PtrToPacket \<longrightarrow> po_anchor po = AnchorData) \<and>
       (ps_types s r = PtrToPacketMeta \<longrightarrow> po_anchor po = AnchorDataMeta))"

definition pkt_inv :: "u32 \<times> pkt_state \<times> pkt_exec \<Rightarrow> bool" where
  "pkt_inv = (\<lambda>(m, s, e). data_ok e s \<and> meta_ok e s \<and> ids_below m s \<and> anchored s)"

text \<open>A step that changes the register \<open>d\<close> alone.\<close>

lemma reg_change_ok:
  assumes ok: "offsets_ok ty anc (ex_off e) n s"
    and others: "\<And>r. r \<noteq> d \<Longrightarrow> ps_types s' r = ps_types s r" "\<And>r. r \<noteq> d \<Longrightarrow> get_ptr_offset (ps_dom s') r = get_ptr_offset (ps_dom s) r"
      "ps_frames s' = ps_frames s"
    and new: "\<And>t. tracked ty anc s' (InReg d) = Some t \<Longrightarrow> offset_ok n x t"
      "\<And>t l' t'. tracked ty anc s' (InReg d) = Some t \<Longrightarrow> l' \<noteq> InReg d \<Longrightarrow> tracked ty anc s l' = Some t' \<Longrightarrow>
        same_part x t (ex_off e l') t'"
  shows "offsets_ok ty anc (ex_off (set_off (InReg d) x e)) n s'"
proof (rule offsets_ok_change [OF ok, where p = "InReg d"])
  fix l assume "l \<noteq> InReg d"
  then show "tracked ty anc s' l = tracked ty anc s l" by (cases l) (simp_all add: others)
qed (use new in simp_all)

lemma sat_adds_fits: "fits_i64 (sint a + sint b) \<Longrightarrow> sint (sat_adds a (b :: u64)) = sint a + sint b"
  by (simp add: sat_adds_def sint_clamp fits_i64_def)

lemma sat_subs_fits: "fits_i64 (sint a - sint b) \<Longrightarrow> sint (sat_subs a (b :: u64)) = sint a - sint b"
  by (simp add: sat_subs_def sint_clamp fits_i64_def)

lemma sat_addu_fits: "uint a + uint b < 2 ^ 64 \<Longrightarrow> uint (sat_addu a (b :: u64)) = uint a + uint b"
  by (simp add: sat_addu_def u_clamp_def uint_word_of_int uint_plus_if')

lemma ptr_assign_reg: "\<not> fixed_reg d \<Longrightarrow> get_ptr_offset (assign_reg d r dm) x = get_ptr_offset dm (if x = d then r else x)"
  by (simp add: assign_reg_def) (simp add: get_ptr_offset_def)

lemma ptr_bind: "is_anchor a \<Longrightarrow> \<not> fixed_reg r \<Longrightarrow>
    get_ptr_offset (bind_to_anchor r a dm) x = (if x = r then Some (at_anchor a) else get_ptr_offset dm x)"
  by (simp add: bind_to_anchor_def with_ptr_offset_def)

lemma ptr_add_imm: "\<not> fixed_reg d \<Longrightarrow>
    get_ptr_offset (apply_add_imm d c dm) x = (if x = d then map_option (shift_ptr c) (get_ptr_offset dm d) else get_ptr_offset dm x)"
  by (simp add: apply_add_imm_def)

lemma ptr_and_imm: "\<not> fixed_reg d \<Longrightarrow> get_ptr_offset (apply_and_imm d c dm) x = (if x = d then None else get_ptr_offset dm x)"
  by (simp add: apply_and_imm_def clear_ptr_def get_ptr_offset_def upd_bounds_def)

lemma ptr_add_reg:
  assumes "\<not> fixed_reg d" "get_ptr_offset dm d = Some po" "get_constant (get_bounds dm r) = None"
  shows "get_ptr_offset (snd (apply_add_reg d r (m, dm))) x =
    (if x = d then Some (vary_ptr m (get_bounds dm r) po) else get_ptr_offset dm x)"
  using assms by (auto simp: apply_add_reg_def Let_def)

lemma ptr_add_var:
  assumes "\<not> fixed_reg d" "get_ptr_offset dm d = Some po" "get_constant (get_bounds dm r) = None" "po_id po = None"
    "apply_add_reg d r (m, dm) = (m', dm')"
  shows "m' = m + 1" "get_ptr_offset dm' x = (if x = d then Some (vary_ptr m (get_bounds dm r) po) else get_ptr_offset dm x)"
  using assms by (auto simp: apply_add_reg_def Let_def)

lemma anchor_of_pkt_type: "ty \<in> {PtrToPacket, PtrToPacketMeta, PtrToPacketEnd} \<Longrightarrow> is_anchor (the (anchor_of_type ty))"
  by (auto simp: is_anchor_def)

lemma none_part:
  assumes "offsets_ok ty anc k n s" "tracked ty anc s l = Some t"
  shows "same_part 0 (0, w, rng, None) (k l) t"
  using offsets_okD(1) [OF assms] by (auto simp: same_part_def offset_ok_def split: prod.splits)

lemma bind_ok:
  assumes "offsets_ok ty' anc (ex_off e) n s" "\<not> fixed_reg r" "ty \<in> {PtrToPacket, PtrToPacketMeta, PtrToPacketEnd}"
  shows "offsets_ok ty' anc (ex_off (set_off (InReg r) 0 e)) n
    (set_ptr r ty (bind_to_anchor r (the (anchor_of_type ty)) (ps_dom s)) s)"
  by (rule reg_change_ok [OF assms(1)])
    (use assms none_part [OF assms(1)] anchor_of_pkt_type [OF assms(3)] in
      \<open>auto simp: ptr_bind at_anchor_def offset_ok_def split: if_splits\<close>)

lemma mov_ok:
  assumes "offsets_ok ty anc (ex_off e) n s" "\<not> fixed_reg d"
  shows "offsets_ok ty anc (ex_off (set_off (InReg d) (ex_off e (InReg r)) e)) n
    (set_ptr d (ps_types s r) (assign_reg d r (ps_dom s)) s)"
proof -
  have t: "tracked ty anc (set_ptr d (ps_types s r) (assign_reg d r (ps_dom s)) s) (InReg d) = tracked ty anc s (InReg r)"
    by (simp add: ptr_assign_reg assms(2))
  show ?thesis
    by (rule reg_change_ok [OF assms(1)])
      (use offsets_okD [OF assms(1)] in \<open>simp_all only: t\<close>, simp_all add: ptr_assign_reg assms(2))
qed

lemma scalar_ok:
  assumes "offsets_ok ty' anc (ex_off (e :: pkt_exec)) n s" "ty \<noteq> ty'"
    "\<And>r. r \<noteq> d \<Longrightarrow> get_ptr_offset dm r = get_ptr_offset (ps_dom s) r"
  shows "offsets_ok ty' anc (ex_off e) n (set_ptr d ty dm s)"
  using reg_change_ok [OF assms(1), of d "set_ptr d ty dm s" "ex_off e (InReg d)"] assms(2,3) by simp

lemma add_imm_ok:
  assumes ok: "offsets_ok ty anc (ex_off e) n s"
    and d: "\<not> fixed_reg d" "get_ptr_offset (ps_dom s) d = Some po"
    and fits: "fits_i64 (sint (po_off po) + sint c)" "\<And>r. po_range po = Some r \<Longrightarrow> fits_i64 (sint r - sint c)"
  shows "offsets_ok ty anc (ex_off (set_off (InReg d) (ex_off e (InReg d) + sint c) e)) n
    (s\<lparr>ps_dom := apply_add_imm d c (ps_dom s)\<rparr>)"
proof (rule reg_change_ok [OF ok])
  fix t assume "tracked ty anc (s\<lparr>ps_dom := apply_add_imm d c (ps_dom s)\<rparr>) (InReg d) = Some t"
  then have old: "tracked ty anc s (InReg d) = Some (po_off po, po_var_off po, po_range po, po_id po)"
    and t: "t = (sat_adds (po_off po) c, po_var_off po, map_option (\<lambda>r. sat_subs r c) (po_range po), po_id po)"
    using d by (auto simp: ptr_add_imm shift_ptr_def split: if_splits)
  show "offset_ok n (ex_off e (InReg d) + sint c) t"
    using offsets_okD(1) [OF ok old] fits
    by (auto simp: t offset_ok_def sat_adds_fits sat_subs_fits split: option.splits)
  fix l' t' assume "l' \<noteq> InReg d" "tracked ty anc s l' = Some t'"
  then show "same_part (ex_off e (InReg d) + sint c) t (ex_off e l') t'"
    using offsets_okD(2) [OF ok old] fits
    by (fastforce simp: t same_part_def sat_adds_fits split: prod.splits)
qed (simp_all add: ptr_add_imm d)

lemma ids_fresh: "ids_below m s \<Longrightarrow> region ty anc \<Longrightarrow> tracked ty anc s l = Some (lo, w, rng, j) \<Longrightarrow> j \<noteq> Some m"
  unfolding ids_below_def by fast

lemma add_var_ok:
  assumes ok: "offsets_ok ty anc (ex_off e) n s" and ids: "ids_below m s" and reg: "region ty anc"
    and d: "\<not> fixed_reg d" "get_ptr_offset (ps_dom s) d = Some po" "po_id po = None"
    and b: "b = get_bounds (ps_dom s) r" "get_constant b = None" "sint (smin b) \<le> x" "x \<le> sint (smax b)"
    and fits: "fits_i64 (sint (po_off po) + sint (smin b))" "fits_i64 (sint (smax b) - sint (smin b))"
      "uint (po_var_off po) + (sint (smax b) - sint (smin b)) < 2 ^ 64"
    and st: "apply_add_reg d r (m, ps_dom s) = (m', dm)"
  shows "offsets_ok ty anc (ex_off (set_off (InReg d) (ex_off e (InReg d) + x) e)) n (s\<lparr>ps_dom := dm\<rparr>)"
proof (rule reg_change_ok [OF ok])
  note p = ptr_add_var(2) [OF d(1,2) b(2) [unfolded b(1)] d(3) st]
  fix t assume "tracked ty anc (s\<lparr>ps_dom := dm\<rparr>) (InReg d) = Some t"
  moreover have w: "sint (sat_subs (smax b) (smin b)) = sint (smax b) - sint (smin b)" by (rule sat_subs_fits [OF fits(2)])
  moreover have nn: "0 \<le>s sat_subs (smax b) (smin b)" using b(3,4) w by (simp add: word_sle_eq)
  ultimately have old: "tracked ty anc s (InReg d) = Some (po_off po, po_var_off po, po_range po, None)"
    and t: "t = (sat_adds (po_off po) (smin b), sat_addu (po_var_off po) (sat_subs (smax b) (smin b)), None, Some m)"
    using d by (auto simp: p vary_ptr_def Let_def b(1) [symmetric] split: if_splits)
  show "offset_ok n (ex_off e (InReg d) + x) t"
    using offsets_okD(1) [OF ok old] fits b(3,4) sint_nonneg [OF nn]
    by (simp add: t offset_ok_def sat_adds_fits sat_addu_fits w)
  fix l' t' assume "tracked ty anc s l' = Some t'"
  then show "same_part (ex_off e (InReg d) + x) t (ex_off e l') t'"
    by (cases t') (auto simp: t same_part_def dest!: ids_fresh [OF ids reg])
qed (simp_all add: ptr_add_var(2) [OF d(1,2) b(2) [unfolded b(1)] d(3) st])

lemma tracked_spill:
  assumes "f < length (ps_frames s)" "i < length (ps_frames s ! f)"
  shows "tracked ty anc (s\<lparr>ps_frames := (ps_frames s)[f := (ps_frames s ! f)[i := sl]]\<rparr>) l =
    (if l = InSlot f i then tracked ty anc (s\<lparr>ps_frames := [[sl]]\<rparr>) (InSlot 0 0) else tracked ty anc s l)"
  using assms by (cases l) (auto simp: nth_list_update)

lemma spill_tracked:
  assumes "tracked ty anc (s\<lparr>ps_frames := [[\<lparr>sp_type = ps_types s r, sp_ptr = spill_ptr_bounds zone (ps_dom s) r\<rparr>]]\<rparr>) (InSlot 0 0) = Some t"
    and "\<And>k w rng j. zone \<noteq> Some (PB_Interval k w rng j)" "anchored s"
    and "region ty anc"
  shows "tracked ty anc s (InReg r) = Some t"
  using assms
  by (auto simp: region_def spill_ptr_bounds_def save_interval_ptr_offset_def anchored_def Let_def
      split: if_splits option.splits pointer_bounds.splits)

lemma spill_ok:
  assumes ok: "offsets_ok ty anc (ex_off e) n s" and "anchored s"
    and f: "f < length (ps_frames s)" "i < length (ps_frames s ! f)"
    and "\<And>k w rng j. zone \<noteq> Some (PB_Interval k w rng j)"
    and "region ty anc"
  shows "offsets_ok ty anc (ex_off (set_off (InSlot f i) (ex_off e (InReg r)) e)) n
    (s\<lparr>ps_frames := (ps_frames s)[f := (ps_frames s ! f)[i :=
       \<lparr>sp_type = ps_types s r, sp_ptr = spill_ptr_bounds zone (ps_dom s) r\<rparr>]]\<rparr>)"
proof -
  note sp = spill_tracked [OF _ assms(5,2,6)]
  show ?thesis
    by (rule offsets_ok_change [OF ok, where p = "InSlot f i"], unfold tracked_spill [OF f])
      (simp_all del: tracked.simps, (blast intro: offsets_okD [OF ok sp])+)
qed

lemma ptr_constraint [simp]: "get_ptr_offset (interval_add_constraint i j c dm) x = get_ptr_offset dm x"
  by (simp add: interval_add_constraint_def assume_le_imm_def assume_ge_imm_def)

lemma ptr_restore_zone [simp]: "get_ptr_offset (restore_zone r a lo hi dm) x = get_ptr_offset dm x"
  by (simp add: restore_zone_def Let_def split: option.split)

lemma ptr_restore_other: "x \<noteq> d \<Longrightarrow> get_ptr_offset (restore_anchor_info d sl dm) x = get_ptr_offset dm x"
  by (auto simp: restore_anchor_info_def Let_def init_map_value_ptr_def get_ptr_offset_def [of "upd_reg _ _ _"]
      split: option.split pointer_bounds.split) (simp_all add: get_ptr_offset_def set_reg_interval_def)

lemma ptr_assign_interval:
  "\<not> fixed_reg d \<Longrightarrow> get_ptr_offset (assign_interval d lo hi dm) x = (if x = d then None else get_ptr_offset dm x)"
  by (simp add: assign_interval_def)

lemma ptr_fill:
  assumes "\<not> fixed_reg d" "region (sp_type sl) anc"
  shows "get_ptr_offset (restore_anchor_info d sl (assign_interval d lo hi dm)) d =
    (case sp_ptr sl of
       Some (PB_Interval (Some k) w rng j) \<Rightarrow>
         Some \<lparr>po_anchor = anc, po_off = k, po_var_off = (case w of Some v \<Rightarrow> v | None \<Rightarrow> 0), po_range = rng, po_id = j, po_pkt_end = None\<rparr>
     | _ \<Rightarrow> None)"
  using assms
  by (auto simp: region_def restore_anchor_info_def Let_def ptr_assign_interval get_ptr_offset_def [of "upd_reg _ _ _"]
      split: option.split pointer_bounds.split)

lemma fill_tracked:
  assumes "\<not> fixed_reg d" "f < length (ps_frames s)" "i < length (ps_frames s ! f)" "sl = ps_frames s ! f ! i" "region ty anc"
    "tracked ty anc (set_ptr d (sp_type sl) (restore_anchor_info d sl (assign_interval d lo hi (ps_dom s))) s) (InReg d) = Some t"
  shows "tracked ty anc s (InSlot f i) = Some t"
proof -
  have sty: "sp_type sl = ty" using assms(6) by (simp split: if_splits)
  note p = ptr_fill [OF assms(1) assms(5) [folded sty]]
  show ?thesis
    using assms(6) sty assms(2,3) unfolding tracked.simps
    by (auto simp: p simp flip: assms(4) split: option.splits pointer_bounds.splits)
qed

lemma fill_ok:
  assumes ok: "offsets_ok ty anc (ex_off e) n s"
    and d: "\<not> fixed_reg d" "f < length (ps_frames s)" "i < length (ps_frames s ! f)" "sl = ps_frames s ! f ! i" "region ty anc"
  shows "offsets_ok ty anc (ex_off (set_off (InReg d) (ex_off e (InSlot f i)) e)) n
    (set_ptr d (sp_type sl) (restore_anchor_info d sl (assign_interval d lo hi (ps_dom s))) s)"
proof (rule reg_change_ok [OF ok])
  let ?s = "set_ptr d (sp_type sl) (restore_anchor_info d sl (assign_interval d lo hi (ps_dom s))) s"
  fix t assume "tracked ty anc ?s (InReg d) = Some t"
  note old = fill_tracked [OF d this]
  show "offset_ok n (ex_off e (InSlot f i)) t" by (rule offsets_okD(1) [OF ok old])
  fix l' t' assume "tracked ty anc s l' = Some t'"
  then show "same_part (ex_off e (InSlot f i)) t (ex_off e l') t'" by (rule offsets_okD(2) [OF ok old])
qed (simp_all add: ptr_restore_other ptr_assign_interval d)

text \<open>The pointers of a region that has type and anchor \<open>ty\<close>, \<open>anc\<close> are kept right by every step.\<close>

lemma step_offsets_ok:
  assumes "pkt_step (m, s, e) (m', s', e')" "offsets_ok ty anc (ex_off e) n s" "region ty anc" "ids_below m s" "anchored s"
    "\<And>left right op taken. goes e s left right op taken \<Longrightarrow> s' = refine_packet_bounds left right op taken s \<Longrightarrow>
       offsets_ok ty anc (ex_off e) n s'"
  shows "offsets_ok ty anc (ex_off e') n s'"
  using assms(1)
proof cases
  case (bind r ty)
  then show ?thesis using bind_ok [OF assms(2)] by blast
next
  case (mov d r)
  then show ?thesis using mov_ok [OF assms(2)] by blast
next
  case (scalar ty' d dm)
  then show ?thesis using scalar_ok [OF assms(2)] assms(3) by (auto simp: region_def)
next
  case (add_imm d po c)
  then show ?thesis using add_imm_ok [OF assms(2)] by blast
next
  case (add_var d po b r x dm)
  then show ?thesis using add_var_ok [OF assms(2,4,3)] by blast
next
  case (spill f i zone r)
  then show ?thesis using spill_ok [OF assms(2,5)] assms(3) by blast
next
  case (fill d f i sl lo hi)
  then show ?thesis using fill_ok [OF assms(2)] assms(3) by blast
next
  case (branch left right op taken)
  then show ?thesis using assms(6) by blast
qed

text \<open>A refinement changes ranges and marks only.\<close>

definition same_ptrs :: "pkt_state \<Rightarrow> pkt_state \<Rightarrow> bool" where
  "same_ptrs s s' \<longleftrightarrow>
     ps_types s' = ps_types s \<and>
     (\<forall>r po'. get_ptr_offset (ps_dom s') r = Some po' \<longrightarrow>
        (\<exists>po. get_ptr_offset (ps_dom s) r = Some po \<and> po_anchor po' = po_anchor po)) \<and>
     (\<forall>ty anc l lo w rng i. tracked ty anc s' l = Some (lo, w, rng, i) \<longrightarrow> (\<exists>rng'. tracked ty anc s l = Some (lo, w, rng', i)))"

lemma same_ptrs_refl: "same_ptrs s s"
  unfolding same_ptrs_def by simp

lemma same_ptrs_trans: "same_ptrs s s' \<Longrightarrow> same_ptrs s' s'' \<Longrightarrow> same_ptrs s s''"
  unfolding same_ptrs_def by (metis (no_types, lifting))

lemma same_ptrs_propagate: "same_ptrs s (propagate_range ty anc s c proven)"
proof -
  have "\<exists>rng'. tracked ty' anc' s l = Some (lo, w, rng', i)"
    if "tracked ty' anc' (propagate_range ty anc s c proven) l = Some (lo, w, rng, i)" for ty' anc' l lo w rng i
  proof (cases l)
    case (InReg r)
    with that show ?thesis
      by (auto simp: propagate_range_def Let_def split: if_splits option.splits dest!: get_ptr_widen)
  next
    case (InSlot f j)
    with that show ?thesis
      by (auto simp: propagate_range_def Let_def widen_slot_def split: if_splits option.splits pointer_bounds.splits)
  qed
  moreover have "\<exists>po. get_ptr_offset (ps_dom s) r = Some po \<and> po_anchor po' = po_anchor po"
    if "get_ptr_offset (ps_dom (propagate_range ty anc s c proven)) r = Some po'" for r po'
    using that by (auto simp: propagate_range_def Let_def dest!: get_ptr_widen)
  ultimately show ?thesis unfolding same_ptrs_def by simp
qed

lemma same_ptrs_mark: "same_ptrs s (s\<lparr>ps_dom := mark_pkt_end m c (ps_dom s)\<rparr>)"
  unfolding same_ptrs_def tracked_mark by (auto simp: mark_pkt_end_def split: if_splits)

lemma same_ptrs_refine: "same_ptrs s (refine_packet_bounds left right op taken s)"
proof -
  have d: "same_ptrs s (refine_data_by info b c op taken s)" for info b c s
    by (cases "comparison_proves b op taken")
      (auto simp: refine_data_by_def Let_def size_bounds_off propagate_packet_range_def
        intro: same_ptrs_refl same_ptrs_propagate same_ptrs_mark same_ptrs_trans)
  have m: "same_ptrs s (refine_meta_by info b c op taken s)" for info b c s
    by (cases "comparison_proves b op taken")
      (auto simp: refine_meta_by_def Let_def size_bounds_off propagate_meta_range_def
        intro: same_ptrs_refl same_ptrs_propagate)
  have "same_ptrs s (refine_data_region_bounds left right op taken s)" for s
    unfolding refine_data_region_bounds_def by (auto simp: d same_ptrs_refl split: option.split)
  moreover have "same_ptrs s (refine_meta_region_bounds left right op taken s)" for s
    unfolding refine_meta_region_bounds_def by (auto simp: m same_ptrs_refl split: option.split)
  ultimately show ?thesis unfolding refine_packet_bounds_def by (blast intro: same_ptrs_trans)
qed

lemma step_anchored:
  assumes "pkt_step (m, s, e) (m', s', e')" "anchored s"
  shows "anchored s'"
  using assms(1)
proof cases
  case (bind r ty)
  then show ?thesis using assms(2) anchor_of_pkt_type [OF bind(5)]
    by (auto simp: anchored_def ptr_bind at_anchor_def)
next
  case (mov d r)
  then show ?thesis using assms(2) by (auto simp: anchored_def ptr_assign_reg)
next
  case (scalar ty d dm)
  then show ?thesis using assms(2) by (auto simp: anchored_def)
next
  case (add_imm d po c)
  then show ?thesis using assms(2) by (auto simp: anchored_def ptr_add_imm shift_ptr_def)
next
  case (add_var d po b r x dm)
  note p = ptr_add_var(2) [OF add_var(3,4) add_var(7) [unfolded add_var(6)] add_var(5,14)]
  show ?thesis using add_var assms(2) by (auto simp: anchored_def p vary_ptr_def Let_def)
next
  case (spill f i zone r)
  then show ?thesis using assms(2) by (simp add: anchored_def)
next
  case (fill d f i sl lo hi)
  have "region PtrToPacket AnchorData" "region PtrToPacketMeta AnchorDataMeta" by (simp_all add: region_def)
  with fill assms(2) show ?thesis
    using ptr_fill [OF fill(4), of sl AnchorData] ptr_fill [OF fill(4), of sl AnchorDataMeta]
    by (auto simp: anchored_def ptr_restore_other ptr_assign_interval split: option.splits pointer_bounds.splits)
next
  case (branch left right op taken)
  then show ?thesis using assms(2) same_ptrs_refine [of s left right op taken]
    unfolding anchored_def same_ptrs_def by metis
qed

lemma ids_change:
  assumes "ids_below m s" "m \<le> m'" "\<And>ty anc l. region ty anc \<Longrightarrow> l \<noteq> p \<Longrightarrow> tracked ty anc s' l = tracked ty anc s l"
    "\<And>ty anc lo w rng i. region ty anc \<Longrightarrow> tracked ty anc s' p = Some (lo, w, rng, Some i) \<Longrightarrow> i < m'"
  shows "ids_below m' s'"
  unfolding ids_below_def
proof (intro allI impI)
  fix ty anc l lo w rng i
  assume t: "region ty anc" "tracked ty anc s' l = Some (lo, w, rng, Some i)"
  show "i < m'"
  proof (cases "l = p")
    case False
    with t assms(3) have "tracked ty anc s l = Some (lo, w, rng, Some i)" by simp
    with assms(1) t(1) have "i < m" unfolding ids_below_def by blast
    with assms(2) show ?thesis by (rule order.strict_trans2 [rotated, OF _ _])
  qed (use t assms(4) in blast)
qed

lemma ids_change_reg:
  assumes "ids_below m s" "m \<le> m'" "\<And>r. r \<noteq> d \<Longrightarrow> ps_types s' r = ps_types s r"
    "\<And>r. r \<noteq> d \<Longrightarrow> get_ptr_offset (ps_dom s') r = get_ptr_offset (ps_dom s) r" "ps_frames s' = ps_frames s"
    "\<And>ty anc lo w rng i. region ty anc \<Longrightarrow> tracked ty anc s' (InReg d) = Some (lo, w, rng, Some i) \<Longrightarrow> i < m'"
  shows "ids_below m' s'"
proof (rule ids_change [OF assms(1,2), where p = "InReg d"])
  fix ty anc l assume "l \<noteq> InReg d"
  then show "tracked ty anc s' l = tracked ty anc s l" by (cases l) (simp_all add: assms(3-5))
qed (rule assms(6))

lemma ids_belowD: "ids_below m s \<Longrightarrow> region ty anc \<Longrightarrow> tracked ty anc s l = Some (lo, w, rng, Some i) \<Longrightarrow> i < m"
  unfolding ids_below_def by blast

lemma step_ids_below:
  assumes "pkt_step (m, s, e) (m', s', e')" "ids_below m s" "anchored s"
  shows "ids_below m' s'"
  using assms(1)
proof cases
  case (bind r ty)
  with anchor_of_pkt_type [OF bind(5)] show ?thesis
    by (intro ids_change_reg [OF assms(2), of _ r]) (auto simp: ptr_bind at_anchor_def split: if_splits)
next
  case (mov d r)
  have "i < m" if "region ty anc" "tracked ty anc s' (InReg d) = Some (lo, w, rng, Some i)" for ty anc lo w rng i
    by (rule ids_belowD [OF assms(2) that(1), of "InReg r" lo w rng])
      (use that mov in \<open>auto simp: ptr_assign_reg split: if_splits option.splits\<close>)
  with mov show ?thesis
    by (intro ids_change_reg [OF assms(2), of _ d]) (auto simp: ptr_assign_reg simp del: tracked.simps)
next
  case (scalar ty d dm)
  then show ?thesis
    by (intro ids_change_reg [OF assms(2), of _ d]) (auto simp: region_def split: if_splits)
next
  case (add_imm d po c)
  have "i < m" if "region ty anc" "tracked ty anc s' (InReg d) = Some (lo, w, rng, Some i)" for ty anc lo w rng i
    by (rule ids_belowD [OF assms(2) that(1), of "InReg d" "po_off po" "po_var_off po" "po_range po"])
      (use that add_imm in \<open>auto simp: ptr_add_imm shift_ptr_def split: if_splits\<close>)
  with add_imm show ?thesis
    by (intro ids_change_reg [OF assms(2), of _ d]) (auto simp: ptr_add_imm simp del: tracked.simps)
next
  case (add_var d po b r x dm)
  note p = ptr_add_var [OF add_var(3,4) add_var(7) [unfolded add_var(6)] add_var(5,14)]
  have "uint m \<noteq> uint UINT32_MAX" using add_var(13) by (auto intro: word_uint_eqI)
  then have "m < m + 1" using uint_u32 [of m] by (simp add: word_less_def uint_plus_if')
  with add_var p show ?thesis
    by (intro ids_change_reg [OF assms(2), of _ d]) (auto simp: vary_ptr_def Let_def split: if_splits)
next
  case (spill f i zone r)
  show ?thesis unfolding spill(1,2)
    by (rule ids_change [OF assms(2), of _ "InSlot f i"], unfold tracked_spill [OF spill(4,5)])
      (simp_all del: tracked.simps, blast intro: ids_belowD [OF assms(2)] spill_tracked [OF _ spill(6) assms(3)])
next
  case (fill d f i sl lo hi)
  have "j < m" if "region ty anc" "tracked ty anc s' (InReg d) = Some (lo', w, rng, Some j)" for ty anc lo' w rng j
    by (rule ids_belowD [OF assms(2) that(1) fill_tracked [OF fill(4-7) that(1) that(2) [unfolded fill(2)]]])
  with fill show ?thesis
    by (intro ids_change_reg [OF assms(2), of _ d])
      (simp_all add: ptr_restore_other ptr_assign_interval del: tracked.simps)
next
  case (branch left right op taken)
  then show ?thesis using assms(2) same_ptrs_refine [of s left right op taken]
    unfolding ids_below_def same_ptrs_def by metis
qed

lemma step_pkt_inv: "pkt_step c c' \<Longrightarrow> pkt_inv c \<Longrightarrow> pkt_inv c'"
proof -
  assume st: "pkt_step c c'" and inv: "pkt_inv c"
  obtain m s e m' s' e' where c: "c = (m, s, e)" "c' = (m', s', e')" by (metis prod_cases3)
  note st = st [unfolded c]
  have i: "data_ok e s" "meta_ok e s" "ids_below m s" "anchored s" using inv by (auto simp: c pkt_inv_def)
  have r: "region PtrToPacket AnchorData" "region PtrToPacketMeta AnchorDataMeta" by (simp_all add: region_def)
  have sz: "ex_psize e' = ex_psize e" "ex_msize e' = ex_msize e" using st by (cases; simp)+
  have "data_ok e' s'"
    unfolding sz by (rule step_offsets_ok [OF st i(1) r(1) i(3,4)]) (use refine_packet_bounds_ok [OF i(1,2)] in blast)
  moreover have "meta_ok e' s'"
    unfolding sz by (rule step_offsets_ok [OF st i(2) r(2) i(3,4)]) (use refine_packet_bounds_ok [OF i(1,2)] in blast)
  ultimately show ?thesis
    using step_ids_below [OF st i(3,4)] step_anchored [OF st i(4)] by (simp add: c pkt_inv_def)
qed

lemma reachable_pkt_inv: "pkt_step\<^sup>*\<^sup>* c c' \<Longrightarrow> pkt_inv c \<Longrightarrow> pkt_inv c'"
  by (induction rule: rtranclp_induct) (auto intro: step_pkt_inv)

text \<open>At the entry of a program no register and no slot holds a packet pointer.\<close>

definition pkt_start :: "spilled_reg list list \<Rightarrow> pkt_state" where
  "pkt_start frames = \<lparr>ps_types = (\<lambda>_. OtherType), ps_dom = new_state, ps_frames = map (map (\<lambda>sl. sl\<lparr>sp_type := OtherType\<rparr>)) frames\<rparr>"

lemma start_pkt_inv: "pkt_inv (m, pkt_start frames, e)"
proof -
  have "tracked ty anc (pkt_start frames) l = None" if "region ty anc" for ty anc l
    using that by (cases l) (auto simp: pkt_start_def region_def Let_def)
  moreover have "region PtrToPacket AnchorData" "region PtrToPacketMeta AnchorDataMeta" by (simp_all add: region_def)
  ultimately show ?thesis
    by (auto simp: pkt_inv_def offsets_ok_def ids_below_def) (auto simp: anchored_def pkt_start_def)
qed

text \<open>An accepted access.\<close>

lemma accepted_in_region:
  assumes ok: "offsets_ok ty anc k n s" and "ps_types s base = ty"
    and acc: "check_region_access (ps_dom s) base off sz anc e = (True, True)"
    and "fits_i64 (sint off + sint sz)"
  shows "0 \<le> k (InReg base) + sint off \<and> k (InReg base) + sint off + sint sz \<le> n"
proof -
  obtain po r where po: "get_ptr_offset (ps_dom s) base = Some po" "po_anchor po = anc" "po_range po = Some r"
    "0 \<le>s sat_adds (min_offset po) off" "sat_adds off sz \<le>s r"
    using acc by (auto simp: check_region_access_def split: option.splits if_splits)
  have "tracked ty anc s (InReg base) = Some (po_off po, po_var_off po, Some r, po_id po)"
    using po assms(2) by simp
  from offsets_okD(1) [OF ok this] have "sint (po_off po) \<le> k (InReg base)" "k (InReg base) + sint r \<le> n"
    by (simp_all add: offset_ok_def)
  moreover have "0 \<le> sint (po_off po) + sint off"
    using po(4) by (simp add: min_offset_def sat_adds_def word_sle_eq sint_clamp)
  moreover have "sint off + sint sz \<le> sint r"
    using po(5) by (simp add: word_sle_eq sat_adds_fits [OF assms(4)])
  ultimately show ?thesis by linarith
qed

section \<open>Properties\<close>

text \<open>C27. The packet accesses the interval analysis accepts are in the packet. Take any run from the entry of a program: pointers
  are set to the packet, its end or the meta data, copied, spilled, filled, moved by constants that do not overflow the bookkeeping, given
  one variable offset within the bounds of the register added, and compared, the branch going the way the 64-bit comparison of their addresses goes,
  with both addresses in the same half of the address space (a comparison of 32 bits is not among the steps: for it the statement is false). If the
  analysis then accepts an access at \<open>off\<close> of \<open>sz\<close> bytes through a register that holds a packet pointer, the bytes lie between the start and
  the end of the packet; likewise for the meta data.\<close>

theorem accepted_packet_access_safe:
  assumes "pkt_step\<^sup>*\<^sup>* (m, pkt_start frames, e) (m', s, e')"
    and "fits_i64 (sint off + sint sz)"
  shows "(ps_types s base = PtrToPacket \<and> verify_packet_bounds (ps_dom s) base off sz = (True, True) \<longrightarrow>
      0 \<le> ex_off e' (InReg base) + sint off \<and> ex_off e' (InReg base) + sint off + sint sz \<le> ex_psize e') \<and>
    (ps_types s base = PtrToPacketMeta \<and> verify_packet_meta_bounds (ps_dom s) base off sz = (True, True) \<longrightarrow>
      0 \<le> ex_off e' (InReg base) + sint off \<and> ex_off e' (InReg base) + sint off + sint sz \<le> ex_msize e')"
proof -
  have "data_ok e' s" "meta_ok e' s"
    using reachable_pkt_inv [OF assms(1) start_pkt_inv] by (simp_all add: pkt_inv_def)
  then show ?thesis
    using accepted_in_region [OF _ _ _ assms(2)] unfolding verify_packet_bounds_def verify_packet_meta_bounds_def by blast
qed

text \<open>The usual check: \<open>r1 = data; r2 = r1; r2 += n; r3 = data_end\<close>, up to the comparison.\<close>

definition chk_dom :: "u64 \<Rightarrow> interval_state" where
  "chk_dom n =
     bind_to_anchor R3 AnchorDataEnd (apply_add_imm R2 n (assign_reg R2 R1 (bind_to_anchor R1 AnchorData new_state)))"

definition chk_state :: "u64 \<Rightarrow> pkt_state" where
  "chk_state n =
     \<lparr>ps_types = (\<lambda>_. OtherType)(R1 := PtrToPacket, R2 := PtrToPacket, R3 := PtrToPacketEnd),
      ps_dom = chk_dom n, ps_frames = []\<rparr>"

definition chk_exec :: "int \<Rightarrow> int \<Rightarrow> int \<Rightarrow> pkt_exec" where
  "chk_exec data psize n = \<lparr>ex_off = (\<lambda>_. 0)(InReg R2 := n), ex_data = data, ex_psize = psize, ex_msize = 0\<rparr>"

lemma chk_reachable:
  "pkt_step\<^sup>*\<^sup>* (m, pkt_start [], chk_exec data psize 0) (m, chk_state n, chk_exec data psize (sint n))"
proof -
  let ?e = "chk_exec data psize 0"
  define s1 where "s1 = set_ptr R1 PtrToPacket (bind_to_anchor R1 (the (anchor_of_type PtrToPacket)) new_state) (pkt_start [])"
  define s2 where "s2 = set_ptr R2 (ps_types s1 R1) (assign_reg R2 R1 (ps_dom s1)) s1"
  define s3 where "s3 = s2\<lparr>ps_dom := apply_add_imm R2 n (ps_dom s2)\<rparr>"
  have nf: "\<not> fixed_reg R1" "\<not> fixed_reg R2" "\<not> fixed_reg R3" by (simp_all add: is_anchor_def)
  have e: "set_off (InReg R1) 0 ?e = ?e" "set_off (InReg R2) (ex_off ?e (InReg R1)) ?e = ?e"
    "set_off (InReg R2) (ex_off ?e (InReg R2) + sint n) ?e = chk_exec data psize (sint n)"
    "set_off (InReg R3) 0 (chk_exec data psize (sint n)) = chk_exec data psize (sint n)"
    by (auto simp: chk_exec_def)
  have p: "get_ptr_offset (ps_dom s2) R2 = Some (at_anchor AnchorData)"
    using nf by (simp add: s2_def s1_def ptr_assign_reg ptr_bind is_anchor_def)
  have s4: "chk_state n = set_ptr R3 PtrToPacketEnd (bind_to_anchor R3 (the (anchor_of_type PtrToPacketEnd)) (ps_dom s3)) s3"
    by (simp add: chk_state_def chk_dom_def s3_def s2_def s1_def pkt_start_def)
  have 1: "pkt_step (m, pkt_start [], ?e) (m, s1, ?e)"
    using pkt_step.bind [OF nf(1), of PtrToPacket m "pkt_start []" ?e]
    by (simp only: e(1)) (simp add: s1_def pkt_start_def)
  have 2: "pkt_step (m, s1, ?e) (m, s2, ?e)"
    using pkt_step.mov [OF nf(2), of m s1 ?e R1] by (simp only: e(2)) (simp add: s2_def)
  have 3: "pkt_step (m, s2, ?e) (m, s3, chk_exec data psize (sint n))"
    using pkt_step.add_imm [OF nf(2) p, of n m ?e] sint_ge [of n] sint_lt [of n]
    by (simp only: e(3)) (simp add: s3_def at_anchor_def fits_i64_def)
  have 4: "pkt_step (m, s3, chk_exec data psize (sint n)) (m, chk_state n, chk_exec data psize (sint n))"
    using pkt_step.bind [OF nf(3), of PtrToPacketEnd m s3 "chk_exec data psize (sint n)"]
    by (simp only: e(4) s4) simp
  show ?thesis
    using rtranclp.rtrancl_into_rtrancl [OF rtranclp.rtrancl_into_rtrancl [OF rtranclp.rtrancl_into_rtrancl
      [OF r_into_rtranclp [of pkt_step, OF 1] 2] 3] 4] .
qed

theorem accepted_packet_access_safe_witness:
  "verify_packet_bounds (ps_dom (refine_packet_bounds R2 R3 UGt False (chk_state 8))) R1 0 8 = (True, True) \<and>
   0 + sint (0 :: u64) + sint (8 :: u64) \<le> ex_psize (chk_exec 4096 64 8)"
proof -
  let ?s = "refine_packet_bounds R2 R3 UGt False (chk_state 8)"
  have "goes (chk_exec 4096 64 8) (chk_state 8) R2 R3 UGt False"
    by (simp add: goes_def ptr_addr_def chk_state_def chk_exec_def same_half_def)
  then have "pkt_step\<^sup>*\<^sup>* (1, pkt_start [], chk_exec 4096 64 0) (1, ?s, chk_exec 4096 64 (sint (8 :: u64)))"
    by (intro rtranclp.rtrancl_into_rtrancl [OF chk_reachable [of 1 4096 64 8]] pkt_step.branch) simp
  moreover have "fits_i64 (sint (0 :: u64) + sint (8 :: u64))" by (simp add: fits_i64_def)
  moreover have "ps_types ?s R1 = PtrToPacket"
    using same_ptrs_refine [of "chk_state 8" R2 R3 UGt False] by (simp add: same_ptrs_def chk_state_def)
  moreover have "verify_packet_bounds (ps_dom ?s) R1 0 8 = (True, True)" by code_simp
  ultimately show ?thesis
    using accepted_packet_access_safe [of 1 "[]" "chk_exec 4096 64 0" 1 ?s "chk_exec 4096 64 (sint (8 :: u64))" 0 8 R1]
    by (simp add: chk_exec_def)
qed

text \<open>C29. The refinement of a comparison does not look at its width: a comparison of the low 32 bits alone, on a packet that ends just
  before a multiple of \<open>2^32\<close>, makes the analysis accept an access of 8 bytes to a packet of 3.\<close>

theorem compare_32_unsound:
  "\<exists>e s. pkt_step\<^sup>*\<^sup>* (1, pkt_start [], e) (1, s, chk_exec (2 ^ 32 - 4) 3 8) \<and>
     \<not> cmp_eval W32 UGt (word_of_int (ptr_addr (chk_exec (2 ^ 32 - 4) 3 8) s R2)) (word_of_int (ptr_addr (chk_exec (2 ^ 32 - 4) 3 8) s R3)) \<and>
     verify_packet_bounds (ps_dom (refine_packet_bounds R2 R3 UGt False s)) R1 0 8 = (True, True) \<and>
     ex_psize (chk_exec (2 ^ 32 - 4) 3 8) < ex_off (chk_exec (2 ^ 32 - 4) 3 8) (InReg R1) + 8"
proof (intro exI conjI)
  show "pkt_step\<^sup>*\<^sup>* (1, pkt_start [], chk_exec (2 ^ 32 - 4) 3 0) (1, chk_state 8, chk_exec (2 ^ 32 - 4) 3 8)"
    using chk_reachable [of 1 "2 ^ 32 - 4" 3 8] by simp
  show "\<not> cmp_eval W32 UGt (word_of_int (ptr_addr (chk_exec (2 ^ 32 - 4) 3 8) (chk_state 8) R2))
      (word_of_int (ptr_addr (chk_exec (2 ^ 32 - 4) 3 8) (chk_state 8) R3))"
    by (simp add: ptr_addr_def chk_state_def chk_exec_def)
  show "verify_packet_bounds (ps_dom (refine_packet_bounds R2 R3 UGt False (chk_state 8))) R1 0 8 = (True, True)"
    by code_simp
qed (simp add: chk_exec_def)

text \<open>A pointer that gets a second variable offset: \<open>r2 &= 255; r4 &= 255; r1 = data; r1 += r2; r3 = r1\<close>, then \<open>r3 += r4\<close>, then
  \<open>r5 = r1; r5 += 8; r6 = data_end\<close> and the comparison of \<open>r5\<close> with \<open>r6\<close>.\<close>

definition var_dom :: "u32 \<times> interval_state" where
  "var_dom = apply_add_reg R1 R2 (1, bind_to_anchor R1 AnchorData (apply_and_imm R4 255 (apply_and_imm R2 255 new_state)))"

definition var_types :: "reg \<Rightarrow> reg_type" where
  "var_types = (\<lambda>_. OtherType)(R1 := PtrToPacket, R3 := PtrToPacket)"

definition var_state :: pkt_state where
  "var_state = \<lparr>ps_types = var_types, ps_dom = assign_reg R3 R1 (snd var_dom), ps_frames = []\<rparr>"

definition var_exec :: "int \<Rightarrow> int \<Rightarrow> pkt_exec" where
  "var_exec x y = \<lparr>ex_off = (\<lambda>_. 0)(InReg R3 := x, InReg R5 := y), ex_data = 4096, ex_psize = 64, ex_msize = 0\<rparr>"

definition var_again :: "u32 \<times> interval_state" where
  "var_again = apply_add_reg R3 R4 (fst var_dom, ps_dom var_state)"

definition var_checked :: pkt_state where
  "var_checked = \<lparr>ps_types = var_types(R5 := PtrToPacket, R6 := PtrToPacketEnd),
     ps_dom = bind_to_anchor R6 AnchorDataEnd (apply_add_imm R5 8 (assign_reg R5 R1 (snd var_again))), ps_frames = []\<rparr>"

lemma byte_bounds:
  "smin (and_imm_bounds 255 bounds_unknown) = 0" "smax (and_imm_bounds 255 bounds_unknown) = 255"
  "get_constant (and_imm_bounds 255 bounds_unknown) = None"
  by code_simp+

abbreviation byte_dom :: interval_state where
  "byte_dom \<equiv> bind_to_anchor R1 AnchorData (apply_and_imm R4 255 (apply_and_imm R2 255 new_state))"

lemma get_bounds_byte_dom: "r \<in> {R2, R4} \<Longrightarrow> get_bounds byte_dom r = and_imm_bounds 255 bounds_unknown"
  by (auto simp: bind_to_anchor_def apply_and_imm_def get_bounds_new is_anchor_def)

lemma vary_byte:
  "vary_ptr m (and_imm_bounds 255 bounds_unknown) po =
     po\<lparr>po_off := sat_adds (po_off po) 0, po_var_off := sat_addu (po_var_off po) 255, po_range := None, po_pkt_end := None,
        po_id := (if po_id po = None then Some m else po_id po)\<rparr>"
  by (simp add: vary_ptr_def byte_bounds sat_subs_def s_clamp_def word_sle_eq)

abbreviation var_ptr :: "u64 \<Rightarrow> u64 \<Rightarrow> ptr_offset" where
  "var_ptr k w \<equiv> \<lparr>po_anchor = AnchorData, po_off = k, po_var_off = w, po_range = None, po_id = Some 1, po_pkt_end = None\<rparr>"

lemma var_dom_ptr:
  "get_ptr_offset (snd var_dom) r = (if r = R1 then Some (var_ptr 0 255) else get_ptr_offset byte_dom r)"
  "fst var_dom = 2" "get_bounds (snd var_dom) R4 = and_imm_bounds 255 bounds_unknown"
proof -
  have p: "get_ptr_offset byte_dom R1 = Some (at_anchor AnchorData)" by (simp add: ptr_bind is_anchor_def)
  have c: "get_constant (get_bounds byte_dom R2) = None" by (simp add: get_bounds_byte_dom byte_bounds)
  show "get_ptr_offset (snd var_dom) r = (if r = R1 then Some (var_ptr 0 255) else get_ptr_offset byte_dom r)"
    unfolding var_dom_def ptr_add_reg [OF _ p c, simplified is_anchor_def, simplified]
    by (simp add: get_bounds_byte_dom vary_byte at_anchor_def sat_adds_def s_clamp_def sat_addu_def u_clamp_def)
  show "fst var_dom = 2" "get_bounds (snd var_dom) R4 = and_imm_bounds 255 bounds_unknown"
    using p c by (simp_all add: var_dom_def apply_add_reg_def is_anchor_def Let_def at_anchor_def get_bounds_byte_dom)
qed

lemma var_again_ptr:
  "get_ptr_offset (snd var_again) r =
     (if r = R3 then Some (var_ptr 0 510) else if r = R1 then Some (var_ptr 0 255) else get_ptr_offset byte_dom r)"
  "fst var_again = 2"
proof -
  have p: "get_ptr_offset (ps_dom var_state) R3 = Some (var_ptr 0 255)"
    by (simp add: var_state_def ptr_assign_reg is_anchor_def var_dom_ptr)
  have b: "get_bounds (ps_dom var_state) R4 = and_imm_bounds 255 bounds_unknown"
    by (simp add: var_state_def assign_reg_def is_anchor_def var_dom_ptr)
  then have c: "get_constant (get_bounds (ps_dom var_state) R4) = None" by (simp add: byte_bounds)
  show "get_ptr_offset (snd var_again) r =
     (if r = R3 then Some (var_ptr 0 510) else if r = R1 then Some (var_ptr 0 255) else get_ptr_offset byte_dom r)"
    unfolding var_again_def ptr_add_reg [OF _ p c, simplified is_anchor_def, simplified]
    by (simp add: b vary_byte sat_adds_def s_clamp_def sat_addu_def u_clamp_def)
      (simp add: var_state_def ptr_assign_reg is_anchor_def var_dom_ptr)
  show "fst var_again = 2"
    using p c by (simp add: var_again_def apply_add_reg_def is_anchor_def Let_def var_dom_ptr)
qed

lemma var_checked_accepts:
  "verify_packet_bounds (ps_dom (refine_packet_bounds R5 R6 UGt False var_checked)) R3 0 8 = (True, True)"
proof -
  have p: "get_ptr_offset (ps_dom var_checked) R1 = Some (var_ptr 0 255)" "get_ptr_offset (ps_dom var_checked) R3 = Some (var_ptr 0 510)"
    "get_ptr_offset (ps_dom var_checked) R5 = Some (var_ptr 8 255)"
    by (simp_all add: var_checked_def ptr_bind ptr_add_imm ptr_assign_reg is_anchor_def var_again_ptr shift_ptr_def sat_adds_def s_clamp_def)
  have t: "ps_types var_checked = var_types(R5 := PtrToPacket, R6 := PtrToPacketEnd)" by (simp add: var_checked_def)
  have r: "refine_packet_bounds R5 R6 UGt False var_checked = propagate_range PtrToPacket AnchorData var_checked R5 8"
    by (simp add: refine_packet_bounds_def refine_data_region_bounds_def refine_meta_region_bounds_def get_packet_data_offset_def
      get_packet_meta_offset_def get_region_offset_def is_packet_end_def refine_data_by_def propagate_packet_range_def p t
      var_types_def word_sless_alt)
  have "reg_updates PtrToPacket AnchorData var_checked (Some 1) 8 = [(R1, 8), (R3, 8), (R5, 0)]"
    by (simp add: reg_updates_def reg_all_def map_filter_simps p t var_types_def family_range_def sat_subs_def s_clamp_def
        word_sle_eq Let_def)
  then show ?thesis
    by (simp add: r propagate_range_def p Let_def widen_reg_def verify_packet_bounds_def check_region_access_def wider_def
        min_offset_def sat_adds_def s_clamp_def word_sle_eq word_sless_alt)
qed

lemma var_exec_off [simp]:
  "set_off (InReg R1) 0 (var_exec x y) = var_exec x y" "set_off (InReg R3) z (var_exec x y) = var_exec z y"
  "set_off (InReg R5) z (var_exec x y) = var_exec x z" "set_off (InReg R6) 0 (var_exec x y) = var_exec x y"
  "ex_off (var_exec x y) (InReg R1) = 0" "ex_off (var_exec x y) (InReg R3) = x" "ex_off (var_exec x y) (InReg R5) = y"
  by (auto simp: var_exec_def fun_upd_twist)

lemma not_fixed: "\<not> fixed_reg R1" "\<not> fixed_reg R2" "\<not> fixed_reg R3" "\<not> fixed_reg R4" "\<not> fixed_reg R5" "\<not> fixed_reg R6"
  by (simp_all add: is_anchor_def)

lemma var_reachable: "pkt_step\<^sup>*\<^sup>* (1, pkt_start [], var_exec 0 0) (2, var_state, var_exec 0 0)"
proof -
  let ?e = "var_exec 0 0"
  let ?a = "apply_and_imm R2 255 new_state"
  let ?st = "\<lambda>ty dm. \<lparr>ps_types = (\<lambda>_. OtherType)(R1 := ty), ps_dom = dm, ps_frames = []\<rparr>"
  have 1: "pkt_step (1, pkt_start [], ?e) (1, ?st OtherType ?a, ?e)"
    using pkt_step.scalar [of OtherType R2 ?a "pkt_start []" 1 ?e]
    by (simp add: pkt_start_def ptr_and_imm [OF not_fixed(2)] fun_upd_idem)
  have 2: "pkt_step (1, ?st OtherType ?a, ?e) (1, ?st OtherType (apply_and_imm R4 255 ?a), ?e)"
    using pkt_step.scalar [of OtherType R4 "apply_and_imm R4 255 ?a" "?st OtherType ?a" 1 ?e]
    by (simp add: ptr_and_imm [OF not_fixed(4)] fun_upd_idem)
  have 3: "pkt_step (1, ?st OtherType (apply_and_imm R4 255 ?a), ?e) (1, ?st PtrToPacket byte_dom, ?e)"
    using pkt_step.bind [OF not_fixed(1), of PtrToPacket 1 "?st OtherType (apply_and_imm R4 255 ?a)" ?e] by simp
  have b: "get_ptr_offset byte_dom R1 = Some (at_anchor AnchorData)" by (simp add: ptr_bind is_anchor_def)
  have 4: "pkt_step (1, ?st PtrToPacket byte_dom, ?e) (2, ?st PtrToPacket (snd var_dom), ?e)"
    using pkt_step.add_var [OF not_fixed(1), of "?st PtrToPacket byte_dom" "at_anchor AnchorData"
        "and_imm_bounds 255 bounds_unknown" R2 0 1 2 "snd var_dom" ?e] var_dom_ptr(2)
    by (simp add: b get_bounds_byte_dom byte_bounds at_anchor_def fits_i64_def) (metis prod.collapse var_dom_def)
  have 5: "pkt_step (2, ?st PtrToPacket (snd var_dom), ?e) (2, var_state, ?e)"
    using pkt_step.mov [OF not_fixed(3), of 2 "?st PtrToPacket (snd var_dom)" ?e R1]
    by (simp add: var_state_def var_types_def)
  show ?thesis
    using rtranclp.rtrancl_into_rtrancl [OF rtranclp.rtrancl_into_rtrancl [OF rtranclp.rtrancl_into_rtrancl
      [OF rtranclp.rtrancl_into_rtrancl [OF r_into_rtranclp [of pkt_step, OF 1] 2] 3] 4] 5] .
qed

lemma var_checked_reachable:
  "pkt_step\<^sup>*\<^sup>* (2, var_state\<lparr>ps_dom := snd var_again\<rparr>, var_exec 255 0)
     (2, refine_packet_bounds R5 R6 UGt False var_checked, var_exec 255 8)"
proof -
  let ?s0 = "var_state\<lparr>ps_dom := snd var_again\<rparr>"
  let ?st = "\<lambda>dm. \<lparr>ps_types = var_types(R5 := PtrToPacket), ps_dom = dm, ps_frames = []\<rparr>"
  let ?d = "assign_reg R5 R1 (snd var_again)"
  have 1: "pkt_step (2, ?s0, var_exec 255 0) (2, ?st ?d, var_exec 255 0)"
    using pkt_step.mov [OF not_fixed(5), of 2 ?s0 "var_exec 255 0" R1]
    by (simp add: var_state_def) (simp add: var_types_def)
  have 2: "pkt_step (2, ?st ?d, var_exec 255 0) (2, ?st (apply_add_imm R5 8 ?d), var_exec 255 8)"
    using pkt_step.add_imm [OF not_fixed(5), of "?st ?d" "var_ptr 0 255" 8 2 "var_exec 255 0"]
    by (simp add: ptr_assign_reg [OF not_fixed(5)] var_again_ptr fits_i64_def)
  have 3: "pkt_step (2, ?st (apply_add_imm R5 8 ?d), var_exec 255 8) (2, var_checked, var_exec 255 8)"
    using pkt_step.bind [OF not_fixed(6), of PtrToPacketEnd 2 "?st (apply_add_imm R5 8 ?d)" "var_exec 255 8"]
    by (simp add: var_checked_def)
  have 4: "pkt_step (2, var_checked, var_exec 255 8) (2, refine_packet_bounds R5 R6 UGt False var_checked, var_exec 255 8)"
    by (rule pkt_step.branch) (simp add: goes_def ptr_addr_def var_checked_def var_types_def same_half_def, simp add: var_exec_def)
  show ?thesis
    using rtranclp.rtrancl_into_rtrancl [OF rtranclp.rtrancl_into_rtrancl
      [OF rtranclp.rtrancl_into_rtrancl [OF r_into_rtranclp [of pkt_step, OF 1] 2] 3] 4] .
qed

text \<open>C28. A pointer that already has a variable offset keeps its family when a second one is added (the kernel gives it a new one), so
  a check of the first pointer also vouches for the sum. In this run every other step is as in the sound discipline: \<open>r3\<close> is \<open>r1\<close>, which has a
  variable offset, plus \<open>r4\<close> (here 255, within its bounds 0..255); the comparison proves 8 bytes behind \<open>r1\<close>; and the analysis accepts a read of 8
  bytes through \<open>r3\<close>, which ends 199 bytes behind the packet of 64.\<close>

theorem second_variable_offset_unsound:
  "pkt_step\<^sup>*\<^sup>* (1, pkt_start [], var_exec 0 0) (2, var_state, var_exec 0 0) \<and>
   apply_add_reg R3 R4 (2, ps_dom var_state) = (2, snd var_again) \<and> in_bounds 255 (get_bounds (ps_dom var_state) R4) \<and>
   pkt_step\<^sup>*\<^sup>* (2, var_state\<lparr>ps_dom := snd var_again\<rparr>, var_exec 255 0)
     (2, refine_packet_bounds R5 R6 UGt False var_checked, var_exec 255 8) \<and>
   verify_packet_bounds (ps_dom (refine_packet_bounds R5 R6 UGt False var_checked)) R3 0 8 = (True, True) \<and>
   ex_psize (var_exec 255 8) < ex_off (var_exec 255 8) (InReg R3) + 8"
proof (intro conjI)
  show "apply_add_reg R3 R4 (2, ps_dom var_state) = (2, snd var_again)"
    using var_again_ptr(2) var_dom_ptr(2) by (metis prod.collapse var_again_def)
  have "get_bounds (ps_dom var_state) R4 = and_imm_bounds 255 bounds_unknown"
    by (simp add: var_state_def assign_reg_def is_anchor_def var_dom_ptr)
  then show "in_bounds 255 (get_bounds (ps_dom var_state) R4)"
    using and_imm_sound [of 255 255 bounds_unknown] by simp
qed (rule var_reachable var_checked_reachable var_checked_accepts | simp add: var_exec_def)+

end
