(* ===== verification/Zone_Dbm.thy ===== *)
theory Zone_Dbm
  imports Interval_Domain
begin

text \<open>
  The zone domain's difference-bound matrix, \<open>domains/zone/dbm.rs\<close>: a cell \<open>(i, j)\<close> bounds \<open>i - j\<close> from above,
  \<open>INF\<close> (\<open>DBM_INF\<close> here) standing for no bound; the pseudo register \<open>Zero\<close> gives bounds on single registers. Beside the matrix
  there are the eight bounds of each register and, when certificates are generated, the origin of each cell.

  The matrix, indexed by \<open>Reg::idx\<close> in the code, is a function of two registers; the loops over \<open>0..n\<close>
  run through the registers in the order of their indices. \<open>i64\<close> values are integers: saturation, wrap-around
  and checked addition are written out.

  Shown here: closing keeps every solution of the constraints; while the constants stay below \<open>2^43\<close> it
  decides whether there is a solution, it leaves a matrix that satisfies the triangle inequality, and closing again
  changes nothing.
\<close>

section \<open>Rust integers\<close>

abbreviation i64_min :: int where "i64_min \<equiv> - 9223372036854775808"
abbreviation i64_max :: int where "i64_max \<equiv> 9223372036854775807"

definition sat_i64 :: "int \<Rightarrow> int" where
  "sat_i64 x = max i64_min (min i64_max x)"

definition neg_i64 :: "int \<Rightarrow> int" where
  "neg_i64 x = (if x = i64_min then i64_min else - x)"

definition wrap_i64 :: "int \<Rightarrow> int" where
  "wrap_i64 x = (x + 9223372036854775808) mod 18446744073709551616 - 9223372036854775808"

section \<open>The matrix\<close>

abbreviation DBM_INF :: int where "DBM_INF \<equiv> 2305843009213693951"
abbreviation POS_BOUND :: int where "POS_BOUND \<equiv> 1152921504606846975"
abbreviation NEG_BOUND :: int where "NEG_BOUND \<equiv> - 1152921504606846975"

datatype edge_origin = Edge_Init | Edge_Primitive nat | Edge_Derived reg

record provenance_tracker =
  pv_edges :: "reg \<Rightarrow> reg \<Rightarrow> edge_origin"
  pv_current_pc :: nat

definition new_provenance :: provenance_tracker where
  "new_provenance = \<lparr>pv_edges = (\<lambda>_ _. Edge_Init), pv_current_pc = 0\<rparr>"

definition clamp_upper_bound :: "int \<Rightarrow> int" where
  "clamp_upper_bound c = (if c > POS_BOUND then DBM_INF else if c < NEG_BOUND then NEG_BOUND else c)"

definition clamped_add :: "int \<Rightarrow> int \<Rightarrow> int" where
  "clamped_add a b =
     (if a \<ge> DBM_INF \<or> b \<ge> DBM_INF then DBM_INF
      else if i64_min \<le> a + b \<and> a + b \<le> i64_max then clamp_upper_bound (a + b)
      else DBM_INF)"

record zone_bounds =
  zb_s32_min :: int
  zb_s32_max :: int
  zb_u32_min :: int
  zb_u32_max :: int
  zb_s64_min :: int
  zb_s64_max :: int
  zb_u64_min :: int
  zb_u64_max :: int

definition zone_bounds_unknown :: zone_bounds where
  "zone_bounds_unknown =
     \<lparr>zb_s32_min = - 2147483648, zb_s32_max = 2147483647, zb_u32_min = 0, zb_u32_max = 4294967295,
      zb_s64_min = i64_min, zb_s64_max = i64_max, zb_u64_min = 0, zb_u64_max = 18446744073709551615\<rparr>"

record dbm =
  dm_data :: "reg \<Rightarrow> reg \<Rightarrow> int"
  dm_bounds :: "reg \<Rightarrow> zone_bounds"
  dm_prov :: "provenance_tracker option"

text \<open>The registers in the order of \<open>Reg::idx\<close>, and the real ones, \<open>Reg::ALL\<close>.\<close>

definition dbm_regs :: "reg list" where
  "dbm_regs = [RZero, R0, R1, R2, R3, R4, R5, R6, R7, R8, R9, R10, AnchorDataMeta, AnchorData, AnchorDataEnd]"

definition real_regs :: "reg list" where
  "real_regs = [RZero, R0, R1, R2, R3, R4, R5, R6, R7, R8, R9, R10]"

definition new_dbm :: dbm where
  "new_dbm = \<lparr>dm_data = (\<lambda>i j. if i = j then 0 else DBM_INF), dm_bounds = (\<lambda>_. zone_bounds_unknown), dm_prov = None\<rparr>"

definition enable_provenance :: "dbm \<Rightarrow> dbm" where
  "enable_provenance d = d\<lparr>dm_prov := Some new_provenance\<rparr>"

definition set_current_pc :: "nat \<Rightarrow> dbm \<Rightarrow> dbm" where
  "set_current_pc pc d = d\<lparr>dm_prov := map_option (pv_current_pc_update (\<lambda>_. pc)) (dm_prov d)\<rparr>"

definition dset :: "reg \<Rightarrow> reg \<Rightarrow> int \<Rightarrow> dbm \<Rightarrow> dbm" where
  "dset i j c d = d\<lparr>dm_data := (dm_data d)(i := (dm_data d i)(j := c))\<rparr>"

text \<open>Notes the origin of a cell, when origins are tracked.\<close>

definition note_edge :: "reg \<Rightarrow> reg \<Rightarrow> (nat \<Rightarrow> edge_origin) \<Rightarrow> dbm \<Rightarrow> dbm" where
  "note_edge i j f d = d\<lparr>dm_prov := map_option
     (\<lambda>p. p\<lparr>pv_edges := (pv_edges p)(i := (pv_edges p i)(j := f (pv_current_pc p)))\<rparr>) (dm_prov d)\<rparr>"

definition stamp_edge :: "reg \<Rightarrow> reg \<Rightarrow> dbm \<Rightarrow> dbm" where
  "stamp_edge i j d = (if dm_data d i j < DBM_INF \<and> i \<noteq> j then note_edge i j Edge_Primitive d else d)"

definition stamp_provenance_for_var :: "reg \<Rightarrow> dbm \<Rightarrow> dbm" where
  "stamp_provenance_for_var r d = fold (\<lambda>j d. stamp_edge j r (stamp_edge r j d)) dbm_regs d"

definition add_dbm_constraint :: "reg \<Rightarrow> reg \<Rightarrow> int \<Rightarrow> dbm \<Rightarrow> dbm" where
  "add_dbm_constraint i j c d =
     (let c = clamp_upper_bound c; old = dm_data d i j in
      if c = DBM_INF then d
      else if c < old then note_edge i j Edge_Primitive (dset i j c d)
      else d)"

definition forget_var :: "reg \<Rightarrow> dbm \<Rightarrow> dbm" where
  "forget_var x d =
     (let d = fold (\<lambda>j. dset x j (if x = j then 0 else DBM_INF)) dbm_regs d;
          d = fold (\<lambda>k. dset k x (if k = x then 0 else DBM_INF)) dbm_regs d;
          d = d\<lparr>dm_bounds := (dm_bounds d)(x := zone_bounds_unknown)\<rparr>
      in fold (\<lambda>j d. note_edge j x (\<lambda>_. Edge_Init) (note_edge x j (\<lambda>_. Edge_Init) d)) dbm_regs d)"

text \<open>\<open>close\<close>: the three nested loops, from the inside. The cell \<open>(i, k)\<close> is read once per row.\<close>

definition close_cell :: "reg \<Rightarrow> reg \<Rightarrow> int \<Rightarrow> reg \<Rightarrow> dbm \<Rightarrow> dbm" where
  "close_cell k i dik j d =
     (let dkj = dm_data d k j in
      if dkj \<ge> DBM_INF then d
      else
        let via = clamped_add dik dkj in
        if via < dm_data d i j then note_edge i j (\<lambda>_. Edge_Derived k) (dset i j via d) else d)"

definition close_row :: "reg \<Rightarrow> reg \<Rightarrow> dbm \<Rightarrow> dbm" where
  "close_row k i d =
     (let dik = dm_data d i k in
      if dik \<ge> DBM_INF then d else fold (close_cell k i dik) dbm_regs d)"

definition close_via :: "reg \<Rightarrow> dbm \<Rightarrow> dbm" where
  "close_via k d = fold (close_row k) dbm_regs d"

definition close_dbm :: "dbm \<Rightarrow> dbm" where
  "close_dbm d = fold close_via dbm_regs d"

definition empty_bounds :: "zone_bounds \<Rightarrow> bool" where
  "empty_bounds b \<longleftrightarrow>
     zb_s32_min b > zb_s32_max b \<or> zb_u32_min b > zb_u32_max b \<or>
     zb_s64_min b > zb_s64_max b \<or> zb_u64_min b > zb_u64_max b"

definition dbm_inconsistent :: "dbm \<Rightarrow> bool" where
  "dbm_inconsistent d \<longleftrightarrow>
     list_ex (\<lambda>i. dm_data d i i < 0) dbm_regs \<or> list_ex (\<lambda>i. empty_bounds (dm_bounds d i)) dbm_regs"

definition narrow_bounds :: "zone_bounds \<Rightarrow> zone_bounds \<Rightarrow> zone_bounds" where
  "narrow_bounds a b =
     \<lparr>zb_s32_min = max (zb_s32_min a) (zb_s32_min b), zb_s32_max = min (zb_s32_max a) (zb_s32_max b),
      zb_u32_min = max (zb_u32_min a) (zb_u32_min b), zb_u32_max = min (zb_u32_max a) (zb_u32_max b),
      zb_s64_min = max (zb_s64_min a) (zb_s64_min b), zb_s64_max = min (zb_s64_max a) (zb_s64_max b),
      zb_u64_min = max (zb_u64_min a) (zb_u64_min b), zb_u64_max = min (zb_u64_max a) (zb_u64_max b)\<rparr>"

definition narrow_dbm :: "dbm \<Rightarrow> dbm \<Rightarrow> dbm" where
  "narrow_dbm d e =
     \<lparr>dm_data = (\<lambda>i j. min (dm_data d i j) (dm_data e i j)),
      dm_bounds = (\<lambda>i. narrow_bounds (dm_bounds d i) (dm_bounds e i)), dm_prov = None\<rparr>"

text \<open>The decomposition of a cell into the constraints it was derived from. \<open>None\<close> is a recursion without end.\<close>

record primitive_edge =
  pe_to :: reg
  pe_from :: reg
  pe_weight :: int
  pe_pc :: nat

partial_function (option) decompose ::
  "dbm \<Rightarrow> provenance_tracker \<Rightarrow> reg \<Rightarrow> reg \<Rightarrow> primitive_edge list option" where
  "decompose d p i j =
     (case pv_edges p i j of
        Edge_Primitive pc \<Rightarrow> Some [\<lparr>pe_to = i, pe_from = j, pe_weight = dm_data d i j, pe_pc = pc\<rparr>]
      | Edge_Derived via \<Rightarrow>
          Option.bind (decompose d p i via) (\<lambda>l. Option.bind (decompose d p via j) (\<lambda>r. Some (l @ r)))
      | Edge_Init \<Rightarrow>
          Some (if i \<noteq> j \<and> dm_data d i j < DBM_INF
                then [\<lparr>pe_to = i, pe_from = j, pe_weight = dm_data d i j, pe_pc = 0\<rparr>] else []))"

declare decompose.simps [code]

text \<open>The outer option is the end of the recursion, the inner one the function's own.\<close>

definition reconstruct_path :: "reg \<Rightarrow> reg \<Rightarrow> dbm \<Rightarrow> primitive_edge list option option" where
  "reconstruct_path i j d =
     (case dm_prov d of
        None \<Rightarrow> Some None
      | Some p \<Rightarrow> if dm_data d i j \<ge> DBM_INF then Some None else map_option Some (decompose d p i j))"

section \<open>Reading the matrix after an update\<close>

named_theorems dbm_data \<open>what the operations leave in the matrix and in the bounds\<close>

lemma dbm_regs_all [simp]: "r \<in> set dbm_regs" "set dbm_regs = UNIV"
proof -
  show *: "r \<in> set dbm_regs" for r by (cases r) (simp_all add: dbm_regs_def)
  show "set dbm_regs = UNIV" using * by blast
qed

lemma dbm_regs_distinct [simp]: "distinct dbm_regs"
  by (simp add: dbm_regs_def)

lemma dset_data [dbm_data]: "dm_data (dset i j c d) a b = (if a = i \<and> b = j then c else dm_data d a b)"
  by (simp add: dset_def)

lemma dset_bounds [dbm_data]: "dm_bounds (dset i j c d) = dm_bounds d"
  by (simp add: dset_def)

lemma note_edge_data [dbm_data]: "dm_data (note_edge i j f d) = dm_data d" "dm_bounds (note_edge i j f d) = dm_bounds d"
  by (simp_all add: note_edge_def)

lemma fold_bounds:
  assumes "\<And>x d. dm_bounds (f x d) = dm_bounds d"
  shows "dm_bounds (fold f xs d) = dm_bounds d"
  using assms by (induction xs arbitrary: d) simp_all

lemma fold_data:
  assumes "\<And>x d. dm_data (f x d) = dm_data d"
  shows "dm_data (fold f xs d) = dm_data d"
  using assms by (induction xs arbitrary: d) simp_all

lemma fold_row:
  assumes "distinct js"
  shows "dm_data (fold (\<lambda>j. dset x j (f j)) js d) a b = (if a = x \<and> b \<in> set js then f b else dm_data d a b)"
  using assms by (induction js arbitrary: d) (auto simp: dbm_data)

lemma fold_column:
  assumes "distinct js"
  shows "dm_data (fold (\<lambda>j. dset j x (f j)) js d) a b = (if b = x \<and> a \<in> set js then f a else dm_data d a b)"
  using assms by (induction js arbitrary: d) (auto simp: dbm_data)

lemma fold_dset_bounds:
  "dm_bounds (fold (\<lambda>j. dset x j (f j)) js d) = dm_bounds d"
  "dm_bounds (fold (\<lambda>j. dset j x (f j)) js d) = dm_bounds d"
  by (rule fold_bounds, rule dset_bounds)+

lemma fold_edges:
  "dm_data (fold (\<lambda>j d. note_edge j x f (note_edge x j g d)) js d) = dm_data d"
  "dm_bounds (fold (\<lambda>j d. note_edge j x f (note_edge x j g d)) js d) = dm_bounds d"
  by (rule fold_data, simp add: dbm_data) (rule fold_bounds, simp add: dbm_data)

lemma forget_var_data [dbm_data]:
  "dm_data (forget_var x d) a b = (if a = x \<or> b = x then if a = b then 0 else DBM_INF else dm_data d a b)"
  "dm_bounds (forget_var x d) = (dm_bounds d)(x := zone_bounds_unknown)"
  unfolding forget_var_def Let_def fold_edges
  by (simp_all add: fold_row fold_column fold_dset_bounds)

lemma stamp_edge_data [dbm_data]: "dm_data (stamp_edge i j d) = dm_data d" "dm_bounds (stamp_edge i j d) = dm_bounds d"
  by (simp_all add: stamp_edge_def dbm_data)

lemma stamp_provenance_data [dbm_data]:
  "dm_data (stamp_provenance_for_var r d) = dm_data d" "dm_bounds (stamp_provenance_for_var r d) = dm_bounds d"
  unfolding stamp_provenance_for_var_def
  by (rule fold_data, simp add: dbm_data) (rule fold_bounds, simp add: dbm_data)

lemma close_cell_bounds [dbm_data]: "dm_bounds (close_cell k i dik j d) = dm_bounds d"
  by (simp add: close_cell_def Let_def dbm_data)

lemma close_row_bounds [dbm_data]: "dm_bounds (close_row k i d) = dm_bounds d"
  unfolding close_row_def Let_def by (auto intro!: fold_bounds simp: dbm_data)

lemma close_via_bounds [dbm_data]: "dm_bounds (close_via k d) = dm_bounds d"
  unfolding close_via_def by (rule fold_bounds) (rule close_row_bounds)

lemma close_bounds [dbm_data]: "dm_bounds (close_dbm d) = dm_bounds d"
  unfolding close_dbm_def by (rule fold_bounds) (rule close_via_bounds)

lemma add_dbm_constraint_bounds [dbm_data]: "dm_bounds (add_dbm_constraint i j c d) = dm_bounds d"
  by (simp add: add_dbm_constraint_def Let_def dbm_data)

section \<open>Solutions\<close>

text \<open>A solution gives every register a value such that all differences are within their bounds.\<close>

definition cells_hold :: "(reg \<Rightarrow> int) \<Rightarrow> dbm \<Rightarrow> bool" where
  "cells_hold x d \<longleftrightarrow> (\<forall>i j. dm_data d i j < DBM_INF \<longrightarrow> x i - x j \<le> dm_data d i j)"

lemma cells_holdD: "cells_hold x d \<Longrightarrow> dm_data d i j < DBM_INF \<Longrightarrow> x i - x j \<le> dm_data d i j"
  by (simp add: cells_hold_def)

lemma cells_hold_dset:
  "cells_hold x d \<Longrightarrow> (c < DBM_INF \<Longrightarrow> x i - x j \<le> c) \<Longrightarrow> cells_hold x (dset i j c d)"
  by (auto simp: cells_hold_def dbm_data)

lemma cells_hold_note_edge [simp]: "cells_hold x (note_edge i j f d) = cells_hold x d"
  by (simp add: cells_hold_def dbm_data)

lemma clamp_upper_bound_ge: "clamp_upper_bound c < DBM_INF \<Longrightarrow> c \<le> clamp_upper_bound c"
  by (auto simp: clamp_upper_bound_def)

lemma clamped_add_ge: "clamped_add a b < DBM_INF \<Longrightarrow> a + b \<le> clamped_add a b"
  by (auto simp: clamped_add_def clamp_upper_bound_ge split: if_splits)

lemma add_dbm_constraint_holds:
  assumes "cells_hold x d" and "x i - x j \<le> c"
  shows "cells_hold x (add_dbm_constraint i j c d)"
  using assms clamp_upper_bound_ge [of c] unfolding add_dbm_constraint_def Let_def
  by (auto intro!: cells_hold_dset)

lemma fold_keeps:
  assumes "P d" and "\<And>a d. P d \<Longrightarrow> P (f a d)"
  shows "P (fold f xs d)"
  using assms by (induction xs arbitrary: d) simp_all

lemma close_cell_holds:
  assumes "cells_hold x d" and "x i - x k \<le> dik"
  shows "cells_hold x (close_cell k i dik j d)"
proof -
  have "x i - x j \<le> clamped_add dik (dm_data d k j)"
    if "dm_data d k j < DBM_INF" "clamped_add dik (dm_data d k j) < DBM_INF"
    using clamped_add_ge [OF that(2)] cells_holdD [OF assms(1) that(1)] assms(2) by linarith
  with assms(1) show ?thesis unfolding close_cell_def Let_def by (auto intro!: cells_hold_dset)
qed

lemma close_row_holds: "cells_hold x d \<Longrightarrow> cells_hold x (close_row k i d)"
  by (auto simp: close_row_def Let_def intro!: fold_keeps [where P = "cells_hold x"] close_cell_holds cells_holdD)

lemma close_holds: "cells_hold x d \<Longrightarrow> cells_hold x (close_dbm d)"
  by (simp add: close_dbm_def close_via_def fold_keeps [where P = "cells_hold x"] close_row_holds)

text \<open>Closing only lowers cells.\<close>

definition below :: "dbm \<Rightarrow> dbm \<Rightarrow> bool" where
  "below d e \<longleftrightarrow> (\<forall>i j. dm_data d i j \<le> dm_data e i j)"

lemma below_refl [simp]: "below d d"
  by (simp add: below_def)

lemma below_trans: "below d e \<Longrightarrow> below e f \<Longrightarrow> below d f"
  unfolding below_def by (meson order_trans)

lemma fold_below:
  assumes "\<And>a d. below (f a d) d"
  shows "below (fold f xs d) d"
proof (rule fold_keeps [where P = "\<lambda>e. below e d"])
  show "below (f a e) d" if "below e d" for a e using below_trans assms that .
qed simp

lemma close_cell_below: "below (close_cell k i dik j d) d"
  by (simp add: below_def close_cell_def Let_def dbm_data)

lemma close_row_below: "below (close_row k i d) d"
  by (simp add: close_row_def Let_def fold_below close_cell_below)

lemma close_via_below: "below (close_via k d) d"
  unfolding close_via_def by (rule fold_below) (rule close_row_below)

lemma close_below: "below (close_dbm d) d"
  unfolding close_dbm_def by (rule fold_below) (rule close_via_below)

lemma cells_hold_below: "cells_hold x d \<Longrightarrow> below d e \<Longrightarrow> cells_hold x e"
  unfolding cells_hold_def below_def by (meson order.strict_trans1 order.trans)

lemma close_solutions: "cells_hold x (close_dbm d) \<longleftrightarrow> cells_hold x d"
  using close_holds cells_hold_below close_below by blast

section \<open>One round of closing\<close>

text \<open>What a round computes, read off the matrix before the round.\<close>

definition relax :: "reg \<Rightarrow> (reg \<Rightarrow> reg \<Rightarrow> int) \<Rightarrow> reg \<Rightarrow> reg \<Rightarrow> int" where
  "relax k m i j =
     (if m i k \<ge> DBM_INF \<or> m k j \<ge> DBM_INF then m i j else min (m i j) (clamped_add (m i k) (m k j)))"

text \<open>While the pivot's own cell is not negative, its row does not change in its round.\<close>

lemma clamped_add_nonneg: "0 \<le> a \<Longrightarrow> b < DBM_INF \<Longrightarrow> b \<le> clamped_add a b"
  by (auto simp: clamped_add_def clamp_upper_bound_def)

lemma clamped_add_commute: "clamped_add a b = clamped_add b a"
  by (auto simp: clamped_add_def add.commute)

lemma close_row_pivot:
  assumes "0 \<le> dm_data d k k"
  shows "close_row k k d = d"
proof -
  have *: "close_cell k k (dm_data d k k) j d = d" for j
    using clamped_add_nonneg [OF assms, of "dm_data d k j"] by (auto simp: close_cell_def Let_def)
  have "fold (close_cell k k (dm_data d k k)) js d = d" for js by (induction js) (simp_all add: *)
  then show ?thesis by (simp add: close_row_def Let_def)
qed

lemma close_cell_data:
  assumes "i \<noteq> k"
  shows "dm_data (close_cell k i c j d) a b =
    (if a = i \<and> b = j \<and> dm_data d k j < DBM_INF then min (dm_data d i j) (clamped_add c (dm_data d k j)) else dm_data d a b)"
  by (auto simp: close_cell_def Let_def dbm_data)

lemma fold_close_cell:
  assumes "i \<noteq> k" "distinct js"
  shows "dm_data (fold (close_cell k i c) js d) a b =
    (if a = i \<and> b \<in> set js \<and> dm_data d k b < DBM_INF then min (dm_data d i b) (clamped_add c (dm_data d k b)) else dm_data d a b)"
  using assms(2)
proof (induction js arbitrary: d)
  case (Cons j js)
  then show ?case using assms(1) by (auto simp: close_cell_data [OF assms(1)])
qed simp

lemma close_row_data:
  assumes "0 \<le> dm_data d k k"
  shows "dm_data (close_row k i d) a b = (if a = i then relax k (dm_data d) i b else dm_data d a b)"
proof (cases "i = k")
  case True
  have "relax k (dm_data d) k b = dm_data d k b"
    using clamped_add_nonneg [OF assms, of "dm_data d k b"] by (simp add: relax_def not_le)
  with True show ?thesis using close_row_pivot [OF assms] by simp
next
  case False
  then show ?thesis by (auto simp: close_row_def Let_def relax_def fold_close_cell not_le)
qed

lemma close_via_data:
  assumes "0 \<le> dm_data d k k"
  shows "dm_data (close_via k d) = relax k (dm_data d)"
proof -
  have pivot: "relax k m k b = m k b" if "0 \<le> m k k" for m b
    using clamped_add_nonneg [OF that, of "m k b"] by (simp add: relax_def not_le)
  have row: "relax k m a b = relax k m' a b" if "m k = m' k" "m a = m' a" for m m' :: "reg \<Rightarrow> reg \<Rightarrow> int" and a b
    using that by (simp add: relax_def)
  have "dm_data (fold (close_row k) is d) a b = (if a \<in> set is then relax k (dm_data d) a b else dm_data d a b)"
    if "distinct is" "0 \<le> dm_data d k k" for "is" d a b
    using that
  proof (induction "is" arbitrary: d)
    case (Cons i "is")
    have k: "dm_data (close_row k i d) k = dm_data d k"
      using pivot [of "dm_data d"] Cons.prems by (auto simp: close_row_data fun_eq_iff)
    then have "0 \<le> dm_data (close_row k i d) k k" using Cons.prems by simp
    with Cons have "dm_data (fold (close_row k) is (close_row k i d)) a b =
        (if a \<in> set is then relax k (dm_data (close_row k i d)) a b else dm_data (close_row k i d) a b)" by simp
    moreover have "relax k (dm_data (close_row k i d)) a b = relax k (dm_data d) a b" if "a \<in> set is"
    proof (rule row)
      show "dm_data (close_row k i d) k = dm_data d k" by (rule k)
      show "dm_data (close_row k i d) a = dm_data d a" using that Cons.prems by (auto simp: close_row_data fun_eq_iff)
    qed
    ultimately show ?case using Cons.prems by (auto simp: close_row_data)
  qed simp
  with assms show ?thesis by (auto simp: close_via_def fun_eq_iff)
qed

section \<open>The closed matrix\<close>

text \<open>The triangle inequality through the registers in \<open>K\<close>, and a bound on the finite cells.\<close>

definition triangle :: "reg set \<Rightarrow> (reg \<Rightarrow> reg \<Rightarrow> int) \<Rightarrow> bool" where
  "triangle K m \<longleftrightarrow> (\<forall>k \<in> K. \<forall>i j. m i k < DBM_INF \<longrightarrow> m k j < DBM_INF \<longrightarrow> m i j \<le> m i k + m k j)"

definition small_cells :: "int \<Rightarrow> (reg \<Rightarrow> reg \<Rightarrow> int) \<Rightarrow> bool" where
  "small_cells b m \<longleftrightarrow> (\<forall>i j. m i j < DBM_INF \<longrightarrow> - b \<le> m i j \<and> m i j \<le> b)"

lemma clamped_add_small:
  assumes "- b \<le> x" "x \<le> b" "- b \<le> y" "y \<le> b" "2 * b \<le> POS_BOUND"
  shows "clamped_add x y = x + y"
  using assms by (auto simp: clamped_add_def clamp_upper_bound_def)

lemma relax_small:
  assumes "small_cells b m" "2 * b \<le> POS_BOUND"
  shows "relax k m i j = (if m i k < DBM_INF \<and> m k j < DBM_INF then min (m i j) (m i k + m k j) else m i j)"
  using assms clamped_add_small [of b "m i k" "m k j"] by (auto simp: relax_def small_cells_def not_le not_less)

lemma relax_small_cells:
  assumes "small_cells b m" "2 * b \<le> POS_BOUND" "0 \<le> b"
  shows "small_cells (2 * b) (relax k m)"
  unfolding small_cells_def
proof (intro allI impI)
  fix i j
  have *: "- b \<le> m a c \<and> m a c \<le> b" if "m a c < DBM_INF" for a c using assms(1) that by (simp add: small_cells_def)
  assume "relax k m i j < DBM_INF"
  then show "- (2 * b) \<le> relax k m i j \<and> relax k m i j \<le> 2 * b"
    using * [of i k] * [of k j] * [of i j] assms(2,3)
    unfolding relax_small [OF assms(1,2)] by (auto simp: min_def split: if_splits)
qed

lemma relax_triangle:
  assumes m: "small_cells b m" "2 * b \<le> POS_BOUND" and T: "triangle K m" and k: "0 \<le> m k k"
  shows "triangle (insert k K) (relax k m)"
  unfolding triangle_def
proof (intro ballI allI impI)
  fix l i j
  note R = relax_small [OF m]
  have fin: "m a c < DBM_INF" if "m a c \<le> m a' c' + m a'' c''" "m a' c' < DBM_INF" "m a'' c'' < DBM_INF" for a c a' c' a'' c''
    using m that unfolding small_cells_def by (smt (verit))
  have le: "relax k m i j \<le> m i j" and via: "m i k < DBM_INF \<Longrightarrow> m k j < DBM_INF \<Longrightarrow> relax k m i j \<le> m i k + m k j"
    by (auto simp: R)
  have cell: "m a c < DBM_INF \<and> relax k m a c = m a c \<or> m a k < DBM_INF \<and> m k c < DBM_INF \<and> relax k m a c = m a k + m k c"
    if "relax k m a c < DBM_INF" for a c using that by (auto simp: R min_def split: if_splits)
  assume l: "l \<in> insert k K" and "relax k m i l < DBM_INF" "relax k m l j < DBM_INF"
  then have il: "m i l < DBM_INF \<and> relax k m i l = m i l \<or> m i k < DBM_INF \<and> m k l < DBM_INF \<and> relax k m i l = m i k + m k l"
    and lj: "m l j < DBM_INF \<and> relax k m l j = m l j \<or> m l k < DBM_INF \<and> m k j < DBM_INF \<and> relax k m l j = m l k + m k j"
    using cell by blast+
  show "relax k m i j \<le> relax k m i l + relax k m l j"
  proof (cases "l = k")
    case True
    then show ?thesis using il lj via k by auto
  next
    case False
    then have t: "m a c \<le> m a l + m l c" if "m a l < DBM_INF" "m l c < DBM_INF" for a c
      using l T that by (auto simp: triangle_def)
    from il lj show ?thesis
    proof (elim disjE conjE)
      assume "m i l < DBM_INF" "relax k m i l = m i l" "m l j < DBM_INF" "relax k m l j = m l j"
      then show ?thesis using t le by fastforce
    next
      assume *: "m i l < DBM_INF" "relax k m i l = m i l" "m l k < DBM_INF" "m k j < DBM_INF" "relax k m l j = m l k + m k j"
      from t [OF *(1,3)] fin [OF _ *(1,3)] via * show ?thesis by fastforce
    next
      assume *: "m i k < DBM_INF" "m k l < DBM_INF" "relax k m i l = m i k + m k l" "m l j < DBM_INF" "relax k m l j = m l j"
      from t [OF *(2,4)] fin [OF _ *(2,4)] via * show ?thesis by fastforce
    next
      assume *: "m i k < DBM_INF" "m k l < DBM_INF" "relax k m i l = m i k + m k l"
        "m l k < DBM_INF" "m k j < DBM_INF" "relax k m l j = m l k + m k j"
      from t [OF *(2,4)] k via * show ?thesis by fastforce
    qed
  qed
qed

lemma fold_close_via:
  assumes "small_cells b (dm_data d)" "0 \<le> b" "2 ^ length ks * b \<le> POS_BOUND" "triangle K (dm_data d)"
    and "\<And>i. 0 \<le> dm_data (fold close_via ks d) i i"
  shows "triangle (set ks \<union> K) (dm_data (fold close_via ks d)) \<and>
    small_cells (2 ^ length ks * b) (dm_data (fold close_via ks d))"
  using assms
proof (induction ks arbitrary: d b K)
  case (Cons k ks)
  let ?d = "close_via k d"
  have "below (fold close_via ks ?d) d"
    using below_trans fold_below close_via_below by blast
  then have k: "0 \<le> dm_data d k k" using Cons.prems(5) [of k] unfolding below_def fold_Cons comp_apply by (meson order_trans)
  have "1 * (2 * b) \<le> 2 ^ length ks * (2 * b)" using Cons.prems(2) by (intro mult_right_mono) simp_all
  with Cons.prems(3) have b: "2 * b \<le> POS_BOUND" by simp
  have "triangle (insert k K) (dm_data ?d)" "small_cells (2 * b) (dm_data ?d)"
    using Cons.prems k b by (simp_all add: close_via_data relax_triangle relax_small_cells)
  from Cons.IH [OF this(2) _ _ this(1)] Cons.prems show ?case by (simp add: ac_simps)
qed simp

text \<open>The constants below which closing is exact: fifteen rounds at most double the cells fifteen times.\<close>

abbreviation exact_bound :: int where "exact_bound \<equiv> 8796093022208"

lemma close_triangle:
  assumes "small_cells exact_bound (dm_data d)" and "\<And>i. 0 \<le> dm_data (close_dbm d) i i"
  shows "triangle UNIV (dm_data (close_dbm d))" "small_cells 288230376151711744 (dm_data (close_dbm d))"
proof -
  have n: "length dbm_regs = 15" by (simp add: dbm_regs_def)
  have "triangle {} (dm_data d)" by (simp add: triangle_def)
  then show "triangle UNIV (dm_data (close_dbm d))" "small_cells 288230376151711744 (dm_data (close_dbm d))"
    using fold_close_via [OF assms(1), of dbm_regs "{}"] assms(2) by (simp_all add: close_dbm_def n)
qed

lemma closed_solution:
  assumes m: "triangle UNIV m" "small_cells b m" "2 * b < DBM_INF" and diag: "\<And>i. m i i < DBM_INF"
  obtains x :: "reg \<Rightarrow> int" where "x RZero = 0" "\<And>i j. m i j < DBM_INF \<Longrightarrow> x i - x j \<le> m i j"
proof -
  have fin: "finite (UNIV :: reg set)" using dbm_regs_all(2) by (metis List.finite_set)
  define S where "S i = m i ` {j. m i j < DBM_INF}" for i
  have S: "finite (S i)" "S i \<noteq> {}" for i using diag by (auto simp: S_def intro: finite_imageI finite_subset [OF subset_UNIV fin])
  define y where "y i = Min (S i)" for i
  have y: "y i - y j \<le> m i j" if ij: "m i j < DBM_INF" for i j
  proof -
    from Min_in [OF S] obtain k where k: "y j = m j k" "m j k < DBM_INF" by (auto simp: y_def S_def)
    then have *: "m i k \<le> m i j + m j k" using m(1) ij by (simp add: triangle_def)
    with m(2,3) ij k(2) have "m i k < DBM_INF" unfolding small_cells_def by (smt (verit))
    then have "y i \<le> m i k" unfolding y_def by (intro Min_le S) (auto simp: S_def)
    with * k(1) show ?thesis by simp
  qed
  show thesis by (rule that [of "\<lambda>i. y i - y RZero"]) (use y in auto)
qed

lemma close_closed:
  assumes m: "triangle UNIV (dm_data d)" "small_cells b (dm_data d)" "2 * b \<le> POS_BOUND"
  shows "close_dbm d = d"
proof -
  have cell: "close_cell k i (dm_data d i k) j d = d" if "dm_data d i k < DBM_INF" for k i j
  proof (cases "dm_data d k j < DBM_INF")
    case True
    then have "dm_data d i j \<le> dm_data d i k + dm_data d k j" using m(1) that by (simp add: triangle_def)
    moreover have "clamped_add (dm_data d i k) (dm_data d k j) = dm_data d i k + dm_data d k j"
      using m(2,3) that True by (intro clamped_add_small [of b]) (simp_all add: small_cells_def)
    ultimately show ?thesis by (simp add: close_cell_def Let_def)
  qed (simp add: close_cell_def Let_def)
  have "fold (close_cell k i (dm_data d i k)) js d = d" if "dm_data d i k < DBM_INF" for k i js
    by (induction js) (simp_all add: cell [OF that])
  then have row: "close_row k i d = d" for k i by (simp add: close_row_def Let_def)
  have "fold (close_row k) is d = d" for k "is" by (induction "is") (simp_all add: row)
  then have via: "close_via k d = d" for k by (simp add: close_via_def)
  have "fold close_via ks d = d" for ks by (induction ks) (simp_all add: via)
  then show ?thesis by (simp add: close_dbm_def)
qed

section \<open>Properties\<close>

text \<open>C37. Closing decides the constraints. It has the same solutions as the matrix it starts from. While the finite cells are at most
  \<open>2^43\<close> in magnitude and the diagonal is not positive, the diagonal of the result is free of negative cells exactly if there is an
  assignment of integers to the registers, with 0 for \<open>Zero\<close>, that satisfies every constraint; and then the result satisfies the
  triangle inequality and closing it again changes nothing.\<close>

theorem close_decides:
  assumes "small_cells exact_bound (dm_data d)" and "\<And>i. dm_data d i i \<le> 0"
  shows "((\<forall>i. 0 \<le> dm_data (close_dbm d) i i) \<longleftrightarrow> (\<exists>x. x RZero = 0 \<and> cells_hold x d)) \<and>
    (\<forall>x. cells_hold x (close_dbm d) \<longleftrightarrow> cells_hold x d) \<and>
    ((\<forall>i. 0 \<le> dm_data (close_dbm d) i i) \<longrightarrow>
      triangle UNIV (dm_data (close_dbm d)) \<and> close_dbm (close_dbm d) = close_dbm d)"
proof (intro conjI impI iffI allI)
  have diag: "dm_data (close_dbm d) i i \<le> 0" for i
    using close_below [of d] assms(2) [of i] unfolding below_def by (meson order_trans)
  assume pos: "\<forall>i. 0 \<le> dm_data (close_dbm d) i i"
  note closed = close_triangle [OF assms(1) pos [rule_format]]
  show "triangle UNIV (dm_data (close_dbm d))" by (rule closed)
  show "close_dbm (close_dbm d) = close_dbm d" by (rule close_closed [OF closed]) simp
  have fin: "dm_data (close_dbm d) i i < DBM_INF" for i using diag [of i] by simp
  obtain x :: "reg \<Rightarrow> int" where x: "x RZero = 0" "\<And>i j. dm_data (close_dbm d) i j < DBM_INF \<Longrightarrow> x i - x j \<le> dm_data (close_dbm d) i j"
    by (rule closed_solution [OF closed _ fin]) auto
  then have "cells_hold x (close_dbm d)" by (simp add: cells_hold_def)
  with x(1) close_solutions show "\<exists>x. x RZero = 0 \<and> cells_hold x d" by blast
next
  fix i assume "\<exists>x. x RZero = 0 \<and> cells_hold x d"
  then obtain x where "cells_hold x (close_dbm d)" using close_holds by blast
  from cells_holdD [OF this, of i i] show "0 \<le> dm_data (close_dbm d) i i" by fastforce
qed (simp_all add: close_solutions)

text \<open>\<open>r1 - r2 <= 5, r2 <= 3\<close> has a solution; \<open>r1 - r2 <= -1, r2 - r1 <= 0\<close> has none.\<close>

definition sat_dbm :: dbm where
  "sat_dbm = add_dbm_constraint R1 R2 5 (add_dbm_constraint R2 RZero 3 new_dbm)"

definition unsat_dbm :: dbm where
  "unsat_dbm = add_dbm_constraint R1 R2 (- 1) (add_dbm_constraint R2 R1 0 new_dbm)"

lemma sat_dbm_data: "dm_data sat_dbm i j = (if i = R1 \<and> j = R2 then 5 else if i = R2 \<and> j = RZero then 3 else if i = j then 0 else DBM_INF)"
  by (auto simp: sat_dbm_def add_dbm_constraint_def Let_def clamp_upper_bound_def new_dbm_def dbm_data)

lemma unsat_dbm_data: "dm_data unsat_dbm i j = (if i = R1 \<and> j = R2 then - 1 else if i = R2 \<and> j = R1 then 0 else if i = j then 0 else DBM_INF)"
  by (auto simp: unsat_dbm_def add_dbm_constraint_def Let_def clamp_upper_bound_def new_dbm_def dbm_data)

theorem close_decides_witness:
  "(\<forall>i. 0 \<le> dm_data (close_dbm sat_dbm) i i) \<and> close_dbm (close_dbm sat_dbm) = close_dbm sat_dbm \<and>
   (\<exists>i. dm_data (close_dbm unsat_dbm) i i < 0)"
proof -
  have "small_cells exact_bound (dm_data sat_dbm)" "\<And>i. dm_data sat_dbm i i \<le> 0" "cells_hold (\<lambda>_. 0) sat_dbm"
    by (auto simp: small_cells_def cells_hold_def sat_dbm_data split: if_splits)
  moreover have "\<exists>x. x RZero = 0 \<and> cells_hold x sat_dbm" by (rule exI [of _ "\<lambda>_. 0"]) (simp add: calculation)
  ultimately have s: "(\<forall>i. 0 \<le> dm_data (close_dbm sat_dbm) i i) \<and> close_dbm (close_dbm sat_dbm) = close_dbm sat_dbm"
    using close_decides [of sat_dbm] by blast
  have "small_cells exact_bound (dm_data unsat_dbm)" "\<And>i. dm_data unsat_dbm i i \<le> 0"
    by (auto simp: small_cells_def unsat_dbm_data split: if_splits)
  note u = close_decides [OF this]
  have "\<not> cells_hold x unsat_dbm" for x
    using cells_holdD [of x unsat_dbm R1 R2] cells_holdD [of x unsat_dbm R2 R1] by (auto simp: unsat_dbm_data)
  with u have "\<not> (\<forall>i. 0 \<le> dm_data (close_dbm unsat_dbm) i i)" by blast
  then show ?thesis using s by (meson not_le)
qed

end
