(* ===== verification/Zone_Ops.thy ===== *)
theory Zone_Ops
  imports Zone_Dbm
begin

text \<open>
  The operations of the zone domain, \<open>domains/zone/ops.rs\<close>, and the widening of \<open>dbm.rs\<close>, which needs one of them. The
  names carry the prefix \<open>zone_\<close>, the module they are called through.

  A valuation gives the registers and the packet anchors 64-bit words, read as signed numbers by the matrix.
  \<open>zone_holds v d\<close> says that it satisfies the matrix and the bounds. Shown here: the queries and every operation that
  writes a register or assumes a condition are sound, as long as sums and products do not wrap around; an access that is
  accepted lies in its region after any sequence of operations. Where sums wrap around, the bounds that saturate are wrong.
\<close>

section \<open>Queries\<close>

definition zone_get_interval :: "reg \<Rightarrow> dbm \<Rightarrow> int \<times> int" where
  "zone_get_interval x d =
     (let ub = dm_data d x RZero; lb_neg = dm_data d RZero x in
      (if lb_neg \<ge> DBM_INF then i64_min else neg_i64 lb_neg, if ub \<ge> DBM_INF then i64_max else ub))"

definition zone_get_distance_interval :: "reg \<Rightarrow> reg \<Rightarrow> dbm \<Rightarrow> int \<times> int" where
  "zone_get_distance_interval x y d =
     (let x_minus_y = dm_data d x y; y_minus_x = dm_data d y x in
      (if y_minus_x \<ge> DBM_INF then i64_min else neg_i64 y_minus_x, if x_minus_y \<ge> DBM_INF then i64_max else x_minus_y))"

definition fixed_of :: "int \<times> int \<Rightarrow> int option" where
  "fixed_of r = (case r of (lo, hi) \<Rightarrow> if lo = hi \<and> lo \<noteq> i64_min \<and> lo \<noteq> i64_max then Some lo else None)"

definition zone_get_distance_fixed :: "reg \<Rightarrow> reg \<Rightarrow> dbm \<Rightarrow> int option" where
  "zone_get_distance_fixed x y d = fixed_of (zone_get_distance_interval x y d)"

definition zone_get_fixed_value :: "reg \<Rightarrow> dbm \<Rightarrow> int option" where
  "zone_get_fixed_value x d = fixed_of (zone_get_interval x d)"

definition zone_proven_zero :: "reg \<Rightarrow> dbm \<Rightarrow> bool" where
  "zone_proven_zero x d \<longleftrightarrow> (case zone_get_interval x d of (l, u) \<Rightarrow> l = u \<and> l = 0)"

definition zone_proven_nonnegative :: "reg \<Rightarrow> dbm \<Rightarrow> bool" where
  "zone_proven_nonnegative x d \<longleftrightarrow> fst (zone_get_interval x d) \<ge> 0"

definition zone_proven_positive :: "reg \<Rightarrow> dbm \<Rightarrow> bool" where
  "zone_proven_positive x d \<longleftrightarrow> fst (zone_get_interval x d) > 0"

definition zone_proven_u32_range :: "reg \<Rightarrow> reg \<Rightarrow> dbm \<Rightarrow> bool" where
  "zone_proven_u32_range v zero d \<longleftrightarrow> dm_data d v zero \<le> 0xffffffff \<and> dm_data d zero v \<le> 0"

section \<open>Synchronisation with the bounds\<close>

text \<open>Casts between the integer types of the bounds.\<close>

abbreviation as_u64 :: "int \<Rightarrow> int" where "as_u64 x \<equiv> x mod 18446744073709551616"
abbreviation as_u32 :: "int \<Rightarrow> int" where "as_u32 x \<equiv> x mod 4294967296"
abbreviation as_i64 :: "int \<Rightarrow> int" where "as_i64 x \<equiv> wrap_i64 x"
abbreviation as_i32 :: "int \<Rightarrow> int" where "as_i32 x \<equiv> (x + 2147483648) mod 4294967296 - 2147483648"

abbreviation zb_tighten_s64 :: "int \<Rightarrow> int \<Rightarrow> zone_bounds \<Rightarrow> zone_bounds" where
  "zb_tighten_s64 lo hi b \<equiv> b\<lparr>zb_s64_min := max (zb_s64_min b) lo, zb_s64_max := min (zb_s64_max b) hi\<rparr>"
abbreviation zb_tighten_u64 :: "int \<Rightarrow> int \<Rightarrow> zone_bounds \<Rightarrow> zone_bounds" where
  "zb_tighten_u64 lo hi b \<equiv> b\<lparr>zb_u64_min := max (zb_u64_min b) lo, zb_u64_max := min (zb_u64_max b) hi\<rparr>"
abbreviation zb_tighten_s32 :: "int \<Rightarrow> int \<Rightarrow> zone_bounds \<Rightarrow> zone_bounds" where
  "zb_tighten_s32 lo hi b \<equiv> b\<lparr>zb_s32_min := max (zb_s32_min b) lo, zb_s32_max := min (zb_s32_max b) hi\<rparr>"
abbreviation zb_tighten_u32 :: "int \<Rightarrow> int \<Rightarrow> zone_bounds \<Rightarrow> zone_bounds" where
  "zb_tighten_u32 lo hi b \<equiv> b\<lparr>zb_u32_min := max (zb_u32_min b) lo, zb_u32_max := min (zb_u32_max b) hi\<rparr>"

text \<open>The deductions of step 2, in their order: between the signed and the unsigned 64-bit range, the same for 32 bits,
  from 64 to 32 bits, and back.\<close>

definition cross_64 :: "zone_bounds \<Rightarrow> zone_bounds" where
  "cross_64 b =
     (let b = (if zb_s64_min b \<ge> 0 then zb_tighten_u64 (as_u64 (zb_s64_min b)) (as_u64 (zb_s64_max b)) b else b)
      in if zb_u64_max b \<le> i64_max then zb_tighten_s64 (as_i64 (zb_u64_min b)) (as_i64 (zb_u64_max b)) b else b)"

definition cross_32 :: "zone_bounds \<Rightarrow> zone_bounds" where
  "cross_32 b =
     (let b = (if zb_s32_min b \<ge> 0 then zb_tighten_u32 (as_u32 (zb_s32_min b)) (as_u32 (zb_s32_max b)) b else b)
      in if zb_u32_max b \<le> 2147483647 then zb_tighten_s32 (as_i32 (zb_u32_min b)) (as_i32 (zb_u32_max b)) b else b)"

definition narrow_to_32 :: "zone_bounds \<Rightarrow> zone_bounds" where
  "narrow_to_32 b =
     (let b = (if zb_s64_min b \<ge> - 2147483648 \<and> zb_s64_max b \<le> 2147483647
               then zb_tighten_s32 (as_i32 (zb_s64_min b)) (as_i32 (zb_s64_max b)) b else b)
      in if zb_u64_max b \<le> 4294967295 then zb_tighten_u32 (as_u32 (zb_u64_min b)) (as_u32 (zb_u64_max b)) b else b)"

definition widen_to_64 :: "zone_bounds \<Rightarrow> zone_bounds" where
  "widen_to_64 b =
     (if zb_u64_max b \<le> 4294967295 then
        let b = zb_tighten_u64 (as_u64 (zb_u32_min b)) (as_u64 (zb_u32_max b)) b
        in zb_tighten_s64 (as_i64 (zb_u64_min b)) (as_i64 (zb_u64_max b)) b
      else b)"

definition import_cells :: "int \<Rightarrow> int \<Rightarrow> zone_bounds \<Rightarrow> zone_bounds" where
  "import_cells dbm_max dbm_min_neg b =
     (let b = (if dbm_max < DBM_INF then b\<lparr>zb_s64_max := min (zb_s64_max b) dbm_max\<rparr> else b)
      in if dbm_min_neg < DBM_INF then b\<lparr>zb_s64_min := max (zb_s64_min b) (neg_i64 dbm_min_neg)\<rparr> else b)"

definition zone_sync_bounds :: "reg \<Rightarrow> dbm \<Rightarrow> dbm" where
  "zone_sync_bounds x d =
     (if fixed_reg x then d
      else
        let b = import_cells (dm_data d x RZero) (dm_data d RZero x) (dm_bounds d x);
            b = widen_to_64 (narrow_to_32 (cross_32 (cross_64 b)));
            d = d\<lparr>dm_bounds := (dm_bounds d)(x := b)\<rparr>;
            d = (if zb_s64_max b < i64_max then add_dbm_constraint x RZero (zb_s64_max b) d else d)
        in if zb_s64_min b > i64_min then add_dbm_constraint RZero x (- zb_s64_min b) d else d)"

section \<open>Assumptions\<close>

definition zone_assume_le :: "reg \<Rightarrow> reg \<Rightarrow> dbm \<Rightarrow> dbm" where
  "zone_assume_le x y d = close_dbm (add_dbm_constraint x y 0 d)"

definition zone_assume_ge :: "reg \<Rightarrow> reg \<Rightarrow> dbm \<Rightarrow> dbm" where
  "zone_assume_ge x y d = close_dbm (add_dbm_constraint y x 0 d)"

definition zone_assume_gt :: "reg \<Rightarrow> reg \<Rightarrow> dbm \<Rightarrow> dbm" where
  "zone_assume_gt x y d = close_dbm (add_dbm_constraint y x (- 1) d)"

definition zone_assume_le_offset :: "reg \<Rightarrow> reg \<Rightarrow> int \<Rightarrow> dbm \<Rightarrow> dbm" where
  "zone_assume_le_offset x y c d = close_dbm (add_dbm_constraint x y c d)"

definition zone_assume_le_imm :: "reg \<Rightarrow> int \<Rightarrow> dbm \<Rightarrow> dbm" where
  "zone_assume_le_imm x c d =
     (if c = i64_max \<or> c \<ge> DBM_INF then d
      else zone_sync_bounds x (close_dbm (add_dbm_constraint x RZero c d)))"

definition zone_assume_ge_imm :: "reg \<Rightarrow> int \<Rightarrow> dbm \<Rightarrow> dbm" where
  "zone_assume_ge_imm x c d =
     (if c = i64_min then d
      else zone_sync_bounds x (close_dbm (add_dbm_constraint RZero x (- c) d)))"

definition zone_assume_range :: "reg \<Rightarrow> int \<Rightarrow> int \<Rightarrow> dbm \<Rightarrow> dbm" where
  "zone_assume_range x lo hi d = zone_assume_le_imm x hi (zone_assume_ge_imm x lo d)"

definition zone_assume_eq_imm :: "reg \<Rightarrow> int \<Rightarrow> dbm \<Rightarrow> dbm" where
  "zone_assume_eq_imm x c d =
     (let d = add_dbm_constraint x RZero c d;
          d = (if c > i64_min then add_dbm_constraint RZero x (- c) d else d)
      in zone_sync_bounds x (close_dbm d))"

definition zone_assume_lt_imm :: "reg \<Rightarrow> int \<Rightarrow> dbm \<Rightarrow> dbm" where
  "zone_assume_lt_imm x c d =
     (if c = i64_min then dset R0 R0 (- 1) d
      else if c = i64_max \<or> c \<ge> DBM_INF then d
      else zone_sync_bounds x (close_dbm (add_dbm_constraint x RZero (c - 1) d)))"

section \<open>Assignments\<close>

definition zone_forget :: "reg \<Rightarrow> dbm \<Rightarrow> dbm" where
  "zone_forget x d = close_dbm (forget_var x d)"

definition zone_assign_imm :: "reg \<Rightarrow> int \<Rightarrow> dbm \<Rightarrow> dbm" where
  "zone_assign_imm x imm d =
     (let d = add_dbm_constraint x RZero imm (forget_var x d);
          d = (if imm > i64_min then add_dbm_constraint RZero x (- imm) d else d);
          d = d\<lparr>dm_bounds := (dm_bounds d)(x := (dm_bounds d x)\<lparr>zb_s64_min := imm, zb_s64_max := imm\<rparr>)\<rparr>
      in zone_sync_bounds x (close_dbm d))"

definition zone_assign_zero :: "reg \<Rightarrow> dbm \<Rightarrow> dbm" where
  "zone_assign_zero x d = zone_assign_imm x 0 d"

definition zone_assign_reg :: "reg \<Rightarrow> reg \<Rightarrow> dbm \<Rightarrow> dbm" where
  "zone_assign_reg x y d = close_dbm (add_dbm_constraint y x 0 (add_dbm_constraint x y 0 (forget_var x d)))"

definition zone_intersect_eq_reg :: "reg \<Rightarrow> reg \<Rightarrow> dbm \<Rightarrow> dbm" where
  "zone_intersect_eq_reg x y d =
     zone_sync_bounds y (zone_sync_bounds x (close_dbm (add_dbm_constraint y x 0 (add_dbm_constraint x y 0 d))))"

definition zone_assign_reg_offset :: "reg \<Rightarrow> reg \<Rightarrow> int \<Rightarrow> dbm \<Rightarrow> dbm" where
  "zone_assign_reg_offset dst src imm d =
     (let d = add_dbm_constraint dst src imm (forget_var dst d)
      in close_dbm (if imm > i64_min then add_dbm_constraint src dst (- imm) d else d))"

definition zone_assign_interval :: "reg \<Rightarrow> int \<Rightarrow> int \<Rightarrow> dbm \<Rightarrow> dbm" where
  "zone_assign_interval r lo hi d = close_dbm (zone_assume_range r lo hi (forget_var r d))"

section \<open>Arithmetic\<close>

text \<open>Moves the signed 64-bit bounds of a register and forgets the others.\<close>

definition shift_bounds :: "(int \<Rightarrow> int) \<Rightarrow> (int \<Rightarrow> int) \<Rightarrow> reg \<Rightarrow> dbm \<Rightarrow> dbm" where
  "shift_bounds lo hi x d = d\<lparr>dm_bounds := (dm_bounds d)(x :=
     zone_bounds_unknown\<lparr>zb_s64_min := sat_i64 (lo (zb_s64_min (dm_bounds d x))),
                         zb_s64_max := sat_i64 (hi (zb_s64_max (dm_bounds d x)))\<rparr>)\<rparr>"

text \<open>Replaces a finite cell.\<close>

definition upd_finite :: "reg \<Rightarrow> reg \<Rightarrow> (int \<Rightarrow> int) \<Rightarrow> dbm \<Rightarrow> dbm" where
  "upd_finite i j f d = (if dm_data d i j < DBM_INF then dset i j (f (dm_data d i j)) d else d)"

text \<open>The body of the loops of \<open>apply_add_reg\<close> and \<open>apply_sub_reg\<close>: the two cells of \<open>x\<close> and \<open>j\<close>.\<close>

definition shift_pair :: "reg \<Rightarrow> (int \<Rightarrow> int) \<Rightarrow> (int \<Rightarrow> int) \<Rightarrow> reg \<Rightarrow> dbm \<Rightarrow> dbm" where
  "shift_pair x f g j d = (if j = x then d else upd_finite j x g (upd_finite x j f d))"

definition zone_add_imm :: "reg \<Rightarrow> int \<Rightarrow> dbm \<Rightarrow> dbm" where
  "zone_add_imm x c d =
     (let d = fold (\<lambda>j. upd_finite x j (\<lambda>old. sat_i64 (old + c))) dbm_regs d;
          d = fold (\<lambda>i. upd_finite i x (\<lambda>old. sat_i64 (old - c))) dbm_regs d;
          d = dset x x 0 d;
          d = shift_bounds (\<lambda>lo. lo + c) (\<lambda>hi. hi + c) x d
      in close_dbm d)"

definition zone_apply_add_imm :: "reg \<Rightarrow> int \<Rightarrow> dbm \<Rightarrow> dbm" where
  "zone_apply_add_imm dst imm d = zone_add_imm dst imm d"

definition zone_apply_add_reg :: "reg \<Rightarrow> reg \<Rightarrow> dbm \<Rightarrow> dbm" where
  "zone_apply_add_reg dst src d =
     (case zone_get_interval src d of (src_lo, src_hi) \<Rightarrow>
        if src_lo \<noteq> i64_min \<and> src_hi \<noteq> i64_max then
          let d = fold (shift_pair dst (\<lambda>old. clamped_add old src_hi) (\<lambda>old. sat_i64 (old - src_lo))) dbm_regs d;
              d = stamp_provenance_for_var dst (dset dst dst 0 d);
              d = shift_bounds (\<lambda>lo. lo + src_lo) (\<lambda>hi. hi + src_hi) dst d
          in close_dbm d
        else
          case zone_get_interval dst d of (dst_lo, dst_hi) \<Rightarrow>
            let d = forget_var dst d;
                d = (if dst_lo \<noteq> i64_min \<and> src_lo \<noteq> i64_min
                     then zone_assume_ge_imm dst (sat_i64 (dst_lo + src_lo)) d else d);
                d = (if dst_hi \<noteq> i64_max \<and> src_hi \<noteq> i64_max
                     then zone_assume_le_imm dst (sat_i64 (dst_hi + src_hi)) d else d)
            in close_dbm d)"

definition zone_apply_sub_reg :: "reg \<Rightarrow> reg \<Rightarrow> dbm \<Rightarrow> dbm" where
  "zone_apply_sub_reg dst src d =
     (case zone_get_interval src d of (src_lo, src_hi) \<Rightarrow>
        if src_lo \<noteq> i64_min \<and> src_hi \<noteq> i64_max then
          let d = fold (shift_pair dst (\<lambda>old. sat_i64 (old - src_lo)) (\<lambda>old. clamped_add old src_hi)) dbm_regs d;
              d = dset dst dst 0 d;
              d = shift_bounds (\<lambda>lo. lo - src_hi) (\<lambda>hi. hi - src_lo) dst d
          in close_dbm d
        else
          case zone_get_interval dst d of (dst_lo, dst_hi) \<Rightarrow>
            let d = forget_var dst d;
                d = (if dst_lo \<noteq> i64_min \<and> src_hi \<noteq> i64_max
                     then zone_assume_ge_imm dst (sat_i64 (dst_lo - src_hi)) d else d);
                d = (if dst_hi \<noteq> i64_max \<and> src_lo \<noteq> i64_min
                     then zone_assume_le_imm dst (sat_i64 (dst_hi - src_lo)) d else d)
            in close_dbm d)"

definition zone_apply_and_imm :: "reg \<Rightarrow> int \<Rightarrow> dbm \<Rightarrow> dbm" where
  "zone_apply_and_imm dst mk d =
     close_dbm (add_dbm_constraint RZero dst 0 (add_dbm_constraint dst RZero mk (forget_var dst d)))"

definition zone_apply_mul_imm :: "reg \<Rightarrow> int \<Rightarrow> dbm \<Rightarrow> dbm" where
  "zone_apply_mul_imm dst imm d =
     (if imm = 0 then zone_assign_zero dst d
      else if imm = 1 then d
      else if imm < 0 then zone_forget dst d
      else
        case zone_get_interval dst d of (ld, ud) \<Rightarrow>
          let d = forget_var dst d;
              d = (if ld \<noteq> i64_min then zone_assume_ge_imm dst (sat_i64 (ld * imm)) d else d);
              d = (if ud \<noteq> i64_max then zone_assume_le_imm dst (sat_i64 (ud * imm)) d else d)
          in close_dbm d)"

definition zone_apply_div_imm :: "reg \<Rightarrow> int \<Rightarrow> dbm \<Rightarrow> dbm" where
  "zone_apply_div_imm r imm d =
     (if imm = 0 then d
      else
        case zone_get_interval r d of (l, h) \<Rightarrow>
          let d = zone_forget r d in
          if imm > 0 \<and> l \<noteq> i64_min \<and> h \<noteq> i64_max \<and> l \<ge> 0 \<and> h \<ge> 0
          then zone_assume_le_imm r (h div imm) (zone_assume_ge_imm r (l div imm) d) else d)"

definition zone_apply_div_reg :: "reg \<Rightarrow> reg \<Rightarrow> dbm \<Rightarrow> dbm" where
  "zone_apply_div_reg dst src d = zone_forget dst d"

definition zone_apply_neg :: "reg \<Rightarrow> dbm \<Rightarrow> dbm" where
  "zone_apply_neg r d =
     (case zone_get_interval r d of (l, h) \<Rightarrow>
        let d = zone_forget r d in
        if l \<noteq> i64_min \<and> h \<noteq> i64_max
        then zone_assume_le_imm r (neg_i64 l) (zone_assume_ge_imm r (neg_i64 h) d) else d)"

section \<open>Packets\<close>

definition zone_init_packet_anchors :: "dbm \<Rightarrow> dbm" where
  "zone_init_packet_anchors d =
     close_dbm (add_dbm_constraint AnchorData AnchorDataEnd 0 (add_dbm_constraint AnchorDataMeta AnchorData 0 d))"

definition zone_bind_to_anchor :: "reg \<Rightarrow> reg \<Rightarrow> dbm \<Rightarrow> dbm" where
  "zone_bind_to_anchor r anchor d = close_dbm (add_dbm_constraint anchor r 0 (add_dbm_constraint r anchor 0 d))"

definition zone_check_region_access :: "reg \<Rightarrow> int \<Rightarrow> int \<Rightarrow> reg \<Rightarrow> reg \<Rightarrow> dbm \<Rightarrow> bool \<times> bool" where
  "zone_check_region_access base off sz anchor_start anchor_end d =
     (let start_bound = dm_data d anchor_start base;
          start_safe = (start_bound < DBM_INF \<and> start_bound \<le> off);
          end_bound = dm_data d base anchor_end;
          end_safe = (end_bound < DBM_INF \<and> wrap_i64 (wrap_i64 (end_bound + off) + sz) \<le> 0)
      in (start_safe, end_safe))"

definition zone_verify_packet_meta_bounds :: "reg \<Rightarrow> int \<Rightarrow> int \<Rightarrow> dbm \<Rightarrow> bool \<times> bool" where
  "zone_verify_packet_meta_bounds base off sz d = zone_check_region_access base off sz AnchorDataMeta AnchorData d"

definition zone_verify_packet_bounds :: "reg \<Rightarrow> int \<Rightarrow> int \<Rightarrow> dbm \<Rightarrow> bool \<times> bool" where
  "zone_verify_packet_bounds base off sz d = zone_check_region_access base off sz AnchorData AnchorDataEnd d"

definition reset_anchor :: "reg \<Rightarrow> dbm \<Rightarrow> dbm" where
  "reset_anchor a d =
     fold (\<lambda>j d. if a = j then dset a j 0 d else dset j a DBM_INF (dset a j DBM_INF d)) dbm_regs d"

definition zone_reset_packet_anchors :: "dbm \<Rightarrow> dbm" where
  "zone_reset_packet_anchors d =
     zone_init_packet_anchors (fold reset_anchor [AnchorDataMeta, AnchorData, AnchorDataEnd] d)"

definition zone_preserve_anchor_constraints :: "dbm \<Rightarrow> dbm \<Rightarrow> dbm" where
  "zone_preserve_anchor_constraints caller callee =
     close_dbm (fold (\<lambda>(a, b) d.
       if a = b then d
       else if dm_data callee a b < dm_data d a b then add_dbm_constraint a b (dm_data callee a b) d
       else d)
       (List.product [AnchorData, AnchorDataEnd, AnchorDataMeta] [AnchorData, AnchorDataEnd, AnchorDataMeta]) caller)"

section \<open>Widening\<close>

definition sync_real :: "dbm \<Rightarrow> dbm" where
  "sync_real d = fold (\<lambda>r d. if r \<noteq> RZero \<and> \<not> is_anchor r then zone_sync_bounds r d else d) real_regs d"

definition widen_bounds :: "zone_bounds \<Rightarrow> zone_bounds \<Rightarrow> zone_bounds" where
  "widen_bounds a b =
     \<lparr>zb_s32_min = (if zb_s32_min b < zb_s32_min a then - 2147483648 else zb_s32_min a),
      zb_s32_max = (if zb_s32_max b > zb_s32_max a then 2147483647 else zb_s32_max a),
      zb_u32_min = (if zb_u32_min b < zb_u32_min a then 0 else zb_u32_min a),
      zb_u32_max = (if zb_u32_max b > zb_u32_max a then 4294967295 else zb_u32_max a),
      zb_s64_min = (if zb_s64_min b < zb_s64_min a then i64_min else zb_s64_min a),
      zb_s64_max = (if zb_s64_max b > zb_s64_max a then i64_max else zb_s64_max a),
      zb_u64_min = (if zb_u64_min b < zb_u64_min a then 0 else zb_u64_min a),
      zb_u64_max = (if zb_u64_max b > zb_u64_max a then 18446744073709551615 else zb_u64_max a)\<rparr>"

definition zone_widen :: "dbm \<Rightarrow> dbm \<Rightarrow> dbm" where
  "zone_widen d newer =
     \<lparr>dm_data = (\<lambda>i j. if dm_data newer i j > dm_data d i j then DBM_INF else dm_data d i j),
      dm_bounds = (\<lambda>i. widen_bounds (dm_bounds (sync_real d) i) (dm_bounds (sync_real newer) i)),
      dm_prov = None\<rparr>"

section \<open>Valuations\<close>

text \<open>A value within the eight bounds, which are themselves within their types.\<close>

definition zb_holds :: "u64 \<Rightarrow> zone_bounds \<Rightarrow> bool" where
  "zb_holds w b \<longleftrightarrow>
     i64_min \<le> zb_s64_min b \<and> zb_s64_min b \<le> sint w \<and> sint w \<le> zb_s64_max b \<and> zb_s64_max b \<le> i64_max \<and>
     0 \<le> zb_u64_min b \<and> zb_u64_min b \<le> uint w \<and> uint w \<le> zb_u64_max b \<and> zb_u64_max b \<le> 18446744073709551615 \<and>
     - 2147483648 \<le> zb_s32_min b \<and> zb_s32_min b \<le> sint (ucast w :: u32) \<and>
     sint (ucast w :: u32) \<le> zb_s32_max b \<and> zb_s32_max b \<le> 2147483647 \<and>
     0 \<le> zb_u32_min b \<and> zb_u32_min b \<le> uint (ucast w :: u32) \<and>
     uint (ucast w :: u32) \<le> zb_u32_max b \<and> zb_u32_max b \<le> 4294967295"

definition zone_holds :: "(reg \<Rightarrow> u64) \<Rightarrow> dbm \<Rightarrow> bool" where
  "zone_holds v d \<longleftrightarrow>
     v RZero = 0 \<and> cells_hold (\<lambda>r. sint (v r)) d \<and> (\<forall>r. zb_holds (v r) (dm_bounds d r)) \<and>
     (\<forall>r. is_anchor r \<longrightarrow> dm_bounds d r = zone_bounds_unknown)"

text \<open>The four views of a word.\<close>

lemma sint_range: "i64_min \<le> sint (w :: u64)" "sint (w :: u64) \<le> i64_max"
  using sint_ge [of w] sint_lt [of w] by simp_all

lemma uint_range: "0 \<le> uint (w :: u64)" "uint (w :: u64) \<le> 18446744073709551615"
  using uint_lt2p [of w] by simp_all

lemma uint32_range: "0 \<le> uint (w :: u32)" "uint (w :: u32) \<le> 4294967295"
  using uint_lt2p [of w] by simp_all

lemma sint32_range: "- 2147483648 \<le> sint (w :: u32)" "sint (w :: u32) \<le> 2147483647"
  using sint_ge [of w] sint_lt [of w] by simp_all

lemma uint_of_sint: "uint (w :: u64) = (if 0 \<le> sint w then sint w else sint w + 18446744073709551616)"
  using uint_range [of w] by (simp add: sint_u64)

lemma sint_of_uint32: "sint (w :: u32) = (if uint w \<le> 2147483647 then uint w else uint w - 4294967296)"
  by (simp add: sint_u32)

lemma uint_low_half: "uint (ucast (w :: u64) :: u32) = uint w mod 4294967296"
  by (simp add: unsigned_ucast_eq take_bit_eq_mod)

lemma sint_low:
  assumes "- 2147483648 \<le> sint (w :: u64)" "sint w \<le> 2147483647"
  shows "sint (ucast w :: u32) = sint w"
proof -
  have "sint w mod 4294967296 = sint w + 4294967296" if "\<not> 0 \<le> sint w"
    using assms that mod_pos_pos_trivial [of "sint w + 4294967296" 4294967296] by (simp only: mod_add_self2)
  then have "uint (ucast w :: u32) = (if 0 \<le> sint w then sint w else sint w + 4294967296)"
    using assms uint_from_sint [of w] by (simp add: uint_low_half)
  with assms show ?thesis by (simp add: sint_of_uint32)
qed

lemma as_i64_id: "i64_min \<le> x \<Longrightarrow> x \<le> i64_max \<Longrightarrow> as_i64 x = x"
  by (simp add: wrap_i64_def)

lemma as_i32_id: "- 2147483648 \<le> x \<Longrightarrow> x \<le> 2147483647 \<Longrightarrow> as_i32 x = x"
  by simp

lemma zb_holds_unknown [simp]: "zb_holds w zone_bounds_unknown"
  using sint_range [of w] uint_range [of w] uint32_range [of "ucast w"] sint32_range [of "ucast w"]
  by (simp add: zb_holds_def zone_bounds_unknown_def)

text \<open>Bounds that a value meets can be added.\<close>

lemma zb_tighten:
  assumes "zb_holds w b"
  shows "lo \<le> sint w \<Longrightarrow> sint w \<le> hi \<Longrightarrow> zb_holds w (zb_tighten_s64 lo hi b)"
    and "lo \<le> uint w \<Longrightarrow> uint w \<le> hi \<Longrightarrow> zb_holds w (zb_tighten_u64 lo hi b)"
    and "lo \<le> sint (ucast w :: u32) \<Longrightarrow> sint (ucast w :: u32) \<le> hi \<Longrightarrow> zb_holds w (zb_tighten_s32 lo hi b)"
    and "lo \<le> uint (ucast w :: u32) \<Longrightarrow> uint (ucast w :: u32) \<le> hi \<Longrightarrow> zb_holds w (zb_tighten_u32 lo hi b)"
  using assms unfolding zb_holds_def by (simp_all add: le_max_iff_disj min_le_iff_disj)

lemma u64_to_s64_holds:
  assumes "zb_holds w b" "zb_u64_max b \<le> i64_max"
  shows "zb_holds w (zb_tighten_s64 (as_i64 (zb_u64_min b)) (as_i64 (zb_u64_max b)) b)"
  using assms uint_of_sint [of w] sint_range [of w] as_i64_id [of "zb_u64_min b"] as_i64_id [of "zb_u64_max b"]
  by (auto intro!: zb_tighten simp: zb_holds_def split: if_splits)

lemma cross_64_holds:
  assumes "zb_holds w b"
  shows "zb_holds w (cross_64 b)"
proof -
  have 1: "zb_holds w (if zb_s64_min b \<ge> 0 then zb_tighten_u64 (as_u64 (zb_s64_min b)) (as_u64 (zb_s64_max b)) b else b)"
  proof (cases "zb_s64_min b \<ge> 0")
    case True
    then show ?thesis using assms uint_of_sint [of w] by (auto intro!: zb_tighten simp: zb_holds_def)
  qed (simp add: assms)
  have 2: "zb_holds w (if zb_u64_max b \<le> i64_max then zb_tighten_s64 (as_i64 (zb_u64_min b)) (as_i64 (zb_u64_max b)) b else b)"
    if "zb_holds w b" for b
    using that by (simp add: u64_to_s64_holds)
  show ?thesis unfolding cross_64_def Let_def by (rule 2 [OF 1])
qed

lemma cross_32_holds:
  assumes "zb_holds w b"
  shows "zb_holds w (cross_32 b)"
proof -
  note views = sint_of_uint32 [of "ucast w"] uint32_range [of "ucast w"]
  have 1: "zb_holds w (if zb_s32_min b \<ge> 0 then zb_tighten_u32 (as_u32 (zb_s32_min b)) (as_u32 (zb_s32_max b)) b else b)"
  proof (cases "zb_s32_min b \<ge> 0")
    case True
    then show ?thesis using assms views by (auto intro!: zb_tighten simp: zb_holds_def split: if_splits)
  qed (simp add: assms)
  have 2: "zb_holds w (if zb_u32_max b \<le> 2147483647 then zb_tighten_s32 (as_i32 (zb_u32_min b)) (as_i32 (zb_u32_max b)) b else b)"
    if "zb_holds w b" for b
  proof (cases "zb_u32_max b \<le> 2147483647")
    case True
    then show ?thesis using that views by (auto intro!: zb_tighten simp: zb_holds_def split: if_splits)
  qed (simp add: that)
  show ?thesis unfolding cross_32_def Let_def by (rule 2 [OF 1])
qed

lemma narrow_to_32_holds:
  assumes "zb_holds w b"
  shows "zb_holds w (narrow_to_32 b)"
proof -
  have 1: "zb_holds w (if zb_s64_min b \<ge> - 2147483648 \<and> zb_s64_max b \<le> 2147483647
      then zb_tighten_s32 (as_i32 (zb_s64_min b)) (as_i32 (zb_s64_max b)) b else b)"
  proof (cases "zb_s64_min b \<ge> - 2147483648 \<and> zb_s64_max b \<le> 2147483647")
    case True
    then have "- 2147483648 \<le> sint w" "sint w \<le> 2147483647" using assms by (auto simp: zb_holds_def)
    then have "sint (ucast w :: u32) = sint w" by (rule sint_low)
    with True show ?thesis using assms by (auto intro!: zb_tighten simp: zb_holds_def)
  qed (use assms in auto)
  have 2: "zb_holds w (if zb_u64_max b \<le> 4294967295 then zb_tighten_u32 (as_u32 (zb_u64_min b)) (as_u32 (zb_u64_max b)) b else b)"
    if "zb_holds w b" for b
  proof (cases "zb_u64_max b \<le> 4294967295")
    case True
    then show ?thesis using that uint_low_half [of w] by (auto intro!: zb_tighten simp: zb_holds_def)
  qed (simp add: that)
  show ?thesis unfolding narrow_to_32_def Let_def by (rule 2 [OF 1])
qed

lemma widen_to_64_holds:
  assumes "zb_holds w b"
  shows "zb_holds w (widen_to_64 b)"
proof (cases "zb_u64_max b \<le> 4294967295")
  case True
  let ?b = "zb_tighten_u64 (as_u64 (zb_u32_min b)) (as_u64 (zb_u32_max b)) b"
  have u: "uint (ucast w :: u32) = uint w" using True assms uint_low_half [of w] by (simp add: zb_holds_def)
  then have b: "zb_holds w ?b" using assms by (intro zb_tighten) (simp_all add: zb_holds_def)
  have "zb_u64_max ?b \<le> i64_max" using True by simp
  from u64_to_s64_holds [OF b this]
  show ?thesis using True by (simp only: widen_to_64_def Let_def if_True)
qed (simp add: widen_to_64_def assms)

lemma import_cells_holds:
  assumes "zb_holds w b" "hi < DBM_INF \<longrightarrow> sint w \<le> hi" "lo < DBM_INF \<longrightarrow> - lo \<le> sint w"
  shows "zb_holds w (import_cells hi lo b)"
  using assms sint_range [of w]
  by (auto simp: import_cells_def Let_def zb_holds_def neg_i64_def le_max_iff_disj min_le_iff_disj)

lemma narrow_bounds_holds: "zb_holds w a \<Longrightarrow> zb_holds w b \<Longrightarrow> zb_holds w (narrow_bounds a b)"
  by (simp add: zb_holds_def narrow_bounds_def le_max_iff_disj min_le_iff_disj)

lemma empty_bounds_holds: "zb_holds w b \<Longrightarrow> \<not> empty_bounds b"
  by (auto simp: zb_holds_def empty_bounds_def)

section \<open>Preservation\<close>

named_theorems zone_keeps \<open>operations that keep a valuation\<close>

lemma zone_holds_new: "v RZero = 0 \<Longrightarrow> zone_holds v new_dbm"
  by (simp add: zone_holds_def cells_hold_def new_dbm_def)

lemma zone_holds_close [simp]: "zone_holds v (close_dbm d) = zone_holds v d"
  by (simp add: zone_holds_def close_solutions dbm_data)

lemma zone_holds_constraint [zone_keeps]:
  "zone_holds v d \<Longrightarrow> sint (v i) - sint (v j) \<le> c \<Longrightarrow> zone_holds v (add_dbm_constraint i j c d)"
  by (simp add: zone_holds_def add_dbm_constraint_holds dbm_data)

lemma zone_holds_zero: "zone_holds v d \<Longrightarrow> v RZero = 0"
  by (simp add: zone_holds_def)

lemma zone_holds_cell: "zone_holds v d \<Longrightarrow> dm_data d i j < DBM_INF \<Longrightarrow> sint (v i) - sint (v j) \<le> dm_data d i j"
  by (auto simp: zone_holds_def dest: cells_holdD)

lemma zone_holds_upper: "zone_holds v d \<Longrightarrow> dm_data d x RZero < DBM_INF \<Longrightarrow> sint (v x) \<le> dm_data d x RZero"
  using zone_holds_cell [of v d x RZero] by (simp add: zone_holds_zero)

lemma zone_holds_lower: "zone_holds v d \<Longrightarrow> dm_data d RZero x < DBM_INF \<Longrightarrow> - dm_data d RZero x \<le> sint (v x)"
  using zone_holds_cell [of v d RZero x] by (simp add: zone_holds_zero)

lemma zone_holds_le_imm:
  "zone_holds v d \<Longrightarrow> sint (v x) \<le> c \<Longrightarrow> zone_holds v (add_dbm_constraint x RZero c d)"
  by (rule zone_holds_constraint) (simp_all add: zone_holds_zero)

lemma zone_holds_ge_imm:
  "zone_holds v d \<Longrightarrow> c \<le> sint (v x) \<Longrightarrow> zone_holds v (add_dbm_constraint RZero x (- c) d)"
  by (rule zone_holds_constraint) (simp_all add: zone_holds_zero)

lemma zone_holds_bounds:
  "zone_holds v d \<Longrightarrow> \<not> fixed_reg x \<Longrightarrow> zb_holds (v x) b \<Longrightarrow> zone_holds v (d\<lparr>dm_bounds := (dm_bounds d)(x := b)\<rparr>)"
  by (auto simp: zone_holds_def cells_hold_def)

lemma zone_holds_forget:
  assumes "zone_holds v d" "\<not> fixed_reg x"
  shows "zone_holds (v(x := w)) (forget_var x d)"
  using assms by (auto simp: zone_holds_def cells_hold_def dbm_data)

lemma zone_sync_holds [zone_keeps]:
  assumes "zone_holds v d"
  shows "zone_holds v (zone_sync_bounds x d)"
proof (cases "fixed_reg x")
  case False
  define b where "b = widen_to_64 (narrow_to_32 (cross_32 (cross_64
      (import_cells (dm_data d x RZero) (dm_data d RZero x) (dm_bounds d x)))))"
  have b: "zb_holds (v x) b"
    using assms unfolding b_def
    by (intro widen_to_64_holds narrow_to_32_holds cross_32_holds cross_64_holds import_cells_holds)
      (auto simp: zone_holds_def intro: zone_holds_upper [OF assms] zone_holds_lower [OF assms])
  then have "zb_s64_min b \<le> sint (v x)" "sint (v x) \<le> zb_s64_max b" by (simp_all add: zb_holds_def)
  then show ?thesis using False zone_holds_bounds [OF assms False b]
    unfolding zone_sync_bounds_def Let_def b_def [symmetric]
    by (auto intro!: zone_holds_le_imm zone_holds_ge_imm)
qed (use assms in \<open>auto simp: zone_sync_bounds_def\<close>)

lemma zone_consistent:
  assumes "zone_holds v d"
  shows "\<not> dbm_inconsistent d"
proof -
  have "0 \<le> dm_data d i i" for i using zone_holds_cell [OF assms, of i i] by (cases "dm_data d i i < DBM_INF") simp_all
  moreover have "\<not> empty_bounds (dm_bounds d i)" for i using assms empty_bounds_holds by (auto simp: zone_holds_def)
  ultimately show ?thesis by (auto simp: dbm_inconsistent_def list_ex_iff not_less)
qed

text \<open>What the queries return.\<close>

lemma zone_get_interval_sound:
  assumes "zone_holds v d"
  shows "fst (zone_get_interval x d) \<le> sint (v x)" "sint (v x) \<le> snd (zone_get_interval x d)"
  using zone_holds_upper [OF assms, of x] zone_holds_lower [OF assms, of x] sint_range [of "v x"]
  by (auto simp: zone_get_interval_def Let_def neg_i64_def not_le)

lemma zone_get_distance_interval_sound:
  assumes "zone_holds v d" "i64_min \<le> sint (v x) - sint (v y)" "sint (v x) - sint (v y) \<le> i64_max"
  shows "fst (zone_get_distance_interval x y d) \<le> sint (v x) - sint (v y) \<and>
    sint (v x) - sint (v y) \<le> snd (zone_get_distance_interval x y d)"
  using zone_holds_cell [OF assms(1), of x y] zone_holds_cell [OF assms(1), of y x] assms(2,3)
  by (auto simp: zone_get_distance_interval_def Let_def neg_i64_def not_le)

text \<open>Rows and columns that are shifted.\<close>

lemma upd_finite_data [dbm_data]:
  "dm_data (upd_finite i j f d) a b = (if a = i \<and> b = j \<and> dm_data d i j < DBM_INF then f (dm_data d i j) else dm_data d a b)"
  "dm_bounds (upd_finite i j f d) = dm_bounds d"
  by (simp_all add: upd_finite_def dbm_data)

lemma shift_bounds_data [dbm_data]: "dm_data (shift_bounds lo hi x d) = dm_data d"
  by (simp add: shift_bounds_def)

lemma fold_upd_row:
  assumes "distinct js"
  shows "dm_data (fold (\<lambda>j. upd_finite x j f) js d) a b =
    (if a = x \<and> b \<in> set js \<and> dm_data d a b < DBM_INF then f (dm_data d a b) else dm_data d a b)"
  using assms by (induction js arbitrary: d) (auto simp: dbm_data)

lemma fold_upd_column:
  assumes "distinct js"
  shows "dm_data (fold (\<lambda>j. upd_finite j x f) js d) a b =
    (if b = x \<and> a \<in> set js \<and> dm_data d a b < DBM_INF then f (dm_data d a b) else dm_data d a b)"
  using assms by (induction js arbitrary: d) (auto simp: dbm_data)

lemma shift_pair_data:
  "dm_data (shift_pair x f g j d) a b =
    (if j \<noteq> x \<and> a = x \<and> b = j \<and> dm_data d a b < DBM_INF then f (dm_data d a b)
     else if j \<noteq> x \<and> a = j \<and> b = x \<and> dm_data d a b < DBM_INF then g (dm_data d a b)
     else dm_data d a b)"
  by (auto simp: shift_pair_def upd_finite_data)

lemma fold_shift_pair:
  assumes "distinct js"
  shows "dm_data (fold (shift_pair x f g) js d) a b =
    (if a = x \<and> b \<in> set js - {x} \<and> dm_data d a b < DBM_INF then f (dm_data d a b)
     else if b = x \<and> a \<in> set js - {x} \<and> dm_data d a b < DBM_INF then g (dm_data d a b)
     else dm_data d a b)"
  using assms
proof (induction js arbitrary: d)
  case (Cons j js)
  then have "dm_data (fold (shift_pair x f g) (j # js) d) a b =
    (let e = shift_pair x f g j d in
     if a = x \<and> b \<in> set js - {x} \<and> dm_data e a b < DBM_INF then f (dm_data e a b)
     else if b = x \<and> a \<in> set js - {x} \<and> dm_data e a b < DBM_INF then g (dm_data e a b)
     else dm_data e a b)" by (simp add: Let_def)
  with Cons.prems show ?case
    by (cases "j = x"; cases "a = x"; cases "b = x") (auto simp: Let_def shift_pair_data)
qed simp

lemma shift_pair_bounds [dbm_data]: "dm_bounds (shift_pair x f g j d) = dm_bounds d"
  by (simp add: shift_pair_def upd_finite_data)

lemma fold_upd_bounds:
  "dm_bounds (fold (\<lambda>j. upd_finite x j h) js d) = dm_bounds d"
  "dm_bounds (fold (\<lambda>j. upd_finite j x h) js d) = dm_bounds d"
  "dm_bounds (fold (shift_pair x f g) js d) = dm_bounds d"
  by (rule fold_bounds, simp add: dbm_data)+

lemma sat_i64_ge: "a \<le> y \<Longrightarrow> sat_i64 y < DBM_INF \<Longrightarrow> a \<le> sat_i64 y"
  by (simp add: sat_i64_def min_def max_def split: if_splits)

lemma clamped_add_shift: "a \<le> x + y \<Longrightarrow> clamped_add x y < DBM_INF \<Longrightarrow> a \<le> clamped_add x y"
  using clamped_add_ge by (meson order_trans)

lemma sat_i64_sint: "y \<le> sint (w :: u64) \<Longrightarrow> sat_i64 y \<le> sint w" "sint w \<le> y \<Longrightarrow> sint w \<le> sat_i64 y"
  using sint_range [of w] by (auto simp: sat_i64_def)

lemma zb_holds_shifted:
  assumes "lo \<le> sint w" "sint w \<le> hi"
  shows "zb_holds w (zone_bounds_unknown\<lparr>zb_s64_min := sat_i64 lo, zb_s64_max := sat_i64 hi\<rparr>)"
proof -
  have "i64_min \<le> sat_i64 lo" "sat_i64 hi \<le> i64_max" by (simp_all add: sat_i64_def)
  with sat_i64_sint(1) [OF assms(1)] sat_i64_sint(2) [OF assms(2)] zb_holds_unknown [of w] show ?thesis by (simp add: zb_holds_def)
qed

lemma zone_holds_shift:
  assumes h: "zone_holds v d" "\<not> fixed_reg x"
    and cells: "\<And>a b. dm_data e a b =
      (if a = x \<and> b = x then 0
       else if a = x \<and> dm_data d a b < DBM_INF then f (dm_data d a b)
       else if b = x \<and> dm_data d a b < DBM_INF then g (dm_data d a b)
       else dm_data d a b)"
    and bounds: "dm_bounds e = dm_bounds d" "\<And>a. a \<le> sint (v x) \<Longrightarrow> lo a \<le> sint w" "\<And>a. sint (v x) \<le> a \<Longrightarrow> sint w \<le> hi a"
    and f: "\<And>c y. sint (v x) - y \<le> c \<Longrightarrow> f c < DBM_INF \<Longrightarrow> sint w - y \<le> f c"
    and g: "\<And>c y. y - sint (v x) \<le> c \<Longrightarrow> g c < DBM_INF \<Longrightarrow> y - sint w \<le> g c"
  shows "zone_holds (v(x := w)) (shift_bounds lo hi x e)"
  unfolding zone_holds_def
proof (intro conjI allI)
  show "(v(x := w)) RZero = 0" using h by (auto simp: zone_holds_def)
  show "is_anchor r \<longrightarrow> dm_bounds (shift_bounds lo hi x e) r = zone_bounds_unknown" for r
    using h bounds(1) by (auto simp: zone_holds_def shift_bounds_def)
  have "zb_s64_min (dm_bounds d x) \<le> sint (v x)" "sint (v x) \<le> zb_s64_max (dm_bounds d x)"
    using h by (simp_all add: zone_holds_def zb_holds_def)
  then show "zb_holds ((v(x := w)) r) (dm_bounds (shift_bounds lo hi x e) r)" for r
    using h bounds by (simp add: zone_holds_def shift_bounds_def zb_holds_shifted)
  show "cells_hold (\<lambda>r. sint ((v(x := w)) r)) (shift_bounds lo hi x e)"
    unfolding cells_hold_def shift_bounds_data
  proof (intro allI impI)
    fix i j assume fin: "dm_data e i j < DBM_INF"
    show "sint ((v(x := w)) i) - sint ((v(x := w)) j) \<le> dm_data e i j"
      using fin zone_holds_cell [OF h(1), of i j] f [of "sint (v j)" "dm_data d i j"] g [of "sint (v i)" "dm_data d i j"]
      unfolding cells by (auto split: if_splits)
  qed
qed

section \<open>Transfer functions\<close>

text \<open>The contract of a transfer function, as for the interval domain.\<close>

locale zone_fn =
  fixes f :: "dbm \<Rightarrow> dbm" and step :: "(reg \<Rightarrow> u64) \<Rightarrow> (reg \<Rightarrow> u64) \<Rightarrow> bool"
  assumes keeps: "zone_holds v d \<Longrightarrow> step v v' \<Longrightarrow> zone_holds v' (f d)"
begin

lemma dead_path: "dbm_inconsistent (f d) \<Longrightarrow> \<not> (zone_holds v d \<and> step v v')"
  using keeps zone_consistent by blast

end

text \<open>A step that writes a register: the new value \<open>w\<close> is related to the old values.\<close>

abbreviation moves :: "reg \<Rightarrow> ((reg \<Rightarrow> u64) \<Rightarrow> u64 \<Rightarrow> bool) \<Rightarrow> (reg \<Rightarrow> u64) \<Rightarrow> (reg \<Rightarrow> u64) \<Rightarrow> bool" where
  "moves x P v v' \<equiv> \<not> fixed_reg x \<and> (\<exists>w. P v w \<and> v' = v(x := w))"

lemma zone_fn_moves:
  assumes "\<And>v d w. zone_holds v d \<Longrightarrow> \<not> fixed_reg x \<Longrightarrow> P v w \<Longrightarrow> zone_holds (v(x := w)) (f d)"
  shows "zone_fn f (moves x P)"
  using assms by unfold_locales auto

lemma zone_fn_branch:
  assumes "\<And>v d. zone_holds v d \<Longrightarrow> P v \<Longrightarrow> zone_holds v (f d)"
  shows "zone_fn f (branch P)"
  using assms by unfold_locales auto

interpretation z_le: zone_fn "zone_assume_le x y" "branch (\<lambda>v. sint (v x) \<le> sint (v y))" for x y
  by (rule zone_fn_branch) (simp add: zone_assume_le_def zone_keeps)

interpretation z_ge: zone_fn "zone_assume_ge x y" "branch (\<lambda>v. sint (v y) \<le> sint (v x))" for x y
  by (rule zone_fn_branch) (simp add: zone_assume_ge_def zone_keeps)

interpretation z_gt: zone_fn "zone_assume_gt x y" "branch (\<lambda>v. sint (v y) < sint (v x))" for x y
  by (rule zone_fn_branch) (simp add: zone_assume_gt_def zone_keeps)

interpretation z_le_offset: zone_fn "zone_assume_le_offset x y c" "branch (\<lambda>v. sint (v x) \<le> sint (v y) + c)" for x y c
  by (rule zone_fn_branch) (simp add: zone_assume_le_offset_def zone_keeps)

interpretation z_le_imm: zone_fn "zone_assume_le_imm x c" "branch (\<lambda>v. sint (v x) \<le> c)" for x c
  by (rule zone_fn_branch) (simp add: zone_assume_le_imm_def zone_keeps zone_holds_le_imm)

interpretation z_ge_imm: zone_fn "zone_assume_ge_imm x c" "branch (\<lambda>v. c \<le> sint (v x))" for x c
  by (rule zone_fn_branch) (simp add: zone_assume_ge_imm_def zone_keeps zone_holds_ge_imm)

lemma zone_holds_assume [zone_keeps]:
  "zone_holds v d \<Longrightarrow> sint (v x) \<le> c \<Longrightarrow> zone_holds v (zone_assume_le_imm x c d)"
  "zone_holds v d \<Longrightarrow> c \<le> sint (v x) \<Longrightarrow> zone_holds v (zone_assume_ge_imm x c d)"
  by (auto intro: z_le_imm.keeps z_ge_imm.keeps)

interpretation z_range: zone_fn "zone_assume_range x lo hi" "branch (\<lambda>v. lo \<le> sint (v x) \<and> sint (v x) \<le> hi)" for x lo hi
  by (rule zone_fn_branch) (simp add: zone_assume_range_def zone_keeps)

interpretation z_eq_imm: zone_fn "zone_assume_eq_imm x c" "branch (\<lambda>v. sint (v x) = c)" for x c
  by (rule zone_fn_branch) (auto simp: zone_assume_eq_imm_def Let_def intro!: zone_keeps zone_holds_le_imm zone_holds_ge_imm)

interpretation z_lt_imm: zone_fn "zone_assume_lt_imm x c" "branch (\<lambda>v. sint (v x) < c)" for x c
proof (rule zone_fn_branch)
  fix v d assume *: "zone_holds v d" "sint (v x) < c"
  then have "c \<noteq> i64_min" using sint_range [of "v x"] by auto
  with * show "zone_holds v (zone_assume_lt_imm x c d)"
    by (simp add: zone_assume_lt_imm_def zone_keeps zone_holds_le_imm)
qed

interpretation z_eq_reg: zone_fn "zone_intersect_eq_reg x y" "branch (\<lambda>v. v x = v y)" for x y
  by (rule zone_fn_branch) (simp add: zone_intersect_eq_reg_def zone_keeps)

interpretation z_bind: zone_fn "zone_bind_to_anchor r a" "branch (\<lambda>v. v r = v a)" for r a
  by (rule zone_fn_branch) (simp add: zone_bind_to_anchor_def zone_keeps)

text \<open>The packet: meta-data before data before its end.\<close>

abbreviation packet_order :: "(reg \<Rightarrow> u64) \<Rightarrow> bool" where
  "packet_order v \<equiv> sint (v AnchorDataMeta) \<le> sint (v AnchorData) \<and> sint (v AnchorData) \<le> sint (v AnchorDataEnd)"

interpretation z_init: zone_fn zone_init_packet_anchors "branch packet_order"
  by (rule zone_fn_branch) (simp add: zone_init_packet_anchors_def zone_keeps)

interpretation z_forget: zone_fn "zone_forget x" "moves x (\<lambda>v w. True)" for x
  by (rule zone_fn_moves) (simp add: zone_forget_def zone_holds_forget)

interpretation z_div_reg: zone_fn "zone_apply_div_reg x y" "moves x (\<lambda>v w. True)" for x y
  by (rule zone_fn_moves) (simp add: zone_apply_div_reg_def zone_forget_def zone_holds_forget)

interpretation z_assign_imm: zone_fn "zone_assign_imm x c" "moves x (\<lambda>v w. sint w = c)" for x c
proof (rule zone_fn_moves)
  fix v d and w :: u64 assume *: "zone_holds v d" "\<not> fixed_reg x" "sint w = c"
  let ?v = "v(x := w)" and ?e = "forget_var x d"
  let ?d = "if c > i64_min then add_dbm_constraint RZero x (- c) (add_dbm_constraint x RZero c ?e) else add_dbm_constraint x RZero c ?e"
  have "zone_holds ?v ?e" using * by (simp add: zone_holds_forget)
  then have d: "zone_holds ?v ?d" using * by (auto intro!: zone_holds_le_imm zone_holds_ge_imm)
  have "dm_bounds ?d x = zone_bounds_unknown" by (simp add: dbm_data)
  then have "zb_holds (?v x) ((dm_bounds ?d x)\<lparr>zb_s64_min := c, zb_s64_max := c\<rparr>)"
    using * zb_holds_unknown [of w] sint_range [of w] by (simp add: zb_holds_def)
  from zone_sync_holds [OF zone_holds_close [THEN iffD2, OF zone_holds_bounds [OF d *(2) this]]]
  show "zone_holds ?v (zone_assign_imm x c d)" by (simp only: zone_assign_imm_def Let_def)
qed

interpretation z_assign_reg: zone_fn "zone_assign_reg x y" "moves x (\<lambda>v w. w = v y)" for x y
  by (rule zone_fn_moves) (auto simp: zone_assign_reg_def intro!: zone_keeps zone_holds_forget)

interpretation z_assign_offset: zone_fn "zone_assign_reg_offset x y c" "moves x (\<lambda>v w. sint w = sint (v y) + c \<and> x \<noteq> y)" for x y c
  by (rule zone_fn_moves) (auto simp: zone_assign_reg_offset_def Let_def intro!: zone_keeps zone_holds_forget)

interpretation z_assign_interval: zone_fn "zone_assign_interval x lo hi" "moves x (\<lambda>v w. lo \<le> sint w \<and> sint w \<le> hi)" for x lo hi
  by (rule zone_fn_moves) (auto simp: zone_assign_interval_def zone_assume_range_def intro!: zone_keeps zone_holds_forget)

interpretation z_and_imm: zone_fn "zone_apply_and_imm x c" "moves x (\<lambda>v w. 0 \<le> c \<and> c \<le> i64_max \<and> w = v x AND word_of_int c)" for x c
proof (rule zone_fn_moves)
  fix v d and w :: u64 assume *: "zone_holds v d" "\<not> fixed_reg x" "0 \<le> c \<and> c \<le> i64_max \<and> w = v x AND word_of_int c"
  have "uint w \<le> c" using * word_and_le1 [of "v x" "word_of_int c"] by (simp add: word_le_def uint_word_of_int)
  then have "0 \<le> sint w" "sint w \<le> c" using * uint_range [of w] by (auto simp: sint_u64)
  moreover have "zone_holds (v(x := w)) (forget_var x d)" using * by (simp add: zone_holds_forget)
  ultimately show "zone_holds (v(x := w)) (zone_apply_and_imm x c d)"
    using zone_holds_ge_imm [OF zone_holds_le_imm, of "v(x := w)" "forget_var x d" x c 0 x]
    by (simp add: zone_apply_and_imm_def)
qed

interpretation z_add_imm: zone_fn "zone_apply_add_imm x c" "moves x (\<lambda>v w. sint w = sint (v x) + c)" for x c
proof (rule zone_fn_moves)
  fix v d and w :: u64 assume *: "zone_holds v d" "\<not> fixed_reg x" "sint w = sint (v x) + c"
  show "zone_holds (v(x := w)) (zone_apply_add_imm x c d)"
    unfolding zone_apply_add_imm_def zone_add_imm_def Let_def zone_holds_close
    by (rule zone_holds_shift [OF *(1), where f = "\<lambda>old. sat_i64 (old + c)" and g = "\<lambda>old. sat_i64 (old - c)"])
      (use * in \<open>auto simp: dset_data dset_bounds fold_upd_row fold_upd_column fold_upd_bounds intro!: sat_i64_ge\<close>)
qed

text \<open>Sums and differences whose second operand has a bounded interval, and the general case through the intervals.\<close>

lemma zone_add_reg_holds:
  assumes h: "zone_holds v d" and x: "\<not> fixed_reg x" and w: "sint w = sint (v x) + sint (v y)"
  shows "zone_holds (v(x := w)) (zone_apply_add_reg x y d)"
proof -
  obtain lo hi l u where i: "zone_get_interval y d = (lo, hi)" "zone_get_interval x d = (l, u)"
    by (metis surj_pair)
  with zone_get_interval_sound [OF h] have b: "lo \<le> sint (v y)" "sint (v y) \<le> hi" "l \<le> sint (v x)" "sint (v x) \<le> u"
    by (metis fst_conv snd_conv)+
  show ?thesis
  proof (cases "lo \<noteq> i64_min \<and> hi \<noteq> i64_max")
    case True
    then show ?thesis unfolding zone_apply_add_reg_def i Let_def prod.case if_P [OF True] zone_holds_close
      by (intro zone_holds_shift [OF h, where f = "\<lambda>old. clamped_add old hi" and g = "\<lambda>old. sat_i64 (old - lo)"])
        (use x w b in \<open>auto simp: stamp_provenance_data dset_data dset_bounds fold_shift_pair fold_upd_bounds
           intro!: sat_i64_ge clamped_add_shift\<close>)
  next
    case False
    have "zone_holds (v(x := w)) (forget_var x d)" using h x by (simp add: zone_holds_forget)
    then show ?thesis unfolding zone_apply_add_reg_def i Let_def prod.case if_not_P [OF False] zone_holds_close
      using b w by (auto intro!: zone_holds_assume sat_i64_sint)
  qed
qed

lemma zone_sub_reg_holds:
  assumes h: "zone_holds v d" and x: "\<not> fixed_reg x" and w: "sint w = sint (v x) - sint (v y)"
  shows "zone_holds (v(x := w)) (zone_apply_sub_reg x y d)"
proof -
  obtain lo hi l u where i: "zone_get_interval y d = (lo, hi)" "zone_get_interval x d = (l, u)"
    by (metis surj_pair)
  with zone_get_interval_sound [OF h] have b: "lo \<le> sint (v y)" "sint (v y) \<le> hi" "l \<le> sint (v x)" "sint (v x) \<le> u"
    by (metis fst_conv snd_conv)+
  show ?thesis
  proof (cases "lo \<noteq> i64_min \<and> hi \<noteq> i64_max")
    case True
    then show ?thesis unfolding zone_apply_sub_reg_def i Let_def prod.case if_P [OF True] zone_holds_close
      by (intro zone_holds_shift [OF h, where f = "\<lambda>old. sat_i64 (old - lo)" and g = "\<lambda>old. clamped_add old hi"])
        (use x w b in \<open>auto simp: dset_data dset_bounds fold_shift_pair fold_upd_bounds
           intro!: sat_i64_ge clamped_add_shift\<close>)
  next
    case False
    have "zone_holds (v(x := w)) (forget_var x d)" using h x by (simp add: zone_holds_forget)
    then show ?thesis unfolding zone_apply_sub_reg_def i Let_def prod.case if_not_P [OF False] zone_holds_close
      using b w by (auto intro!: zone_holds_assume sat_i64_sint)
  qed
qed

interpretation z_add_reg: zone_fn "zone_apply_add_reg x y" "moves x (\<lambda>v w. sint w = sint (v x) + sint (v y))" for x y
  by (rule zone_fn_moves) (rule zone_add_reg_holds)

interpretation z_sub_reg: zone_fn "zone_apply_sub_reg x y" "moves x (\<lambda>v w. sint w = sint (v x) - sint (v y))" for x y
  by (rule zone_fn_moves) (rule zone_sub_reg_holds)

interpretation z_mul_imm: zone_fn "zone_apply_mul_imm x c" "moves x (\<lambda>v w. sint w = sint (v x) * c)" for x c
proof (rule zone_fn_moves)
  fix v d and w :: u64 assume *: "zone_holds v d" "\<not> fixed_reg x" "sint w = sint (v x) * c"
  obtain l u where i: "zone_get_interval x d = (l, u)" by (metis surj_pair)
  with zone_get_interval_sound [OF *(1), of x] have b: "l \<le> sint (v x)" "sint (v x) \<le> u" by simp_all
  have f: "zone_holds (v(x := w)) (forget_var x d)" using * by (simp add: zone_holds_forget)
  consider "c = 0" | "c = 1" | "c < 0" | "c > 1" by linarith
  then show "zone_holds (v(x := w)) (zone_apply_mul_imm x c d)"
  proof cases
    case 1
    then show ?thesis using * z_assign_imm.keeps [OF *(1), of x 0 "v(x := w)"] by (auto simp: zone_apply_mul_imm_def zone_assign_zero_def)
  next
    case 2
    then have "w = v x" using *(3) by (simp add: signed_word_eqI)
    then show ?thesis using * 2 by (simp add: zone_apply_mul_imm_def)
  next
    case 3
    then show ?thesis using f by (simp add: zone_apply_mul_imm_def zone_forget_def)
  next
    case 4
    then have "l * c \<le> sint w" "sint w \<le> u * c" using *(3) b by (simp_all add: mult_right_mono)
    then show ?thesis using f 4 by (auto simp: zone_apply_mul_imm_def Let_def i intro!: zone_holds_assume sat_i64_sint)
  qed
qed

interpretation z_div_imm: zone_fn "zone_apply_div_imm x c"
  "moves x (\<lambda>v w. c \<noteq> 0 \<and> c \<le> i64_max \<and> w = v x div word_of_int c)" for x c
proof (rule zone_fn_moves)
  fix v d and w :: u64 assume *: "zone_holds v d" "\<not> fixed_reg x" "c \<noteq> 0 \<and> c \<le> i64_max \<and> w = v x div word_of_int c"
  obtain l h where i: "zone_get_interval x d = (l, h)" by (metis surj_pair)
  with zone_get_interval_sound [OF *(1), of x] have b: "l \<le> sint (v x)" "sint (v x) \<le> h" by simp_all
  have f: "zone_holds (v(x := w)) (zone_forget x d)" using * by (simp add: zone_holds_forget zone_forget_def)
  have q: "l div c \<le> sint w \<and> sint w \<le> h div c" if "c > 0" "l \<ge> 0"
  proof -
    have s: "sint (v x) = uint (v x)" using that b uint_of_sint [of "v x"] by simp
    have "uint w = uint (v x) div c" using * that by (simp add: uint_div_distrib uint_word_of_int)
    moreover have "sint (v x) div c \<le> sint (v x)" using that b zdiv_mono2 [of "sint (v x)" 1 c] by simp
    ultimately have "sint w = sint (v x) div c"
      using s sint_range [of "v x"] by (simp add: sint_u64)
    with b that show ?thesis by (simp add: zdiv_mono1)
  qed
  show "zone_holds (v(x := w)) (zone_apply_div_imm x c d)"
    using * f q by (auto simp: zone_apply_div_imm_def Let_def i intro!: zone_holds_assume)
qed

interpretation z_neg: zone_fn "zone_apply_neg x" "moves x (\<lambda>v w. w = - v x)" for x
proof (rule zone_fn_moves)
  fix v d and w :: u64 assume *: "zone_holds v d" "\<not> fixed_reg x" "w = - v x"
  obtain l h where i: "zone_get_interval x d = (l, h)" by (metis surj_pair)
  with zone_get_interval_sound [OF *(1), of x] have b: "l \<le> sint (v x)" "sint (v x) \<le> h" by simp_all
  have l: "l = i64_min \<or> i64_min < l"
    using i by (cases "dm_data d RZero x < DBM_INF"; cases "dm_data d RZero x = i64_min")
      (auto simp: zone_get_interval_def Let_def neg_i64_def not_le)
  have f: "zone_holds (v(x := w)) (zone_forget x d)" using * by (simp add: zone_holds_forget zone_forget_def)
  have n: "neg_i64 h \<le> sint w \<and> sint w \<le> neg_i64 l" if "l \<noteq> i64_min"
  proof -
    have "v x \<noteq> I64_MIN" using l that b by (auto simp: sint_u64)
    then have "sint w = - sint (v x)" using * by (simp add: sint_minus)
    with b l that sint_range [of w] show ?thesis by (auto simp: neg_i64_def)
  qed
  show "zone_holds (v(x := w)) (zone_apply_neg x d)"
    using f n by (auto simp: zone_apply_neg_def Let_def i intro!: zone_holds_assume)
qed

text \<open>New packet pointers; what a callee knows of them; narrowing and widening.\<close>

lemma reset_anchor_data:
  "dm_data (reset_anchor a d) i j = (if i = a \<or> j = a then if i = j then 0 else DBM_INF else dm_data d i j)"
  "dm_bounds (reset_anchor a d) = dm_bounds d"
proof -
  have "dm_data (fold (\<lambda>j d. if a = j then dset a j 0 d else dset j a DBM_INF (dset a j DBM_INF d)) js d) i k =
      (if i = a \<and> k \<in> set js \<or> k = a \<and> i \<in> set js then if i = k then 0 else DBM_INF else dm_data d i k)"
    if "distinct js" for js d i k
    using that by (induction js arbitrary: d) (auto simp: dset_data)
  then show "dm_data (reset_anchor a d) i j = (if i = a \<or> j = a then if i = j then 0 else DBM_INF else dm_data d i j)"
    by (simp add: reset_anchor_def)
  show "dm_bounds (reset_anchor a d) = dm_bounds d"
    unfolding reset_anchor_def by (rule fold_bounds) (simp add: dset_bounds)
qed

abbreviation same_values :: "(reg \<Rightarrow> u64) \<Rightarrow> (reg \<Rightarrow> u64) \<Rightarrow> bool" where
  "same_values v v' \<equiv> (\<forall>r. \<not> is_anchor r \<longrightarrow> v' r = v r)"

interpretation z_reset: zone_fn zone_reset_packet_anchors "\<lambda>v v'. same_values v v' \<and> packet_order v'"
proof
  fix v d v' assume h: "zone_holds v d" and s: "same_values v v' \<and> packet_order v'"
  have "zone_holds v' (fold reset_anchor [AnchorDataMeta, AnchorData, AnchorDataEnd] d)"
    unfolding zone_holds_def
  proof (intro conjI allI)
    show "v' RZero = 0" using h s by (simp add: zone_holds_def is_anchor_def)
    have b: "dm_bounds (fold reset_anchor [AnchorDataMeta, AnchorData, AnchorDataEnd] d) = dm_bounds d"
      by (simp add: reset_anchor_data)
    show "zb_holds (v' r) (dm_bounds (fold reset_anchor [AnchorDataMeta, AnchorData, AnchorDataEnd] d) r)" for r
      unfolding b using h s by (cases "is_anchor r") (auto simp: zone_holds_def)
    show "is_anchor r \<longrightarrow> dm_bounds (fold reset_anchor [AnchorDataMeta, AnchorData, AnchorDataEnd] d) r = zone_bounds_unknown" for r
      unfolding b using h by (simp add: zone_holds_def)
    show "cells_hold (\<lambda>r. sint (v' r)) (fold reset_anchor [AnchorDataMeta, AnchorData, AnchorDataEnd] d)"
      unfolding cells_hold_def
    proof (intro allI impI)
      fix i j assume fin: "dm_data (fold reset_anchor [AnchorDataMeta, AnchorData, AnchorDataEnd] d) i j < DBM_INF"
      show "sint (v' i) - sint (v' j) \<le> dm_data (fold reset_anchor [AnchorDataMeta, AnchorData, AnchorDataEnd] d) i j"
        using fin zone_holds_cell [OF h, of i j] s by (auto simp: reset_anchor_data is_anchor_def split: if_splits)
    qed
  qed
  with s show "zone_holds v' (zone_reset_packet_anchors d)"
    unfolding zone_reset_packet_anchors_def using z_init.keeps [of v'] by blast
qed

lemma zone_preserve_holds:
  assumes "zone_holds v caller" "zone_holds v' callee" "\<And>r. is_anchor r \<Longrightarrow> v r = v' r"
  shows "zone_holds v (zone_preserve_anchor_constraints caller callee)"
proof -
  have *: "zone_holds v (add_dbm_constraint a b (dm_data callee a b) d)" if "zone_holds v d" "is_anchor a" "is_anchor b" for a b d
  proof (cases "dm_data callee a b < DBM_INF")
    case True
    then show ?thesis using zone_holds_cell [OF assms(2) True] assms(3) that by (simp add: zone_holds_constraint)
  qed (simp add: add_dbm_constraint_def Let_def clamp_upper_bound_def that)
  show ?thesis unfolding zone_preserve_anchor_constraints_def zone_holds_close
    by (rule fold_invariant [where P = "zone_holds v" and Q = "\<lambda>(a, b). is_anchor a \<and> is_anchor b"])
      (auto simp: * assms(1) is_anchor_def)
qed

lemma zone_narrow_holds:
  assumes "zone_holds v d" "zone_holds v e"
  shows "zone_holds v (narrow_dbm d e)"
proof -
  have "narrow_bounds zone_bounds_unknown zone_bounds_unknown = zone_bounds_unknown"
    by (simp add: narrow_bounds_def zone_bounds_unknown_def)
  then show ?thesis using assms
    by (auto simp: zone_holds_def narrow_dbm_def cells_hold_def narrow_bounds_holds min_def)
qed

lemma widen_bounds_holds:
  assumes "zb_holds w a" "zb_holds w' b"
  shows "zb_holds w (widen_bounds a b)" "zb_holds w' (widen_bounds a b)"
  using assms zb_holds_unknown [of w] zb_holds_unknown [of w']
  by (auto simp: zb_holds_def widen_bounds_def zone_bounds_unknown_def)

lemma sync_real_holds: "zone_holds v d \<Longrightarrow> zone_holds v (sync_real d)"
  unfolding sync_real_def by (rule fold_keeps [where P = "zone_holds v"]) (auto simp: zone_sync_holds)

lemma zone_widen_holds:
  assumes "zone_holds v d" "zone_holds v' e"
  shows "zone_holds v (zone_widen d e)" "zone_holds v' (zone_widen d e)"
proof -
  note s = sync_real_holds [OF assms(1)] sync_real_holds [OF assms(2)]
  have u: "widen_bounds zone_bounds_unknown zone_bounds_unknown = zone_bounds_unknown"
    by (simp add: widen_bounds_def zone_bounds_unknown_def)
  have b: "zb_holds (v r) (widen_bounds (dm_bounds (sync_real d) r) (dm_bounds (sync_real e) r))"
      "zb_holds (v' r) (widen_bounds (dm_bounds (sync_real d) r) (dm_bounds (sync_real e) r))" for r
    using s widen_bounds_holds unfolding zone_holds_def by blast+
  have "sint (v' i) - sint (v' j) \<le> dm_data d i j" if "dm_data e i j \<le> dm_data d i j" "dm_data d i j < DBM_INF" for i j
    using zone_holds_cell [OF assms(2), of i j] that by linarith
  then show "zone_holds v (zone_widen d e)" "zone_holds v' (zone_widen d e)"
    using assms s b u by (auto simp: zone_holds_def zone_widen_def cells_hold_def)
qed

text \<open>Widening changes the matrix a bounded number of times: every change turns a finite cell into \<open>INF\<close>.\<close>

definition finite_cells :: "dbm \<Rightarrow> (reg \<times> reg) set" where
  "finite_cells d = {(i, j). dm_data d i j < DBM_INF}"

lemma card_reg_pairs: "finite (UNIV :: (reg \<times> reg) set)" "card (UNIV :: (reg \<times> reg) set) = 225"
proof -
  have "card (UNIV :: reg set) = length dbm_regs"
    using distinct_card [OF dbm_regs_distinct] by simp
  then have *: "card (UNIV :: reg set) = 15" by (simp add: dbm_regs_def)
  then have "finite (UNIV :: reg set)" by (metis card.infinite zero_neq_numeral)
  then show "finite (UNIV :: (reg \<times> reg) set)" by (simp add: finite_prod)
  show "card (UNIV :: (reg \<times> reg) set) = 225" using * by (simp add: card_cartesian_product flip: UNIV_Times_UNIV)
qed

lemma zone_widen_shrinks:
  assumes "\<And>i j. dm_data d i j \<le> DBM_INF"
  shows "finite_cells (zone_widen d e) \<subseteq> finite_cells d \<and> (\<forall>i j. dm_data (zone_widen d e) i j \<le> DBM_INF) \<and>
    (dm_data (zone_widen d e) \<noteq> dm_data d \<longrightarrow> finite_cells (zone_widen d e) \<noteq> finite_cells d)"
proof -
  have "dm_data d i j < DBM_INF" if "dm_data (zone_widen d e) i j \<noteq> dm_data d i j" for i j
    using that assms [of i j] by (auto simp: zone_widen_def split: if_splits)
  moreover have "dm_data (zone_widen d e) i j = DBM_INF" if "dm_data (zone_widen d e) i j \<noteq> dm_data d i j" for i j
    using that by (auto simp: zone_widen_def split: if_splits)
  ultimately have *: "(i, j) \<in> finite_cells d - finite_cells (zone_widen d e)"
    if "dm_data (zone_widen d e) i j \<noteq> dm_data d i j" for i j using that by (simp add: finite_cells_def)
  have "dm_data (zone_widen d e) = dm_data d" if "finite_cells (zone_widen d e) = finite_cells d"
    using * that by (intro ext) blast
  moreover have "finite_cells (zone_widen d e) \<subseteq> finite_cells d" by (auto simp: finite_cells_def zone_widen_def)
  ultimately show ?thesis using assms by (auto simp: zone_widen_def)
qed

lemma zone_widen_changes:
  assumes "\<And>i j. dm_data (D 0) i j \<le> DBM_INF" and "\<And>n. D (Suc n) = zone_widen (D n) (X n)"
  shows "card {m. m < n \<and> dm_data (D (Suc m)) \<noteq> dm_data (D m)} + card (finite_cells (D n)) \<le> card (finite_cells (D 0)) \<and>
    (\<forall>i j. dm_data (D n) i j \<le> DBM_INF)"
proof (induction n)
  case (Suc n)
  have fin: "finite (finite_cells d)" for d using card_reg_pairs(1) by (rule finite_subset [OF subset_UNIV])
  note step = zone_widen_shrinks [of "D n" "X n", folded assms(2)]
  have "{m. m < Suc n \<and> dm_data (D (Suc m)) \<noteq> dm_data (D m)} =
      {m. m < n \<and> dm_data (D (Suc m)) \<noteq> dm_data (D m)} \<union> (if dm_data (D (Suc n)) \<noteq> dm_data (D n) then {n} else {})"
    by (auto simp: less_Suc_eq)
  then have "card {m. m < Suc n \<and> dm_data (D (Suc m)) \<noteq> dm_data (D m)} \<le>
      card {m. m < n \<and> dm_data (D (Suc m)) \<noteq> dm_data (D m)} + (if dm_data (D (Suc n)) \<noteq> dm_data (D n) then 1 else 0)"
    by (smt (verit) card_Un_le card.empty is_singletonI is_singleton_altdef)
  moreover have "card (finite_cells (D (Suc n))) + (if dm_data (D (Suc n)) \<noteq> dm_data (D n) then 1 else 0) \<le> card (finite_cells (D n))"
    using step Suc.IH card_mono [OF fin [of "D n"], of "finite_cells (D (Suc n))"]
      psubset_card_mono [OF fin [of "D n"], of "finite_cells (D (Suc n))"]
    by (cases "dm_data (D (Suc n)) = dm_data (D n)") (simp_all add: psubset_eq Suc_le_eq)
  ultimately show ?case using Suc.IH step by auto
qed (use assms in simp)

section \<open>Sequences of operations\<close>

text \<open>The operations with what they do to the values. Sums, differences and products are those that do not wrap around; an
  assumption holds of the values.\<close>

datatype zone_op =
    Z_Forget reg | Z_Assign_Imm reg int | Z_Assign_Reg reg reg | Z_Assign_Offset reg reg int | Z_Assign_Interval reg int int
  | Z_Add_Imm reg int | Z_Add_Reg reg reg | Z_Sub_Reg reg reg | Z_And_Imm reg int | Z_Mul_Imm reg int | Z_Div_Imm reg int
  | Z_Div_Reg reg reg | Z_Neg reg
  | Z_Assume_Le reg reg | Z_Assume_Ge reg reg | Z_Assume_Gt reg reg | Z_Assume_Le_Offset reg reg int
  | Z_Assume_Le_Imm reg int | Z_Assume_Ge_Imm reg int | Z_Assume_Lt_Imm reg int | Z_Assume_Eq_Imm reg int
  | Z_Assume_Range reg int int | Z_Intersect_Eq reg reg | Z_Bind reg reg | Z_Reset_Anchors

primrec zone_apply :: "zone_op \<Rightarrow> dbm \<Rightarrow> dbm" where
  "zone_apply (Z_Forget x) = zone_forget x"
| "zone_apply (Z_Assign_Imm x c) = zone_assign_imm x c"
| "zone_apply (Z_Assign_Reg x y) = zone_assign_reg x y"
| "zone_apply (Z_Assign_Offset x y c) = zone_assign_reg_offset x y c"
| "zone_apply (Z_Assign_Interval x lo hi) = zone_assign_interval x lo hi"
| "zone_apply (Z_Add_Imm x c) = zone_apply_add_imm x c"
| "zone_apply (Z_Add_Reg x y) = zone_apply_add_reg x y"
| "zone_apply (Z_Sub_Reg x y) = zone_apply_sub_reg x y"
| "zone_apply (Z_And_Imm x c) = zone_apply_and_imm x c"
| "zone_apply (Z_Mul_Imm x c) = zone_apply_mul_imm x c"
| "zone_apply (Z_Div_Imm x c) = zone_apply_div_imm x c"
| "zone_apply (Z_Div_Reg x y) = zone_apply_div_reg x y"
| "zone_apply (Z_Neg x) = zone_apply_neg x"
| "zone_apply (Z_Assume_Le x y) = zone_assume_le x y"
| "zone_apply (Z_Assume_Ge x y) = zone_assume_ge x y"
| "zone_apply (Z_Assume_Gt x y) = zone_assume_gt x y"
| "zone_apply (Z_Assume_Le_Offset x y c) = zone_assume_le_offset x y c"
| "zone_apply (Z_Assume_Le_Imm x c) = zone_assume_le_imm x c"
| "zone_apply (Z_Assume_Ge_Imm x c) = zone_assume_ge_imm x c"
| "zone_apply (Z_Assume_Lt_Imm x c) = zone_assume_lt_imm x c"
| "zone_apply (Z_Assume_Eq_Imm x c) = zone_assume_eq_imm x c"
| "zone_apply (Z_Assume_Range x lo hi) = zone_assume_range x lo hi"
| "zone_apply (Z_Intersect_Eq x y) = zone_intersect_eq_reg x y"
| "zone_apply (Z_Bind x y) = zone_bind_to_anchor x y"
| "zone_apply Z_Reset_Anchors = zone_reset_packet_anchors"

primrec zone_effect :: "zone_op \<Rightarrow> (reg \<Rightarrow> u64) \<Rightarrow> (reg \<Rightarrow> u64) \<Rightarrow> bool" where
  "zone_effect (Z_Forget x) = moves x (\<lambda>v w. True)"
| "zone_effect (Z_Assign_Imm x c) = moves x (\<lambda>v w. sint w = c)"
| "zone_effect (Z_Assign_Reg x y) = moves x (\<lambda>v w. w = v y)"
| "zone_effect (Z_Assign_Offset x y c) = moves x (\<lambda>v w. sint w = sint (v y) + c \<and> x \<noteq> y)"
| "zone_effect (Z_Assign_Interval x lo hi) = moves x (\<lambda>v w. lo \<le> sint w \<and> sint w \<le> hi)"
| "zone_effect (Z_Add_Imm x c) = moves x (\<lambda>v w. sint w = sint (v x) + c)"
| "zone_effect (Z_Add_Reg x y) = moves x (\<lambda>v w. sint w = sint (v x) + sint (v y))"
| "zone_effect (Z_Sub_Reg x y) = moves x (\<lambda>v w. sint w = sint (v x) - sint (v y))"
| "zone_effect (Z_And_Imm x c) = moves x (\<lambda>v w. 0 \<le> c \<and> c \<le> i64_max \<and> w = v x AND word_of_int c)"
| "zone_effect (Z_Mul_Imm x c) = moves x (\<lambda>v w. sint w = sint (v x) * c)"
| "zone_effect (Z_Div_Imm x c) = moves x (\<lambda>v w. c \<noteq> 0 \<and> c \<le> i64_max \<and> w = v x div word_of_int c)"
| "zone_effect (Z_Div_Reg x y) = moves x (\<lambda>v w. True)"
| "zone_effect (Z_Neg x) = moves x (\<lambda>v w. w = - v x)"
| "zone_effect (Z_Assume_Le x y) = branch (\<lambda>v. sint (v x) \<le> sint (v y))"
| "zone_effect (Z_Assume_Ge x y) = branch (\<lambda>v. sint (v y) \<le> sint (v x))"
| "zone_effect (Z_Assume_Gt x y) = branch (\<lambda>v. sint (v y) < sint (v x))"
| "zone_effect (Z_Assume_Le_Offset x y c) = branch (\<lambda>v. sint (v x) \<le> sint (v y) + c)"
| "zone_effect (Z_Assume_Le_Imm x c) = branch (\<lambda>v. sint (v x) \<le> c)"
| "zone_effect (Z_Assume_Ge_Imm x c) = branch (\<lambda>v. c \<le> sint (v x))"
| "zone_effect (Z_Assume_Lt_Imm x c) = branch (\<lambda>v. sint (v x) < c)"
| "zone_effect (Z_Assume_Eq_Imm x c) = branch (\<lambda>v. sint (v x) = c)"
| "zone_effect (Z_Assume_Range x lo hi) = branch (\<lambda>v. lo \<le> sint (v x) \<and> sint (v x) \<le> hi)"
| "zone_effect (Z_Intersect_Eq x y) = branch (\<lambda>v. v x = v y)"
| "zone_effect (Z_Bind x y) = branch (\<lambda>v. v x = v y)"
| "zone_effect Z_Reset_Anchors = (\<lambda>v v'. same_values v v' \<and> packet_order v')"

lemmas zone_fn_keeps = z_forget.keeps z_assign_imm.keeps z_assign_reg.keeps z_assign_offset.keeps z_assign_interval.keeps
  z_add_imm.keeps z_add_reg.keeps z_sub_reg.keeps z_and_imm.keeps z_mul_imm.keeps z_div_imm.keeps z_div_reg.keeps z_neg.keeps
  z_le.keeps z_ge.keeps z_gt.keeps z_le_offset.keeps z_le_imm.keeps z_ge_imm.keeps z_lt_imm.keeps z_eq_imm.keeps z_range.keeps
  z_eq_reg.keeps z_bind.keeps z_reset.keeps

lemma zone_apply_keeps:
  assumes "zone_holds v d" "zone_effect op v v'"
  shows "zone_holds v' (zone_apply op d)"
  using assms by (cases op; simp only: zone_apply.simps zone_effect.simps) (blast intro: zone_fn_keeps)+

text \<open>The states an analysis comes to together with the values an execution has there: along the instructions, and where paths
  meet, by widening, narrowing and the return from a call.\<close>

inductive zone_reaches :: "dbm \<Rightarrow> (reg \<Rightarrow> u64) \<Rightarrow> bool" where
  start: "v RZero = 0 \<Longrightarrow> packet_order v \<Longrightarrow> zone_reaches (zone_init_packet_anchors new_dbm) v"
| step: "zone_reaches d v \<Longrightarrow> zone_effect op v v' \<Longrightarrow> zone_reaches (zone_apply op d) v'"
| widen_old: "zone_reaches d v \<Longrightarrow> zone_reaches e v' \<Longrightarrow> zone_reaches (zone_widen d e) v"
| widen_new: "zone_reaches d v \<Longrightarrow> zone_reaches e v' \<Longrightarrow> zone_reaches (zone_widen d e) v'"
| narrow: "zone_reaches d v \<Longrightarrow> zone_reaches e v \<Longrightarrow> zone_reaches (narrow_dbm d e) v"
| return: "zone_reaches d v \<Longrightarrow> zone_reaches e v' \<Longrightarrow> (\<And>r. is_anchor r \<Longrightarrow> v r = v' r) \<Longrightarrow>
    zone_reaches (zone_preserve_anchor_constraints d e) v"

lemma zone_reaches_holds: "zone_reaches d v \<Longrightarrow> zone_holds v d"
proof (induction rule: zone_reaches.induct)
  case (start v)
  then show ?case using z_init.keeps [OF zone_holds_new [of v]] by blast
qed (auto intro: zone_apply_keeps zone_widen_holds zone_narrow_holds zone_preserve_holds)

lemma check_region_access_safe:
  assumes h: "zone_holds v d" and ok: "zone_check_region_access base off sz s e d = (True, True)"
    and small: "off + sz \<le> 4611686018427387904" "i64_min \<le> off + sz"
  shows "sint (v s) \<le> sint (v base) + off \<and> sint (v base) + off + sz \<le> sint (v e)"
proof
  have "dm_data d s base < DBM_INF" "dm_data d s base \<le> off" using ok by (auto simp: zone_check_region_access_def Let_def)
  then show "sint (v s) \<le> sint (v base) + off" using zone_holds_cell [OF h, of s base] by simp
  let ?b = "dm_data d base e"
  have b: "?b < DBM_INF" "wrap_i64 (wrap_i64 (?b + off) + sz) \<le> 0"
    using ok by (auto simp: zone_check_region_access_def Let_def)
  have "wrap_i64 (wrap_i64 (?b + off) + sz) = wrap_i64 (?b + (off + sz))"
    by (simp add: wrap_i64_def algebra_simps mod_simps)
  moreover have "wrap_i64 (?b + (off + sz)) = ?b + (off + sz)" if "?b + (off + sz) > 0"
    using that b(1) small(1) by (simp add: wrap_i64_def)
  ultimately have "?b + (off + sz) \<le> 0" using b(2) by fastforce
  then show "sint (v base) + off + sz \<le> sint (v e)" using zone_holds_cell [OF h b(1)] by simp
qed

lemma zone_fixed_sound:
  assumes "zone_holds v d"
  shows "zone_get_fixed_value x d = Some k \<Longrightarrow> sint (v x) = k"
    "zone_get_distance_fixed x y d = Some k \<Longrightarrow> sint (v x) - sint (v y) = k"
  using zone_holds_upper [OF assms, of x] zone_holds_lower [OF assms, of x]
    zone_holds_cell [OF assms, of x y] zone_holds_cell [OF assms, of y x]
  by (auto simp: zone_get_fixed_value_def zone_get_distance_fixed_def fixed_of_def zone_get_interval_def
      zone_get_distance_interval_def neg_i64_def Let_def split: if_splits)

section \<open>Properties\<close>

text \<open>C38. What the zone domain says is true. Whatever operations, joins of paths and returns led to a state, the values of an
  execution that takes the same way (without sums or products that wrap around) satisfy it: the state is not found inconsistent,
  the interval of a register contains its value and a fixed value is the value, the interval of a difference that is a signed 64-bit number
  contains it and a fixed distance is the difference, and what is proven of a register holds.\<close>

theorem zone_queries_sound:
  assumes "zone_reaches d v"
  shows "\<not> dbm_inconsistent d \<and>
    fst (zone_get_interval x d) \<le> sint (v x) \<and> sint (v x) \<le> snd (zone_get_interval x d) \<and>
    (i64_min \<le> sint (v x) - sint (v y) \<and> sint (v x) - sint (v y) \<le> i64_max \<longrightarrow>
      fst (zone_get_distance_interval x y d) \<le> sint (v x) - sint (v y) \<and>
      sint (v x) - sint (v y) \<le> snd (zone_get_distance_interval x y d)) \<and>
    (zone_get_fixed_value x d = Some k \<longrightarrow> sint (v x) = k) \<and>
    (zone_get_distance_fixed x y d = Some k \<longrightarrow> sint (v x) - sint (v y) = k) \<and>
    (zone_proven_zero x d \<longrightarrow> v x = 0) \<and> (zone_proven_nonnegative x d \<longrightarrow> 0 \<le> sint (v x)) \<and>
    (zone_proven_positive x d \<longrightarrow> 0 < sint (v x)) \<and>
    (zone_proven_u32_range x RZero d \<longrightarrow> 0 \<le> sint (v x) \<and> sint (v x) \<le> 0xffffffff)"
proof -
  note h = zone_reaches_holds [OF assms]
  note i = zone_get_interval_sound [OF h, of x]
  have "v x = 0" if "zone_proven_zero x d"
  proof -
    have "sint (v x) = 0" using that i by (auto simp: zone_proven_zero_def split: prod.splits)
    then show ?thesis by (simp add: signed_eq_0_iff)
  qed
  moreover have "0 \<le> sint (v x) \<and> sint (v x) \<le> 0xffffffff" if "zone_proven_u32_range x RZero d"
    using that zone_holds_upper [OF h, of x] zone_holds_lower [OF h, of x] by (simp add: zone_proven_u32_range_def)
  ultimately show ?thesis
    using zone_consistent [OF h] i zone_get_distance_interval_sound [OF h] zone_fixed_sound [OF h]
    by (auto simp: zone_proven_nonnegative_def zone_proven_positive_def)
qed

theorem zone_queries_sound_witness:
  "let d = zone_assign_imm R1 5 (zone_init_packet_anchors new_dbm) in
   \<not> dbm_inconsistent d \<and> fst (zone_get_interval R1 d) \<le> 5 \<and> 5 \<le> snd (zone_get_interval R1 d)"
proof -
  have "zone_reaches (zone_init_packet_anchors new_dbm) (\<lambda>_. 0)" by (rule start) simp_all
  then have "zone_reaches (zone_apply (Z_Assign_Imm R1 5) (zone_init_packet_anchors new_dbm)) ((\<lambda>_. 0)(R1 := 5))"
    by (rule step) (auto simp: is_anchor_def intro!: exI [of _ 5])
  from zone_queries_sound [OF this, of R1 R1] show ?thesis by (simp add: Let_def)
qed

text \<open>C36. Packet accesses that the zone domain accepts are safe: after any such way, if \<open>verify_packet_bounds\<close> accepts both ends of an
  access of \<open>sz\<close> bytes at \<open>off\<close> from a register, the bytes lie between \<open>data\<close> and \<open>data_end\<close>; if \<open>verify_packet_meta_bounds\<close> does,
  they lie between \<open>data_meta\<close> and \<open>data\<close>.\<close>

theorem zone_packet_access_safe:
  assumes "zone_reaches d v" and "off + sz \<le> 4611686018427387904" "i64_min \<le> off + sz"
  shows "(zone_verify_packet_bounds base off sz d = (True, True) \<longrightarrow>
      sint (v AnchorData) \<le> sint (v base) + off \<and> sint (v base) + off + sz \<le> sint (v AnchorDataEnd)) \<and>
    (zone_verify_packet_meta_bounds base off sz d = (True, True) \<longrightarrow>
      sint (v AnchorDataMeta) \<le> sint (v base) + off \<and> sint (v base) + off + sz \<le> sint (v AnchorData))"
  using check_region_access_safe [OF zone_reaches_holds [OF assms(1)] _ assms(2,3)]
  by (auto simp: zone_verify_packet_bounds_def zone_verify_packet_meta_bounds_def)

text \<open>A check and an access: \<open>r1\<close> is set to \<open>data\<close>, \<open>r1 <= data_end - 8\<close> is assumed, then 8 bytes are read at \<open>r1\<close>.\<close>

definition checked_dbm :: dbm where
  "checked_dbm = zone_assume_le_offset R1 AnchorDataEnd (- 8) (zone_bind_to_anchor R1 AnchorData (zone_init_packet_anchors new_dbm))"

definition checked_values :: "reg \<Rightarrow> u64" where
  "checked_values = (\<lambda>_. 0)(R1 := 4096, AnchorDataMeta := 4096, AnchorData := 4096, AnchorDataEnd := 4106)"

lemma checked_reached: "zone_reaches checked_dbm checked_values"
proof -
  have 0: "zone_reaches (zone_init_packet_anchors new_dbm) checked_values" by (rule start) (simp_all add: checked_values_def)
  have 1: "zone_effect (Z_Bind R1 AnchorData) checked_values checked_values" by (simp add: checked_values_def)
  have 2: "zone_effect (Z_Assume_Le_Offset R1 AnchorDataEnd (- 8)) checked_values checked_values" by (simp add: checked_values_def)
  from step [OF step [OF 0 1] 2] show ?thesis by (simp add: checked_dbm_def)
qed

lemma below_le: "below d e \<Longrightarrow> dm_data e i j \<le> c \<Longrightarrow> dm_data d i j \<le> c"
  unfolding below_def by (meson order_trans)

lemma add_dbm_constraint_below: "below (add_dbm_constraint i j c d) d"
  by (simp add: below_def add_dbm_constraint_def Let_def dbm_data)

lemma add_dbm_constraint_le: "NEG_BOUND \<le> c \<Longrightarrow> c \<le> POS_BOUND \<Longrightarrow> dm_data (add_dbm_constraint i j c d) i j \<le> c"
  by (simp add: add_dbm_constraint_def Let_def clamp_upper_bound_def dbm_data)

lemma checked_accepted: "zone_verify_packet_bounds R1 0 8 checked_dbm = (True, True)"
proof -
  define d where "d = zone_bind_to_anchor R1 AnchorData (zone_init_packet_anchors new_dbm)"
  have b: "below checked_dbm (add_dbm_constraint R1 AnchorDataEnd (- 8) d)"
    unfolding checked_dbm_def d_def zone_assume_le_offset_def by (rule close_below)
  then have e: "dm_data checked_dbm R1 AnchorDataEnd \<le> - 8" by (rule below_le) (simp add: add_dbm_constraint_le)
  have "below checked_dbm d" using below_trans [OF b add_dbm_constraint_below] .
  moreover have "dm_data d AnchorData R1 \<le> 0"
    unfolding d_def zone_bind_to_anchor_def by (rule below_le [OF close_below]) (simp add: add_dbm_constraint_le)
  ultimately have s: "dm_data checked_dbm AnchorData R1 \<le> 0" by (rule below_le)
  have "- 10 \<le> dm_data checked_dbm R1 AnchorDataEnd"
    using zone_holds_cell [OF zone_reaches_holds [OF checked_reached], of R1 AnchorDataEnd] e by (simp add: checked_values_def)
  with e s show ?thesis
    by (simp add: zone_verify_packet_bounds_def zone_check_region_access_def wrap_i64_def)
qed

theorem zone_packet_access_safe_witness:
  "zone_verify_packet_bounds R1 0 8 checked_dbm = (True, True) \<and>
   sint (checked_values R1) + 8 \<le> sint (checked_values AnchorDataEnd)"
  using zone_packet_access_safe [OF checked_reached, of 0 8 R1] checked_accepted by simp

text \<open>C39. Widening ends and loses nothing: in a sequence of widenings, whatever the newer states are, the matrix changes at most 225 times, once for
  every cell; and the result of each widening holds for the values that the older state holds for and for those that the newer one
  holds for, when there are such values on both sides.\<close>

theorem zone_widen_converges:
  assumes "\<And>i j. dm_data (D 0) i j \<le> DBM_INF" and "\<And>n. D (Suc n) = zone_widen (D n) (X n)"
  shows "card {m. m < n \<and> dm_data (D (Suc m)) \<noteq> dm_data (D m)} \<le> 225 \<and>
    (\<forall>v v'. zone_holds v (D n) \<longrightarrow> zone_holds v' (X n) \<longrightarrow> zone_holds v (D (Suc n)) \<and> zone_holds v' (D (Suc n)))"
proof -
  have "card (finite_cells (D 0)) \<le> 225" using card_mono [OF card_reg_pairs(1) subset_UNIV] card_reg_pairs(2) by metis
  with zone_widen_changes [OF assms, of n] show ?thesis using zone_widen_holds assms(2) by simp
qed

theorem zone_widen_converges_witness:
  "let D = rec_nat new_dbm (\<lambda>n d. zone_widen d new_dbm) in
   card {m. m < 0 \<and> dm_data (D (Suc m)) \<noteq> dm_data (D m)} \<le> 225 \<and> zone_holds ((\<lambda>_. 0)(R1 := 7)) (D (Suc 0))"
proof -
  let ?D = "rec_nat new_dbm (\<lambda>n d. zone_widen d new_dbm)"
  have "card {m. m < 0 \<and> dm_data (?D (Suc m)) \<noteq> dm_data (?D m)} \<le> 225 \<and>
    (\<forall>v v'. zone_holds v (?D 0) \<longrightarrow> zone_holds v' new_dbm \<longrightarrow> zone_holds v (?D (Suc 0)) \<and> zone_holds v' (?D (Suc 0)))"
    by (rule zone_widen_converges [where X = "\<lambda>_. new_dbm"]) (simp_all add: new_dbm_def)
  then show ?thesis using zone_holds_new [of "(\<lambda>_. 0)(R1 := 7)"] by (auto simp: Let_def)
qed

text \<open>Where the machine wraps around the zone domain is wrong: the bounds saturate. Whenever a register is known not to be negative and a
  constant is added that takes it over the greatest number, the value it then has is excluded.\<close>

lemma add_imm_cell:
  assumes "x \<noteq> RZero" "dm_data d RZero x < DBM_INF"
  shows "dm_data (zone_add_imm x c d) RZero x \<le> sat_i64 (dm_data d RZero x - c)"
  unfolding zone_add_imm_def Let_def
  by (rule below_le [OF close_below])
    (use assms in \<open>simp add: dbm_data fold_upd_row [OF dbm_regs_distinct] fold_upd_column [OF dbm_regs_distinct]\<close>)

lemma zone_add_imm_excludes_wrapped:
  assumes x: "x \<noteq> RZero" "dm_data d RZero x \<le> 0" and c: "c \<le> i64_max" "i64_max < sint (v x) + c" and zero: "v RZero = 0"
  shows "\<not> zone_holds (v(x := v x + word_of_int c)) (zone_apply_add_imm x c d)"
proof
  let ?e = "zone_apply_add_imm x c d" and ?v = "v(x := v x + word_of_int c)"
  assume h: "zone_holds ?v ?e"
  have s: "sint (v x) \<le> i64_max" using sint_lt [of "v x"] by simp
  then have "sat_i64 (dm_data d RZero x - c) < 0" using x(2) c by (simp add: sat_i64_def)
  then have "dm_data ?e RZero x < 0"
    using add_imm_cell [of x d c] x by (simp add: zone_apply_add_imm_def)
  then have "0 < sint (v x + word_of_int c)" using zone_holds_lower [OF h, of x] by simp
  moreover have "sint (v x + word_of_int c) < 0"
  proof -
    have "sint (word_of_int c :: u64) = c"
      using s c by (simp add: signed_of_int signed_take_bit_int_eq_self)
    then have "sint (v x + word_of_int c) = signed_take_bit 63 (sint (v x) + c)"
      by (simp add: sint_word_ariths)
    also have "\<dots> = sint (v x) + c - 2 ^ 64"
      using s c mod_pos_pos_trivial [of "sint (v x) + c - 9223372036854775808" 18446744073709551616]
        minus_mod_self2 [of "sint (v x) + c + 9223372036854775808" 18446744073709551616]
      by (simp add: signed_take_bit_eq_take_bit_shift take_bit_eq_mod)
    finally show ?thesis using s c by simp
  qed
  ultimately show False by simp
qed

end
