(* ===== verification/Spec2Isabelle.thy ===== *)
theory Spec2Isabelle
  imports Canonical_Hash_Tool Bcf_Bundle Xdp_Packet_Tests Scalar_Tests Jump_Tests Tnum Packet_Range Zone_Ops
begin

text \<open>Verification of the BCF canonical hash: work in progress.\<close>

end
